(* ===== verification/Prelude.thy ===== *)
theory Prelude
  imports Complex_Main "HOL-Library.List_Lexorder" "HOL-Library.Char_ord"
    "HOL-Library.Product_Lexorder" "HOL-Library.AList" "HOL-Library.Multiset"
begin

section \<open>Prelude: Python values, errors and containers\<close>

text \<open>
  The parts of Python every component of \<^verbatim>\<open>src/python/conflictgraph\<close> relies on.

  \<^item> Exceptions are values: an operation that may raise returns a \<^verbatim>\<open>result\<close>, the left
    summand being the exception. The constructors are the built-in exceptions the code can
    raise and the project's own classes of \<^verbatim>\<open>errors.py\<close> and \<^verbatim>\<open>storage.py\<close>.
  \<^item> A \<^verbatim>\<open>dict\<close> is an association list with distinct keys in insertion order:
    \<^const>\<open>AList.update\<close> overwrites in place or appends, as \<^verbatim>\<open>d[k] = v\<close> does.
  \<^item> Tuples and strings compare lexicographically (\<^verbatim>\<open>Product_Lexorder\<close>,
    \<^verbatim>\<open>List_Lexorder\<close> with \<^verbatim>\<open>Char_ord\<close>), and \<^verbatim>\<open>sorted\<close> is the stable \<^const>\<open>sort_key\<close>.
  \<^item> \<^verbatim>\<open>min(xs, key=k)\<close> returns the first minimal element (\<^verbatim>\<open>min_by\<close>) and
    \<^verbatim>\<open>max(xs, default=d)\<close> is \<^verbatim>\<open>max_default\<close>.
  \<^item> Floats are exact reals: rounding is abstracted from throughout the development.
\<close>

named_theorems dict_simps \<open>lookups, key sets and updates of insertion-ordered dictionaries\<close>
named_theorems py_eval \<open>definitions unfolded to evaluate closed terms\<close>

subsection \<open>Exceptions and results\<close>

datatype py_error =
    ValueError | TypeError | KeyError | IndexError | AttributeError | OverflowError | RuntimeError | OSError | ImportError
  | ConflictGraphError | ConfigurationError | TraceQualityError | ArtifactError
  | ExecutionError | StorageError

definition is_conflictgraph_error :: "py_error \<Rightarrow> bool" where
  "is_conflictgraph_error e \<longleftrightarrow>
     e \<in> {ConflictGraphError, ConfigurationError, TraceQualityError, ArtifactError,
          ExecutionError, StorageError}"

type_synonym 'a result = "py_error + 'a"

fun bind_result :: "'a result \<Rightarrow> ('a \<Rightarrow> 'b result) \<Rightarrow> 'b result" where
  "bind_result (Inl e) f = Inl e"
| "bind_result (Inr x) f = f x"

fun map_result :: "('a \<Rightarrow> 'b result) \<Rightarrow> 'a list \<Rightarrow> 'b list result" where
  "map_result f [] = Inr []"
| "map_result f (x # xs) =
     bind_result (f x) (\<lambda>y. bind_result (map_result f xs) (\<lambda>ys. Inr (y # ys)))"

lemma bind_result_eq_Inr [simp]:
  "bind_result m f = Inr y \<longleftrightarrow> (\<exists>x. m = Inr x \<and> f x = Inr y)"
  by (cases m) auto

lemma bind_result_eq_Inl:
  "bind_result m f = Inl e \<longleftrightarrow> m = Inl e \<or> (\<exists>x. m = Inr x \<and> f x = Inl e)"
  by (cases m) auto

lemma map_result_Inr:
  assumes "\<And>x. x \<in> set xs \<Longrightarrow> f x = Inr (g x)"
  shows "map_result f xs = Inr (map g xs)"
  using assms by (induction xs) auto

lemma map_result_InrD:
  "map_result f xs = Inr ys \<Longrightarrow> list_all2 (\<lambda>x y. f x = Inr y) xs ys"
  by (induction xs arbitrary: ys) auto

lemma map_result_total:
  "(\<And>x. x \<in> set xs \<Longrightarrow> \<exists>y. f x = Inr y \<and> P x y) \<Longrightarrow> \<exists>ys. map_result f xs = Inr ys \<and> list_all2 P xs ys"
proof (induction xs)
  case (Cons x xs)
  obtain y where "f x = Inr y" "P x y" using Cons.prems [of x] by auto
  moreover obtain ys where "map_result f xs = Inr ys" "list_all2 P xs ys" using Cons by auto
  ultimately show ?case by simp
qed simp

subsection \<open>Insertion-ordered dictionaries\<close>

type_synonym ('k, 'v) dict = "('k \<times> 'v) list"

definition dict_of :: "('k \<times> 'v) list \<Rightarrow> ('k, 'v) dict" where
  "dict_of kvs = foldl (\<lambda>d (k, v). AList.update k v d) [] kvs"

definition dict_keys :: "('k, 'v) dict \<Rightarrow> 'k list" where
  "dict_keys d = map fst d"

definition dict_get :: "('k, 'v) dict \<Rightarrow> 'k \<Rightarrow> 'v \<Rightarrow> 'v" where
  "dict_get d k dflt = (case map_of d k of None \<Rightarrow> dflt | Some v \<Rightarrow> v)"

definition dict_index :: "('k, 'v) dict \<Rightarrow> 'k \<Rightarrow> 'v result" where
  "dict_index d k = (case map_of d k of None \<Rightarrow> Inl KeyError | Some v \<Rightarrow> Inr v)"

abbreviation dict_wf :: "('k, 'v) dict \<Rightarrow> bool" where
  "dict_wf d \<equiv> distinct (map fst d)"

lemma map_of_update [simp, dict_simps]: "map_of (AList.update k v d) = (map_of d)(k \<mapsto> v)"
  by (rule AList.update_conv')

lemma map_of_update_at: "map_of (AList.update k v d) x = (if x = k then Some v else map_of d x)"
  by simp

lemma dict_wf_update [simp, intro]: "dict_wf d \<Longrightarrow> dict_wf (AList.update k v d)"
  by (rule distinct_update)

lemma set_keys_update [simp, dict_simps]: "fst ` set (AList.update k v d) = insert k (fst ` set d)"
  using dom_map_of_conv_image_fst [of "AList.update k v d"] dom_map_of_conv_image_fst [of d]
  by simp

lemma foldl_update_wf: "dict_wf d \<Longrightarrow> dict_wf (foldl (\<lambda>d (k, v). AList.update k v d) d kvs)"
  by (induction kvs arbitrary: d) (auto split: prod.splits)

lemma foldl_update_map_of:
  "map_of (foldl (\<lambda>d (k, v). AList.update k v d) d kvs) = map_of d ++ map_of (rev kvs)"
  by (induction kvs arbitrary: d) (auto simp: map_add_def fun_eq_iff split: option.splits)

lemma dict_wf_of [simp]: "dict_wf (dict_of kvs)"
  by (simp add: dict_of_def foldl_update_wf)

lemma map_of_dict_of [dict_simps]: "map_of (dict_of kvs) = map_of (rev kvs)"
  by (simp add: dict_of_def foldl_update_map_of)

lemma set_keys_dict_of [dict_simps]: "fst ` set (dict_of kvs) = fst ` set kvs"
proof -
  have "dom (map_of (dict_of kvs)) = fst ` set kvs"
    by (simp add: map_of_dict_of dom_map_of_conv_image_fst)
  then show ?thesis by (simp add: dom_map_of_conv_image_fst)
qed

lemma set_dict_keys [simp]: "set (dict_keys d) = fst ` set d"
  by (simp add: dict_keys_def)

lemma distinct_dict_keys [simp]: "distinct (dict_keys d) = dict_wf d"
  by (simp add: dict_keys_def)

lemma dict_keys_dict_of: "distinct (dict_keys (dict_of kvs))"
  by simp

lemma dict_wf_entry: "dict_wf d \<Longrightarrow> (k, v) \<in> set d \<longleftrightarrow> map_of d k = Some v"
  by simp

lemma map_of_fun_pairs: "x \<in> set xs \<Longrightarrow> map_of (rev (map (\<lambda>x. (x, f x)) xs)) x = Some (f x)"
proof -
  assume "x \<in> set xs"
  then have "map_of (map (\<lambda>x. (x, f x)) (rev xs)) x = Some (f x)"
    by (simp add: map_of_map_restrict)
  then show ?thesis by (simp add: rev_map)
qed

subsection \<open>\<open>min\<close> with a key, \<open>max\<close> with a default\<close>

fun min_by_from :: "('a \<Rightarrow> 'b::linorder) \<Rightarrow> 'a \<Rightarrow> 'a list \<Rightarrow> 'a" where
  "min_by_from k b [] = b"
| "min_by_from k b (x # xs) = min_by_from k (if k x < k b then x else b) xs"

definition min_by :: "('a \<Rightarrow> 'b::linorder) \<Rightarrow> 'a list \<Rightarrow> 'a option" where
  "min_by k xs = (case xs of [] \<Rightarrow> None | x # r \<Rightarrow> Some (min_by_from k x r))"

lemma min_by_from_in: "min_by_from k b xs \<in> insert b (set xs)"
  by (induction k b xs rule: min_by_from.induct) auto

lemma min_by_from_le: "y \<in> insert b (set xs) \<Longrightarrow> k (min_by_from k b xs) \<le> k y"
proof (induction xs arbitrary: b y)
  case (Cons x xs)
  let ?b = "if k x < k b then x else b"
  have m: "k (min_by_from k ?b xs) \<le> k ?b" by (rule Cons.IH) simp
  consider "y = b" | "y = x" | "y \<in> set xs" using Cons.prems by auto
  then show ?case
  proof cases
    case 3
    then show ?thesis using Cons.IH [of y ?b] by simp
  qed (use m in \<open>auto split: if_splits\<close>)
qed simp

lemma min_by_None [simp]: "min_by k xs = None \<longleftrightarrow> xs = []"
  by (auto simp: min_by_def split: list.splits)

lemma min_by_in: "min_by k xs = Some x \<Longrightarrow> x \<in> set xs"
  using min_by_from_in [of k] by (fastforce simp: min_by_def split: list.splits)

lemma min_by_le: "min_by k xs = Some x \<Longrightarrow> y \<in> set xs \<Longrightarrow> k x \<le> k y"
  using min_by_from_le [of y _ _ k] by (auto simp: min_by_def split: list.splits)

lemma min_by_Some: "xs \<noteq> [] \<Longrightarrow> \<exists>x. min_by k xs = Some x"
  by (cases xs) (auto simp: min_by_def)

definition max_default :: "'a::linorder \<Rightarrow> 'a list \<Rightarrow> 'a" where
  "max_default d xs = (case xs of [] \<Rightarrow> d | x # r \<Rightarrow> foldl max x r)"

lemma foldl_max_ge: "y \<in> insert x (set r) \<Longrightarrow> y \<le> foldl max x r" for x :: "'a::linorder"
proof (induction r arbitrary: x y)
  case (Cons a r)
  have "max x a \<le> foldl max (max x a) r" by (rule Cons.IH) simp
  then show ?case using Cons.prems Cons.IH [of y "max x a"] by auto
qed simp

lemma foldl_max_in: "foldl max x r \<in> insert x (set r)" for x :: "'a::linorder"
proof (induction r arbitrary: x)
  case (Cons a r)
  show ?case using Cons.IH [of "max x a"] by (auto simp: max_def split: if_splits)
qed simp

lemma max_default_ge: "y \<in> set xs \<Longrightarrow> y \<le> max_default d xs"
  by (auto simp: max_default_def foldl_max_ge split: list.splits)

lemma max_default_in: "xs \<noteq> [] \<Longrightarrow> max_default d xs \<in> set xs"
  using foldl_max_in by (auto simp: max_default_def split: list.splits)

lemma max_default_le_iff: "xs \<noteq> [] \<Longrightarrow> max_default d xs \<le> b \<longleftrightarrow> (\<forall>y\<in>set xs. y \<le> b)"
  using max_default_ge max_default_in by (metis order_trans)

lemma max_default_set_cong:
  assumes "set xs = set ys" shows "max_default d xs = max_default d ys"
proof (cases "xs = []")
  case True
  then show ?thesis using assms by simp
next
  case False
  then have "ys \<noteq> []" using assms by auto
  with False show ?thesis
    using assms max_default_in [of xs d] max_default_in [of ys d]
      max_default_ge [of _ xs d] max_default_ge [of _ ys d]
    by (metis order_antisym)
qed

lemma max_default_Nil [simp]: "max_default d [] = d"
  by (simp add: max_default_def)

subsection \<open>Generic facts on lists and reals\<close>

lemma sum_list_nonneg_real: "(\<And>x. x \<in> set xs \<Longrightarrow> 0 \<le> f x) \<Longrightarrow> 0 \<le> (\<Sum>x\<leftarrow>xs. f x :: real)"
  by (rule sum_list_nonneg) auto

lemma prod_list_unit_interval:
  "(\<And>x. x \<in> set xs \<Longrightarrow> 0 \<le> x \<and> x \<le> (1::real)) \<Longrightarrow> 0 \<le> prod_list xs \<and> prod_list xs \<le> 1"
  by (induction xs) (auto intro: mult_nonneg_nonneg mult_le_one)

lemma one_minus_unit: "0 \<le> p \<Longrightarrow> p \<le> 1 \<Longrightarrow> 0 \<le> e \<Longrightarrow> e \<le> 1 \<Longrightarrow> 0 \<le> 1 - p * e \<and> 1 - p * e \<le> (1::real)"
  by (simp add: mult_le_one)

lemma mset_concat_update:
  assumes "i < length xss"
  shows "mset (concat (xss[i := ys])) + mset (xss ! i) = mset (concat xss) + mset ys"
  using assms
proof (induction xss arbitrary: i)
  case (Cons zs zss)
  then show ?case by (cases i) (auto simp: ac_simps)
qed simp

lemma set_concat_update_subset: "set (concat (xss[i := ys])) \<subseteq> set (concat xss) \<union> set ys"
proof -
  have "set (xss[i := ys]) \<subseteq> insert ys (set xss)" by (rule set_update_subset_insert)
  then show ?thesis by auto
qed

lemma sorted_key_sort_key: "sorted (map f (sort_key f xs))"
  by (rule sorted_sort_key)

lemma distinct_sort_key [simp]: "distinct (sort_key f xs) = distinct xs"
  by (metis mset_sort mset_eq_imp_distinct_iff)

lemma mset_swap_adjacent:
  assumes "Suc i < length xs"
  shows "mset (xs[i := xs ! Suc i, Suc i := xs ! i]) = mset xs"
  using assms by (simp add: mset_swap)

end
