(* ===== verification/PyString.thy ===== *)
theory PyString
  imports Prelude
begin

section \<open>Python strings\<close>

text \<open>
  The string methods the sources call. A Python string is a list of code points; the type
  \<^typ>\<open>string\<close> covers the code points below 256, on which the definitions agree with
  Python: the white space of \<^verbatim>\<open>str.strip\<close> and \<^verbatim>\<open>str.split\<close>, the digits of
  \<^verbatim>\<open>str.isdigit\<close> (the three superscripts included) and of \<^verbatim>\<open>int\<close>, ASCII and Latin-1 case,
  \<^verbatim>\<open>str.isalnum\<close>, and UTF-8 encoding.
\<close>

abbreviation cp :: "char \<Rightarrow> nat" where
  "cp c \<equiv> of_char c"

definition is_space :: "char \<Rightarrow> bool" where
  "is_space c \<longleftrightarrow> (9 \<le> cp c \<and> cp c \<le> 13) \<or> (28 \<le> cp c \<and> cp c \<le> 32) \<or> cp c = 133 \<or> cp c = 160"

definition is_decimal :: "char \<Rightarrow> bool" where
  "is_decimal c \<longleftrightarrow> 48 \<le> cp c \<and> cp c \<le> 57"

definition is_digit :: "char \<Rightarrow> bool" where
  "is_digit c \<longleftrightarrow> is_decimal c \<or> cp c = 178 \<or> cp c = 179 \<or> cp c = 185"

definition is_alpha :: "char \<Rightarrow> bool" where
  "is_alpha c \<longleftrightarrow> (65 \<le> cp c \<and> cp c \<le> 90) \<or> (97 \<le> cp c \<and> cp c \<le> 122)
     \<or> cp c = 170 \<or> cp c = 181 \<or> cp c = 186
     \<or> (192 \<le> cp c \<and> cp c \<le> 255 \<and> cp c \<noteq> 215 \<and> cp c \<noteq> 247)"

definition is_alnum :: "char \<Rightarrow> bool" where
  "is_alnum c \<longleftrightarrow> is_alpha c \<or> is_digit c \<or> cp c = 188 \<or> cp c = 189 \<or> cp c = 190"

definition lower_char :: "char \<Rightarrow> char" where
  "lower_char c =
     (if (65 \<le> cp c \<and> cp c \<le> 90) \<or> (192 \<le> cp c \<and> cp c \<le> 222 \<and> cp c \<noteq> 215)
      then char_of (cp c + 32) else c)"

definition py_lower :: "string \<Rightarrow> string" where
  "py_lower s = map lower_char s"

definition py_isdigit :: "string \<Rightarrow> bool" where
  "py_isdigit s \<longleftrightarrow> s \<noteq> [] \<and> list_all is_digit s"

subsection \<open>Stripping\<close>

definition lstrip_by :: "(char \<Rightarrow> bool) \<Rightarrow> string \<Rightarrow> string" where
  "lstrip_by p s = dropWhile p s"

definition rstrip_by :: "(char \<Rightarrow> bool) \<Rightarrow> string \<Rightarrow> string" where
  "rstrip_by p s = rev (dropWhile p (rev s))"

definition py_strip :: "string \<Rightarrow> string" where
  "py_strip s = rstrip_by is_space (lstrip_by is_space s)"

definition stripped :: "string \<Rightarrow> bool" where
  "stripped s \<longleftrightarrow> s = [] \<or> (\<not> is_space (hd s) \<and> \<not> is_space (last s))"

lemma dropWhile_hd: "s \<noteq> [] \<Longrightarrow> \<not> p (hd s) \<Longrightarrow> dropWhile p s = s"
  by (cases s) auto

lemma py_strip_stripped: "stripped s \<Longrightarrow> py_strip s = s"
  by (cases "s = []")
    (auto simp: stripped_def py_strip_def lstrip_by_def rstrip_by_def dropWhile_hd hd_rev)

lemma rstrip_by_last: "rstrip_by p s \<noteq> [] \<Longrightarrow> \<not> p (last (rstrip_by p s))"
  unfolding rstrip_by_def by (metis hd_dropWhile last_rev rev_is_Nil_conv dropWhile_eq_Nil_conv)

lemma rstrip_by_prefix: "\<exists>t. s = rstrip_by p s @ t"
proof -
  have "rev s = takeWhile p (rev s) @ dropWhile p (rev s)" by simp
  then have "s = rev (dropWhile p (rev s)) @ rev (takeWhile p (rev s))"
    by (metis rev_append rev_rev_ident)
  then show ?thesis unfolding rstrip_by_def by blast
qed

lemma stripped_py_strip: "stripped (py_strip s)"
proof (cases "py_strip s = []")
  case False
  let ?l = "lstrip_by is_space s"
  obtain t where t: "?l = py_strip s @ t"
    unfolding py_strip_def using rstrip_by_prefix by blast
  with False have "hd ?l = hd (py_strip s)" and "?l \<noteq> []"
    by (metis hd_append2) (use t False in auto)
  then have "\<not> is_space (hd (py_strip s))"
    by (metis hd_dropWhile lstrip_by_def)
  moreover have "\<not> is_space (last (py_strip s))"
    using False rstrip_by_last unfolding py_strip_def by blast
  ultimately show ?thesis by (simp add: stripped_def)
qed (simp add: stripped_def)

lemma py_strip_idem [simp]: "py_strip (py_strip s) = py_strip s"
  by (rule py_strip_stripped, rule stripped_py_strip)

subsection \<open>Prefixes, suffixes, replacement\<close>

definition startswith :: "string \<Rightarrow> string \<Rightarrow> bool" where
  "startswith s p \<longleftrightarrow> take (length p) s = p"

definition endswith :: "string \<Rightarrow> string \<Rightarrow> bool" where
  "endswith s p \<longleftrightarrow> length p \<le> length s \<and> drop (length s - length p) s = p"

definition replace_char :: "char \<Rightarrow> char \<Rightarrow> string \<Rightarrow> string" where
  "replace_char a b s = map (\<lambda>c. if c = a then b else c) s"

lemma startswith_append [simp]: "startswith (p @ s) p"
  by (simp add: startswith_def)

lemma startswithE: "startswith s p \<Longrightarrow> \<exists>t. s = p @ t"
  unfolding startswith_def by (metis append_take_drop_id)

lemma startswith_Cons [simp]: "startswith (c # s) [d] \<longleftrightarrow> c = d"
  by (simp add: startswith_def)

lemma startswith_Nil [simp]: "\<not> startswith [] (c # p)"
  by (simp add: startswith_def)

lemma endswith_append [simp]: "endswith (s @ p) p"
  by (simp add: endswith_def)

subsection \<open>Splitting and joining\<close>

fun split_on :: "char \<Rightarrow> string \<Rightarrow> string list" where
  "split_on a [] = [[]]"
| "split_on a (c # s) =
     (if c = a then [] # split_on a s
      else (case split_on a s of [] \<Rightarrow> [[c]] | p # ps \<Rightarrow> (c # p) # ps))"

fun join_with :: "string \<Rightarrow> string list \<Rightarrow> string" where
  "join_with sep [] = []"
| "join_with sep [p] = p"
| "join_with sep (p # q # ps) = p @ sep @ join_with sep (q # ps)"

lemma split_on_not_Nil [simp]: "split_on a s \<noteq> []"
  by (induction s) (auto split: list.splits)

lemma split_on_not_in: "p \<in> set (split_on a s) \<Longrightarrow> a \<notin> set p"
  by (induction s arbitrary: p) (auto split: list.splits if_splits)

lemma join_split_on: "join_with [a] (split_on a s) = s"
proof (induction s)
  case (Cons c s)
  show ?case
  proof (cases "c = a")
    case True
    obtain p ps where "split_on a s = p # ps" by (cases "split_on a s") auto
    with True Cons.IH show ?thesis by simp
  next
    case False
    obtain p ps where e: "split_on a s = p # ps" by (cases "split_on a s") auto
    with False Cons.IH show ?thesis by (cases ps) auto
  qed
qed simp

lemma split_on_no_sep: "a \<notin> set s \<Longrightarrow> split_on a s = [s]"
  by (induction s) auto

lemma split_on_append_sep: "a \<notin> set p \<Longrightarrow> split_on a (p @ a # s) = p # split_on a s"
  by (induction p) auto

lemma split_on_join:
  assumes "ps \<noteq> []" and "\<And>p. p \<in> set ps \<Longrightarrow> a \<notin> set p"
  shows "split_on a (join_with [a] ps) = ps"
  using assms
proof (induction "[a]" ps rule: join_with.induct)
  case (3 p q ps)
  then have "a \<notin> set p" and "split_on a (join_with [a] (q # ps)) = q # ps" by auto
  then show ?case by (simp add: split_on_append_sep)
qed (auto simp: split_on_no_sep)

text \<open>\<^verbatim>\<open>s.partition(c)\<close> and \<^verbatim>\<open>s.rpartition(c)\<close> for a one-character separator: the part
  before the first (last) occurrence, whether there is one, and the part after it.\<close>

definition partition_char :: "char \<Rightarrow> string \<Rightarrow> string \<times> bool \<times> string" where
  "partition_char a s =
     (if a \<in> set s then (takeWhile (\<lambda>c. c \<noteq> a) s, True, tl (dropWhile (\<lambda>c. c \<noteq> a) s))
      else (s, False, []))"

definition rpartition_char :: "char \<Rightarrow> string \<Rightarrow> string \<times> bool \<times> string" where
  "rpartition_char a s =
     (case partition_char a (rev s) of
        (l, True, r) \<Rightarrow> (rev r, True, rev l)
      | (l, False, r) \<Rightarrow> ([], False, s))"

lemma partition_char_append:
  "a \<notin> set p \<Longrightarrow> partition_char a (p @ a # s) = (p, True, s)"
  by (simp add: partition_char_def takeWhile_append2 dropWhile_append2) (induction p; auto)

lemma rpartition_char_append:
  "a \<notin> set q \<Longrightarrow> rpartition_char a (p @ a # q) = (p, True, q)"
  by (simp add: rpartition_char_def partition_char_append [of a "rev q" "rev p"])

lemma rpartition_char_none: "a \<notin> set s \<Longrightarrow> rpartition_char a s = ([], False, s)"
  by (simp add: rpartition_char_def partition_char_def)

subsection \<open>Numbers\<close>

definition digit_char :: "nat \<Rightarrow> char" where
  "digit_char d = char_of (48 + d)"

function str_nat :: "nat \<Rightarrow> string" where
  "str_nat n = (if n < 10 then [digit_char n] else str_nat (n div 10) @ [digit_char (n mod 10)])"
  by pat_completeness auto
termination by (relation "measure id") auto

declare str_nat.simps [simp del]

definition str_int :: "int \<Rightarrow> string" where
  "str_int n = (if n < 0 then CHR ''-'' # str_nat (nat (- n)) else str_nat (nat n))"

definition digit_val :: "char \<Rightarrow> nat" where
  "digit_val c = cp c - 48"

definition parse_nat :: "string \<Rightarrow> nat option" where
  "parse_nat s = (if s \<noteq> [] \<and> list_all is_decimal s
     then Some (foldl (\<lambda>n c. 10 * n + digit_val c) 0 s) else None)"

text \<open>\<^verbatim>\<open>int(s)\<close>: surrounding white space, an optional sign, digits with single underscores
  between them.\<close>

fun drop_underscores :: "string \<Rightarrow> string option" where
  "drop_underscores [] = None"
| "drop_underscores [c] = (if is_decimal c then Some [c] else None)"
| "drop_underscores (c # d # s) =
     (if \<not> is_decimal c then None
      else map_option ((#) c) (drop_underscores (if d = CHR ''_'' then s else d # s)))"

definition py_int :: "string \<Rightarrow> int option" where
  "py_int raw =
     (case py_strip raw of
        [] \<Rightarrow> None
      | c # s \<Rightarrow>
          (if c = CHR ''-'' then map_option (\<lambda>n. - int n) (Option.bind (drop_underscores s) parse_nat)
           else if c = CHR ''+'' then map_option int (Option.bind (drop_underscores s) parse_nat)
           else map_option int (Option.bind (drop_underscores (c # s)) parse_nat)))"

lemma cp_digit_char: "d < 10 \<Longrightarrow> cp (digit_char d) = 48 + d"
  by (simp add: digit_char_def)

lemma is_decimal_digit_char [simp]: "d < 10 \<Longrightarrow> is_decimal (digit_char d)"
  by (simp add: is_decimal_def cp_digit_char)

lemma digit_val_digit_char [simp]: "d < 10 \<Longrightarrow> digit_val (digit_char d) = d"
  by (simp add: digit_val_def cp_digit_char)

lemma str_nat_not_Nil [simp]: "str_nat n \<noteq> []"
  by (subst str_nat.simps) simp

lemma str_nat_decimal: "list_all is_decimal (str_nat n)"
proof (induction n rule: str_nat.induct)
  case (1 n)
  then show ?case by (subst str_nat.simps) auto
qed

lemma str_nat_value: "foldl (\<lambda>m c. 10 * m + digit_val c) 0 (str_nat n) = n"
proof (induction n rule: str_nat.induct)
  case (1 n)
  then show ?case by (subst str_nat.simps) auto
qed

lemma parse_str_nat [simp]: "parse_nat (str_nat n) = Some n"
  by (simp add: parse_nat_def str_nat_decimal str_nat_value)

lemma str_nat_inject [simp]: "str_nat m = str_nat n \<longleftrightarrow> m = n"
  by (metis option.inject parse_str_nat)

lemma decimal_not_special:
  "is_decimal c \<Longrightarrow> \<not> is_space c \<and> c \<noteq> CHR '':'' \<and> c \<noteq> CHR ''-'' \<and> c \<noteq> CHR ''+'' \<and> c \<noteq> CHR ''_'' \<and> is_digit c"
  by (auto simp: is_decimal_def is_space_def is_digit_def)

lemma str_nat_no_char: "\<not> is_decimal c \<Longrightarrow> c \<notin> set (str_nat n)"
  using str_nat_decimal [of n] by (auto simp: list_all_iff)

lemma str_nat_isdigit [simp]: "py_isdigit (str_nat n)"
  using str_nat_decimal [of n] decimal_not_special by (auto simp: py_isdigit_def list_all_iff)

lemma stripped_decimal: "list_all is_decimal s \<Longrightarrow> stripped s"
  using decimal_not_special by (cases s rule: rev_cases) (auto simp: stripped_def list_all_iff hd_append)

lemma drop_underscores_decimal: "s \<noteq> [] \<Longrightarrow> list_all is_decimal s \<Longrightarrow> drop_underscores s = Some s"
  using decimal_not_special by (induction s rule: drop_underscores.induct) auto

lemma py_int_str_nat [simp]: "py_int (str_nat n) = Some (int n)"
proof -
  obtain c s where cs: "str_nat n = c # s" by (cases "str_nat n") auto
  have d: "list_all is_decimal (c # s)" using str_nat_decimal [of n] cs by simp
  then have "py_strip (c # s) = c # s" by (intro py_strip_stripped stripped_decimal)
  moreover have "c \<noteq> CHR ''-''" "c \<noteq> CHR ''+''" using d decimal_not_special [of c] by auto
  moreover have "drop_underscores (c # s) = Some (c # s)"
    using d by (intro drop_underscores_decimal) auto
  ultimately show ?thesis using cs parse_str_nat [of n] by (simp add: py_int_def del: parse_str_nat)
qed

text \<open>The format \<^verbatim>\<open>f"{x:.1%}"\<close>: percent with one decimal, ties to even.\<close>

definition round_half_even :: "real \<Rightarrow> int" where
  "round_half_even x =
     (let f = \<lfloor>x\<rfloor>; d = x - real_of_int f
      in if d < 1 / 2 then f else if 1 / 2 < d then f + 1 else if even f then f else f + 1)"

definition fmt_percent1 :: "real \<Rightarrow> string" where
  "fmt_percent1 x =
     (let n = round_half_even (1000 * x); m = nat \<bar>n\<bar>
      in (if n < 0 then ''-'' else []) @ str_nat (m div 10) @ ''.'' @ str_nat (m mod 10) @ ''%'')"

subsection \<open>UTF-8\<close>

text \<open>\<^verbatim>\<open>s.encode()\<close> as a list of byte values.\<close>

definition utf8_char :: "char \<Rightarrow> int list" where
  "utf8_char c = (if cp c < 128 then [int (cp c)]
     else [192 + int (cp c) div 64, 128 + int (cp c) mod 64])"

definition utf8_encode :: "string \<Rightarrow> int list" where
  "utf8_encode s = concat (map utf8_char s)"

lemma utf8_char_bytes: "b \<in> set (utf8_char c) \<Longrightarrow> 0 \<le> b \<and> b < 256"
proof -
  assume b: "b \<in> set (utf8_char c)"
  have "cp c < 256" by simp
  then have "int (cp c) div 64 < 4" and "int (cp c) mod 64 < 64" by linarith+
  then show ?thesis using b by (auto simp: utf8_char_def split: if_splits)
qed

lemma utf8_encode_bytes: "b \<in> set (utf8_encode s) \<Longrightarrow> 0 \<le> b \<and> b < 256"
  by (auto simp: utf8_encode_def dest: utf8_char_bytes)

end
