(* ===== verification/Hashing.thy ===== *)
theory Hashing
  imports PyString
begin

section \<open>SHA-256 digests\<close>

text \<open>
  \<^verbatim>\<open>hashlib.sha256(s.encode()).hexdigest()\<close>, which the sources use for test ids, resource
  ids, split groups and redacted paths. The function is FIPS 180-4 with 32-bit words as
  integers in \<^verbatim>\<open>[0, 2^32)\<close> and the wrap-around written out, so that closed digests evaluate
  in the kernel. The locale \<^verbatim>\<open>hex_digest\<close> is what the other components rely on: 64
  lower-case hexadecimal characters, never their values.
\<close>

unbundle bit_operations_syntax

type_synonym sha_state = "int \<times> int \<times> int \<times> int \<times> int \<times> int \<times> int \<times> int"

subsection \<open>The compression function\<close>

definition add32 :: "int \<Rightarrow> int \<Rightarrow> int" where
  "add32 a b = (a + b) mod 0x100000000"

definition rotr32 :: "nat \<Rightarrow> int \<Rightarrow> int" where
  "rotr32 n x = x div 2 ^ n + (x mod 2 ^ n) * 2 ^ (32 - n)"

definition big_sigma0 :: "int \<Rightarrow> int" where
  "big_sigma0 x = rotr32 2 x XOR rotr32 13 x XOR rotr32 22 x"

definition big_sigma1 :: "int \<Rightarrow> int" where
  "big_sigma1 x = rotr32 6 x XOR rotr32 11 x XOR rotr32 25 x"

definition small_sigma0 :: "int \<Rightarrow> int" where
  "small_sigma0 x = rotr32 7 x XOR rotr32 18 x XOR (x div 2 ^ 3)"

definition small_sigma1 :: "int \<Rightarrow> int" where
  "small_sigma1 x = rotr32 17 x XOR rotr32 19 x XOR (x div 2 ^ 10)"

definition sha_choose :: "int \<Rightarrow> int \<Rightarrow> int \<Rightarrow> int" where
  "sha_choose x y z = (x AND y) XOR ((0xFFFFFFFF - x) AND z)"

definition sha_majority :: "int \<Rightarrow> int \<Rightarrow> int \<Rightarrow> int" where
  "sha_majority x y z = (x AND y) XOR (x AND z) XOR (y AND z)"

definition sha_constants :: "int list" where
  "sha_constants = [
    1116352408, 1899447441, 3049323471, 3921009573, 961987163, 1508970993, 2453635748, 2870763221,
    3624381080, 310598401, 607225278, 1426881987, 1925078388, 2162078206, 2614888103, 3248222580,
    3835390401, 4022224774, 264347078, 604807628, 770255983, 1249150122, 1555081692, 1996064986,
    2554220882, 2821834349, 2952996808, 3210313671, 3336571891, 3584528711, 113926993, 338241895,
    666307205, 773529912, 1294757372, 1396182291, 1695183700, 1986661051, 2177026350, 2456956037,
    2730485921, 2820302411, 3259730800, 3345764771, 3516065817, 3600352804, 4094571909, 275423344,
    430227734, 506948616, 659060556, 883997877, 958139571, 1322822218, 1537002063, 1747873779,
    1955562222, 2024104815, 2227730452, 2361852424, 2428436474, 2756734187, 3204031479, 3329325298]"

definition sha_initial :: sha_state where
  "sha_initial = (1779033703, 3144134277, 1013904242, 2773480762,
                  1359893119, 2600822924, 528734635, 1541459225)"

fun sha_schedule :: "nat \<Rightarrow> int list \<Rightarrow> int list" where
  "sha_schedule 0 ws = ws"
| "sha_schedule (Suc n) ws = sha_schedule n
     (ws @ [add32 (small_sigma1 (ws ! (length ws - 2)))
             (add32 (ws ! (length ws - 7))
               (add32 (small_sigma0 (ws ! (length ws - 15))) (ws ! (length ws - 16))))])"

fun sha_round :: "sha_state \<Rightarrow> int \<times> int \<Rightarrow> sha_state" where
  "sha_round (a, b, c, d, e, f, g, h) (k, w) =
     (let t1 = add32 h (add32 (big_sigma1 e) (add32 (sha_choose e f g) (add32 k w)));
          t2 = add32 (big_sigma0 a) (sha_majority a b c)
      in (add32 t1 t2, a, b, c, add32 d t1, e, f, g))"

fun sha_add :: "sha_state \<Rightarrow> sha_state \<Rightarrow> sha_state" where
  "sha_add (a, b, c, d, e, f, g, h) (a', b', c', d', e', f', g', h') =
     (add32 a a', add32 b b', add32 c c', add32 d d',
      add32 e e', add32 f f', add32 g g', add32 h h')"

definition sha_block :: "sha_state \<Rightarrow> int list \<Rightarrow> sha_state" where
  "sha_block s ws = sha_add s (foldl sha_round s (zip sha_constants (sha_schedule 48 ws)))"

subsection \<open>Padding, blocks and hexadecimal output\<close>

fun big_endian :: "nat \<Rightarrow> int \<Rightarrow> int list" where
  "big_endian 0 n = []"
| "big_endian (Suc k) n = big_endian k (n div 256) @ [n mod 256]"

definition sha_pad :: "int list \<Rightarrow> int list" where
  "sha_pad bs =
     bs @ [0x80] @ replicate ((119 - length bs mod 64) mod 64) 0 @ big_endian 8 (8 * int (length bs))"

fun sha_words :: "int list \<Rightarrow> int list" where
  "sha_words (a # b # c # d # r) = (((a * 256 + b) * 256 + c) * 256 + d) # sha_words r"
| "sha_words _ = []"

fun sha_blocks :: "nat \<Rightarrow> sha_state \<Rightarrow> int list \<Rightarrow> sha_state" where
  "sha_blocks 0 s ws = s"
| "sha_blocks (Suc n) s ws = sha_blocks n (sha_block s (take 16 ws)) (drop 16 ws)"

fun hex_digits :: "nat \<Rightarrow> int \<Rightarrow> string" where
  "hex_digits 0 n = []"
| "hex_digits (Suc k) n = hex_digits k (n div 16) @ [''0123456789abcdef'' ! nat (n mod 16)]"

fun sha_hex :: "sha_state \<Rightarrow> string" where
  "sha_hex (a, b, c, d, e, f, g, h) = concat (map (hex_digits 8) [a, b, c, d, e, f, g, h])"

definition sha256_hexdigest :: "string \<Rightarrow> string" where
  "sha256_hexdigest s =
     (let ws = sha_words (sha_pad (utf8_encode s))
      in sha_hex (sha_blocks (length ws div 16) sha_initial ws))"

text \<open>The FIPS 180-4 test vector for the message \<^verbatim>\<open>abc\<close>.\<close>

lemma sha256_abc:
  "sha256_hexdigest ''abc'' = ''ba7816bf8f01cfea414140de5dae2223b00361a396177a9cb410ff61f20015ad''"
  by code_simp

subsection \<open>What a digest promises\<close>

definition hex_char :: "char \<Rightarrow> bool" where
  "hex_char c \<longleftrightarrow> c \<in> set ''0123456789abcdef''"

lemma hex_digits_length [simp]: "length (hex_digits k n) = k"
  by (induction k arbitrary: n) auto

lemma hex_digit_hex: "hex_char (''0123456789abcdef'' ! nat (n mod 16))"
proof -
  have "nat (n mod 16) < length ''0123456789abcdef''" by (simp add: nat_less_iff)
  then show ?thesis unfolding hex_char_def by (rule nth_mem)
qed

lemma hex_digits_hex: "list_all hex_char (hex_digits k n)"
  by (induction k arbitrary: n) (auto simp: hex_digit_hex)

lemma sha_hex_length: "length (sha_hex s) = 64"
  by (cases s rule: sha_hex.cases) simp

lemma sha_hex_hex: "list_all hex_char (sha_hex s)"
  using hex_digits_hex by (cases s rule: sha_hex.cases) simp

locale hex_digest =
  fixes digest :: "string \<Rightarrow> string"
  assumes digest_length: "length (digest s) = 64"
    and digest_hex: "list_all hex_char (digest s)"
begin

lemma short_length: "n \<le> 64 \<Longrightarrow> length (take n (digest s)) = n"
  by (simp add: digest_length)

lemma short_hex: "list_all hex_char (take n (digest s))"
  using digest_hex [of s] by (auto simp: list_all_iff dest: in_set_takeD)

lemma short_no_char: "\<not> hex_char c \<Longrightarrow> c \<notin> set (take n (digest s))"
  using short_hex by (auto simp: list_all_iff)

lemma prefixed_length: "n \<le> 64 \<Longrightarrow> length (p @ take n (digest s)) = length p + n"
  by (simp add: digest_length)

end

interpretation sha256: hex_digest sha256_hexdigest
  by unfold_locales (simp_all add: sha256_hexdigest_def Let_def sha_hex_length sha_hex_hex)

end
