(* ===== verification/Types.thy ===== *)
theory Types
  imports Hashing
begin

section \<open>The data model (\<^verbatim>\<open>types.py\<close>)\<close>

text \<open>
  The enumerations of \<^verbatim>\<open>types.py\<close> are datatypes with their \<^verbatim>\<open>.value\<close> strings, its dataclasses
  are records (each field with a short prefix, since HOL record selectors are global), and
  its methods are functions on them. Fields filled from the host (\<^verbatim>\<open>uuid.uuid4()\<close>,
  \<^verbatim>\<open>utcnow()\<close>) are arguments of the constructors. \<^verbatim>\<open>Any\<close>-typed values (JSON objects) are
  values of \<open>pyval\<close>.
\<close>

named_theorems enum_simps \<open>value strings of the enumerations\<close>

subsection \<open>Enumerations\<close>

datatype ResourceType =
    RT_FILE | RT_DIRECTORY | RT_TCP_ENDPOINT | RT_UDP_ENDPOINT | RT_UNIX_SOCKET | RT_FILE_LOCK
  | RT_PROCESS | RT_REDIS_KEY | RT_DATABASE_RESOURCE | RT_OTHER_LOGICAL_RESOURCE

definition ResourceType_members :: "ResourceType list" where
  "ResourceType_members = [RT_FILE, RT_DIRECTORY, RT_TCP_ENDPOINT, RT_UDP_ENDPOINT,
     RT_UNIX_SOCKET, RT_FILE_LOCK, RT_PROCESS, RT_REDIS_KEY, RT_DATABASE_RESOURCE,
     RT_OTHER_LOGICAL_RESOURCE]"

fun ResourceType_value :: "ResourceType \<Rightarrow> string" where
  "ResourceType_value RT_FILE = ''FILE''"
| "ResourceType_value RT_DIRECTORY = ''DIRECTORY''"
| "ResourceType_value RT_TCP_ENDPOINT = ''TCP_ENDPOINT''"
| "ResourceType_value RT_UDP_ENDPOINT = ''UDP_ENDPOINT''"
| "ResourceType_value RT_UNIX_SOCKET = ''UNIX_SOCKET''"
| "ResourceType_value RT_FILE_LOCK = ''FILE_LOCK''"
| "ResourceType_value RT_PROCESS = ''PROCESS''"
| "ResourceType_value RT_REDIS_KEY = ''REDIS_KEY''"
| "ResourceType_value RT_DATABASE_RESOURCE = ''DATABASE_RESOURCE''"
| "ResourceType_value RT_OTHER_LOGICAL_RESOURCE = ''OTHER_LOGICAL_RESOURCE''"

datatype Operation =
    OP_READ | OP_WRITE | OP_CREATE | OP_DELETE | OP_LOCK | OP_RENAME | OP_BIND | OP_LISTEN
  | OP_CONNECT | OP_EXEC | OP_SPAWN | OP_EXIT

definition Operation_members :: "Operation list" where
  "Operation_members = [OP_READ, OP_WRITE, OP_CREATE, OP_DELETE, OP_LOCK, OP_RENAME, OP_BIND,
     OP_LISTEN, OP_CONNECT, OP_EXEC, OP_SPAWN, OP_EXIT]"

fun Operation_value :: "Operation \<Rightarrow> string" where
  "Operation_value OP_READ = ''READ''"
| "Operation_value OP_WRITE = ''WRITE''"
| "Operation_value OP_CREATE = ''CREATE''"
| "Operation_value OP_DELETE = ''DELETE''"
| "Operation_value OP_LOCK = ''LOCK''"
| "Operation_value OP_RENAME = ''RENAME''"
| "Operation_value OP_BIND = ''BIND''"
| "Operation_value OP_LISTEN = ''LISTEN''"
| "Operation_value OP_CONNECT = ''CONNECT''"
| "Operation_value OP_EXEC = ''EXEC''"
| "Operation_value OP_SPAWN = ''SPAWN''"
| "Operation_value OP_EXIT = ''EXIT''"

datatype AccessMode = AM_READ | AM_WRITE | AM_EXCLUSIVE | AM_SHARED | AM_EXECUTE | AM_UNKNOWN

definition AccessMode_members :: "AccessMode list" where
  "AccessMode_members = [AM_READ, AM_WRITE, AM_EXCLUSIVE, AM_SHARED, AM_EXECUTE, AM_UNKNOWN]"

fun AccessMode_value :: "AccessMode \<Rightarrow> string" where
  "AccessMode_value AM_READ = ''READ''"
| "AccessMode_value AM_WRITE = ''WRITE''"
| "AccessMode_value AM_EXCLUSIVE = ''EXCLUSIVE''"
| "AccessMode_value AM_SHARED = ''SHARED''"
| "AccessMode_value AM_EXECUTE = ''EXECUTE''"
| "AccessMode_value AM_UNKNOWN = ''UNKNOWN''"

datatype EventSource = ES_EBPF | ES_REPLAY | ES_REDIS_ADAPTER | ES_PYTEST_PLUGIN

definition EventSource_members :: "EventSource list" where
  "EventSource_members = [ES_EBPF, ES_REPLAY, ES_REDIS_ADAPTER, ES_PYTEST_PLUGIN]"

fun EventSource_value :: "EventSource \<Rightarrow> string" where
  "EventSource_value ES_EBPF = ''EBPF''"
| "EventSource_value ES_REPLAY = ''REPLAY''"
| "EventSource_value ES_REDIS_ADAPTER = ''REDIS_ADAPTER''"
| "EventSource_value ES_PYTEST_PLUGIN = ''PYTEST_PLUGIN''"

datatype ConflictCause =
    CC_FILE_COLLISION | CC_PORT_COLLISION | CC_FILE_LOCK | CC_DATABASE_LOCK
  | CC_UNIX_SOCKET_COLLISION | CC_SHARED_STATE | CC_RESOURCE_CONTENTION | CC_UNKNOWN

definition ConflictCause_members :: "ConflictCause list" where
  "ConflictCause_members = [CC_FILE_COLLISION, CC_PORT_COLLISION, CC_FILE_LOCK,
     CC_DATABASE_LOCK, CC_UNIX_SOCKET_COLLISION, CC_SHARED_STATE, CC_RESOURCE_CONTENTION,
     CC_UNKNOWN]"

fun ConflictCause_value :: "ConflictCause \<Rightarrow> string" where
  "ConflictCause_value CC_FILE_COLLISION = ''FILE_COLLISION''"
| "ConflictCause_value CC_PORT_COLLISION = ''PORT_COLLISION''"
| "ConflictCause_value CC_FILE_LOCK = ''FILE_LOCK''"
| "ConflictCause_value CC_DATABASE_LOCK = ''DATABASE_LOCK''"
| "ConflictCause_value CC_UNIX_SOCKET_COLLISION = ''UNIX_SOCKET_COLLISION''"
| "ConflictCause_value CC_SHARED_STATE = ''SHARED_STATE''"
| "ConflictCause_value CC_RESOURCE_CONTENTION = ''RESOURCE_CONTENTION''"
| "ConflictCause_value CC_UNKNOWN = ''UNKNOWN''"

datatype RiskPolicy = RP_AGGRESSIVE | RP_BALANCED | RP_SAFE

definition RiskPolicy_members :: "RiskPolicy list" where
  "RiskPolicy_members = [RP_AGGRESSIVE, RP_BALANCED, RP_SAFE]"

fun RiskPolicy_value :: "RiskPolicy \<Rightarrow> string" where
  "RiskPolicy_value RP_AGGRESSIVE = ''aggressive''"
| "RiskPolicy_value RP_BALANCED = ''balanced''"
| "RiskPolicy_value RP_SAFE = ''safe''"

datatype ExecutionStatus =
    XS_PENDING | XS_RUNNING | XS_PASSED | XS_FAILED | XS_TIMED_OUT | XS_CANCELLED | XS_INFRA_ERROR

fun ExecutionStatus_value :: "ExecutionStatus \<Rightarrow> string" where
  "ExecutionStatus_value XS_PENDING = ''PENDING''"
| "ExecutionStatus_value XS_RUNNING = ''RUNNING''"
| "ExecutionStatus_value XS_PASSED = ''PASSED''"
| "ExecutionStatus_value XS_FAILED = ''FAILED''"
| "ExecutionStatus_value XS_TIMED_OUT = ''TIMED_OUT''"
| "ExecutionStatus_value XS_CANCELLED = ''CANCELLED''"
| "ExecutionStatus_value XS_INFRA_ERROR = ''INFRA_ERROR''"

subsection \<open>Untyped values and enumeration lookup\<close>

datatype pyval =
    PNone | PBool bool | PInt int | PFloat real | PInf bool | PNaN | PStr string
  | PList "pyval list" | PDict "(string \<times> pyval) list"

text \<open>\<^verbatim>\<open>Enum(value)\<close>: the member with that value, \<^verbatim>\<open>ValueError\<close> when there is none. The
  enumerations mix in \<^verbatim>\<open>str\<close>, so only a string equals a member's value.\<close>

definition enum_lookup :: "('e \<Rightarrow> string) \<Rightarrow> 'e list \<Rightarrow> pyval \<Rightarrow> 'e result" where
  "enum_lookup val members v =
     (case v of
        PStr s \<Rightarrow> (case find (\<lambda>m. val m = s) members of None \<Rightarrow> Inl ValueError | Some m \<Rightarrow> Inr m)
      | _ \<Rightarrow> Inl ValueError)"

text \<open>The interface of an enumeration: distinct values and a complete member list give the
  value/member round trip.\<close>

locale str_enum =
  fixes val :: "'e \<Rightarrow> string" and members :: "'e list"
  assumes value_inj: "val a = val b \<Longrightarrow> a = b"
    and members_all: "m \<in> set members"
begin

lemma lookup_value [simp]: "enum_lookup val members (PStr (val m)) = Inr m"
proof -
  have "find (\<lambda>x. val x = val m) members = Some m"
    using members_all [of m] value_inj by (induction members) auto
  then show ?thesis by (simp add: enum_lookup_def)
qed

lemma lookup_InrD: "enum_lookup val members v = Inr m \<Longrightarrow> v = PStr (val m)"
  by (auto simp: enum_lookup_def find_Some_iff split: pyval.splits option.splits)

lemma lookup_error: "enum_lookup val members v = Inl e \<Longrightarrow> e = ValueError"
  by (auto simp: enum_lookup_def split: pyval.splits option.splits)

end

interpretation rt: str_enum ResourceType_value ResourceType_members
proof unfold_locales
  show "ResourceType_value a = ResourceType_value b \<Longrightarrow> a = b" for a b
    by (cases a; cases b; simp)
  show "m \<in> set ResourceType_members" for m
    by (cases m) (simp_all add: ResourceType_members_def)
qed

interpretation op: str_enum Operation_value Operation_members
proof unfold_locales
  show "Operation_value a = Operation_value b \<Longrightarrow> a = b" for a b
    by (cases a; cases b; simp)
  show "m \<in> set Operation_members" for m
    by (cases m) (simp_all add: Operation_members_def)
qed

interpretation am: str_enum AccessMode_value AccessMode_members
proof unfold_locales
  show "AccessMode_value a = AccessMode_value b \<Longrightarrow> a = b" for a b
    by (cases a; cases b; simp)
  show "m \<in> set AccessMode_members" for m
    by (cases m) (simp_all add: AccessMode_members_def)
qed

interpretation es: str_enum EventSource_value EventSource_members
proof unfold_locales
  show "EventSource_value a = EventSource_value b \<Longrightarrow> a = b" for a b
    by (cases a; cases b; simp)
  show "m \<in> set EventSource_members" for m
    by (cases m) (simp_all add: EventSource_members_def)
qed

interpretation cc: str_enum ConflictCause_value ConflictCause_members
proof unfold_locales
  show "ConflictCause_value a = ConflictCause_value b \<Longrightarrow> a = b" for a b
    by (cases a; cases b; simp)
  show "m \<in> set ConflictCause_members" for m
    by (cases m) (simp_all add: ConflictCause_members_def)
qed

interpretation rp: str_enum RiskPolicy_value RiskPolicy_members
proof unfold_locales
  show "RiskPolicy_value a = RiskPolicy_value b \<Longrightarrow> a = b" for a b
    by (cases a; cases b; simp)
  show "m \<in> set RiskPolicy_members" for m
    by (cases m) (simp_all add: RiskPolicy_members_def)
qed

text \<open>\<^verbatim>\<open>str\<close>-mixin members compare as their value strings.\<close>

instantiation Operation :: linorder
begin

definition less_eq_Operation :: "Operation \<Rightarrow> Operation \<Rightarrow> bool" where
  "less_eq_Operation a b \<longleftrightarrow> Operation_value a \<le> Operation_value b"

definition less_Operation :: "Operation \<Rightarrow> Operation \<Rightarrow> bool" where
  "less_Operation a b \<longleftrightarrow> Operation_value a < Operation_value b"

instance
  by standard (auto simp: less_eq_Operation_def less_Operation_def dest: op.value_inj)

end

instantiation AccessMode :: linorder
begin

definition less_eq_AccessMode :: "AccessMode \<Rightarrow> AccessMode \<Rightarrow> bool" where
  "less_eq_AccessMode a b \<longleftrightarrow> AccessMode_value a \<le> AccessMode_value b"

definition less_AccessMode :: "AccessMode \<Rightarrow> AccessMode \<Rightarrow> bool" where
  "less_AccessMode a b \<longleftrightarrow> AccessMode_value a < AccessMode_value b"

instance
  by standard (auto simp: less_eq_AccessMode_def less_AccessMode_def dest: am.value_inj)

end

subsection \<open>Conversions of untyped values\<close>

text \<open>\<^verbatim>\<open>int(v)\<close>. A float truncates towards zero; infinities raise \<^verbatim>\<open>OverflowError\<close>.\<close>

definition int_of_pyval :: "pyval \<Rightarrow> int result" where
  "int_of_pyval v =
     (case v of
        PInt n \<Rightarrow> Inr n
      | PBool b \<Rightarrow> Inr (if b then 1 else 0)
      | PFloat x \<Rightarrow> Inr (if 0 \<le> x then \<lfloor>x\<rfloor> else \<lceil>x\<rceil>)
      | PInf _ \<Rightarrow> Inl OverflowError
      | PNaN \<Rightarrow> Inl ValueError
      | PStr s \<Rightarrow> (case py_int s of None \<Rightarrow> Inl ValueError | Some n \<Rightarrow> Inr n)
      | _ \<Rightarrow> Inl TypeError)"

text \<open>\<^verbatim>\<open>str(v)\<close>. The text of a float or of a container is the argument \<open>repr_of\<close>: it is the
  interpreter's, and no property depends on it.\<close>

definition str_of_pyval :: "(pyval \<Rightarrow> string) \<Rightarrow> pyval \<Rightarrow> string" where
  "str_of_pyval repr_of v =
     (case v of
        PStr s \<Rightarrow> s
      | PInt n \<Rightarrow> str_int n
      | PNone \<Rightarrow> ''None''
      | PBool b \<Rightarrow> (if b then ''True'' else ''False'')
      | _ \<Rightarrow> repr_of v)"

text \<open>\<^verbatim>\<open>v[k]\<close> with a string key, and \<^verbatim>\<open>v.get(k, d)\<close> (only called on dictionaries).\<close>

definition getitem :: "pyval \<Rightarrow> string \<Rightarrow> pyval result" where
  "getitem v k =
     (case v of PDict d \<Rightarrow> dict_index d k | _ \<Rightarrow> Inl TypeError)"

definition getdefault :: "pyval \<Rightarrow> string \<Rightarrow> pyval \<Rightarrow> pyval" where
  "getdefault v k dflt = (case v of PDict d \<Rightarrow> dict_get d k dflt | _ \<Rightarrow> dflt)"

subsection \<open>Test and resource identities\<close>

record TestIdentity =
  ti_id :: string
  ti_node_id :: string
  ti_repository :: string
  ti_suite :: string
  ti_framework :: string
  ti_test_file :: string
  ti_test_class :: string
  ti_test_function :: string
  ti_parameters :: string
  ti_source_revision :: string

definition TestIdentity_init :: "string \<Rightarrow> string \<Rightarrow> TestIdentity" where
  "TestIdentity_init i n =
     \<lparr>ti_id = i, ti_node_id = n, ti_repository = ''local'', ti_suite = ''pytest'',
      ti_framework = ''pytest'', ti_test_file = [], ti_test_class = [], ti_test_function = [],
      ti_parameters = [], ti_source_revision = ''unknown''\<rparr>"

text \<open>\<^verbatim>\<open>s.split("::")\<close>: occurrences from the left, not overlapping.\<close>

fun split_colons :: "string \<Rightarrow> string list" where
  "split_colons (c # d # s) =
     (if c = CHR '':'' \<and> d = CHR '':'' then [] # split_colons s
      else (case split_colons (d # s) of [] \<Rightarrow> [[c]] | p # ps \<Rightarrow> (c # p) # ps))"
| "split_colons s = [s]"

definition test_digest :: "string \<Rightarrow> string \<Rightarrow> string" where
  "test_digest repository node_id =
     take 24 (sha256_hexdigest (repository @ [CHR 0x00] @ ''pytest'' @ [CHR 0x00] @ node_id))"

definition from_pytest_nodeid :: "string \<Rightarrow> string \<Rightarrow> string \<Rightarrow> TestIdentity" where
  "from_pytest_nodeid node_id repository revision =
     (let parts = split_colons node_id;
          test_file = hd parts;
          test_class = (if length parts > 2 then parts ! 1 else []);
          raw_function = (if length parts > 1 then last parts else hd parts);
          (function, _, params) = partition_char (CHR ''['') raw_function;
          params = (if endswith params '']'' then butlast params else params)
      in (TestIdentity_init (''test_'' @ test_digest repository node_id) node_id)
           \<lparr>ti_repository := repository, ti_test_file := test_file, ti_test_class := test_class,
            ti_test_function := function, ti_parameters := params,
            ti_source_revision := revision\<rparr>)"

record ResourceIdentity =
  ri_id :: string
  ri_type :: ResourceType
  ri_identifier :: string
  ri_redacted :: bool

definition ResourceIdentity_create :: "ResourceType \<Rightarrow> string \<Rightarrow> bool \<Rightarrow> ResourceIdentity" where
  "ResourceIdentity_create rtype ident redacted =
     \<lparr>ri_id = ''res_'' @ take 24 (sha256_hexdigest (ResourceType_value rtype @ [CHR 0x00] @ ident)),
      ri_type = rtype, ri_identifier = ident, ri_redacted = redacted\<rparr>"

abbreviation resource_id :: "ResourceType \<Rightarrow> string \<Rightarrow> string" where
  "resource_id rtype ident \<equiv> ri_id (ResourceIdentity_create rtype ident False)"

definition no_colons :: "string \<Rightarrow> bool" where
  "no_colons s \<longleftrightarrow> CHR '':'' \<notin> set s"

lemma split_colons_not_Nil [simp]: "split_colons s \<noteq> []"
  by (induction s rule: split_colons.induct) (auto split: list.splits)

lemma split_colons_plain: "no_colons s \<Longrightarrow> split_colons s = [s]"
  by (induction s rule: split_colons.induct) (auto simp: no_colons_def)

lemma split_colons_append:
  "no_colons p \<Longrightarrow> split_colons (p @ ''::'' @ s) = p # split_colons s"
proof (induction p)
  case (Cons c p)
  then have IH: "split_colons (p @ ''::'' @ s) = p # split_colons s" and c: "c \<noteq> CHR '':''"
    by (auto simp: no_colons_def)
  obtain d r where "p @ ''::'' @ s = d # r" by (cases "p @ ''::'' @ s") auto
  with IH c show ?case by simp
qed simp

lemma from_pytest_nodeid_ids [simp]:
  "ti_id (from_pytest_nodeid n r v) = ''test_'' @ test_digest r n"
  "ti_node_id (from_pytest_nodeid n r v) = n"
  by (simp_all add: from_pytest_nodeid_def TestIdentity_init_def Let_def split: prod.splits)

subsection \<open>Trace events\<close>

record TraceEvent =
  ev_execution_id :: string
  ev_test_id :: string
  ev_timestamp_ns :: int
  ev_pid :: int
  ev_tid :: int
  ev_cgroup_id :: int
  ev_resource_type :: ResourceType
  ev_resource_identifier :: string
  ev_operation :: Operation
  ev_access_mode :: AccessMode
  ev_source :: EventSource
  ev_metadata :: pyval
  ev_sequence :: int

definition TraceEvent_to_dict :: "TraceEvent \<Rightarrow> pyval" where
  "TraceEvent_to_dict e = PDict
     [(''execution_id'', PStr (ev_execution_id e)),
      (''test_id'', PStr (ev_test_id e)),
      (''timestamp_ns'', PInt (ev_timestamp_ns e)),
      (''pid'', PInt (ev_pid e)),
      (''tid'', PInt (ev_tid e)),
      (''cgroup_id'', PInt (ev_cgroup_id e)),
      (''resource_type'', PStr (ResourceType_value (ev_resource_type e))),
      (''resource_identifier'', PStr (ev_resource_identifier e)),
      (''operation'', PStr (Operation_value (ev_operation e))),
      (''access_mode'', PStr (AccessMode_value (ev_access_mode e))),
      (''source'', PStr (EventSource_value (ev_source e))),
      (''metadata'', ev_metadata e),
      (''sequence'', PInt (ev_sequence e))]"

definition TraceEvent_from_dict :: "(pyval \<Rightarrow> string) \<Rightarrow> pyval \<Rightarrow> TraceEvent result" where
  "TraceEvent_from_dict repr_of v =
     bind_result (getitem v ''execution_id'') (\<lambda>execution_id.
     bind_result (getitem v ''test_id'') (\<lambda>test_id.
     bind_result (bind_result (getitem v ''timestamp_ns'') int_of_pyval) (\<lambda>timestamp_ns.
     bind_result (int_of_pyval (getdefault v ''pid'' (PInt 0))) (\<lambda>pid.
     bind_result (int_of_pyval (getdefault v ''tid'' (getdefault v ''pid'' (PInt 0)))) (\<lambda>tid.
     bind_result (int_of_pyval (getdefault v ''cgroup_id'' (PInt 0))) (\<lambda>cgroup_id.
     bind_result (bind_result (getitem v ''resource_type'')
       (enum_lookup ResourceType_value ResourceType_members)) (\<lambda>resource_type.
     bind_result (getitem v ''resource_identifier'') (\<lambda>resource_identifier.
     bind_result (bind_result (getitem v ''operation'')
       (enum_lookup Operation_value Operation_members)) (\<lambda>operation.
     bind_result (bind_result (getitem v ''access_mode'')
       (enum_lookup AccessMode_value AccessMode_members)) (\<lambda>access_mode.
     bind_result (enum_lookup EventSource_value EventSource_members
       (getdefault v ''source'' (PStr ''REPLAY''))) (\<lambda>source.
     bind_result (int_of_pyval (getdefault v ''sequence'' (PInt 0))) (\<lambda>sequence.
     Inr \<lparr>ev_execution_id = str_of_pyval repr_of execution_id,
          ev_test_id = str_of_pyval repr_of test_id,
          ev_timestamp_ns = timestamp_ns, ev_pid = pid, ev_tid = tid, ev_cgroup_id = cgroup_id,
          ev_resource_type = resource_type,
          ev_resource_identifier = str_of_pyval repr_of resource_identifier,
          ev_operation = operation, ev_access_mode = access_mode, ev_source = source,
          ev_metadata = getdefault v ''metadata'' (PDict []),
          ev_sequence = sequence\<rparr>))))))))))))"

subsection \<open>Trace quality\<close>

record TraceQuality =
  q_captured :: int
  q_processed :: int
  q_dropped :: int
  q_unattributed :: int
  q_parse_failures :: int

definition TraceQuality_init :: TraceQuality where
  "TraceQuality_init = \<lparr>q_captured = 0, q_processed = 0, q_dropped = 0, q_unattributed = 0,
     q_parse_failures = 0\<rparr>"

definition completeness :: "TraceQuality \<Rightarrow> real" where
  "completeness q =
     (let denominator = q_captured q + q_dropped q
      in if denominator \<noteq> 0 then real_of_int (q_processed q) / real_of_int denominator else 1)"

definition attribution_rate :: "TraceQuality \<Rightarrow> real" where
  "attribution_rate q =
     (if q_processed q \<noteq> 0
      then 1 - real_of_int (q_unattributed q) / real_of_int (q_processed q) else 1)"

definition quality_score :: "TraceQuality \<Rightarrow> real" where
  "quality_score q = max 0 (min 1 (completeness q * attribution_rate q))"

lemma quality_score_unit: "0 \<le> quality_score q \<and> quality_score q \<le> 1"
  by (simp add: quality_score_def)

subsection \<open>Statistics, predictions, schedules, results\<close>

record TestStats =
  st_duration_ema :: real
  st_duration_median :: real
  st_failure_rate :: real
  st_executions :: int
  st_process_count :: int
  st_resource_count :: int
  st_write_ratio :: real

definition TestStats_init :: TestStats where
  "TestStats_init = \<lparr>st_duration_ema = 1, st_duration_median = 1, st_failure_rate = 0,
     st_executions = 0, st_process_count = 1, st_resource_count = 0, st_write_ratio = 0\<rparr>"

record PairPrediction =
  pp_test_a :: string
  pp_test_b :: string
  pp_probability :: real
  pp_cause :: ConflictCause
  pp_model_version :: string
  pp_shared_resources :: "string list"
  pp_explanation :: string
  pp_predicted_at :: int

text \<open>Construction with \<^verbatim>\<open>__post_init__\<close>: the endpoints in order, the probability clamped.\<close>

definition PairPrediction_init ::
  "string \<Rightarrow> string \<Rightarrow> real \<Rightarrow> ConflictCause \<Rightarrow> string \<Rightarrow> string list \<Rightarrow> string \<Rightarrow> int \<Rightarrow> PairPrediction"
  where
  "PairPrediction_init a b p cause version resources explanation now =
     (let (x, y) = (if b < a then (b, a) else (a, b))
      in \<lparr>pp_test_a = x, pp_test_b = y, pp_probability = max 0 (min 1 p), pp_cause = cause,
          pp_model_version = version, pp_shared_resources = resources,
          pp_explanation = explanation, pp_predicted_at = now\<rparr>)"

definition PairPrediction_key :: "PairPrediction \<Rightarrow> string \<times> string" where
  "PairPrediction_key p = (pp_test_a p, pp_test_b p)"

record ScheduledTest =
  sc_test_id :: string
  sc_node_id :: string
  sc_worker :: nat
  sc_start :: real
  sc_end :: real
  sc_duration :: real
  sc_risk_cost :: real
  sc_reasons :: "string list"

definition ScheduledTest_init ::
  "string \<Rightarrow> string \<Rightarrow> nat \<Rightarrow> real \<Rightarrow> real \<Rightarrow> real \<Rightarrow> real \<Rightarrow> string list \<Rightarrow> ScheduledTest" where
  "ScheduledTest_init t n w s e d r rs =
     \<lparr>sc_test_id = t, sc_node_id = n, sc_worker = w, sc_start = s, sc_end = e, sc_duration = d,
      sc_risk_cost = r, sc_reasons = rs\<rparr>"

record Schedule =
  sd_id :: string
  sd_run_id :: string
  sd_workers :: int
  sd_policy :: RiskPolicy
  sd_tests :: "ScheduledTest list"
  sd_scheduler_latency_ms :: real
  sd_expected_makespan :: real
  sd_expected_risk :: real
  sd_seed :: int

text \<open>\<^verbatim>\<open>run_id or str(uuid.uuid4())\<close>: an absent or empty id is replaced by a fresh one.\<close>

definition run_id_or :: "string option \<Rightarrow> string \<Rightarrow> string" where
  "run_id_or r fresh = (case r of None \<Rightarrow> fresh | Some s \<Rightarrow> (if s = [] then fresh else s))"

definition Schedule_empty ::
  "string \<Rightarrow> string \<Rightarrow> string option \<Rightarrow> int \<Rightarrow> RiskPolicy \<Rightarrow> int \<Rightarrow> Schedule" where
  "Schedule_empty uuid1 uuid2 run_id workers policy seed =
     \<lparr>sd_id = uuid1, sd_run_id = run_id_or run_id uuid2, sd_workers = workers, sd_policy = policy,
      sd_tests = [], sd_scheduler_latency_ms = 0, sd_expected_makespan = 0, sd_expected_risk = 0,
      sd_seed = seed\<rparr>"

record ExecutionResult =
  xr_execution_id :: string
  xr_run_id :: string
  xr_test_id :: string
  xr_node_id :: string
  xr_worker :: nat
  xr_status :: ExecutionStatus
  xr_started_at :: int
  xr_ended_at :: int
  xr_duration_seconds :: real
  xr_exit_code :: int
  xr_stdout :: string
  xr_stderr :: string
  xr_failure_message :: string
  xr_timed_out :: bool

definition stable_pair :: "string \<Rightarrow> string \<Rightarrow> string \<times> string" where
  "stable_pair a b = (if a \<le> b then (a, b) else (b, a))"

lemma stable_pair_commute: "stable_pair a b = stable_pair b a"
  by (auto simp: stable_pair_def)

lemma stable_pair_ordered: "fst (stable_pair a b) \<le> snd (stable_pair a b)"
  by (auto simp: stable_pair_def)

lemma stable_pair_id: "a \<le> b \<Longrightarrow> stable_pair a b = (a, b)"
  by (simp add: stable_pair_def)

lemma stable_pair_set: "{fst (stable_pair a b), snd (stable_pair a b)} = {a, b}"
  by (auto simp: stable_pair_def)

definition prediction_wf :: "PairPrediction \<Rightarrow> bool" where
  "prediction_wf p \<longleftrightarrow> pp_test_a p \<le> pp_test_b p \<and> 0 \<le> pp_probability p \<and> pp_probability p \<le> 1"

lemma PairPrediction_init_wf: "prediction_wf (PairPrediction_init a b p c v rs e now)"
  by (auto simp: prediction_wf_def PairPrediction_init_def Let_def split: prod.splits if_splits)

lemma PairPrediction_init_key:
  "PairPrediction_key (PairPrediction_init a b p c v rs e now) = stable_pair a b"
  by (auto simp: PairPrediction_key_def PairPrediction_init_def stable_pair_def not_le)

lemma PairPrediction_init_probability [simp]:
  "pp_probability (PairPrediction_init a b p c v rs e now) = max 0 (min 1 p)"
  by (simp add: PairPrediction_init_def Let_def split: prod.splits)

subsection \<open>Properties of the data model\<close>

text \<open>Round trip. Serialising a trace event and reading it back gives the event, for
  every event and whatever text the interpreter prints for floats and containers.\<close>

lemma trace_event_roundtrip: "TraceEvent_from_dict repr_of (TraceEvent_to_dict e) = Inr e"
  by (simp add: TraceEvent_from_dict_def TraceEvent_to_dict_def getitem_def getdefault_def
      dict_index_def dict_get_def int_of_pyval_def str_of_pyval_def)

end
