(* ===== verification/Ipaddress.thy ===== *)
theory Ipaddress
  imports PyString
begin

section \<open>Addresses of the standard library (\<^verbatim>\<open>ipaddress\<close>)\<close>

text \<open>
  What \<^verbatim>\<open>normalize.py\<close> uses of \<^verbatim>\<open>ipaddress.ip_address\<close>: parsing of IPv4 and IPv6 text (with an
  IPv4 suffix and a scope id), \<^verbatim>\<open>is_loopback\<close> and the \<^verbatim>\<open>compressed\<close> text, as in CPython 3.11. An IPv4
  address is its four octets, an IPv6 address its eight hextets. Failure is \<open>None\<close>, which the
  caller sees as a \<^verbatim>\<open>ValueError\<close>.
\<close>

datatype ip_address = IPv4 "nat list" | IPv6 "nat list" "string option"

subsection \<open>IPv4\<close>

definition parse_octet :: "string \<Rightarrow> nat option" where
  "parse_octet s =
     (if s = [] \<or> \<not> list_all is_decimal s \<or> 3 < length s \<or> (s \<noteq> ''0'' \<and> hd s = CHR ''0'') then None
      else case parse_nat s of None \<Rightarrow> None | Some n \<Rightarrow> if 255 < n then None else Some n)"

fun map_option_all :: "('a \<Rightarrow> 'b option) \<Rightarrow> 'a list \<Rightarrow> 'b list option" where
  "map_option_all f [] = Some []"
| "map_option_all f (x # xs) =
     (case f x of None \<Rightarrow> None
      | Some y \<Rightarrow> (case map_option_all f xs of None \<Rightarrow> None | Some ys \<Rightarrow> Some (y # ys)))"

definition parse_ipv4 :: "string \<Rightarrow> nat list option" where
  "parse_ipv4 s =
     (if CHR ''/'' \<in> set s \<or> s = [] \<or> length (split_on (CHR ''.'') s) \<noteq> 4 then None
      else map_option_all parse_octet (split_on (CHR ''.'') s))"

definition str_ipv4 :: "nat list \<Rightarrow> string" where
  "str_ipv4 octets = join_with ''.'' (map str_nat octets)"

subsection \<open>IPv6\<close>

definition hex_value :: "char \<Rightarrow> nat option" where
  "hex_value c =
     (if is_decimal c then Some (digit_val c)
      else if 97 \<le> cp c \<and> cp c \<le> 102 then Some (cp c - 87)
      else if 65 \<le> cp c \<and> cp c \<le> 70 then Some (cp c - 55) else None)"

definition parse_hextet :: "string \<Rightarrow> nat option" where
  "parse_hextet s =
     (if s = [] \<or> 4 < length s then None
      else map_option (foldl (\<lambda>n d. 16 * n + d) 0) (map_option_all hex_value s))"

definition hex_digit_char :: "nat \<Rightarrow> char" where
  "hex_digit_char d = (if d < 10 then digit_char d else char_of (87 + d))"

function str_hex :: "nat \<Rightarrow> string" where
  "str_hex n = (if n < 16 then [] else str_hex (n div 16)) @ [hex_digit_char (n mod 16)]"
  by pat_completeness auto
termination by (relation "measure id") auto

declare str_hex.simps [simp del]

text \<open>An IPv4 suffix counts as two hextets.\<close>

definition expand_suffix :: "string list \<Rightarrow> string list option" where
  "expand_suffix parts =
     (if CHR ''.'' \<in> set (last parts)
      then (case parse_ipv4 (last parts) of
              Some [a, b, c, d] \<Rightarrow> Some (butlast parts @ [str_hex (256 * a + b), str_hex (256 * c + d)])
            | _ \<Rightarrow> None)
      else Some parts)"

definition empty_inner :: "string list \<Rightarrow> nat list" where
  "empty_inner parts = filter (\<lambda>i. parts ! i = []) [1..<length parts - 1]"

definition parse_hextets :: "string list \<Rightarrow> nat list option" where
  "parse_hextets parts =
     (case empty_inner parts of
        [] \<Rightarrow> (if length parts \<noteq> 8 \<or> hd parts = [] \<or> last parts = [] then None
              else map_option_all parse_hextet parts)
      | [skip] \<Rightarrow>
          (let hi = (if hd parts = [] then skip - 1 else skip);
               lo0 = length parts - skip - 1;
               lo = (if last parts = [] then lo0 - 1 else lo0)
           in if (hd parts = [] \<and> hi \<noteq> 0) \<or> (last parts = [] \<and> lo \<noteq> 0) \<or> 8 \<le> hi + lo then None
              else (case (map_option_all parse_hextet (take hi parts),
                          map_option_all parse_hextet (drop (length parts - lo) parts)) of
                      (Some high, Some low) \<Rightarrow> Some (high @ replicate (8 - (hi + lo)) 0 @ low)
                    | _ \<Rightarrow> None))
      | _ \<Rightarrow> None)"

definition parse_ipv6 :: "string \<Rightarrow> (nat list \<times> string option) option" where
  "parse_ipv6 s =
     (let (addr, sep, scope) = partition_char (CHR ''%'') s
      in if CHR ''/'' \<in> set s \<or> (sep \<and> (scope = [] \<or> CHR ''%'' \<in> set scope)) \<or> addr = []
           \<or> length (split_on (CHR '':'') addr) < 3 then None
         else (case expand_suffix (split_on (CHR '':'') addr) of
                 None \<Rightarrow> None
               | Some parts \<Rightarrow>
                   if 9 < length parts then None
                   else map_option (\<lambda>hextets. (hextets, if sep then Some scope else None)) (parse_hextets parts)))"

text \<open>The longest run of zero hextets, the first among equals: its start and length.\<close>

fun zero_runs :: "nat \<Rightarrow> nat \<times> nat \<Rightarrow> nat \<times> nat \<Rightarrow> nat list \<Rightarrow> nat \<times> nat" where
  "zero_runs i best current [] = best"
| "zero_runs i best (start, len) (h # hs) =
     (if h = 0
      then let current = (if len = 0 then i else start, len + 1)
           in zero_runs (i + 1) (if snd best < len + 1 then current else best) current hs
      else zero_runs (i + 1) best (0, 0) hs)"

definition str_ipv6 :: "nat list \<Rightarrow> string option \<Rightarrow> string" where
  "str_ipv6 hextets scope =
     (let (start, len) = zero_runs 0 (0, 0) (0, 0) hextets;
          texts = map str_hex hextets;
          shown = (if 1 < len
                   then (if start = 0 then [[]] else []) @ take start texts @ [[]] @ drop (start + len) texts
                          @ (if start + len = length texts then [[]] else [])
                   else texts)
      in join_with '':'' shown
           @ (case scope of None \<Rightarrow> [] | Some z \<Rightarrow> if z = [] then [] else CHR ''%'' # z))"

subsection \<open>Either kind\<close>

definition parse_ip :: "string \<Rightarrow> ip_address option" where
  "parse_ip s =
     (case parse_ipv4 s of
        Some octets \<Rightarrow> Some (IPv4 octets)
      | None \<Rightarrow> map_option (\<lambda>(hextets, scope). IPv6 hextets scope) (parse_ipv6 s))"

fun is_loopback :: "ip_address \<Rightarrow> bool" where
  "is_loopback (IPv4 octets) \<longleftrightarrow> hd octets = 127"
| "is_loopback (IPv6 hextets scope) \<longleftrightarrow> hextets = [0, 0, 0, 0, 0, 0, 0, 1]"

fun compressed :: "ip_address \<Rightarrow> string" where
  "compressed (IPv4 octets) = str_ipv4 octets"
| "compressed (IPv6 hextets scope) = str_ipv6 hextets scope"

subsection \<open>The IPv4 round trip\<close>

lemma map_option_all_map: "(\<And>x. x \<in> set xs \<Longrightarrow> f (g x) = Some x) \<Longrightarrow> map_option_all f (map g xs) = Some xs"
  by (induction xs) auto

lemma map_option_all_length: "map_option_all f xs = Some ys \<Longrightarrow> length ys = length xs"
  by (induction xs arbitrary: ys) (auto split: option.splits)

lemma map_option_all_set: "map_option_all f xs = Some ys \<Longrightarrow> y \<in> set ys \<Longrightarrow> \<exists>x\<in>set xs. f x = Some y"
  by (induction xs arbitrary: ys) (auto split: option.splits)

lemma digit_char_zero: "d < 10 \<Longrightarrow> digit_char d = CHR ''0'' \<longleftrightarrow> d = 0"
proof -
  assume "d < 10"
  then have "cp (digit_char d) = 48 + d" by (rule cp_digit_char)
  moreover have "cp (CHR ''0'') = 48" by simp
  moreover have "digit_char 0 = CHR ''0''" by (simp add: digit_char_def char_of_def bit_iff_odd)
  ultimately show ?thesis by (metis add_cancel_right_right)
qed

lemma str_nat_small:
  "n < 10 \<Longrightarrow> str_nat n = [digit_char n]"
  "10 \<le> n \<Longrightarrow> n < 100 \<Longrightarrow> str_nat n = [digit_char (n div 10), digit_char (n mod 10)]"
  "100 \<le> n \<Longrightarrow> n < 1000 \<Longrightarrow> str_nat n = [digit_char (n div 100), digit_char (n div 10 mod 10), digit_char (n mod 10)]"
  by (simp_all add: str_nat.simps [of n] str_nat.simps [of "n div 10"] str_nat.simps [of "n div 100"]
      div_mult2_eq [symmetric] not_less less_mult_imp_div_less)

lemma str_nat_short: "n < 1000 \<Longrightarrow> length (str_nat n) \<le> 3 \<and> (str_nat n = ''0'' \<or> hd (str_nat n) \<noteq> CHR ''0'')"
proof -
  assume n: "n < 1000"
  consider "n < 10" | "10 \<le> n" "n < 100" | "100 \<le> n" by linarith
  then show ?thesis using n by cases (auto simp: str_nat_small digit_char_zero)
qed

lemma parse_octet_str_nat: "n < 256 \<Longrightarrow> parse_octet (str_nat n) = Some n"
  using str_nat_short [of n] str_nat_decimal [of n] by (auto simp: parse_octet_def)

lemma str_ipv4_chars: "set (str_ipv4 octets) \<subseteq> {c. is_decimal c} \<union> {CHR ''.''}"
proof (induction octets)
  case (Cons n octets)
  have "set (str_nat n) \<subseteq> {c. is_decimal c}" using str_nat_decimal [of n] by (auto simp: list_all_iff)
  then show ?case using Cons by (cases octets) (auto simp: str_ipv4_def)
qed (simp add: str_ipv4_def)

lemma str_ipv4_not_Nil: "octets \<noteq> [] \<Longrightarrow> str_ipv4 octets \<noteq> []"
  by (cases octets rule: list.exhaust; cases "tl octets") (auto simp: str_ipv4_def)

lemma parse_str_ipv4:
  assumes "length octets = 4" and "\<forall>n\<in>set octets. n < 256"
  shows "parse_ipv4 (str_ipv4 octets) = Some octets"
proof -
  have ne: "octets \<noteq> []" using assms(1) by auto
  have split: "split_on (CHR ''.'') (str_ipv4 octets) = map str_nat octets"
    unfolding str_ipv4_def using ne by (intro split_on_join) (auto simp: str_nat_no_char is_decimal_def)
  have "CHR ''/'' \<notin> set (str_ipv4 octets)"
    using str_ipv4_chars [of octets] by (auto simp: is_decimal_def)
  moreover have "map_option_all parse_octet (map str_nat octets) = Some octets"
    using assms(2) parse_octet_str_nat by (intro map_option_all_map) auto
  ultimately show ?thesis using assms(1) str_ipv4_not_Nil [OF ne] by (simp add: parse_ipv4_def split)
qed

lemma parse_octet_less: "parse_octet s = Some n \<Longrightarrow> n < 256"
proof -
  assume p: "parse_octet s = Some n"
  then have "(case parse_nat s of None \<Rightarrow> None | Some n \<Rightarrow> if 255 < n then None else Some n) = Some n"
    unfolding parse_octet_def by (metis option.distinct(1))
  then show ?thesis by (cases "parse_nat s") (simp_all split: if_splits)
qed

lemma parse_ipv4_octets: "parse_ipv4 s = Some octets \<Longrightarrow> length octets = 4 \<and> (\<forall>n\<in>set octets. n < 256)"
proof -
  assume p: "parse_ipv4 s = Some octets"
  let ?parts = "split_on (CHR ''.'') s"
  have m: "map_option_all parse_octet ?parts = Some octets" "length ?parts = 4"
    using p unfolding parse_ipv4_def by (simp_all split: if_splits)
  have "n < 256" if "n \<in> set octets" for n
    using map_option_all_set [OF m(1) that] parse_octet_less by blast
  then show ?thesis using map_option_all_length [OF m(1)] m(2) by simp
qed

end
