(* ===== verification/Normalize.thy ===== *)
theory Normalize
  imports Types Ipaddress
begin

section \<open>Resource normalisation (\<^verbatim>\<open>normalize.py\<close>)\<close>

text \<open>
  Raw identifiers of kernel and application events become stable resource names: paths by
  \<^verbatim>\<open>posixpath.normpath\<close>, repository-relative rewriting, runner-directory placeholders and
  optional hashing; endpoints by address parsing; Redis keys and processes by their prefixes.
  \<^verbatim>\<open>None\<close> drops the event. The pieces of \<^verbatim>\<open>posixpath\<close>, \<^verbatim>\<open>pathlib\<close> and \<^verbatim>\<open>re\<close> the file uses are
  modelled where they are used. The locale \<open>normalizer\<close> is what the tracer relies on.
\<close>

subsection \<open>Paths of the standard library\<close>

definition norm_comp :: "bool \<Rightarrow> string list \<Rightarrow> string \<Rightarrow> string list" where
  "norm_comp rooted comps c =
     (if c = [] \<or> c = ''.'' then comps
      else if c \<noteq> ''..'' \<or> (\<not> rooted \<and> comps = []) \<or> (comps \<noteq> [] \<and> last comps = ''..'')
           then comps @ [c]
      else if comps \<noteq> [] then butlast comps else comps)"

definition leading_slashes :: "string \<Rightarrow> nat" where
  "leading_slashes path =
     (if startswith path ''//'' \<and> \<not> startswith path ''///'' then 2
      else if startswith path ''/'' then 1 else 0)"

definition normpath :: "string \<Rightarrow> string" where
  "normpath path =
     (if path = [] then ''.''
      else let slashes = leading_slashes path;
               comps = foldl (norm_comp (0 < slashes)) [] (split_on (CHR ''/'') path);
               result = replicate slashes (CHR ''/'') @ join_with ''/'' comps
           in if result = [] then ''.'' else result)"

definition path_parts :: "string \<Rightarrow> string list" where
  "path_parts path =
     (if leading_slashes path = 0 then [] else [replicate (leading_slashes path) (CHR ''/'')])
       @ filter (\<lambda>c. c \<noteq> [] \<and> c \<noteq> ''.'') (split_on (CHR ''/'') path)"

definition path_of_parts :: "string list \<Rightarrow> string" where
  "path_of_parts parts =
     (case parts of
        [] \<Rightarrow> ''.''
      | p # ps \<Rightarrow> if p = ''/'' \<or> p = ''//'' then p @ join_with ''/'' ps else join_with ''/'' parts)"

definition basename :: "string \<Rightarrow> string" where
  "basename path = last (split_on (CHR ''/'') path)"

subsection \<open>The policy\<close>

record NormalizationPolicy =
  np_exclude_prefixes :: "string list"
  np_redact_paths :: bool
  np_hash_salt :: string
  np_repository_root :: "string option"
  np_include_readonly_system :: bool
  np_ignored_suffixes :: "string list"
  np_loopback_alias :: string

definition NormalizationPolicy_init :: NormalizationPolicy where
  "NormalizationPolicy_init =
     \<lparr>np_exclude_prefixes = [''/proc'', ''/sys'', ''/usr/lib'', ''/lib'', ''/System''],
      np_redact_paths = False, np_hash_salt = [], np_repository_root = None,
      np_include_readonly_system = False, np_ignored_suffixes = [''.pyc'', ''.so'', ''.dylib''],
      np_loopback_alias = ''127.0.0.1''\<rparr>"

text \<open>The patterns of \<^verbatim>\<open>_EPHEMERAL_SEGMENTS\<close>; a final \<^verbatim>\<open>$\<close> also matches before a trailing newline.\<close>

definition chop_newline :: "string \<Rightarrow> string" where
  "chop_newline s = (if s \<noteq> [] \<and> last s = CHR 0x0A then butlast s else s)"

definition tmp_char :: "char \<Rightarrow> bool" where
  "tmp_char c \<longleftrightarrow> is_decimal c \<or> (65 \<le> cp c \<and> cp c \<le> 90) \<or> (97 \<le> cp c \<and> cp c \<le> 122)
     \<or> c = CHR ''_'' \<or> c = CHR ''-''"

definition ephemeral :: "string \<Rightarrow> bool" where
  "ephemeral part \<longleftrightarrow>
     (startswith part ''pytest-of-'' \<and> drop 10 part \<noteq> [])
     \<or> (startswith part ''pytest-''
          \<and> (\<exists>rest\<in>{drop 7 part, chop_newline (drop 7 part)}. rest \<noteq> [] \<and> list_all is_decimal rest))
     \<or> (startswith part ''tmp''
          \<and> (\<exists>rest\<in>{drop 3 part, chop_newline (drop 3 part)}. 6 \<le> length rest \<and> list_all tmp_char rest))"

subsection \<open>Normalisers\<close>

definition under :: "string \<Rightarrow> string \<Rightarrow> bool" where
  "under value pre \<longleftrightarrow> value = pre \<or> startswith value (pre @ ''/'')"

definition excluded :: "NormalizationPolicy \<Rightarrow> string \<Rightarrow> bool" where
  "excluded policy value \<longleftrightarrow>
     list_ex (\<lambda>pre. under value (normpath pre)) (np_exclude_prefixes policy)
     \<or> list_ex (endswith value) (np_ignored_suffixes policy)"

definition relocate :: "NormalizationPolicy \<Rightarrow> string \<Rightarrow> string" where
  "relocate policy value =
     (case np_repository_root policy of
        None \<Rightarrow> value
      | Some repo \<Rightarrow>
          (if repo = [] then value
           else let normalized_root = normpath (replace_char (CHR 0x5C) (CHR ''/'') repo)
                in if under value normalized_root then ''$REPO'' @ drop (length normalized_root) value
                   else value))"

definition stabilize :: "string \<Rightarrow> string" where
  "stabilize value =
     path_of_parts (map (\<lambda>part. if ephemeral part then ''$RUN_TMP'' else part) (path_parts value))"

definition normalize_path :: "NormalizationPolicy \<Rightarrow> string \<Rightarrow> Operation \<Rightarrow> string option" where
  "normalize_path policy raw operation =
     (let value = replace_char (CHR 0x5C) (CHR ''/'') (py_strip raw)
      in if value = [] \<or> value \<in> {''(null)'', ''<unknown>''} then None
         else let value = normpath (if startswith value ''/'' then value else CHR ''/'' # value)
              in if operation = OP_READ \<and> \<not> np_include_readonly_system policy \<and> excluded policy value
                 then None
                 else let value = stabilize (relocate policy value)
                      in Some (if np_redact_paths policy
                               then ''sha256:'' @ sha256_hexdigest (np_hash_salt policy @ [CHR 0x00] @ value)
                               else value))"

definition protocol_of :: "ResourceType \<Rightarrow> string" where
  "protocol_of kind = (if kind = RT_TCP_ENDPOINT then ''tcp'' else ''udp'')"

definition split_endpoint :: "string \<Rightarrow> (string \<times> string) option" where
  "split_endpoint value =
     (if startswith value ''[''
      then (if CHR '']'' \<notin> set value then None
            else Some (takeWhile (\<lambda>c. c \<noteq> CHR '']'') (tl value),
                       lstrip_by (\<lambda>c. c = CHR '':'') (tl (dropWhile (\<lambda>c. c \<noteq> CHR '']'') value))))
      else (case rpartition_char (CHR '':'') value of
              (host, separator, port) \<Rightarrow> if separator then Some (host, port) else None))"

definition normalize_endpoint :: "NormalizationPolicy \<Rightarrow> string \<Rightarrow> ResourceType \<Rightarrow> string option" where
  "normalize_endpoint policy raw kind =
     (let value = py_lower (py_strip raw);
          protocol = protocol_of kind;
          value = (if startswith value (protocol @ '':'') then drop (length protocol + 1) value else value)
      in case split_endpoint value of
           None \<Rightarrow> None
         | Some (host, port) \<Rightarrow>
             (case py_int port of
                None \<Rightarrow> None
              | Some parsed_port \<Rightarrow>
                  if \<not> (0 \<le> parsed_port \<and> parsed_port \<le> 65535) then None
                  else (case parse_ip (if host = [] then ''0.0.0.0'' else host) of
                          None \<Rightarrow> None
                        | Some address \<Rightarrow>
                            Some ((if kind = RT_TCP_ENDPOINT then ''TCP'' else ''UDP'') @ '':''
                              @ (if is_loopback address then np_loopback_alias policy else compressed address)
                              @ '':'' @ str_int parsed_port))))"

definition normalize_redis :: "string \<Rightarrow> string option" where
  "normalize_redis raw =
     (let value = py_strip raw
      in if value = [] then None
         else let (head, sep, tail) = partition_char (CHR '':'') value;
                  (db, key) = (if sep \<and> py_isdigit head then (head, tail) else (''0'', value))
              in if key = [] then None else Some (''REDIS:'' @ db @ '':'' @ key))"

text \<open>\<^verbatim>\<open>split()[0]\<close> raises \<^verbatim>\<open>IndexError\<close> when there is no word before the first NUL.\<close>

definition normalize_process :: "string \<Rightarrow> string option result" where
  "normalize_process raw =
     (let value = py_strip raw
      in if value = [] then Inr None
         else let word = takeWhile (\<lambda>c. \<not> is_space c)
                    (dropWhile is_space (takeWhile (\<lambda>c. c \<noteq> CHR 0x00) value))
              in if word = [] then Inl IndexError
                 else let executable = basename word
                      in Inr (if executable = [] then None else Some (''EXEC:'' @ executable)))"

definition normalize_identifier ::
  "NormalizationPolicy \<Rightarrow> ResourceType \<Rightarrow> string \<Rightarrow> Operation \<Rightarrow> string option result" where
  "normalize_identifier policy kind raw operation =
     (if kind \<in> {RT_FILE, RT_DIRECTORY, RT_FILE_LOCK, RT_UNIX_SOCKET, RT_DATABASE_RESOURCE}
      then Inr (normalize_path policy raw operation)
      else if kind \<in> {RT_TCP_ENDPOINT, RT_UDP_ENDPOINT} then Inr (normalize_endpoint policy raw kind)
      else if kind = RT_REDIS_KEY then Inr (normalize_redis raw)
      else if kind = RT_PROCESS then normalize_process raw
      else let value = py_strip raw in Inr (if value \<noteq> [] then Some value else None))"

definition normalize_event :: "NormalizationPolicy \<Rightarrow> TraceEvent \<Rightarrow> TraceEvent option result" where
  "normalize_event policy event =
     bind_result
       (normalize_identifier policy (ev_resource_type event) (ev_resource_identifier event) (ev_operation event))
       (\<lambda>ident. Inr (case ident of None \<Rightarrow> None
          | Some i \<Rightarrow> Some (event\<lparr>ev_resource_identifier := i\<rparr>)))"

definition identity_for :: "NormalizationPolicy \<Rightarrow> TraceEvent \<Rightarrow> ResourceIdentity" where
  "identity_for policy event =
     ResourceIdentity_create (ev_resource_type event) (ev_resource_identifier event) (np_redact_paths policy)"

definition is_mutating :: "Operation \<Rightarrow> AccessMode \<Rightarrow> bool" where
  "is_mutating operation mode \<longleftrightarrow>
     operation \<in> {OP_WRITE, OP_CREATE, OP_DELETE, OP_RENAME, OP_BIND, OP_LOCK}
     \<or> mode \<in> {AM_WRITE, AM_EXCLUSIVE}"

fun collect_normalized :: "NormalizationPolicy \<Rightarrow> TraceEvent list \<Rightarrow> TraceEvent list result" where
  "collect_normalized policy [] = Inr []"
| "collect_normalized policy (event # events) =
     bind_result (normalize_event policy event) (\<lambda>normalized.
       bind_result (collect_normalized policy events) (\<lambda>rest.
         Inr (case normalized of None \<Rightarrow> rest | Some e \<Rightarrow> e # rest)))"

definition normalize_events :: "TraceEvent list \<Rightarrow> NormalizationPolicy \<Rightarrow> TraceEvent list result" where
  "normalize_events events policy =
     bind_result (collect_normalized policy events) (\<lambda>output.
       Inr (sort_key (\<lambda>item. (ev_timestamp_ns item, ev_sequence item)) output))"

end
