(* ===== verification/Graph.thy ===== *)
theory Graph
  imports Normalize
begin

section \<open>The test-resource graph (\<^verbatim>\<open>graph.py\<close>)\<close>

text \<open>
  The bipartite graph of tests and the resources they touched, built from normalised trace
  events: aggregated accesses per edge, the candidate pairs of tests that share a resource, and
  the features of a pair. Dictionaries are insertion-ordered; the \<^verbatim>\<open>defaultdict\<close>s insert their
  default on a subscript, as \<^verbatim>\<open>test_stats\<close> does in \<^verbatim>\<open>pair_features\<close>. A missing key of a plain
  dictionary is \<^verbatim>\<open>KeyError\<close>.
\<close>

subsection \<open>Aggregated accesses\<close>

record AccessAggregate =
  ag_test_id :: string
  ag_resource :: ResourceIdentity
  ag_counts :: "(Operation, int) dict"
  ag_modes :: "AccessMode set"
  ag_first_ns :: int
  ag_last_ns :: int
  ag_sources :: "string set"
  ag_execution_ids :: "string set"

definition AccessAggregate_init :: "string \<Rightarrow> ResourceIdentity \<Rightarrow> AccessAggregate" where
  "AccessAggregate_init test_id resource =
     \<lparr>ag_test_id = test_id, ag_resource = resource, ag_counts = [], ag_modes = {},
      ag_first_ns = 0, ag_last_ns = 0, ag_sources = {}, ag_execution_ids = {}\<rparr>"

definition observe :: "AccessAggregate \<Rightarrow> TraceEvent \<Rightarrow> AccessAggregate" where
  "observe self event = self\<lparr>
     ag_counts := AList.update (ev_operation event) (dict_get (ag_counts self) (ev_operation event) 0 + 1)
       (ag_counts self),
     ag_modes := insert (ev_access_mode event) (ag_modes self),
     ag_first_ns := (if ag_first_ns self = 0 then ev_timestamp_ns event
                     else min (ag_first_ns self) (ev_timestamp_ns event)),
     ag_last_ns := max (ag_last_ns self) (ev_timestamp_ns event),
     ag_sources := insert (EventSource_value (ev_source event)) (ag_sources self),
     ag_execution_ids := insert (ev_execution_id event) (ag_execution_ids self)\<rparr>"

definition ag_total :: "AccessAggregate \<Rightarrow> int" where
  "ag_total self = (\<Sum>c\<leftarrow>map snd (ag_counts self). c)"

definition ag_mutating :: "AccessAggregate \<Rightarrow> bool" where
  "ag_mutating self \<longleftrightarrow>
     (\<exists>operation\<in>set (dict_keys (ag_counts self)). \<exists>mode\<in>ag_modes self. is_mutating operation mode)"

definition ag_active_ns :: "AccessAggregate \<Rightarrow> int" where
  "ag_active_ns self = max 0 (ag_last_ns self - ag_first_ns self)"

definition aggregate_vector :: "AccessAggregate \<Rightarrow> real list" where
  "aggregate_vector self =
     map (\<lambda>operation. real_of_int (dict_get (ag_counts self) operation 0)
            / real_of_int (max 1 (ag_total self))) Operation_members
     @ [ln (1 + real_of_int (ag_total self)), (if ag_mutating self then 1 else 0)]"

subsection \<open>The graph and its updates\<close>

record TestResourceGraph =
  gr_tests :: "(string, TestIdentity) dict"
  gr_resources :: "(string, ResourceIdentity) dict"
  gr_edges :: "(string \<times> string, AccessAggregate) dict"
  gr_test_resources :: "(string, string set) dict"
  gr_resource_tests :: "(string, string set) dict"
  gr_test_stats :: "(string, TestStats) dict"
  gr_pair_history :: "(string \<times> string, int \<times> int) dict"

definition TestResourceGraph_init :: TestResourceGraph where
  "TestResourceGraph_init = \<lparr>gr_tests = [], gr_resources = [], gr_edges = [], gr_test_resources = [],
     gr_resource_tests = [], gr_test_stats = [], gr_pair_history = []\<rparr>"

definition add_test :: "TestResourceGraph \<Rightarrow> TestIdentity \<Rightarrow> TestStats option \<Rightarrow> TestResourceGraph" where
  "add_test self test stats =
     (let self = self\<lparr>gr_tests := AList.update (ti_id test) test (gr_tests self)\<rparr>
      in case stats of None \<Rightarrow> self
         | Some s \<Rightarrow> self\<lparr>gr_test_stats := AList.update (ti_id test) s (gr_test_stats self)\<rparr>)"

text \<open>\<^verbatim>\<open>d[k].add(v)\<close> on a \<^verbatim>\<open>defaultdict(set)\<close>.\<close>

definition default_add :: "'k \<Rightarrow> 'v \<Rightarrow> ('k, 'v set) dict \<Rightarrow> ('k, 'v set) dict" where
  "default_add k v d = AList.update k (insert v (dict_get d k {})) d"

definition add_event :: "TestResourceGraph \<Rightarrow> TraceEvent \<Rightarrow> TestResourceGraph" where
  "add_event self event =
     (let resource = ResourceIdentity_create (ev_resource_type event) (ev_resource_identifier event) False;
          key = (ev_test_id event, ri_id resource);
          aggregate = (case map_of (gr_edges self) key of
                         None \<Rightarrow> AccessAggregate_init (ev_test_id event) resource | Some a \<Rightarrow> a)
      in self\<lparr>
           gr_tests := (if ev_test_id event \<in> set (dict_keys (gr_tests self)) then gr_tests self
              else AList.update (ev_test_id event)
                (TestIdentity_init (ev_test_id event) (ev_test_id event)) (gr_tests self)),
           gr_resources := AList.update (ri_id resource) resource (gr_resources self),
           gr_edges := AList.update key (observe aggregate event) (gr_edges self),
           gr_test_resources := default_add (ev_test_id event) (ri_id resource) (gr_test_resources self),
           gr_resource_tests := default_add (ri_id resource) (ev_test_id event) (gr_resource_tests self)\<rparr>)"

text \<open>\<^verbatim>\<open>self.test_stats[test_id]\<close> on a \<^verbatim>\<open>defaultdict(TestStats)\<close>: the value, and the graph with
  the default inserted.\<close>

definition stats_for :: "TestResourceGraph \<Rightarrow> string \<Rightarrow> TestStats \<times> TestResourceGraph" where
  "stats_for self test_id =
     (case map_of (gr_test_stats self) test_id of
        Some s \<Rightarrow> (s, self)
      | None \<Rightarrow> (TestStats_init,
          self\<lparr>gr_test_stats := AList.update test_id TestStats_init (gr_test_stats self)\<rparr>))"

definition refresh_one :: "TestResourceGraph \<Rightarrow> string \<Rightarrow> string set \<Rightarrow> TestResourceGraph result" where
  "refresh_one self test_id resource_ids =
     (let (stats, self) = stats_for self test_id
      in bind_result
           (map_result (\<lambda>rid. dict_index (gr_edges self) (test_id, rid)) (sorted_list_of_set resource_ids))
           (\<lambda>edges.
              let total = (\<Sum>e\<leftarrow>edges. ag_total e);
                  mutating = (\<Sum>e\<leftarrow>filter ag_mutating edges. ag_total e)
              in Inr (self\<lparr>gr_test_stats := AList.update test_id
                   (stats\<lparr>st_resource_count := int (card resource_ids),
                     st_write_ratio := (if total \<noteq> 0 then real_of_int mutating / real_of_int total else 0)\<rparr>)
                   (gr_test_stats self)\<rparr>)))"

fun refresh_all :: "TestResourceGraph \<Rightarrow> (string \<times> string set) list \<Rightarrow> TestResourceGraph result" where
  "refresh_all self [] = Inr self"
| "refresh_all self ((test_id, resource_ids) # rest) =
     bind_result (refresh_one self test_id resource_ids) (\<lambda>self. refresh_all self rest)"

definition refresh_stats :: "TestResourceGraph \<Rightarrow> TestResourceGraph result" where
  "refresh_stats self = refresh_all self (gr_test_resources self)"

definition from_events :: "TraceEvent list \<Rightarrow> TestIdentity list \<Rightarrow> TestResourceGraph result" where
  "from_events events tests =
     refresh_stats (foldl add_event (foldl (\<lambda>g t. add_test g t None) TestResourceGraph_init tests) events)"

subsection \<open>Candidate pairs\<close>

fun combinations2 :: "'a list \<Rightarrow> ('a \<times> 'a) list" where
  "combinations2 [] = []"
| "combinations2 (x # xs) = map (\<lambda>y. (x, y)) xs @ combinations2 xs"

text \<open>The body of the inner loop: the pairs emitted so far, in order.\<close>

definition emit_pair ::
  "TestResourceGraph \<Rightarrow> bool \<Rightarrow> string \<Rightarrow> (string \<times> string) list \<Rightarrow> string \<times> string
     \<Rightarrow> (string \<times> string) list result" where
  "emit_pair self include_readonly rid emitted pair =
     (let emit = (if pair \<in> set emitted then emitted else emitted @ [pair])
      in if include_readonly then Inr emit
         else bind_result (dict_index (gr_edges self) (fst pair, rid)) (\<lambda>left.
              bind_result (dict_index (gr_edges self) (snd pair, rid)) (\<lambda>right.
                if \<not> ag_mutating left \<and> \<not> ag_mutating right then Inr emitted else Inr emit)))"

fun emit_pairs ::
  "TestResourceGraph \<Rightarrow> bool \<Rightarrow> string \<Rightarrow> (string \<times> string) list \<Rightarrow> (string \<times> string) list
     \<Rightarrow> (string \<times> string) list result" where
  "emit_pairs self include_readonly rid emitted [] = Inr emitted"
| "emit_pairs self include_readonly rid emitted (pair # rest) =
     bind_result (emit_pair self include_readonly rid emitted pair)
       (\<lambda>emitted. emit_pairs self include_readonly rid emitted rest)"

fun emit_resources ::
  "TestResourceGraph \<Rightarrow> bool \<Rightarrow> (string \<times> string) list \<Rightarrow> (string \<times> string set) list
     \<Rightarrow> (string \<times> string) list result" where
  "emit_resources self include_readonly emitted [] = Inr emitted"
| "emit_resources self include_readonly emitted ((rid, test_ids) # rest) =
     (if card test_ids < 2 then emit_resources self include_readonly emitted rest
      else bind_result
             (emit_pairs self include_readonly rid emitted
                (combinations2 (sorted_list_of_set test_ids)))
             (\<lambda>emitted. emit_resources self include_readonly emitted rest))"

definition candidate_pairs :: "TestResourceGraph \<Rightarrow> bool \<Rightarrow> (string \<times> string) list result" where
  "candidate_pairs self include_readonly =
     bind_result (emit_resources self include_readonly [] (gr_resource_tests self)) (\<lambda>emitted.
       Inr (emitted @ filter (\<lambda>pair. pair \<notin> set emitted) (sort (dict_keys (gr_pair_history self)))))"

subsection \<open>Features of a pair\<close>

record evidence_entry =
  ee_resource_id :: string
  ee_resource :: string
  ee_type :: string
  ee_operations_a :: "string list"
  ee_operations_b :: "string list"
  ee_rarity :: real

record PairFeatures =
  pf_test_a :: string
  pf_test_b :: string
  pf_shared_resources :: int
  pf_shared_files :: int
  pf_shared_writes :: int
  pf_read_write :: int
  pf_write_write :: int
  pf_create_create :: int
  pf_delete_read :: int
  pf_shared_bind :: int
  pf_shared_locks :: int
  pf_shared_redis_writes :: int
  pf_shared_unix_sockets :: int
  pf_shared_databases :: int
  pf_resource_jaccard :: real
  pf_minimum_rarity :: real
  pf_mean_rarity :: real
  pf_duration_a :: real
  pf_duration_b :: real
  pf_failure_rate_a :: real
  pf_failure_rate_b :: real
  pf_historical_concurrency :: int
  pf_historical_cofailures :: int
  pf_temporal_overlap :: real
  pf_evidence :: "evidence_entry list"

definition PairFeatures_init :: "string \<Rightarrow> string \<Rightarrow> PairFeatures" where
  "PairFeatures_init a b = \<lparr>pf_test_a = a, pf_test_b = b, pf_shared_resources = 0, pf_shared_files = 0,
     pf_shared_writes = 0, pf_read_write = 0, pf_write_write = 0, pf_create_create = 0,
     pf_delete_read = 0, pf_shared_bind = 0, pf_shared_locks = 0, pf_shared_redis_writes = 0,
     pf_shared_unix_sockets = 0, pf_shared_databases = 0, pf_resource_jaccard = 0,
     pf_minimum_rarity = 0, pf_mean_rarity = 0, pf_duration_a = 1, pf_duration_b = 1,
     pf_failure_rate_a = 0, pf_failure_rate_b = 0, pf_historical_concurrency = 0,
     pf_historical_cofailures = 0, pf_temporal_overlap = 0, pf_evidence = []\<rparr>"

definition FEATURE_NAMES :: "string list" where
  "FEATURE_NAMES = [''shared_resources'', ''shared_files'', ''shared_writes'', ''read_write'',
     ''write_write'', ''create_create'', ''delete_read'', ''shared_bind'', ''shared_locks'',
     ''shared_redis_writes'', ''shared_unix_sockets'', ''shared_databases'', ''resource_jaccard'',
     ''minimum_rarity'', ''mean_rarity'', ''duration_a'', ''duration_b'', ''failure_rate_a'',
     ''failure_rate_b'', ''historical_concurrency'', ''historical_cofailures'', ''temporal_overlap'']"

definition features_vector :: "PairFeatures \<Rightarrow> real list" where
  "features_vector f = map real_of_int [pf_shared_resources f, pf_shared_files f, pf_shared_writes f,
       pf_read_write f, pf_write_write f, pf_create_create f, pf_delete_read f, pf_shared_bind f,
       pf_shared_locks f, pf_shared_redis_writes f, pf_shared_unix_sockets f, pf_shared_databases f]
     @ [pf_resource_jaccard f, pf_minimum_rarity f, pf_mean_rarity f, pf_duration_a f, pf_duration_b f,
        pf_failure_rate_a f, pf_failure_rate_b f]
     @ map real_of_int [pf_historical_concurrency f, pf_historical_cofailures f]
     @ [pf_temporal_overlap f]"

definition as_mapping :: "PairFeatures \<Rightarrow> (string, real) dict result" where
  "as_mapping f =
     (if length FEATURE_NAMES = length (features_vector f)
      then Inr (dict_of (zip FEATURE_NAMES (features_vector f))) else Inl ValueError)"

type_synonym feature_state = "PairFeatures \<times> real list \<times> real list"

definition bump :: "bool \<Rightarrow> int \<Rightarrow> int" where
  "bump b n = (if b then n + 1 else n)"

definition edge_overlap :: "AccessAggregate \<Rightarrow> AccessAggregate \<Rightarrow> real" where
  "edge_overlap left right =
     (let start = max (ag_first_ns left) (ag_first_ns right);
          end = min (ag_last_ns left) (ag_last_ns right);
          envelope = max (ag_last_ns left) (ag_last_ns right) - min (ag_first_ns left) (ag_first_ns right)
      in if envelope \<noteq> 0 then real_of_int (max 0 (end - start)) / real_of_int envelope else 0)"

definition edge_evidence ::
  "ResourceIdentity \<Rightarrow> AccessAggregate \<Rightarrow> AccessAggregate \<Rightarrow> real \<Rightarrow> evidence_entry" where
  "edge_evidence resource left right rarity =
     \<lparr>ee_resource_id = ri_id resource, ee_resource = ri_identifier resource,
      ee_type = ResourceType_value (ri_type resource),
      ee_operations_a = sort (map Operation_value (dict_keys (ag_counts left))),
      ee_operations_b = sort (map Operation_value (dict_keys (ag_counts right))),
      ee_rarity = rarity\<rparr>"

text \<open>The body of the loop over the shared resources. \<^verbatim>\<open>resource_tests\<close> is a \<^verbatim>\<open>defaultdict\<close>, so a
  missing key counts as the empty set (and would be inserted; on graphs built by the operations
  the key is present).\<close>

definition feature_edge ::
  "ResourceIdentity \<Rightarrow> nat \<Rightarrow> AccessAggregate \<Rightarrow> AccessAggregate \<Rightarrow> feature_state \<Rightarrow> feature_state" where
  "feature_edge resource users left right s =
     (let (f, rarities, overlaps) = s;
          operations_a = set (dict_keys (ag_counts left));
          operations_b = set (dict_keys (ag_counts right));
          writes_a = ag_mutating left; writes_b = ag_mutating right;
          readers_a = OP_READ \<in> operations_a; readers_b = OP_READ \<in> operations_b;
          rarity = 1 / real (max 1 users)
      in (f\<lparr>pf_shared_files := bump (ri_type resource \<in> {RT_FILE, RT_DIRECTORY}) (pf_shared_files f),
            pf_shared_writes := bump (writes_a \<or> writes_b) (pf_shared_writes f),
            pf_write_write := bump (writes_a \<and> writes_b) (pf_write_write f),
            pf_read_write := bump (writes_a \<and> readers_b \<or> writes_b \<and> readers_a) (pf_read_write f),
            pf_create_create := bump (OP_CREATE \<in> operations_a \<and> OP_CREATE \<in> operations_b) (pf_create_create f),
            pf_delete_read := bump (OP_DELETE \<in> operations_a \<and> readers_b
                \<or> OP_DELETE \<in> operations_b \<and> readers_a) (pf_delete_read f),
            pf_shared_bind := bump (OP_BIND \<in> operations_a \<and> OP_BIND \<in> operations_b) (pf_shared_bind f),
            pf_shared_locks := bump (OP_LOCK \<in> operations_a \<and> OP_LOCK \<in> operations_b) (pf_shared_locks f),
            pf_shared_redis_writes := bump (ri_type resource = RT_REDIS_KEY \<and> writes_a \<and> writes_b)
                (pf_shared_redis_writes f),
            pf_shared_unix_sockets := bump (ri_type resource = RT_UNIX_SOCKET) (pf_shared_unix_sockets f),
            pf_shared_databases := bump (ri_type resource = RT_DATABASE_RESOURCE
                \<or> endswith (ri_identifier resource) ''.db'' \<or> endswith (ri_identifier resource) ''.sqlite''
                \<or> endswith (ri_identifier resource) ''.sqlite3'') (pf_shared_databases f),
            pf_evidence := pf_evidence f @ [edge_evidence resource left right rarity]\<rparr>,
          rarities @ [rarity], overlaps @ [edge_overlap left right]))"

definition feature_step ::
  "TestResourceGraph \<Rightarrow> string \<Rightarrow> string \<Rightarrow> feature_state \<Rightarrow> string \<Rightarrow> feature_state result" where
  "feature_step self test_a test_b s rid =
     bind_result (dict_index (gr_edges self) (test_a, rid)) (\<lambda>left.
     bind_result (dict_index (gr_edges self) (test_b, rid)) (\<lambda>right.
     bind_result (dict_index (gr_resources self) rid) (\<lambda>resource.
       Inr (feature_edge resource (card (dict_get (gr_resource_tests self) rid {})) left right s))))"

fun feature_loop ::
  "TestResourceGraph \<Rightarrow> string \<Rightarrow> string \<Rightarrow> feature_state \<Rightarrow> string list \<Rightarrow> feature_state result" where
  "feature_loop self test_a test_b s [] = Inr s"
| "feature_loop self test_a test_b s (rid # rest) =
     bind_result (feature_step self test_a test_b s rid) (\<lambda>s. feature_loop self test_a test_b s rest)"

definition mean_or_zero :: "real list \<Rightarrow> real" where
  "mean_or_zero xs = (if xs = [] then 0 else sum_list xs / real (length xs))"

definition pair_features ::
  "TestResourceGraph \<Rightarrow> string \<Rightarrow> string \<Rightarrow> (PairFeatures \<times> TestResourceGraph) result" where
  "pair_features self left right =
     (let (test_a, test_b) = stable_pair left right;
          left_resources = dict_get (gr_test_resources self) test_a {};
          right_resources = dict_get (gr_test_resources self) test_b {};
          shared = sorted_list_of_set (left_resources \<inter> right_resources);
          union = left_resources \<union> right_resources;
          f = (PairFeatures_init test_a test_b)
                \<lparr>pf_shared_resources := int (length shared),
                 pf_resource_jaccard := (if union = {} then 0 else real (length shared) / real (card union))\<rparr>
      in bind_result (feature_loop self test_a test_b (f, [], []) shared) (\<lambda>(f, rarities, overlaps).
           let (stats_a, self) = stats_for self test_a;
               (stats_b, self) = stats_for self test_b;
               (concurrency, cofailures) = dict_get (gr_pair_history self) (test_a, test_b) (0, 0)
           in Inr (f\<lparr>pf_minimum_rarity := (case rarities of [] \<Rightarrow> 0 | r # rs \<Rightarrow> foldl min r rs),
                     pf_mean_rarity := mean_or_zero rarities,
                     pf_temporal_overlap := mean_or_zero overlaps,
                     pf_duration_a := st_duration_ema stats_a, pf_duration_b := st_duration_ema stats_b,
                     pf_failure_rate_a := st_failure_rate stats_a, pf_failure_rate_b := st_failure_rate stats_b,
                     pf_historical_concurrency := concurrency, pf_historical_cofailures := cofailures\<rparr>, self)))"

end
