(* ===== verification/Graph_Build.thy ===== *)
theory Graph_Build
  imports Graph
begin

section \<open>The graph as an abstraction of the event log\<close>

text \<open>
  \<open>graph_built evs g\<close> relates a graph to the log of events it was built from: it is the
  abstraction relation under which \<^verbatim>\<open>add_event\<close> is appending to the log. Every lookup in the
  graph is thereby a statement about the log, and no lookup of the later phases can fail.
\<close>

abbreviation event_resource :: "TraceEvent \<Rightarrow> ResourceIdentity" where
  "event_resource e \<equiv> ResourceIdentity_create (ev_resource_type e) (ev_resource_identifier e) False"

abbreviation event_rid :: "TraceEvent \<Rightarrow> string" where
  "event_rid e \<equiv> ri_id (event_resource e)"

definition touches :: "string \<Rightarrow> string \<Rightarrow> TraceEvent list \<Rightarrow> TraceEvent list" where
  "touches t r evs = filter (\<lambda>e. ev_test_id e = t \<and> event_rid e = r) evs"

definition aggregate_of :: "string \<Rightarrow> TraceEvent list \<Rightarrow> AccessAggregate" where
  "aggregate_of t es = foldl observe (AccessAggregate_init t (event_resource (hd es))) es"

definition resources_of :: "string \<Rightarrow> TraceEvent list \<Rightarrow> string set" where
  "resources_of t evs = event_rid ` {e \<in> set evs. ev_test_id e = t}"

definition tests_of :: "string \<Rightarrow> TraceEvent list \<Rightarrow> string set" where
  "tests_of r evs = ev_test_id ` {e \<in> set evs. event_rid e = r}"

definition graph_built :: "TraceEvent list \<Rightarrow> TestResourceGraph \<Rightarrow> bool" where
  "graph_built evs g \<longleftrightarrow>
     dict_wf (gr_tests g) \<and> dict_wf (gr_resources g) \<and> dict_wf (gr_edges g)
     \<and> dict_wf (gr_test_resources g) \<and> dict_wf (gr_resource_tests g) \<and> dict_wf (gr_test_stats g)
     \<and> (\<forall>t r. map_of (gr_edges g) (t, r) =
          (if touches t r evs = [] then None else Some (aggregate_of t (touches t r evs))))
     \<and> (\<forall>t. map_of (gr_test_resources g) t = (if resources_of t evs = {} then None else Some (resources_of t evs)))
     \<and> (\<forall>r. map_of (gr_resource_tests g) r = (if tests_of r evs = {} then None else Some (tests_of r evs)))
     \<and> (\<forall>r. map_of (gr_resources g) r = map_option event_resource (find (\<lambda>e. event_rid e = r) (rev evs)))
     \<and> ev_test_id ` set evs \<subseteq> fst ` set (gr_tests g)"

lemma graph_builtD:
  assumes "graph_built evs g"
  shows "dict_wf (gr_tests g)" and "dict_wf (gr_resources g)" and "dict_wf (gr_edges g)"
    and "dict_wf (gr_test_resources g)" and "dict_wf (gr_resource_tests g)" and "dict_wf (gr_test_stats g)"
    and "map_of (gr_edges g) (t, r) =
      (if touches t r evs = [] then None else Some (aggregate_of t (touches t r evs)))"
    and "map_of (gr_test_resources g) t = (if resources_of t evs = {} then None else Some (resources_of t evs))"
    and "map_of (gr_resource_tests g) r = (if tests_of r evs = {} then None else Some (tests_of r evs))"
    and "map_of (gr_resources g) r = map_option event_resource (find (\<lambda>e. event_rid e = r) (rev evs))"
    and "ev_test_id ` set evs \<subseteq> fst ` set (gr_tests g)"
  using assms unfolding graph_built_def by blast+

subsection \<open>Observed aggregates\<close>

lemma observe_simps [simp]:
  "ag_test_id (observe a e) = ag_test_id a" "ag_resource (observe a e) = ag_resource a"
  "ag_modes (observe a e) = insert (ev_access_mode e) (ag_modes a)"
  "ag_counts (observe a e) =
     AList.update (ev_operation e) (dict_get (ag_counts a) (ev_operation e) 0 + 1) (ag_counts a)"
  "ag_last_ns (observe a e) = max (ag_last_ns a) (ev_timestamp_ns e)"
  "ag_first_ns (observe a e) = (if ag_first_ns a = 0 then ev_timestamp_ns e
                     else min (ag_first_ns a) (ev_timestamp_ns e))"
  "ag_sources (observe a e) = insert (EventSource_value (ev_source e)) (ag_sources a)"
  "ag_execution_ids (observe a e) = insert (ev_execution_id e) (ag_execution_ids a)"
  by (simp_all add: observe_def)

lemma dict_get_update [simp]: "dict_get (AList.update k v d) x y = (if x = k then v else dict_get d x y)"
  by (simp add: dict_get_def)

lemma sum_values_update:
  "dict_wf d \<Longrightarrow> (\<Sum>c\<leftarrow>map snd (AList.update k (dict_get d k 0 + 1) d). c) = (\<Sum>c\<leftarrow>map snd d. c) + (1::int)"
proof (induction d)
  case (Cons kv d)
  then show ?case by (cases kv) (auto simp: dict_get_def)
qed (simp add: dict_get_def)

lemma total_observe: "dict_wf (ag_counts a) \<Longrightarrow> ag_total (observe a e) = ag_total a + 1"
  using sum_values_update by (simp add: ag_total_def)

lemma foldl_observe:
  "ag_test_id (foldl observe a es) = ag_test_id a" "ag_resource (foldl observe a es) = ag_resource a"
  "ag_modes (foldl observe a es) = ag_modes a \<union> ev_access_mode ` set es"
  "fst ` set (ag_counts (foldl observe a es)) = fst ` set (ag_counts a) \<union> ev_operation ` set es"
  "ag_sources (foldl observe a es) = ag_sources a \<union> (EventSource_value \<circ> ev_source) ` set es"
  "ag_execution_ids (foldl observe a es) = ag_execution_ids a \<union> ev_execution_id ` set es"
  "dict_wf (ag_counts a) \<Longrightarrow> dict_wf (ag_counts (foldl observe a es))"
  by (induction es arbitrary: a) auto

lemma foldl_observe_total:
  "dict_wf (ag_counts a) \<Longrightarrow> ag_total (foldl observe a es) = ag_total a + int (length es)"
  by (induction es arbitrary: a) (auto simp: total_observe)

lemma foldl_observe_count:
  "dict_get (ag_counts (foldl observe a es)) operation 0
     = dict_get (ag_counts a) operation 0 + int (length (filter (\<lambda>e. ev_operation e = operation) es))"
  by (induction es arbitrary: a) auto

lemma foldl_observe_last:
  "ag_last_ns (foldl observe a es) = foldl max (ag_last_ns a) (map ev_timestamp_ns es)"
  by (induction es arbitrary: a) auto

lemma AccessAggregate_init_simps [simp]:
  "ag_test_id (AccessAggregate_init t res) = t" "ag_resource (AccessAggregate_init t res) = res"
  "ag_counts (AccessAggregate_init t res) = []" "ag_modes (AccessAggregate_init t res) = {}"
  "ag_first_ns (AccessAggregate_init t res) = 0" "ag_last_ns (AccessAggregate_init t res) = 0"
  "ag_sources (AccessAggregate_init t res) = {}" "ag_execution_ids (AccessAggregate_init t res) = {}"
  "ag_total (AccessAggregate_init t res) = 0"
  by (simp_all add: AccessAggregate_init_def ag_total_def)

lemma dict_get_Nil [simp]: "dict_get [] k v = v"
  by (simp add: dict_get_def)

lemma aggregate_of_simps:
  "ag_test_id (aggregate_of t es) = t"
  "ag_resource (aggregate_of t es) = event_resource (hd es)"
  "ag_modes (aggregate_of t es) = ev_access_mode ` set es"
  "fst ` set (ag_counts (aggregate_of t es)) = ev_operation ` set es"
  "ag_sources (aggregate_of t es) = (EventSource_value \<circ> ev_source) ` set es"
  "ag_execution_ids (aggregate_of t es) = ev_execution_id ` set es"
  "dict_get (ag_counts (aggregate_of t es)) operation 0
     = int (length (filter (\<lambda>e. ev_operation e = operation) es))"
  "ag_total (aggregate_of t es) = int (length es)"
  "ag_last_ns (aggregate_of t es) = foldl max 0 (map ev_timestamp_ns es)"
  by (simp_all add: aggregate_of_def foldl_observe foldl_observe_total foldl_observe_count
      foldl_observe_last)

text \<open>An aggregate mutates its resource exactly when one of the observed events does: the
  product of operations and modes over which \<^verbatim>\<open>mutating\<close> ranges adds nothing.\<close>

lemma aggregate_of_mutating:
  "ag_mutating (aggregate_of t es) \<longleftrightarrow> (\<exists>e\<in>set es. is_mutating (ev_operation e) (ev_access_mode e))"
  by (auto simp: ag_mutating_def aggregate_of_simps is_mutating_def)

lemma foldl_observe_window:
  "\<forall>e\<in>set es. ev_timestamp_ns e \<noteq> 0 \<Longrightarrow> ag_first_ns a \<noteq> 0 \<Longrightarrow>
     ag_first_ns (foldl observe a es) = foldl min (ag_first_ns a) (map ev_timestamp_ns es)"
proof (induction es arbitrary: a)
  case (Cons e es)
  then have "ag_first_ns (observe a e) \<noteq> 0" by (auto simp: min_def)
  with Cons show ?case by simp
qed simp

lemma aggregate_of_first:
  "\<forall>e\<in>set es. ev_timestamp_ns e \<noteq> 0 \<Longrightarrow> es \<noteq> [] \<Longrightarrow>
     ag_first_ns (aggregate_of t es) = foldl min (ev_timestamp_ns (hd es)) (map ev_timestamp_ns (tl es))"
  by (cases es) (auto simp: aggregate_of_def foldl_observe_window)

lemma foldl_observe_ordered:
  "ag_first_ns a \<le> ag_last_ns a \<Longrightarrow> ag_first_ns (foldl observe a es) \<le> ag_last_ns (foldl observe a es)"
  by (induction es arbitrary: a) (auto simp: min_def max_def)

lemma aggregate_of_window: "ag_first_ns (aggregate_of t es) \<le> ag_last_ns (aggregate_of t es)"
  unfolding aggregate_of_def by (rule foldl_observe_ordered) simp

subsection \<open>\<open>add_event\<close> appends to the log\<close>

lemma touches_append: "touches t r (evs @ [e]) = touches t r evs @ (if ev_test_id e = t \<and> event_rid e = r then [e] else [])"
  by (simp add: touches_def)

lemma aggregate_of_append: "es \<noteq> [] \<Longrightarrow> aggregate_of t (es @ [e]) = observe (aggregate_of t es) e"
  by (simp add: aggregate_of_def)

lemma resources_of_append:
  "resources_of t (evs @ [e]) = (if ev_test_id e = t then insert (event_rid e) (resources_of t evs) else resources_of t evs)"
  by (auto simp: resources_of_def)

lemma tests_of_append:
  "tests_of r (evs @ [e]) = (if event_rid e = r then insert (ev_test_id e) (tests_of r evs) else tests_of r evs)"
  by (auto simp: tests_of_def)

lemma map_of_default_add:
  "map_of (default_add k v d) x = (if x = k then Some (insert v (dict_get d k {})) else map_of d x)"
  by (simp add: default_add_def)

lemma dict_wf_default_add [simp]: "dict_wf d \<Longrightarrow> dict_wf (default_add k v d)"
  by (simp add: default_add_def)

lemma add_event_simps [simp]:
  "gr_resources (add_event g e) = AList.update (event_rid e) (event_resource e) (gr_resources g)"
  "gr_test_resources (add_event g e) = default_add (ev_test_id e) (event_rid e) (gr_test_resources g)"
  "gr_resource_tests (add_event g e) = default_add (event_rid e) (ev_test_id e) (gr_resource_tests g)"
  "gr_test_stats (add_event g e) = gr_test_stats g" "gr_pair_history (add_event g e) = gr_pair_history g"
  "gr_edges (add_event g e) = AList.update (ev_test_id e, event_rid e)
     (observe (case map_of (gr_edges g) (ev_test_id e, event_rid e) of
        None \<Rightarrow> AccessAggregate_init (ev_test_id e) (event_resource e) | Some a \<Rightarrow> a) e) (gr_edges g)"
  by (simp_all add: add_event_def Let_def)

lemma add_event_tests:
  "fst ` set (gr_tests (add_event g e)) = insert (ev_test_id e) (fst ` set (gr_tests g))"
  "dict_wf (gr_tests g) \<Longrightarrow> dict_wf (gr_tests (add_event g e))"
  by (auto simp: add_event_def Let_def)

lemma add_event_built: "graph_built evs g \<Longrightarrow> graph_built (evs @ [e]) (add_event g e)"
proof -
  assume g: "graph_built evs g"
  let ?t = "ev_test_id e" and ?r = "event_rid e"
  have edges: "map_of (gr_edges (add_event g e)) (t, r) =
      (if touches t r (evs @ [e]) = [] then None else Some (aggregate_of t (touches t r (evs @ [e]))))" for t r
    using g by (auto simp: graph_built_def touches_append aggregate_of_append aggregate_of_def)
  have tr: "map_of (gr_test_resources (add_event g e)) t =
      (if resources_of t (evs @ [e]) = {} then None else Some (resources_of t (evs @ [e])))" for t
    using g by (auto simp: graph_built_def map_of_default_add resources_of_append dict_get_def)
  have rt: "map_of (gr_resource_tests (add_event g e)) r =
      (if tests_of r (evs @ [e]) = {} then None else Some (tests_of r (evs @ [e])))" for r
    using g by (auto simp: graph_built_def map_of_default_add tests_of_append dict_get_def)
  show ?thesis
    using g edges tr rt add_event_tests
    by (auto simp: graph_built_def)
qed

lemma add_events_built: "graph_built evs g \<Longrightarrow> graph_built (evs @ es) (foldl add_event g es)"
proof (induction es arbitrary: evs g)
  case (Cons e es)
  then show ?case using Cons.IH [OF add_event_built [OF Cons.prems], of e] by simp
qed simp

lemma graph_built_cong:
  assumes "graph_built evs g" and "gr_edges h = gr_edges g" and "gr_resources h = gr_resources g"
    and "gr_test_resources h = gr_test_resources g" and "gr_resource_tests h = gr_resource_tests g"
    and "dict_wf (gr_tests h)" and "fst ` set (gr_tests g) \<subseteq> fst ` set (gr_tests h)" and "dict_wf (gr_test_stats h)"
  shows "graph_built evs h"
  using assms(1) unfolding graph_built_def assms(2-5)
  using assms(6-8) by (elim conjE, intro conjI) (assumption | rule order_trans)+

lemma add_test_built: "graph_built evs g \<Longrightarrow> graph_built evs (add_test g t s)"
  by (rule graph_built_cong, assumption)
    (auto simp: graph_built_def add_test_def Let_def split: option.splits)

lemma init_built: "graph_built [] TestResourceGraph_init"
  by (simp add: graph_built_def TestResourceGraph_init_def touches_def resources_of_def tests_of_def)

lemma add_tests_built: "graph_built evs g \<Longrightarrow> graph_built evs (foldl (\<lambda>g t. add_test g t None) g tests)"
  by (induction tests arbitrary: g) (auto dest: add_test_built)

lemma add_tests_stats: "gr_test_stats (foldl (\<lambda>g t. add_test g t None) g tests) = gr_test_stats g"
  by (induction tests arbitrary: g) (auto simp: add_test_def)

lemma add_tests_history: "gr_pair_history (foldl (\<lambda>g t. add_test g t None) g tests) = gr_pair_history g"
  by (induction tests arbitrary: g) (auto simp: add_test_def)

lemma add_tests_tests: "fst ` set (gr_tests (foldl (\<lambda>g t. add_test g t None) g tests)) = fst ` set (gr_tests g) \<union> ti_id ` set tests"
  by (induction tests arbitrary: g) (auto simp: add_test_def)

lemma add_events_stats: "gr_test_stats (foldl add_event g es) = gr_test_stats g"
  by (induction es arbitrary: g) auto

lemma add_events_history: "gr_pair_history (foldl add_event g es) = gr_pair_history g"
  by (induction es arbitrary: g) auto

lemma add_events_tests: "fst ` set (gr_tests (foldl add_event g es)) = fst ` set (gr_tests g) \<union> ev_test_id ` set es"
  by (induction es arbitrary: g) (auto simp: add_event_tests)

subsection \<open>Lookups in a built graph\<close>

lemma finite_resources_of [simp]: "finite (resources_of t evs)"
  by (simp add: resources_of_def)

lemma finite_tests_of [simp]: "finite (tests_of r evs)"
  by (simp add: tests_of_def)

lemma touches_Nil_iff: "touches t r evs = [] \<longleftrightarrow> r \<notin> resources_of t evs"
  by (auto simp: touches_def resources_of_def filter_empty_conv)

lemma tests_of_iff: "t \<in> tests_of r evs \<longleftrightarrow> r \<in> resources_of t evs"
  by (auto simp: tests_of_def resources_of_def)

lemma built_edge:
  "graph_built evs g \<Longrightarrow> r \<in> resources_of t evs \<Longrightarrow>
     dict_index (gr_edges g) (t, r) = Inr (aggregate_of t (touches t r evs))"
  by (simp add: graph_built_def dict_index_def touches_Nil_iff)

lemma built_resource:
  assumes "graph_built evs g" and "r \<in> resources_of t evs"
  obtains e where "e \<in> set evs" and "event_rid e = r" and "dict_index (gr_resources g) r = Inr (event_resource e)"
proof -
  obtain e where "find (\<lambda>e. event_rid e = r) (rev evs) = Some e"
    using assms(2) by (cases "find (\<lambda>e. event_rid e = r) (rev evs)") (auto simp: find_None_iff resources_of_def)
  note e = this
  then have "map_of (gr_resources g) r = Some (event_resource e)"
    using graph_builtD(10) [OF assms(1), of r] by simp
  moreover obtain i where "i < length (rev evs)" "event_rid (rev evs ! i) = r" "e = rev evs ! i"
    using e unfolding find_Some_iff by blast
  moreover from this have "e \<in> set (rev evs)" using nth_mem by blast
  ultimately show thesis using that [of e] by (simp add: dict_index_def)
qed

lemma built_test_resources: "graph_built evs g \<Longrightarrow> dict_get (gr_test_resources g) t {} = resources_of t evs"
  by (simp add: graph_built_def dict_get_def)

lemma built_resource_tests: "graph_built evs g \<Longrightarrow> dict_get (gr_resource_tests g) r {} = tests_of r evs"
  by (simp add: graph_built_def dict_get_def)

lemma built_test_item:
  assumes "graph_built evs g" and "(t, rids) \<in> set (gr_test_resources g)"
  shows "rids = resources_of t evs \<and> rids \<noteq> {}"
proof -
  have "map_of (gr_test_resources g) t = Some rids" using assms(2) graph_builtD(4) [OF assms(1)] by simp
  then show ?thesis using graph_builtD(8) [OF assms(1), of t] by (auto split: if_splits)
qed

lemma built_resource_item:
  assumes "graph_built evs g" and "(r, ts) \<in> set (gr_resource_tests g)"
  shows "ts = tests_of r evs \<and> ts \<noteq> {}"
proof -
  have "map_of (gr_resource_tests g) r = Some ts" using assms(2) graph_builtD(5) [OF assms(1)] by simp
  then show ?thesis using graph_builtD(9) [OF assms(1), of r] by (auto split: if_splits)
qed

subsection \<open>Statistics\<close>

definition event_stats :: "string \<Rightarrow> TraceEvent list \<Rightarrow> TestStats \<Rightarrow> TestStats" where
  "event_stats t evs s =
     (let mine = filter (\<lambda>e. ev_test_id e = t) evs;
          mutated = filter (\<lambda>e. \<exists>e'\<in>set mine. event_rid e' = event_rid e
            \<and> is_mutating (ev_operation e') (ev_access_mode e')) mine
      in s\<lparr>st_resource_count := int (card (event_rid ` set mine)),
           st_write_ratio := real (length mutated) / real (length mine)\<rparr>)"

lemma sum_length_by_key:
  "finite A \<Longrightarrow> (\<Sum>a\<in>A. length (filter (\<lambda>x. P x \<and> k x = a) xs)) = length (filter (\<lambda>x. P x \<and> k x \<in> A) xs)"
proof (induction xs)
  case (Cons x xs)
  have "(\<Sum>a\<in>A. length (filter (\<lambda>x. P x \<and> k x = a) (x # xs)))
      = (\<Sum>a\<in>A. (if P x \<and> k x = a then 1 else 0) + length (filter (\<lambda>x. P x \<and> k x = a) xs))"
    by (rule sum.cong) auto
  also have "\<dots> = (if P x \<and> k x \<in> A then 1 else 0) + length (filter (\<lambda>x. P x \<and> k x \<in> A) xs)"
    using Cons by (cases "P x") (simp_all add: sum.distrib sum.delta')
  finally show ?case by simp
qed simp

lemma sum_list_sorted_set: "finite A \<Longrightarrow> sum_list (map f (sorted_list_of_set A)) = sum f A"
  for f :: "'a::linorder \<Rightarrow> 'b::comm_monoid_add"
  by (metis distinct_sorted_list_of_set set_sorted_list_of_set sum.distinct_set_conv_list)

lemma refresh_one_built:
  assumes g: "graph_built evs g" and t: "resources_of t evs \<noteq> {}"
  shows "refresh_one g t (resources_of t evs) =
    Inr (g\<lparr>gr_test_stats := AList.update t (event_stats t evs (fst (stats_for g t))) (gr_test_stats (snd (stats_for g t)))\<rparr>)"
proof -
  let ?R = "resources_of t evs" and ?agg = "\<lambda>r. aggregate_of t (touches t r evs)"
  let ?mut = "{r \<in> ?R. ag_mutating (?agg r)}"
  have s: "gr_edges (snd (stats_for g t)) = gr_edges g"
    "snd (stats_for g t)\<lparr>gr_test_stats := x\<rparr> = g\<lparr>gr_test_stats := x\<rparr>" for x
    by (auto simp: stats_for_def split: option.splits)
  have edges: "map_result (\<lambda>r. dict_index (gr_edges g) (t, r)) (sorted_list_of_set ?R)
      = Inr (map ?agg (sorted_list_of_set ?R))"
    by (rule map_result_Inr) (simp add: built_edge [OF g])
  have all: "event_rid e \<in> ?R" if "e \<in> set evs" "ev_test_id e = t" for e
    using that by (auto simp: resources_of_def)
  have "(\<Sum>e\<leftarrow>map ?agg (sorted_list_of_set ?R). ag_total e) = (\<Sum>r\<in>?R. int (length (touches t r evs)))"
    by (simp add: sum_list_sorted_set comp_def aggregate_of_simps)
  also have "\<dots> = int (length (filter (\<lambda>e. ev_test_id e = t \<and> event_rid e \<in> ?R) evs))"
    unfolding touches_def using sum_length_by_key [of ?R "\<lambda>e. ev_test_id e = t" event_rid evs] by (simp flip: of_nat_sum)
  also have "\<dots> = int (length (filter (\<lambda>e. ev_test_id e = t) evs))"
    using all by (auto intro!: arg_cong [of _ _ length] filter_cong)
  finally have total: "(\<Sum>e\<leftarrow>map ?agg (sorted_list_of_set ?R). ag_total e)
      = int (length (filter (\<lambda>e. ev_test_id e = t) evs))" .
  have "(\<Sum>e\<leftarrow>filter ag_mutating (map ?agg (sorted_list_of_set ?R)). ag_total e)
      = (\<Sum>r\<leftarrow>sorted_list_of_set ?R. if ag_mutating (?agg r) then ag_total (?agg r) else 0)"
    by (simp add: filter_map sum_list_map_filter' comp_def)
  also have "\<dots> = (\<Sum>r\<in>?mut. int (length (touches t r evs)))"
    by (simp add: sum_list_sorted_set sum.inter_filter) (simp add: aggregate_of_simps cong: if_cong)
  also have "\<dots> = int (length (filter (\<lambda>e. ev_test_id e = t \<and> event_rid e \<in> ?mut) evs))"
    unfolding touches_def [of t _ evs] using sum_length_by_key [of ?mut "\<lambda>e. ev_test_id e = t" event_rid evs]
    by (simp flip: of_nat_sum add: touches_def)
  finally have mutating: "(\<Sum>e\<leftarrow>filter ag_mutating (map ?agg (sorted_list_of_set ?R)). ag_total e)
      = int (length (filter (\<lambda>e. ev_test_id e = t \<and> event_rid e \<in> ?mut) evs))" .
  have mut: "filter (\<lambda>e. ev_test_id e = t \<and> event_rid e \<in> ?mut) evs
      = filter (\<lambda>e. \<exists>e'\<in>set (filter (\<lambda>e. ev_test_id e = t) evs). event_rid e' = event_rid e
            \<and> is_mutating (ev_operation e') (ev_access_mode e')) (filter (\<lambda>e. ev_test_id e = t) evs)"
    using all by (auto simp: aggregate_of_mutating touches_def intro!: filter_cong)
  have R: "event_rid ` set (filter (\<lambda>e. ev_test_id e = t) evs) = ?R" by (simp add: resources_of_def)
  have "filter (\<lambda>e. ev_test_id e = t) evs \<noteq> []" using t by (auto simp: resources_of_def filter_empty_conv)
  then have st: "(fst (stats_for g t))\<lparr>st_resource_count := int (card ?R),
      st_write_ratio := (if (\<Sum>e\<leftarrow>map ?agg (sorted_list_of_set ?R). ag_total e) \<noteq> 0
        then real_of_int (\<Sum>e\<leftarrow>filter ag_mutating (map ?agg (sorted_list_of_set ?R)). ag_total e)
          / real_of_int (\<Sum>e\<leftarrow>map ?agg (sorted_list_of_set ?R). ag_total e) else 0)\<rparr>
      = event_stats t evs (fst (stats_for g t))"
    unfolding event_stats_def Let_def total mutating mut R by simp
  show ?thesis
    unfolding refresh_one_def Let_def split_beta s edges bind_result.simps st ..
qed

lemma stats_for_simps [simp]:
  "gr_edges (snd (stats_for g t)) = gr_edges g" "gr_resources (snd (stats_for g t)) = gr_resources g"
  "gr_test_resources (snd (stats_for g t)) = gr_test_resources g"
  "gr_resource_tests (snd (stats_for g t)) = gr_resource_tests g"
  "gr_tests (snd (stats_for g t)) = gr_tests g" "gr_pair_history (snd (stats_for g t)) = gr_pair_history g"
  by (auto simp: stats_for_def split: option.splits)

lemma stats_for_wf [simp]: "dict_wf (gr_test_stats g) \<Longrightarrow> dict_wf (gr_test_stats (snd (stats_for g t)))"
  by (auto simp: stats_for_def split: option.splits)

lemma stats_for_other:
  "map_of (gr_test_stats (snd (stats_for g t))) x
     = (if x = t then Some (fst (stats_for g t)) else map_of (gr_test_stats g) x)"
  by (auto simp: stats_for_def split: option.splits)

lemma stats_for_update:
  "t \<noteq> x \<Longrightarrow> fst (stats_for (g\<lparr>gr_test_stats := AList.update x v (gr_test_stats (snd (stats_for g x)))\<rparr>) t)
     = fst (stats_for g t)"
  by (auto simp: stats_for_def [of _ t] stats_for_other split: option.splits)

lemma stats_update_built:
  "graph_built evs g \<Longrightarrow> dict_wf stats \<Longrightarrow> graph_built evs (g\<lparr>gr_test_stats := stats\<rparr>)"
  by (rule graph_built_cong) (auto simp: graph_builtD)

lemma refresh_all_built:
  assumes "graph_built evs g" and "\<forall>(t, rids)\<in>set items. rids = resources_of t evs \<and> rids \<noteq> {}" and "dict_wf items"
  shows "\<exists>stats. refresh_all g items = Inr (g\<lparr>gr_test_stats := stats\<rparr>) \<and> dict_wf stats
    \<and> (\<forall>t. map_of stats t = (if t \<in> fst ` set items then Some (event_stats t evs (fst (stats_for g t)))
         else map_of (gr_test_stats g) t))"
  using assms
proof (induction items arbitrary: g)
  case Nil
  then show ?case by (intro exI [of _ "gr_test_stats g"]) (auto simp: graph_builtD)
next
  case (Cons item items)
  obtain t rids where item: "item = (t, rids)" by (cases item)
  let ?stats = "AList.update t (event_stats t evs (fst (stats_for g t))) (gr_test_stats (snd (stats_for g t)))"
  let ?g = "g\<lparr>gr_test_stats := ?stats\<rparr>"
  have wf: "dict_wf ?stats" using graph_builtD(6) [OF Cons.prems(1)] by simp
  have step: "refresh_one g t rids = Inr ?g"
    using refresh_one_built [OF Cons.prems(1), of t] Cons.prems(2) item by auto
  obtain stats where r: "refresh_all ?g items = Inr (?g\<lparr>gr_test_stats := stats\<rparr>)" "dict_wf stats"
    "\<forall>x. map_of stats x = (if x \<in> fst ` set items then Some (event_stats x evs (fst (stats_for ?g x)))
         else map_of (gr_test_stats ?g) x)"
    using Cons.IH [OF stats_update_built [OF Cons.prems(1) wf]] Cons.prems(2,3) item by auto
  have "map_of stats x = (if x \<in> fst ` set (item # items) then Some (event_stats x evs (fst (stats_for g x)))
         else map_of (gr_test_stats g) x)" for x
  proof (cases "x = t")
    case True
    then show ?thesis using r(3) Cons.prems(3) item by auto
  next
    case False
    then show ?thesis using r(3) item stats_for_update [OF False] by (simp add: stats_for_other)
  qed
  then show ?case using r(1,2) step item by (intro exI [of _ stats]) simp
qed

lemma from_events_built:
  "\<exists>g. from_events evs tests = Inr g \<and> graph_built evs g \<and> gr_pair_history g = []
     \<and> fst ` set (gr_tests g) = ti_id ` set tests \<union> ev_test_id ` set evs
     \<and> (\<forall>t. map_of (gr_test_stats g) t =
          (if t \<in> ev_test_id ` set evs then Some (event_stats t evs TestStats_init) else None))"
proof -
  let ?g0 = "foldl (\<lambda>g t. add_test g t None) TestResourceGraph_init tests"
  let ?g = "foldl add_event ?g0 evs"
  have g: "graph_built evs ?g"
    using add_events_built [OF add_tests_built [OF init_built]] by simp
  have fresh: "gr_test_stats ?g = []" "gr_pair_history ?g = []"
      "fst ` set (gr_tests ?g) = ti_id ` set tests \<union> ev_test_id ` set evs"
    by (simp_all add: add_events_stats add_tests_stats add_events_history add_tests_history
        add_events_tests add_tests_tests TestResourceGraph_init_def)
  have items: "\<forall>(t, rids)\<in>set (gr_test_resources ?g). rids = resources_of t evs \<and> rids \<noteq> {}"
    using built_test_item [OF g] by blast
  have keys: "fst ` set (gr_test_resources ?g) = ev_test_id ` set evs"
  proof -
    have "t \<in> dom (map_of (gr_test_resources ?g)) \<longleftrightarrow> t \<in> ev_test_id ` set evs" for t
      unfolding domIff graph_builtD(8) [OF g] by (auto simp: resources_of_def)
    then show ?thesis unfolding dom_map_of_conv_image_fst by blast
  qed
  obtain stats where r: "refresh_all ?g (gr_test_resources ?g) = Inr (?g\<lparr>gr_test_stats := stats\<rparr>)"
      "dict_wf stats"
      "\<forall>t. map_of stats t = (if t \<in> fst ` set (gr_test_resources ?g)
         then Some (event_stats t evs (fst (stats_for ?g t))) else map_of (gr_test_stats ?g) t)"
    using refresh_all_built [OF g items graph_builtD(4) [OF g]] by blast
  have "fst (stats_for ?g t) = TestStats_init" for t by (simp add: stats_for_def fresh)
  then show ?thesis
    using r stats_update_built [OF g r(2)] fresh keys
    by (intro exI [of _ "?g\<lparr>gr_test_stats := stats\<rparr>"]) (simp add: from_events_def refresh_stats_def)
qed

end
