(* ===== verification/Graph_Pairs.thy ===== *)
theory Graph_Pairs
  imports Graph_Build
begin

section \<open>Candidate pairs and pair features\<close>

text \<open>
  On a graph built from a log, \<^verbatim>\<open>candidate_pairs\<close> and \<^verbatim>\<open>pair_features\<close> never raise, and what they
  return is a function of the log alone.
\<close>

subsection \<open>Candidate pairs\<close>

definition mutates :: "TraceEvent list \<Rightarrow> string \<Rightarrow> string \<Rightarrow> bool" where
  "mutates evs t r \<longleftrightarrow> (\<exists>e\<in>set evs. ev_test_id e = t \<and> event_rid e = r \<and> is_mutating (ev_operation e) (ev_access_mode e))"

lemma mutates_edge: "ag_mutating (aggregate_of t (touches t r evs)) \<longleftrightarrow> mutates evs t r"
  by (auto simp: aggregate_of_mutating mutates_def touches_def)

definition wanted :: "TraceEvent list \<Rightarrow> bool \<Rightarrow> string \<Rightarrow> string \<times> string \<Rightarrow> bool" where
  "wanted evs include_readonly r p \<longleftrightarrow> include_readonly \<or> mutates evs (fst p) r \<or> mutates evs (snd p) r"

lemma set_combinations2: "sorted_wrt (<) xs \<Longrightarrow> set (combinations2 xs) = {(a, b). a \<in> set xs \<and> b \<in> set xs \<and> a < b}"
  for xs :: "'a::linorder list"
  by (induction xs) auto

lemma sorted_wrt_sorted_list_of_set: "sorted_wrt (<) (sorted_list_of_set A)"
  by (simp add: strict_sorted_iff)

lemma emit_pair_built:
  assumes "graph_built evs g" and "r \<in> resources_of (fst p) evs" and "r \<in> resources_of (snd p) evs"
  shows "emit_pair g incl r emitted p =
    Inr (if wanted evs incl r p \<and> p \<notin> set emitted then emitted @ [p] else emitted)"
  by (simp add: emit_pair_def Let_def wanted_def built_edge [OF assms(1,2)] built_edge [OF assms(1,3)] mutates_edge)

lemma emit_pairs_built:
  assumes "graph_built evs g" and "distinct emitted"
    and "\<forall>p\<in>set ps. r \<in> resources_of (fst p) evs \<and> r \<in> resources_of (snd p) evs"
  shows "\<exists>out. emit_pairs g incl r emitted ps = Inr out \<and> distinct out
    \<and> set out = set emitted \<union> {p \<in> set ps. wanted evs incl r p}"
  using assms(2,3)
proof (induction ps arbitrary: emitted)
  case (Cons p ps)
  let ?e = "if wanted evs incl r p \<and> p \<notin> set emitted then emitted @ [p] else emitted"
  have d: "distinct ?e" using Cons.prems(1) by simp
  obtain out where "emit_pairs g incl r ?e ps = Inr out" "distinct out"
      "set out = set ?e \<union> {p \<in> set ps. wanted evs incl r p}"
    using Cons.IH [OF d] Cons.prems(2) by auto
  then show ?case using emit_pair_built [OF assms(1), of r p] Cons.prems(2) by (intro exI [of _ out]) auto
qed simp

lemma emit_resources_built:
  assumes "graph_built evs g" and "distinct emitted" and "\<forall>(r, ts)\<in>set items. ts = tests_of r evs"
  shows "\<exists>out. emit_resources g incl emitted items = Inr out \<and> distinct out
    \<and> set out = set emitted \<union>
        {(a, b). a < b \<and> (\<exists>r\<in>fst ` set items. a \<in> tests_of r evs \<and> b \<in> tests_of r evs \<and> wanted evs incl r (a, b))}"
  using assms(2,3)
proof (induction items arbitrary: emitted)
  case (Cons item items)
  obtain r where item: "item = (r, tests_of r evs)" using Cons.prems(2) by (cases item) auto
  let ?ps = "combinations2 (sorted_list_of_set (tests_of r evs))"
  have ps: "set ?ps = {(a, b). a \<in> tests_of r evs \<and> b \<in> tests_of r evs \<and> a < b}"
    by (simp add: set_combinations2 [OF sorted_wrt_sorted_list_of_set])
  show ?case
  proof (cases "card (tests_of r evs) < 2")
    case True
    have "a = b" if "a \<in> tests_of r evs" "b \<in> tests_of r evs" for a b
      using card_le_Suc0_iff_eq [OF finite_tests_of [of r evs]] that True by auto
    then have none: "\<not> (a \<in> tests_of r evs \<and> b \<in> tests_of r evs \<and> a < b)" for a b by fastforce
    show ?thesis using Cons.IH [OF Cons.prems(1)] Cons.prems(2) item True none by auto
  next
    case False
    have "\<forall>p\<in>set ?ps. r \<in> resources_of (fst p) evs \<and> r \<in> resources_of (snd p) evs"
      unfolding ps by (auto simp: tests_of_iff)
    from emit_pairs_built [OF assms(1) Cons.prems(1) this] obtain mid where
      mid: "emit_pairs g incl r emitted ?ps = Inr mid" "distinct mid"
        "set mid = set emitted \<union> {p \<in> set ?ps. wanted evs incl r p}" by blast
    obtain out where "emit_resources g incl mid items = Inr out" "distinct out"
        "set out = set mid \<union> {(a, b). a < b \<and> (\<exists>r\<in>fst ` set items. a \<in> tests_of r evs \<and> b \<in> tests_of r evs
           \<and> wanted evs incl r (a, b))}"
      using Cons.IH [OF mid(2)] Cons.prems(2) by auto
    then show ?thesis using mid(1,3) item False unfolding ps by (intro exI [of _ out]) auto
  qed
qed auto

lemma candidate_pairs_built:
  assumes g: "graph_built evs g" and h: "dict_wf (gr_pair_history g)"
  shows "\<exists>ps. candidate_pairs g incl = Inr ps \<and> distinct ps
    \<and> set ps = {(a, b). a < b \<and> (\<exists>r. a \<in> tests_of r evs \<and> b \<in> tests_of r evs \<and> wanted evs incl r (a, b))}
        \<union> fst ` set (gr_pair_history g)"
proof -
  have items: "\<forall>(r, ts)\<in>set (gr_resource_tests g). ts = tests_of r evs"
    using built_resource_item [OF g] by blast
  have none: "distinct ([] :: (string \<times> string) list)" by simp
  obtain out where out: "emit_resources g incl [] (gr_resource_tests g) = Inr out" "distinct out"
      "set out = {(a, b). a < b \<and> (\<exists>r\<in>fst ` set (gr_resource_tests g). a \<in> tests_of r evs \<and> b \<in> tests_of r evs
           \<and> wanted evs incl r (a, b))}"
    using emit_resources_built [OF g none items, of incl] unfolding list.set Un_empty_left by blast
  have key: "r \<in> fst ` set (gr_resource_tests g)" if "a \<in> tests_of r evs" for a r
  proof -
    have "r \<in> dom (map_of (gr_resource_tests g))" unfolding domIff graph_builtD(9) [OF g] using that by auto
    then show ?thesis unfolding dom_map_of_conv_image_fst .
  qed
  have "set out = {(a, b). a < b \<and> (\<exists>r. a \<in> tests_of r evs \<and> b \<in> tests_of r evs \<and> wanted evs incl r (a, b))}"
    unfolding out(3) using key by blast
  then show ?thesis
    using out(1,2) h by (auto simp: candidate_pairs_def intro!: exI distinct_filter)
qed

subsection \<open>Features\<close>

text \<open>Folding the loop body over resources whose edges are given by functions.\<close>

abbreviation fold_features ::
  "(string \<Rightarrow> ResourceIdentity) \<Rightarrow> (string \<Rightarrow> nat) \<Rightarrow> (string \<Rightarrow> AccessAggregate) \<Rightarrow> (string \<Rightarrow> AccessAggregate)
     \<Rightarrow> feature_state \<Rightarrow> string list \<Rightarrow> feature_state" where
  "fold_features res users l r s rids \<equiv> foldl (\<lambda>s rid. feature_edge (res rid) (users rid) (l rid) (r rid) s) s rids"

lemma feature_loop_fold:
  assumes "\<forall>rid\<in>set rids. dict_index (gr_edges g) (a, rid) = Inr (l rid)
      \<and> dict_index (gr_edges g) (b, rid) = Inr (r rid) \<and> dict_index (gr_resources g) rid = Inr (res rid)"
  shows "feature_loop g a b s rids
    = Inr (fold_features res (\<lambda>rid. card (dict_get (gr_resource_tests g) rid {})) l r s rids)"
  using assms by (induction rids arbitrary: s) (auto simp: feature_step_def)

abbreviation ops :: "AccessAggregate \<Rightarrow> Operation set" where
  "ops a \<equiv> fst ` set (ag_counts a)"

lemma feature_edge_simps:
  fixes s :: feature_state and res :: ResourceIdentity and n :: nat and l r :: AccessAggregate
  defines "f \<equiv> fst s" and "f' \<equiv> fst (feature_edge res n l r s)"
  shows "pf_test_a f' = pf_test_a f" "pf_test_b f' = pf_test_b f"
    "pf_shared_resources f' = pf_shared_resources f" "pf_resource_jaccard f' = pf_resource_jaccard f"
    "pf_shared_files f' = bump (ri_type res \<in> {RT_FILE, RT_DIRECTORY}) (pf_shared_files f)"
    "pf_shared_writes f' = bump (ag_mutating l \<or> ag_mutating r) (pf_shared_writes f)"
    "pf_write_write f' = bump (ag_mutating l \<and> ag_mutating r) (pf_write_write f)"
    "pf_read_write f' = bump (ag_mutating l \<and> OP_READ \<in> ops r \<or> ag_mutating r \<and> OP_READ \<in> ops l) (pf_read_write f)"
    "pf_create_create f' = bump (OP_CREATE \<in> ops l \<and> OP_CREATE \<in> ops r) (pf_create_create f)"
    "pf_delete_read f' = bump (OP_DELETE \<in> ops l \<and> OP_READ \<in> ops r \<or> OP_DELETE \<in> ops r \<and> OP_READ \<in> ops l) (pf_delete_read f)"
    "pf_shared_bind f' = bump (OP_BIND \<in> ops l \<and> OP_BIND \<in> ops r) (pf_shared_bind f)"
    "pf_shared_locks f' = bump (OP_LOCK \<in> ops l \<and> OP_LOCK \<in> ops r) (pf_shared_locks f)"
    "pf_shared_redis_writes f' = bump (ri_type res = RT_REDIS_KEY \<and> ag_mutating l \<and> ag_mutating r) (pf_shared_redis_writes f)"
    "pf_shared_unix_sockets f' = bump (ri_type res = RT_UNIX_SOCKET) (pf_shared_unix_sockets f)"
    "pf_evidence f' = pf_evidence f @ [edge_evidence res l r (1 / real (max 1 n))]"
    "fst (snd (feature_edge res n l r s)) = fst (snd s) @ [1 / real (max 1 n)]"
    "snd (snd (feature_edge res n l r s)) = snd (snd s) @ [edge_overlap l r]"
  unfolding f_def f'_def by (simp_all add: feature_edge_def Let_def split: prod.splits)

lemma fold_bump:
  assumes "\<And>s rid. field (step s rid) = bump (P rid) (field s)"
  shows "field (foldl step s rids) = field s + int (length (filter P rids))"
  using assms by (induction rids arbitrary: s) (auto simp: bump_def)

lemma fold_snoc:
  assumes "\<And>s rid. field (step s rid) = field s @ [h rid]"
  shows "field (foldl step s rids) = field s @ map h rids"
  using assms by (induction rids arbitrary: s) auto

lemma fold_same:
  assumes "\<And>s rid. field (step s rid) = field s"
  shows "field (foldl step s rids) = field s"
  using assms by (induction rids arbitrary: s) auto

definition sharing :: "TraceEvent list \<Rightarrow> string \<Rightarrow> string \<Rightarrow> string list" where
  "sharing evs a b = sorted_list_of_set (resources_of a evs \<inter> resources_of b evs)"

definition performs :: "TraceEvent list \<Rightarrow> string \<Rightarrow> string \<Rightarrow> Operation \<Rightarrow> bool" where
  "performs evs t r operation \<longleftrightarrow> (\<exists>e\<in>set evs. ev_test_id e = t \<and> event_rid e = r \<and> ev_operation e = operation)"

lemma performs_edge: "operation \<in> ops (aggregate_of t (touches t r evs)) \<longleftrightarrow> performs evs t r operation"
  by (auto simp: aggregate_of_simps performs_def touches_def)

lemma set_sharing [simp]: "set (sharing evs a b) = resources_of a evs \<inter> resources_of b evs"
  by (simp add: sharing_def)

abbreviation counted :: "('a \<Rightarrow> bool) \<Rightarrow> 'a list \<Rightarrow> int" where
  "counted P xs \<equiv> int (length (filter P xs))"

text \<open>What the features of a pair say of the log.\<close>

definition features_reflect :: "TraceEvent list \<Rightarrow> PairFeatures \<Rightarrow> bool" where
  "features_reflect evs f \<longleftrightarrow>
     (let a = pf_test_a f; b = pf_test_b f; shared = sharing evs a b in
      pf_shared_resources f = int (length shared)
      \<and> pf_shared_writes f = counted (\<lambda>r. mutates evs a r \<or> mutates evs b r) shared
      \<and> pf_write_write f = counted (\<lambda>r. mutates evs a r \<and> mutates evs b r) shared
      \<and> pf_read_write f = counted (\<lambda>r. mutates evs a r \<and> performs evs b r OP_READ
            \<or> mutates evs b r \<and> performs evs a r OP_READ) shared
      \<and> pf_create_create f = counted (\<lambda>r. performs evs a r OP_CREATE \<and> performs evs b r OP_CREATE) shared
      \<and> pf_delete_read f = counted (\<lambda>r. performs evs a r OP_DELETE \<and> performs evs b r OP_READ
            \<or> performs evs b r OP_DELETE \<and> performs evs a r OP_READ) shared
      \<and> pf_shared_bind f = counted (\<lambda>r. performs evs a r OP_BIND \<and> performs evs b r OP_BIND) shared
      \<and> pf_shared_locks f = counted (\<lambda>r. performs evs a r OP_LOCK \<and> performs evs b r OP_LOCK) shared
      \<and> map ee_resource_id (pf_evidence f) = shared)"

definition features_ranges :: "PairFeatures \<Rightarrow> bool" where
  "features_ranges f \<longleftrightarrow>
     0 \<le> pf_resource_jaccard f \<and> pf_resource_jaccard f \<le> 1
     \<and> 0 \<le> pf_minimum_rarity f \<and> pf_minimum_rarity f \<le> pf_mean_rarity f \<and> pf_mean_rarity f \<le> 1
     \<and> 0 \<le> pf_temporal_overlap f \<and> pf_temporal_overlap f \<le> 1
     \<and> 0 \<le> pf_write_write f \<and> pf_write_write f \<le> pf_shared_writes f
     \<and> pf_shared_writes f \<le> pf_shared_resources f
     \<and> 0 \<le> pf_shared_redis_writes f \<and> pf_shared_redis_writes f \<le> pf_write_write f
     \<and> 0 \<le> pf_shared_unix_sockets f"

lemma edge_overlap_unit:
  assumes "ag_first_ns l \<le> ag_last_ns l" and "ag_first_ns r \<le> ag_last_ns r"
  shows "0 \<le> edge_overlap l r \<and> edge_overlap l r \<le> 1"
proof -
  let ?n = "max 0 (min (ag_last_ns l) (ag_last_ns r) - max (ag_first_ns l) (ag_first_ns r))"
  let ?d = "max (ag_last_ns l) (ag_last_ns r) - min (ag_first_ns l) (ag_first_ns r)"
  have d: "0 \<le> ?d" "?n \<le> ?d" using assms by auto
  show ?thesis
  proof (cases "?d = 0")
    case False
    have "real_of_int ?n / real_of_int ?d \<le> 1"
      using d False by (subst divide_le_eq_1_pos) (simp_all only: of_int_0_less_iff of_int_le_iff)
    moreover have "0 \<le> real_of_int ?n / real_of_int ?d"
      using d by (intro divide_nonneg_nonneg) (simp_all only: of_int_0_le_iff max.cobounded1)
    ultimately show ?thesis using False unfolding edge_overlap_def Let_def by (simp only: if_True not_False_eq_True)
  qed (simp add: edge_overlap_def Let_def)
qed

lemma mean_unit: "\<forall>x\<in>set xs. 0 \<le> x \<and> x \<le> 1 \<Longrightarrow> 0 \<le> mean_or_zero xs \<and> mean_or_zero xs \<le> 1"
proof -
  assume x: "\<forall>x\<in>set xs. 0 \<le> x \<and> x \<le> 1"
  then have "sum_list xs \<le> real (length xs) \<and> 0 \<le> sum_list xs" by (induction xs) auto
  then show ?thesis by (auto simp: mean_or_zero_def divide_le_eq)
qed

lemma foldl_min_le: "y \<in> insert x (set xs) \<Longrightarrow> foldl min x xs \<le> y" for x :: real
proof (induction xs arbitrary: x y)
  case (Cons a xs)
  have "foldl min (min x a) xs \<le> min x a" by (rule Cons.IH) simp
  then show ?case using Cons.prems Cons.IH [of y "min x a"] by auto
qed simp

lemma foldl_min_ge: "c \<le> foldl min x xs" if "c \<le> x" "\<forall>y\<in>set xs. c \<le> y" for x :: real
  using that by (induction xs arbitrary: x) auto

lemma min_le_mean: "xs \<noteq> [] \<Longrightarrow> \<forall>x\<in>set xs. m \<le> x \<Longrightarrow> m \<le> mean_or_zero xs"
proof -
  assume ne: "xs \<noteq> []" and m: "\<forall>x\<in>set xs. m \<le> x"
  have "m * real (length xs) \<le> sum_list xs" using m by (induction xs) (auto simp: algebra_simps)
  then show ?thesis using ne by (simp add: mean_or_zero_def le_divide_eq)
qed

lemma length_filter_mono: "(\<And>x. P x \<Longrightarrow> Q x) \<Longrightarrow> length (filter P xs) \<le> length (filter Q xs)"
  by (induction xs) auto

lemma minimum_mean_unit:
  assumes "\<forall>x\<in>set xs. 0 \<le> x \<and> x \<le> 1"
  defines "m \<equiv> (case xs of [] \<Rightarrow> 0 | x # xs \<Rightarrow> foldl min x xs)"
  shows "0 \<le> m \<and> m \<le> mean_or_zero xs \<and> mean_or_zero xs \<le> 1"
proof (cases xs)
  case (Cons x ys)
  then have "0 \<le> m" and "\<forall>y\<in>set xs. m \<le> y"
    using assms foldl_min_le [of _ x ys] foldl_min_ge [of 0 x ys] by auto
  then show ?thesis using min_le_mean [of xs m] mean_unit [OF assms(1)] Cons by simp
qed (simp add: m_def mean_or_zero_def)

lemma sharing_built:
  assumes g: "graph_built evs g"
  obtains res where "\<forall>rid\<in>set (sharing evs a b).
        dict_index (gr_edges g) (a, rid) = Inr (aggregate_of a (touches a rid evs))
      \<and> dict_index (gr_edges g) (b, rid) = Inr (aggregate_of b (touches b rid evs))
      \<and> dict_index (gr_resources g) rid = Inr (res rid)"
    and "\<forall>rid\<in>set (sharing evs a b). ri_id (res rid) = rid"
proof -
  have "\<exists>res. dict_index (gr_resources g) rid = Inr res \<and> ri_id res = rid" if "rid \<in> set (sharing evs a b)" for rid
    using built_resource [OF g, of rid a] that by (metis IntD1 set_sharing)
  then obtain res where "\<forall>rid\<in>set (sharing evs a b). dict_index (gr_resources g) rid = Inr (res rid) \<and> ri_id (res rid) = rid"
    by metis
  then show thesis using that [of res] built_edge [OF g] by (metis IntD1 IntD2 set_sharing)
qed

definition features_stats :: "TestResourceGraph \<Rightarrow> PairFeatures \<Rightarrow> bool" where
  "features_stats g f \<longleftrightarrow>
     pf_duration_a f = st_duration_ema (fst (stats_for g (pf_test_a f)))
     \<and> pf_duration_b f = st_duration_ema (fst (stats_for g (pf_test_b f)))
     \<and> pf_failure_rate_a f = st_failure_rate (fst (stats_for g (pf_test_a f)))
     \<and> pf_failure_rate_b f = st_failure_rate (fst (stats_for g (pf_test_b f)))
     \<and> (pf_historical_concurrency f, pf_historical_cofailures f)
         = dict_get (gr_pair_history g) (pf_test_a f, pf_test_b f) (0, 0)"

lemma stats_for_stable: "fst (stats_for (snd (stats_for g a)) b) = fst (stats_for g b)"
  by (auto simp: stats_for_def split: option.splits)

lemma jaccard_unit:
  fixes A B :: "'a::linorder set"
  assumes "finite A" and "finite B"
  shows "0 \<le> (if A \<union> B = {} then 0 else real (length (sorted_list_of_set (A \<inter> B))) / real (card (A \<union> B)))
    \<and> (if A \<union> B = {} then 0 else real (length (sorted_list_of_set (A \<inter> B))) / real (card (A \<union> B))) \<le> 1"
proof -
  have "card (A \<inter> B) \<le> card (A \<union> B)" using assms by (intro card_mono) auto
  then show ?thesis using assms by (auto simp: divide_le_eq_1)
qed

lemma features_folded:
  fixes evs :: "TraceEvent list" and a b :: string and res :: "string \<Rightarrow> ResourceIdentity"
    and users :: "string \<Rightarrow> nat" and j :: real
  assumes "\<forall>rid\<in>set (sharing evs a b). ri_id (res rid) = rid"
  defines "l \<equiv> \<lambda>rid. aggregate_of a (touches a rid evs)" and "r \<equiv> \<lambda>rid. aggregate_of b (touches b rid evs)"
  defines "s \<equiv> fold_features res users l r
      ((PairFeatures_init a b)\<lparr>pf_shared_resources := int (length (sharing evs a b)), pf_resource_jaccard := j\<rparr>, [], [])
      (sharing evs a b)"
  shows "pf_test_a (fst s) = a" and "pf_test_b (fst s) = b" and "features_reflect evs (fst s)"
    and "pf_resource_jaccard (fst s) = j"
    and "0 \<le> pf_shared_redis_writes (fst s) \<and> pf_shared_redis_writes (fst s) \<le> pf_write_write (fst s)
      \<and> 0 \<le> pf_shared_unix_sockets (fst s)"
    and "fst (snd s) = map (\<lambda>rid. 1 / real (max 1 (users rid))) (sharing evs a b)"
    and "snd (snd s) = map (\<lambda>rid. edge_overlap (l rid) (r rid)) (sharing evs a b)"
proof -
  note fs = feature_edge_simps
  note counts = fold_bump [where step = "\<lambda>s rid. feature_edge (res rid) (users rid) (l rid) (r rid) s"]
  note snocs = fold_snoc [where step = "\<lambda>s rid. feature_edge (res rid) (users rid) (l rid) (r rid) s"]
  note sames = fold_same [where step = "\<lambda>s rid. feature_edge (res rid) (users rid) (l rid) (r rid) s"]
  show a: "pf_test_a (fst s) = a" and b: "pf_test_b (fst s) = b" and "pf_resource_jaccard (fst s) = j"
    unfolding s_def by (subst sames [where field = "\<lambda>s. pf_test_a (fst s)", OF fs(1)]
        sames [where field = "\<lambda>s. pf_test_b (fst s)", OF fs(2)]
        sames [where field = "\<lambda>s. pf_resource_jaccard (fst s)", OF fs(4)], simp add: PairFeatures_init_def)+
  have n: "pf_shared_resources (fst s) = int (length (sharing evs a b))"
    unfolding s_def by (subst sames [where field = "\<lambda>s. pf_shared_resources (fst s)", OF fs(3)]) simp
  have ww: "pf_write_write (fst s) = counted (\<lambda>rid. ag_mutating (l rid) \<and> ag_mutating (r rid)) (sharing evs a b)"
    unfolding s_def by (subst counts [where field = "\<lambda>s. pf_write_write (fst s)", OF fs(7)]) (simp add: PairFeatures_init_def)
  have redis: "pf_shared_redis_writes (fst s)
      = counted (\<lambda>rid. ri_type (res rid) = RT_REDIS_KEY \<and> ag_mutating (l rid) \<and> ag_mutating (r rid)) (sharing evs a b)"
    unfolding s_def by (subst counts [where field = "\<lambda>s. pf_shared_redis_writes (fst s)", OF fs(13)]) (simp add: PairFeatures_init_def)
  have unix: "pf_shared_unix_sockets (fst s) = counted (\<lambda>rid. ri_type (res rid) = RT_UNIX_SOCKET) (sharing evs a b)"
    unfolding s_def by (subst counts [where field = "\<lambda>s. pf_shared_unix_sockets (fst s)", OF fs(14)]) (simp add: PairFeatures_init_def)
  have "length (filter (\<lambda>rid. ri_type (res rid) = RT_REDIS_KEY \<and> ag_mutating (l rid) \<and> ag_mutating (r rid)) (sharing evs a b))
      \<le> length (filter (\<lambda>rid. ag_mutating (l rid) \<and> ag_mutating (r rid)) (sharing evs a b))"
    by (rule length_filter_mono) blast
  then show "0 \<le> pf_shared_redis_writes (fst s) \<and> pf_shared_redis_writes (fst s) \<le> pf_write_write (fst s)
      \<and> 0 \<le> pf_shared_unix_sockets (fst s)"
    unfolding ww redis unix by simp
  show "fst (snd s) = map (\<lambda>rid. 1 / real (max 1 (users rid))) (sharing evs a b)"
    unfolding s_def by (subst snocs [where field = "\<lambda>s. fst (snd s)", OF fs(16)]) simp
  show "snd (snd s) = map (\<lambda>rid. edge_overlap (l rid) (r rid)) (sharing evs a b)"
    unfolding s_def by (subst snocs [where field = "\<lambda>s. snd (snd s)", OF fs(17)]) simp
  have "pf_evidence (fst s) = map (\<lambda>rid. edge_evidence (res rid) (l rid) (r rid) (1 / real (max 1 (users rid)))) (sharing evs a b)"
    unfolding s_def by (subst snocs [where field = "\<lambda>s. pf_evidence (fst s)", OF fs(15)]) (simp add: PairFeatures_init_def)
  then have ev: "map ee_resource_id (pf_evidence (fst s)) = sharing evs a b"
    using assms(1) by (auto simp: edge_evidence_def comp_def intro!: map_idI)
  have "pf_shared_writes (fst s) = counted (\<lambda>rid. ag_mutating (l rid) \<or> ag_mutating (r rid)) (sharing evs a b)"
    "pf_read_write (fst s) = counted (\<lambda>rid. ag_mutating (l rid) \<and> OP_READ \<in> ops (r rid)
       \<or> ag_mutating (r rid) \<and> OP_READ \<in> ops (l rid)) (sharing evs a b)"
    "pf_create_create (fst s) = counted (\<lambda>rid. OP_CREATE \<in> ops (l rid) \<and> OP_CREATE \<in> ops (r rid)) (sharing evs a b)"
    "pf_delete_read (fst s) = counted (\<lambda>rid. OP_DELETE \<in> ops (l rid) \<and> OP_READ \<in> ops (r rid)
       \<or> OP_DELETE \<in> ops (r rid) \<and> OP_READ \<in> ops (l rid)) (sharing evs a b)"
    "pf_shared_bind (fst s) = counted (\<lambda>rid. OP_BIND \<in> ops (l rid) \<and> OP_BIND \<in> ops (r rid)) (sharing evs a b)"
    "pf_shared_locks (fst s) = counted (\<lambda>rid. OP_LOCK \<in> ops (l rid) \<and> OP_LOCK \<in> ops (r rid)) (sharing evs a b)"
    unfolding s_def
    by (subst counts [where field = "\<lambda>s. pf_shared_writes (fst s)", OF fs(6)]
        counts [where field = "\<lambda>s. pf_read_write (fst s)", OF fs(8)]
        counts [where field = "\<lambda>s. pf_create_create (fst s)", OF fs(9)]
        counts [where field = "\<lambda>s. pf_delete_read (fst s)", OF fs(10)]
        counts [where field = "\<lambda>s. pf_shared_bind (fst s)", OF fs(11)]
        counts [where field = "\<lambda>s. pf_shared_locks (fst s)", OF fs(12)], simp add: PairFeatures_init_def)+
  then show "features_reflect evs (fst s)"
    using n ww ev a b by (simp add: features_reflect_def Let_def mutates_edge performs_edge l_def r_def)
qed

lemma pair_features_built:
  assumes g: "graph_built evs g"
  shows "\<exists>f. pair_features g x y = Inr (f, snd (stats_for (snd (stats_for g (fst (stable_pair x y)))) (snd (stable_pair x y))))
    \<and> (pf_test_a f, pf_test_b f) = stable_pair x y
    \<and> features_reflect evs f \<and> features_ranges f \<and> features_stats g f"
proof -
  obtain a b where ab: "stable_pair x y = (a, b)" by (cases "stable_pair x y")
  let ?A = "resources_of a evs" and ?B = "resources_of b evs"
  let ?j = "if ?A \<union> ?B = {} then 0 else real (length (sharing evs a b)) / real (card (?A \<union> ?B))"
  let ?l = "\<lambda>rid. aggregate_of a (touches a rid evs)" and ?r = "\<lambda>rid. aggregate_of b (touches b rid evs)"
  let ?users = "\<lambda>rid. card (dict_get (gr_resource_tests g) rid {})"
  let ?f0 = "(PairFeatures_init a b)\<lparr>pf_shared_resources := int (length (sharing evs a b)), pf_resource_jaccard := ?j\<rparr>"
  obtain res where res: "\<forall>rid\<in>set (sharing evs a b).
        dict_index (gr_edges g) (a, rid) = Inr (?l rid) \<and> dict_index (gr_edges g) (b, rid) = Inr (?r rid)
      \<and> dict_index (gr_resources g) rid = Inr (res rid)" "\<forall>rid\<in>set (sharing evs a b). ri_id (res rid) = rid"
    by (rule sharing_built [OF g])
  let ?s = "fold_features res ?users ?l ?r (?f0, [], []) (sharing evs a b)"
  note loop = feature_loop_fold [OF res(1), of "(?f0, [], [])"]
  note folded = features_folded [OF res(2), of ?users ?j]
  let ?h = "dict_get (gr_pair_history g) (a, b) (0, 0)"
  let ?f = "(fst ?s)\<lparr>pf_minimum_rarity := (case fst (snd ?s) of [] \<Rightarrow> 0 | r # rs \<Rightarrow> foldl min r rs),
      pf_mean_rarity := mean_or_zero (fst (snd ?s)), pf_temporal_overlap := mean_or_zero (snd (snd ?s)),
      pf_duration_a := st_duration_ema (fst (stats_for g a)), pf_duration_b := st_duration_ema (fst (stats_for g b)),
      pf_failure_rate_a := st_failure_rate (fst (stats_for g a)), pf_failure_rate_b := st_failure_rate (fst (stats_for g b)),
      pf_historical_concurrency := fst ?h, pf_historical_cofailures := snd ?h\<rparr>"
  have "pair_features g x y = Inr (?f, snd (stats_for (snd (stats_for g a)) b))"
    unfolding pair_features_def ab Let_def split_beta built_test_resources [OF g] sharing_def [symmetric]
      fst_conv snd_conv loop bind_result.simps stats_for_stable stats_for_simps ..
  moreover have "features_reflect evs ?f" using folded(3) by (simp add: features_reflect_def Let_def)
  moreover have "features_stats g ?f" using folded(1,2) by (simp add: features_stats_def)
  moreover have "features_ranges ?f"
  proof -
    have "\<forall>v\<in>set (fst (snd ?s)). 0 \<le> v \<and> v \<le> 1" unfolding folded(6) by (auto simp: divide_le_eq_1)
    note rarity = minimum_mean_unit [OF this]
    have "\<forall>v\<in>set (snd (snd ?s)). 0 \<le> v \<and> v \<le> 1"
      unfolding folded(7) using edge_overlap_unit [OF aggregate_of_window aggregate_of_window] by auto
    note overlap = mean_unit [OF this]
    have j: "0 \<le> ?j \<and> ?j \<le> 1" unfolding sharing_def by (rule jaccard_unit) simp_all
    have "pf_write_write (fst ?s) \<le> pf_shared_writes (fst ?s)" "pf_shared_writes (fst ?s) \<le> pf_shared_resources (fst ?s)"
      "0 \<le> pf_write_write (fst ?s)"
      using folded(3) by (auto simp: features_reflect_def Let_def intro: length_filter_mono length_filter_le)
    then show ?thesis using rarity overlap j folded(4,5) by (simp add: features_ranges_def)
  qed
  ultimately show ?thesis using ab folded(1,2) by (intro exI [of _ ?f]) simp
qed

end
