(* ===== verification/Heuristic.thy ===== *)
theory Heuristic
  imports Graph_Pairs
begin

section \<open>The heuristic predictor (\<^verbatim>\<open>graph.py\<close>)\<close>

text \<open>
  \<^verbatim>\<open>HeuristicPredictor\<close>: a noisy-or of weighted signals with a cause and an explanation, the
  cold-start fallback of the learned model. The time stamp of a prediction is an argument.
\<close>

subsection \<open>Operations\<close>

type_synonym signal = "int \<times> real \<times> ConflictCause \<times> string"

definition heuristic_signals :: "PairFeatures \<Rightarrow> signal list" where
  "heuristic_signals f =
     [(pf_shared_bind f, 0.995, CC_PORT_COLLISION, ''both bind the same endpoint''),
      (pf_create_create f, 0.97, CC_FILE_COLLISION, ''both create the same resource''),
      (pf_shared_locks f, 0.92, CC_DATABASE_LOCK, ''both lock the same resource''),
      (pf_shared_unix_sockets f, 0.94, CC_UNIX_SOCKET_COLLISION, ''share a Unix socket''),
      (pf_shared_redis_writes f, 0.90, CC_SHARED_STATE, ''mutate the same Redis key''),
      (pf_delete_read f, 0.88, CC_FILE_COLLISION, ''one deletes a resource read by the other''),
      (pf_write_write f, 0.82, CC_FILE_COLLISION, ''both mutate the same resource''),
      (pf_read_write f, 0.65, CC_FILE_COLLISION, ''one reads a resource mutated by the other'')]"

fun add_signal :: "real \<times> ConflictCause \<times> string list \<Rightarrow> signal \<Rightarrow> real \<times> ConflictCause \<times> string list" where
  "add_signal (probability, cause, reasons) (occurrences, weight, candidate_cause, reason) =
     (if occurrences \<noteq> 0
      then (1 - (1 - probability) * ((1 - weight) powi occurrences),
            (if cause = CC_UNKNOWN \<or> 0.9 < weight then candidate_cause else cause),
            reasons @ [str_int occurrences @ ''x '' @ reason])
      else (probability, cause, reasons))"

definition historical_rate :: "PairFeatures \<Rightarrow> real" where
  "historical_rate f =
     (if pf_historical_concurrency f \<noteq> 0
      then real_of_int (pf_historical_cofailures f) / real_of_int (pf_historical_concurrency f) else 0)"

definition score :: "real \<Rightarrow> int \<Rightarrow> PairFeatures \<Rightarrow> PairPrediction" where
  "score base now f =
     (let (probability, cause, reasons) = foldl add_signal (base, CC_UNKNOWN, []) (heuristic_signals f);
          (probability, reasons) =
            (if pf_shared_resources f \<noteq> 0 \<and> reasons = []
             then (min 0.02 (base + 0.001 * real_of_int (pf_shared_resources f) * pf_mean_rarity f),
                   reasons @ [str_int (pf_shared_resources f) @ '' shared read-only resource(s)''])
             else (probability, reasons));
          (probability, reasons) =
            (if historical_rate f \<noteq> 0
             then (1 - (1 - probability) * (1 - min 0.8 (historical_rate f)),
                   reasons @ [''historical concurrent co-failure rate '' @ fmt_percent1 (historical_rate f)])
             else (probability, reasons));
          resources = map ee_resource (take 8 (pf_evidence f));
          explanation = (if reasons \<noteq> [] then join_with ''; '' reasons
                         else ''no meaningful shared mutable resource'')
      in PairPrediction_init (pf_test_a f) (pf_test_b f) probability cause ''heuristic-v1''
           resources explanation now)"

fun predict_pairs ::
  "real \<Rightarrow> (nat \<Rightarrow> int) \<Rightarrow> nat \<Rightarrow> TestResourceGraph \<Rightarrow> (string \<times> string) list
     \<Rightarrow> (PairPrediction list \<times> TestResourceGraph) result" where
  "predict_pairs base now k g [] = Inr ([], g)"
| "predict_pairs base now k g ((a, b) # pairs) =
     bind_result (pair_features g a b) (\<lambda>(f, g).
       bind_result (predict_pairs base now (k + 1) g pairs) (\<lambda>(ps, g).
         Inr (score base (now k) f # ps, g)))"

definition predict_graph ::
  "real \<Rightarrow> (nat \<Rightarrow> int) \<Rightarrow> TestResourceGraph \<Rightarrow> bool \<Rightarrow> (PairPrediction list \<times> TestResourceGraph) result" where
  "predict_graph base now g include_readonly =
     bind_result (candidate_pairs g include_readonly) (predict_pairs base now 0 g)"

subsection \<open>The noisy-or\<close>

abbreviation signal_factor :: "signal \<Rightarrow> real" where
  "signal_factor s \<equiv> (1 - fst (snd s)) powi fst s"

lemma fold_signals_probability:
  "fst (foldl add_signal st sigs) = 1 - (1 - fst st) * (\<Prod>s\<leftarrow>sigs. signal_factor s)"
proof (induction sigs arbitrary: st)
  case (Cons s sigs)
  obtain p c rs where st: "st = (p, c, rs)" by (cases st)
  obtain n w cc r where s: "s = (n, w, cc, r)" by (cases s)
  show ?case using Cons.IH [of "add_signal st s"] by (simp add: st s)
qed simp

lemma fold_signals_reasons:
  "snd (snd (foldl add_signal st sigs)) = snd (snd st)
     @ map (\<lambda>(n, w, cc, r). str_int n @ ''x '' @ r) (filter (\<lambda>s. fst s \<noteq> 0) sigs)"
proof (induction sigs arbitrary: st)
  case (Cons s sigs)
  obtain p c rs where st: "st = (p, c, rs)" by (cases st)
  obtain n w cc r where s: "s = (n, w, cc, r)" by (cases s)
  show ?case using Cons.IH [of "add_signal st s"] by (simp add: st s)
qed simp

definition signal_cause :: "ConflictCause \<Rightarrow> signal list \<Rightarrow> ConflictCause" where
  "signal_cause c sigs =
     (let seen = filter (\<lambda>s. fst s \<noteq> 0) sigs; strong = filter (\<lambda>s. 0.9 < fst (snd s)) seen
      in if strong \<noteq> [] then fst (snd (snd (last strong)))
         else if c = CC_UNKNOWN \<and> seen \<noteq> [] then fst (snd (snd (hd seen))) else c)"

lemma fold_signals_cause:
  "\<forall>s\<in>set sigs. fst (snd (snd s)) \<noteq> CC_UNKNOWN \<Longrightarrow>
     fst (snd (foldl add_signal st sigs)) = signal_cause (fst (snd st)) sigs"
proof (induction sigs arbitrary: st)
  case (Cons s sigs)
  obtain p c rs where st: "st = (p, c, rs)" by (cases st)
  obtain n w cc r where s: "s = (n, w, cc, r)" by (cases s)
  show ?case using Cons.IH [of "add_signal st s"] Cons.prems by (auto simp: st s signal_cause_def Let_def simp del: filter_filter)
qed (simp add: signal_cause_def)

definition signal_probability :: "real \<Rightarrow> PairFeatures \<Rightarrow> real" where
  "signal_probability base f = 1 - (1 - base) * (\<Prod>s\<leftarrow>heuristic_signals f. signal_factor s)"

definition shows_signal :: "PairFeatures \<Rightarrow> bool" where
  "shows_signal f \<longleftrightarrow> (\<exists>s\<in>set (heuristic_signals f). fst s \<noteq> 0)"

definition shared_probability :: "real \<Rightarrow> PairFeatures \<Rightarrow> real" where
  "shared_probability base f =
     (if pf_shared_resources f \<noteq> 0 \<and> \<not> shows_signal f
      then min 0.02 (base + 0.001 * real_of_int (pf_shared_resources f) * pf_mean_rarity f)
      else signal_probability base f)"

lemma score_simps:
  "pp_probability (score base now f) =
     max 0 (min 1 (if historical_rate f = 0 then shared_probability base f
       else 1 - (1 - shared_probability base f) * (1 - min 0.8 (historical_rate f))))"
  "pp_cause (score base now f) = signal_cause CC_UNKNOWN (heuristic_signals f)"
  "PairPrediction_key (score base now f) = stable_pair (pf_test_a f) (pf_test_b f)"
  "pp_shared_resources (score base now f) = map ee_resource (take 8 (pf_evidence f))"
proof -
  let ?st = "foldl add_signal (base, CC_UNKNOWN, []) (heuristic_signals f)"
  obtain p c rs where st: "?st = (p, c, rs)" by (cases ?st)
  have p: "p = signal_probability base f"
    using fold_signals_probability [of "(base, CC_UNKNOWN, [])" "heuristic_signals f"]
    unfolding st by (simp add: signal_probability_def)
  have c: "c = signal_cause CC_UNKNOWN (heuristic_signals f)"
    using fold_signals_cause [of "heuristic_signals f" "(base, CC_UNKNOWN, [])"]
    unfolding st by (simp add: heuristic_signals_def)
  have rs: "rs = [] \<longleftrightarrow> \<not> shows_signal f"
    using fold_signals_reasons [of "(base, CC_UNKNOWN, [])" "heuristic_signals f"]
    unfolding st shows_signal_def by (auto simp: filter_empty_conv)
  show "pp_probability (score base now f) =
     max 0 (min 1 (if historical_rate f = 0 then shared_probability base f
       else 1 - (1 - shared_probability base f) * (1 - min 0.8 (historical_rate f))))"
    unfolding score_def st using p rs by (auto simp: Let_def shared_probability_def)
  show "pp_cause (score base now f) = signal_cause CC_UNKNOWN (heuristic_signals f)"
    unfolding score_def st using c by (auto simp: Let_def PairPrediction_init_def split: prod.splits)
  show "PairPrediction_key (score base now f) = stable_pair (pf_test_a f) (pf_test_b f)"
    unfolding score_def st by (auto simp: Let_def PairPrediction_init_key)
  show "pp_shared_resources (score base now f) = map ee_resource (take 8 (pf_evidence f))"
    unfolding score_def st by (auto simp: Let_def PairPrediction_init_def split: prod.splits)
qed

subsection \<open>Bounds\<close>

definition counts_ok :: "PairFeatures \<Rightarrow> bool" where
  "counts_ok f \<longleftrightarrow> (\<forall>s\<in>set (heuristic_signals f). 0 \<le> fst s)"

lemma signal_weight: "s \<in> set (heuristic_signals f) \<Longrightarrow> 0.65 \<le> fst (snd s) \<and> fst (snd s) < 1"
  by (auto simp: heuristic_signals_def)

lemma powi_unit: "0 \<le> x \<Longrightarrow> x \<le> 1 \<Longrightarrow> 0 \<le> n \<Longrightarrow> 0 \<le> x powi n \<and> x powi n \<le> 1" for x :: real
  by (auto simp: power_int_def power_le_one)

lemma powi_le_base: "0 \<le> x \<Longrightarrow> x \<le> 1 \<Longrightarrow> 0 < n \<Longrightarrow> x powi n \<le> x" for x :: real
  using power_decreasing [of 1 "nat n" x] by (simp add: power_int_def)

lemma signal_factor_unit:
  assumes "counts_ok f" and "s \<in> set (heuristic_signals f)"
  shows "0 \<le> signal_factor s \<and> signal_factor s \<le> 1"
  using assms signal_weight [OF assms(2)] by (intro powi_unit) (auto simp: counts_ok_def)

lemma factors_unit:
  "counts_ok f \<Longrightarrow> 0 \<le> (\<Prod>s\<leftarrow>heuristic_signals f. signal_factor s) \<and> (\<Prod>s\<leftarrow>heuristic_signals f. signal_factor s) \<le> 1"
  using signal_factor_unit by (intro prod_list_unit_interval) auto

lemma prod_list_le_factor:
  "\<forall>x\<in>set xs. 0 \<le> g x \<and> g x \<le> 1 \<Longrightarrow> y \<in> set xs \<Longrightarrow> (\<Prod>x\<leftarrow>xs. g x) \<le> g y" for g :: "'a \<Rightarrow> real"
proof (induction xs)
  case (Cons x xs)
  have P: "0 \<le> (\<Prod>x\<leftarrow>xs. g x) \<and> (\<Prod>x\<leftarrow>xs. g x) \<le> 1"
    using Cons.prems(1) by (intro prod_list_unit_interval) auto
  show ?case
  proof (cases "y = x")
    case True
    then show ?thesis using P Cons.prems(1) by (simp add: mult_left_le)
  next
    case False
    then have "(\<Prod>x\<leftarrow>xs. g x) \<le> g y" using Cons by simp
    moreover have "g x * (\<Prod>x\<leftarrow>xs. g x) \<le> (\<Prod>x\<leftarrow>xs. g x)"
      using P Cons.prems(1) by (simp add: mult_left_le_one_le)
    ultimately show ?thesis by simp
  qed
qed simp

lemma signal_probability_bounds:
  assumes "counts_ok f" and "0 \<le> base" and "base \<le> 1"
  shows "base \<le> signal_probability base f \<and> signal_probability base f \<le> 1"
  using factors_unit [OF assms(1)] assms(2,3)
    mult_left_le [of "\<Prod>s\<leftarrow>heuristic_signals f. signal_factor s" "1 - base"]
    mult_nonneg_nonneg [of "1 - base" "\<Prod>s\<leftarrow>heuristic_signals f. signal_factor s"]
  by (auto simp: signal_probability_def)

lemma signal_probability_weight:
  assumes ok: "counts_ok f" and base: "0 \<le> base" "base \<le> 1"
    and s: "s \<in> set (heuristic_signals f)" "fst s \<noteq> 0"
  shows "fst (snd s) \<le> signal_probability base f"
proof -
  let ?P = "\<Prod>s\<leftarrow>heuristic_signals f. signal_factor s"
  have "?P \<le> signal_factor s"
    using signal_factor_unit [OF ok] s(1) by (intro prod_list_le_factor) auto
  also have "\<dots> \<le> 1 - fst (snd s)"
    using signal_weight [OF s(1)] ok s by (intro powi_le_base) (auto simp: counts_ok_def order_le_less)
  finally have "?P \<le> 1 - fst (snd s)" .
  moreover have "(1 - base) * ?P \<le> ?P" using base factors_unit [OF ok] by (simp add: mult_left_le_one_le)
  ultimately show ?thesis by (simp add: signal_probability_def)
qed

lemma history_raises:
  fixes p rate :: real
  assumes "p \<le> 1" and "0 \<le> rate"
  shows "p \<le> 1 - (1 - p) * (1 - min 0.8 rate)" and "1 - (1 - p) * (1 - min 0.8 rate) \<le> 1"
proof -
  have "0 \<le> 1 - min 0.8 rate" "1 - min 0.8 rate \<le> 1" using assms by auto
  then show "p \<le> 1 - (1 - p) * (1 - min 0.8 rate)" "1 - (1 - p) * (1 - min 0.8 rate) \<le> 1"
    using assms mult_left_le [of "1 - min 0.8 rate" "1 - p"] mult_nonneg_nonneg [of "1 - p" "1 - min 0.8 rate"]
    by linarith+
qed

lemma score_ge_shared:
  assumes "shared_probability base f \<le> 1" and "0 \<le> historical_rate f"
  shows "shared_probability base f \<le> pp_probability (score base now f)"
  unfolding score_simps using assms history_raises [OF assms] by (auto simp: max_def min_def)

lemma shared_probability_le_one:
  assumes "counts_ok f" and "0 \<le> base" and "base \<le> 1"
  shows "shared_probability base f \<le> 1"
proof -
  have "min 0.02 x \<le> (1 :: real)" for x by (rule min.coboundedI1) simp
  then show ?thesis using signal_probability_bounds [OF assms] by (auto simp: shared_probability_def)
qed

lemma score_ge_weight:
  assumes "counts_ok f" and "0 \<le> base" and "base \<le> 1" and "0 \<le> historical_rate f"
    and "s \<in> set (heuristic_signals f)" and "fst s \<noteq> 0"
  shows "fst (snd s) \<le> pp_probability (score base now f)"
proof -
  have "shared_probability base f = signal_probability base f"
    using assms(5,6) by (auto simp: shared_probability_def shows_signal_def)
  then show ?thesis
    using signal_probability_weight [OF assms(1-3,5,6)]
      score_ge_shared [OF shared_probability_le_one [OF assms(1-3)] assms(4), of now] by simp
qed

lemma score_wf: "prediction_wf (score base now f)"
  by (auto simp: score_def Let_def PairPrediction_init_wf split: prod.splits)

subsection \<open>Predictions for a graph\<close>

lemma counted_nonzero: "counted P xs \<noteq> 0 \<longleftrightarrow> (\<exists>x\<in>set xs. P x)"
  by (auto simp: filter_empty_conv)

lemma features_counts_ok: "features_reflect evs f \<Longrightarrow> features_ranges f \<Longrightarrow> counts_ok f"
  by (simp add: features_reflect_def features_ranges_def counts_ok_def heuristic_signals_def Let_def)

definition predicted ::
  "TraceEvent list \<Rightarrow> TestResourceGraph \<Rightarrow> real \<Rightarrow> string \<times> string \<Rightarrow> PairPrediction \<Rightarrow> bool" where
  "predicted evs g base pair p \<longleftrightarrow>
     (\<exists>f n. p = score base n f \<and> (pf_test_a f, pf_test_b f) = stable_pair (fst pair) (snd pair)
        \<and> features_reflect evs f \<and> features_ranges f \<and> features_stats g f)"

lemma stats_for_built: "graph_built evs g \<Longrightarrow> graph_built evs (snd (stats_for g t))"
  by (rule graph_built_cong) (auto simp: graph_builtD)

lemma predicted_stats_for: "predicted evs (snd (stats_for g t)) base = predicted evs g base"
  by (simp add: fun_eq_iff predicted_def features_stats_def stats_for_stable)

lemma predict_pairs_built:
  assumes "graph_built evs g"
  shows "\<exists>ps g'. predict_pairs base now k g pairs = Inr (ps, g') \<and> graph_built evs g'
    \<and> gr_pair_history g' = gr_pair_history g \<and> list_all2 (predicted evs g base) pairs ps"
  using assms
proof (induction pairs arbitrary: g k)
  case (Cons pair pairs)
  obtain a b where pair: "pair = (a, b)" by (cases pair)
  let ?g = "snd (stats_for (snd (stats_for g (fst (stable_pair a b)))) (snd (stable_pair a b)))"
  obtain f where f: "pair_features g a b = Inr (f, ?g)" "(pf_test_a f, pf_test_b f) = stable_pair a b"
      "features_reflect evs f" "features_ranges f" "features_stats g f"
    using pair_features_built [OF Cons.prems] by blast
  obtain ps g' where ps: "predict_pairs base now (k + 1) ?g pairs = Inr (ps, g')" "graph_built evs g'"
      "gr_pair_history g' = gr_pair_history ?g" "list_all2 (predicted evs ?g base) pairs ps"
    using Cons.IH [OF stats_for_built [OF stats_for_built [OF Cons.prems]], of "k + 1"] by blast
  have "predicted evs g base pair (score base (now k) f)" using f(2-) pair by (auto simp: predicted_def)
  moreover have "list_all2 (predicted evs g base) pairs ps" using ps(4) by (simp add: predicted_stats_for)
  moreover have "gr_pair_history g' = gr_pair_history g" using ps(3) by simp
  ultimately show ?case using f(1) ps(1,2) pair by auto
qed simp

lemma predicted_key: "predicted evs g base pair p \<Longrightarrow> PairPrediction_key p = stable_pair (fst pair) (snd pair)"
  by (auto simp: predicted_def score_simps stable_pair_def)

lemma predicted_keys:
  "list_all2 (predicted evs g base) pairs ps \<Longrightarrow> \<forall>(a, b)\<in>set pairs. a < b \<Longrightarrow> map PairPrediction_key ps = pairs"
  by (induction rule: list_all2_induct) (auto simp: stable_pair_def dest!: predicted_key)

lemma predict_graph_built:
  assumes "graph_built evs g" and "gr_pair_history g = []"
  shows "\<exists>ps g'. predict_graph base now g incl = Inr (ps, g') \<and> distinct (map PairPrediction_key ps)
    \<and> set (map PairPrediction_key ps) = {(a, b). a < b \<and> (\<exists>r. a \<in> tests_of r evs \<and> b \<in> tests_of r evs \<and> wanted evs incl r (a, b))}
    \<and> (\<forall>p\<in>set ps. predicted evs g base (PairPrediction_key p) p)
    \<and> graph_built evs g' \<and> gr_pair_history g' = []"
proof -
  obtain pairs where pairs: "candidate_pairs g incl = Inr pairs" "distinct pairs"
      "set pairs = {(a, b). a < b \<and> (\<exists>r. a \<in> tests_of r evs \<and> b \<in> tests_of r evs \<and> wanted evs incl r (a, b))}"
    using candidate_pairs_built [OF assms(1), of incl] assms(2) by auto
  obtain ps g' where ps: "predict_pairs base now 0 g pairs = Inr (ps, g')" "list_all2 (predicted evs g base) pairs ps"
      "graph_built evs g'" "gr_pair_history g' = gr_pair_history g"
    using predict_pairs_built [OF assms(1)] by blast
  have keys: "map PairPrediction_key ps = pairs" using predicted_keys [OF ps(2)] pairs(3) by blast
  have "predicted evs g base (PairPrediction_key p) p" if "p \<in> set ps" for p
    using that ps(2) keys by (auto simp: in_set_conv_nth list_all2_conv_all_nth)
  moreover have "predict_graph base now g incl = Inr (ps, g')" by (simp add: predict_graph_def pairs(1) ps(1))
  ultimately show ?thesis
    using assms(2) ps(3,4) by (intro exI [of _ ps] exI [of _ g'] conjI ballI) (simp_all only: keys pairs(2,3))
qed

end
