(* ===== verification/Scheduler.thy ===== *)
theory Scheduler
  imports Types
begin

section \<open>The conflict-aware scheduler (\<^verbatim>\<open>scheduler.py\<close>)\<close>

text \<open>
  The risk index, the greedy list scheduler with conflict costs, its refinement by adjacent
  swaps, and the schedule it returns. The mutable \<^verbatim>\<open>lanes\<close> and \<^verbatim>\<open>lane_ends\<close> of
  \<^verbatim>\<open>static_schedule\<close> are the state of a step function; the refinement, which mutates the lanes
  in place, returns them. The pseudo-random draws, the fresh identifiers and the clock of the
  host are the record \<open>sched_env\<close>.
\<close>

subsection \<open>Policies and the risk index\<close>

record PolicyParameters =
  po_risk_weight :: real
  po_hard_threshold :: real
  po_utilization_bias :: real
  po_lookahead :: nat

fun POLICIES :: "RiskPolicy \<Rightarrow> PolicyParameters" where
  "POLICIES RP_AGGRESSIVE = \<lparr>po_risk_weight = 0.55, po_hard_threshold = 0.985,
     po_utilization_bias = 1.5, po_lookahead = 8\<rparr>"
| "POLICIES RP_BALANCED = \<lparr>po_risk_weight = 2, po_hard_threshold = 0.90,
     po_utilization_bias = 1, po_lookahead = 16\<rparr>"
| "POLICIES RP_SAFE = \<lparr>po_risk_weight = 7.5, po_hard_threshold = 0.68,
     po_utilization_bias = 0.5, po_lookahead = 32\<rparr>"

type_synonym RiskIndex = "(string \<times> string, PairPrediction) dict"

definition RiskIndex_init :: "PairPrediction list \<Rightarrow> RiskIndex" where
  "RiskIndex_init predictions = dict_of (map (\<lambda>p. (PairPrediction_key p, p)) predictions)"

definition risk_probability :: "RiskIndex \<Rightarrow> string \<Rightarrow> string \<Rightarrow> real" where
  "risk_probability r left right =
     (if left = right then 1
      else (case map_of r (stable_pair left right) of
              None \<Rightarrow> 0 | Some p \<Rightarrow> pp_probability p))"

definition risk_prediction :: "RiskIndex \<Rightarrow> string \<Rightarrow> string \<Rightarrow> PairPrediction option" where
  "risk_prediction r left right = map_of r (stable_pair left right)"

record ConflictScheduler =
  cs_workers :: int
  cs_policy :: RiskPolicy
  cs_seed :: int
  cs_params :: PolicyParameters
  cs_refinement_rounds :: int

definition ConflictScheduler_init ::
  "int \<Rightarrow> RiskPolicy \<Rightarrow> int \<Rightarrow> real option \<Rightarrow> real option \<Rightarrow> int \<Rightarrow> ConflictScheduler result" where
  "ConflictScheduler_init workers policy seed risk_weight hard_threshold refinement_rounds =
     (if workers \<le> 0 then Inl ValueError
      else let base = POLICIES policy in
        Inr \<lparr>cs_workers = workers, cs_policy = policy, cs_seed = seed,
             cs_params = \<lparr>
               po_risk_weight = (case risk_weight of Some w \<Rightarrow> w | None \<Rightarrow> po_risk_weight base),
               po_hard_threshold =
                 (case hard_threshold of Some h \<Rightarrow> h | None \<Rightarrow> po_hard_threshold base),
               po_utilization_bias = po_utilization_bias base,
               po_lookahead = po_lookahead base\<rparr>,
             cs_refinement_rounds = refinement_rounds\<rparr>)"

subsection \<open>Placement risk and cost\<close>

type_synonym lane = "ScheduledTest list"

definition overlapping_at :: "lane list \<Rightarrow> real \<Rightarrow> nat \<Rightarrow> ScheduledTest list" where
  "overlapping_at lanes instant excluded_worker =
     concat (map (\<lambda>(index, lane).
       if index \<noteq> excluded_worker
       then filter (\<lambda>item. sc_start item \<le> instant \<and> instant < sc_end item) lane
       else []) (List.enumerate 0 lanes))"

text \<open>The binary search for the first test of a lane that ends after \<open>start\<close>.\<close>

function bisect_lane :: "lane \<Rightarrow> real \<Rightarrow> nat \<Rightarrow> nat \<Rightarrow> nat" where
  "bisect_lane lane start low high =
     (if low < high
      then let middle = (low + high) div 2
           in if sc_end (lane ! middle) \<le> start
              then bisect_lane lane start (middle + 1) high
              else bisect_lane lane start low middle
      else low)"
  by pat_completeness auto
termination
  by (relation "measure (\<lambda>(lane, start, low, high). high - low)") auto

declare bisect_lane.simps [simp del]

definition overlap_of :: "real \<Rightarrow> real \<Rightarrow> ScheduledTest \<Rightarrow> real" where
  "overlap_of start end other = max 0 (min end (sc_end other) - max start (sc_start other))"

definition exposure_of :: "real \<Rightarrow> real \<Rightarrow> ScheduledTest \<Rightarrow> real" where
  "exposure_of start end other =
     min 1 (overlap_of start end other / max 0.001 (min (end - start) (sc_duration other)))"

definition risk_reason :: "RiskIndex \<Rightarrow> string \<Rightarrow> ScheduledTest \<Rightarrow> string" where
  "risk_reason risk test_id other =
     sc_node_id other @ '': '' @ fmt_percent1 (risk_probability risk test_id (sc_test_id other))
       @ '' ('' @
     (case risk_prediction risk test_id (sc_test_id other) of
        Some p \<Rightarrow> pp_explanation p | None \<Rightarrow> ''predicted shared-resource risk'') @ '')''"

text \<open>The body of the inner loop of \<^verbatim>\<open>_placement_risk\<close> after its \<^verbatim>\<open>break\<close> and \<^verbatim>\<open>continue\<close>.\<close>

definition add_exposure ::
  "RiskIndex \<Rightarrow> string \<Rightarrow> real \<Rightarrow> real \<Rightarrow> ScheduledTest \<Rightarrow> real \<times> string list \<Rightarrow> real \<times> string list" where
  "add_exposure risk test_id start end other acc =
     (let probability = risk_probability risk test_id (sc_test_id other)
      in (fst acc * (1 - probability * exposure_of start end other),
          snd acc @ (if 0.25 \<le> probability then [risk_reason risk test_id other] else [])))"

fun scan_lane ::
  "RiskIndex \<Rightarrow> string \<Rightarrow> real \<Rightarrow> real \<Rightarrow> lane \<Rightarrow> real \<times> string list \<Rightarrow> real \<times> string list" where
  "scan_lane risk test_id start end [] acc = acc"
| "scan_lane risk test_id start end (other # rest) acc =
     (if end \<le> sc_start other then acc
      else if overlap_of start end other \<le> 0 then scan_lane risk test_id start end rest acc
      else scan_lane risk test_id start end rest
             (add_exposure risk test_id start end other acc))"

fun scan_lanes ::
  "RiskIndex \<Rightarrow> string \<Rightarrow> real \<Rightarrow> real \<Rightarrow> nat \<Rightarrow> (nat \<times> lane) list \<Rightarrow> real \<times> string list
     \<Rightarrow> real \<times> string list" where
  "scan_lanes risk test_id start end worker [] acc = acc"
| "scan_lanes risk test_id start end worker ((index, lane) # lanes) acc =
     (if index = worker then scan_lanes risk test_id start end worker lanes acc
      else let low = bisect_lane lane start 0 (length lane)
           in scan_lanes risk test_id start end worker lanes
                (scan_lane risk test_id start end (drop low lane) acc))"

definition placement_risk ::
  "string \<Rightarrow> real \<Rightarrow> real \<Rightarrow> lane list \<Rightarrow> RiskIndex \<Rightarrow> nat \<Rightarrow> real \<times> string list" where
  "placement_risk test_id start end lanes risk worker =
     (let (safe, reasons) =
        scan_lanes risk test_id start end worker (List.enumerate 0 lanes) (1, [])
      in (1 - safe, reasons))"

definition placement_cost ::
  "PolicyParameters \<Rightarrow> string \<Rightarrow> real \<Rightarrow> real \<Rightarrow> lane list \<Rightarrow> RiskIndex \<Rightarrow> nat \<Rightarrow> real" where
  "placement_cost params test_id start duration lanes risk worker =
     (let probability = fst (placement_risk test_id start (start + duration) lanes risk worker)
      in start - po_utilization_bias params * duration
           + po_risk_weight params * probability * duration)"

subsection \<open>Greedy placement\<close>

record greedy_state =
  gs_remaining :: "string list"
  gs_lanes :: "lane list"
  gs_lane_ends :: "real list"

definition tests_by_id :: "TestIdentity list \<Rightarrow> (string, TestIdentity) dict" where
  "tests_by_id tests = dict_of (map (\<lambda>t. (ti_id t, t)) tests)"

definition clamped_duration :: "(string \<rightharpoonup> TestStats) \<Rightarrow> string \<Rightarrow> real" where
  "clamped_duration stats test_id =
     max 0.001 (st_duration_ema (case stats test_id of None \<Rightarrow> TestStats_init | Some s \<Rightarrow> s))"

definition test_durations :: "TestIdentity list \<Rightarrow> (string \<rightharpoonup> TestStats) \<Rightarrow> (string, real) dict" where
  "test_durations tests stats = dict_of (map (\<lambda>t. (ti_id t, clamped_duration stats (ti_id t))) tests)"

definition tie_breaks :: "(nat \<Rightarrow> real) \<Rightarrow> TestIdentity list \<Rightarrow> (string, real) dict" where
  "tie_breaks draws tests = dict_of (map (\<lambda>(i, t). (ti_id t, draws i)) (List.enumerate 0 tests))"

definition initial_order ::
  "(nat \<Rightarrow> real) \<Rightarrow> TestIdentity list \<Rightarrow> (string \<rightharpoonup> TestStats) \<Rightarrow> string list" where
  "initial_order draws tests stats =
     sort_key (\<lambda>test_id. (- the (map_of (test_durations tests stats) test_id),
                           the (map_of (tie_breaks draws tests) test_id), test_id))
       (dict_keys (tests_by_id tests))"

text \<open>One iteration of the \<^verbatim>\<open>while remaining\<close> loop. The lookups in \<open>durations\<close> and \<open>by_id\<close>
  are functions here: every remaining id is a key of both dictionaries. \<^verbatim>\<open>min\<close> of an empty
  sequence raises \<^verbatim>\<open>ValueError\<close>.\<close>

definition choose_placement ::
  "PolicyParameters \<Rightarrow> RiskIndex \<Rightarrow> (string \<Rightarrow> real) \<Rightarrow> lane list \<Rightarrow> nat \<Rightarrow> real \<Rightarrow> string list
     \<Rightarrow> (string \<times> real \<times> real \<times> string list) result" where
  "choose_placement params risk durations lanes worker start candidates =
     (let running = overlapping_at lanes start worker;
          cost = (\<lambda>t. placement_cost params t start (durations t) lanes risk worker);
          risk_at = (\<lambda>t s. placement_risk t s (s + durations t) lanes risk worker)
      in case min_by cost candidates of
           None \<Rightarrow> Inl ValueError
         | Some chosen \<Rightarrow>
             (let (probability, reasons) = risk_at chosen start
              in if po_hard_threshold params \<le> probability \<and> running \<noteq> []
                 then let safe = filter (\<lambda>c. fst (risk_at c start) < po_hard_threshold params) candidates
                      in case min_by cost safe of
                           Some c \<Rightarrow> (let (p, rs) = risk_at c start in Inr (c, start, p, rs))
                         | None \<Rightarrow>
                             (case min_by (\<lambda>e. e) (map sc_end (overlapping_at lanes start worker)) of
                                None \<Rightarrow> Inl ValueError
                              | Some next_end \<Rightarrow>
                                  (let s = max start next_end; (p, rs) = risk_at chosen s
                                   in Inr (chosen, s, p, rs)))
                 else Inr (chosen, start, probability, reasons)))"

definition greedy_step ::
  "nat \<Rightarrow> PolicyParameters \<Rightarrow> RiskIndex \<Rightarrow> (string \<Rightarrow> real) \<Rightarrow> (string \<Rightarrow> string)
     \<Rightarrow> greedy_state \<Rightarrow> greedy_state result" where
  "greedy_step workers params risk durations node_ids g =
     (case min_by (\<lambda>index. (gs_lane_ends g ! index, index)) [0..<workers] of
        None \<Rightarrow> Inl ValueError
      | Some worker \<Rightarrow>
          bind_result
            (choose_placement params risk durations (gs_lanes g) worker (gs_lane_ends g ! worker)
               (take (po_lookahead params) (gs_remaining g)))
            (\<lambda>(chosen, start, probability, reasons).
               let scheduled = ScheduledTest_init chosen (node_ids chosen) worker start
                     (start + durations chosen) (durations chosen) probability reasons
               in Inr \<lparr>gs_remaining = remove1 chosen (gs_remaining g),
                       gs_lanes = (gs_lanes g)[worker := gs_lanes g ! worker @ [scheduled]],
                       gs_lane_ends = (gs_lane_ends g)[worker := sc_end scheduled]\<rparr>))"

lemma choose_placement_in:
  "choose_placement params risk durations lanes worker start candidates = Inr (c, s, p, rs)
     \<Longrightarrow> c \<in> set candidates"
  by (auto simp: choose_placement_def Let_def split: option.splits prod.splits if_splits dest: min_by_in)

lemma greedy_step_remaining:
  assumes "greedy_step workers params risk durations node_ids g = Inr g'"
  shows "\<exists>c \<in> set (gs_remaining g). gs_remaining g' = remove1 c (gs_remaining g)"
  using assms
  by (auto simp: greedy_step_def Let_def split: option.splits dest!: choose_placement_in in_set_takeD)

function greedy_loop ::
  "nat \<Rightarrow> PolicyParameters \<Rightarrow> RiskIndex \<Rightarrow> (string \<Rightarrow> real) \<Rightarrow> (string \<Rightarrow> string)
     \<Rightarrow> greedy_state \<Rightarrow> greedy_state result" where
  "greedy_loop workers params risk durations node_ids g =
     (if gs_remaining g = [] then Inr g
      else (case greedy_step workers params risk durations node_ids g of
              Inl e \<Rightarrow> Inl e
            | Inr g' \<Rightarrow> greedy_loop workers params risk durations node_ids g'))"
  by pat_completeness auto
termination
proof (relation "measure (\<lambda>(w, p, r, d, n, g). length (gs_remaining g))", goal_cases)
  case (2 workers params risk durations node_ids g g')
  then show ?case
    using greedy_step_remaining [of workers params risk durations node_ids g g']
    by (auto simp: length_remove1 length_greater_0_conv [symmetric] simp del: length_greater_0_conv
        dest: length_pos_if_in_set)
qed simp

declare greedy_loop.simps [simp del]

subsection \<open>Objective and refinement\<close>

definition pair_overlap :: "ScheduledTest \<Rightarrow> ScheduledTest \<Rightarrow> real" where
  "pair_overlap left right =
     max 0 (min (sc_end left) (sc_end right) - max (sc_start left) (sc_start right))"

definition pair_exposure :: "RiskIndex \<Rightarrow> ScheduledTest \<Rightarrow> ScheduledTest \<Rightarrow> real" where
  "pair_exposure risk left right =
     (if sc_worker left = sc_worker right then 0
      else if pair_overlap left right \<noteq> 0
           then risk_probability risk (sc_test_id left) (sc_test_id right) * pair_overlap left right
           else 0)"

fun schedule_risk :: "RiskIndex \<Rightarrow> ScheduledTest list \<Rightarrow> real" where
  "schedule_risk risk [] = 0"
| "schedule_risk risk (left # rest) =
     (\<Sum>right\<leftarrow>rest. pair_exposure risk left right) + schedule_risk risk rest"

definition makespan_of :: "ScheduledTest list \<Rightarrow> real" where
  "makespan_of tests = max_default 0 (map sc_end tests)"

definition objective :: "PolicyParameters \<Rightarrow> ScheduledTest list \<Rightarrow> RiskIndex \<Rightarrow> real" where
  "objective params tests risk =
     makespan_of tests + po_risk_weight params * schedule_risk risk tests"

fun reflow_from :: "real \<Rightarrow> nat \<Rightarrow> lane \<Rightarrow> lane" where
  "reflow_from cursor worker [] = []"
| "reflow_from cursor worker (item # rest) =
     item\<lparr>sc_worker := worker, sc_start := cursor, sc_end := cursor + sc_duration item\<rparr>
       # reflow_from (cursor + sc_duration item) worker rest"

definition reflow_lane :: "lane \<Rightarrow> nat \<Rightarrow> lane" where
  "reflow_lane lane worker = reflow_from 0 worker lane"

definition swap_adjacent :: "'a list \<Rightarrow> nat \<Rightarrow> 'a list" where
  "swap_adjacent lane index = lane[index := lane ! (index + 1), index + 1 := lane ! index]"

type_synonym refine_state = "lane list \<times> real \<times> bool"

definition refine_swap ::
  "PolicyParameters \<Rightarrow> RiskIndex \<Rightarrow> nat \<Rightarrow> refine_state \<Rightarrow> nat \<Rightarrow> refine_state" where
  "refine_swap params risk lane_index s index =
     (let (lanes, baseline, changed) = s;
          swapped = reflow_lane (swap_adjacent (lanes ! lane_index) index) lane_index;
          candidate = objective params (concat (lanes[lane_index := swapped])) risk
      in if candidate + 1 / 10 ^ 9 < baseline
         then (lanes[lane_index := swapped], candidate, True)
         else (lanes[lane_index := reflow_lane (swap_adjacent swapped index) lane_index],
               baseline, changed))"

definition refine_one_lane ::
  "PolicyParameters \<Rightarrow> RiskIndex \<Rightarrow> refine_state \<Rightarrow> nat \<Rightarrow> refine_state" where
  "refine_one_lane params risk s lane_index =
     foldl (refine_swap params risk lane_index) s [0..<length (fst s ! lane_index) - 1]"

definition refine_round :: "PolicyParameters \<Rightarrow> RiskIndex \<Rightarrow> lane list \<Rightarrow> refine_state" where
  "refine_round params risk lanes =
     foldl (refine_one_lane params risk) (lanes, objective params (concat lanes) risk, False)
       [0..<length lanes]"

fun refine_rounds :: "PolicyParameters \<Rightarrow> RiskIndex \<Rightarrow> nat \<Rightarrow> lane list \<Rightarrow> lane list" where
  "refine_rounds params risk 0 lanes = lanes"
| "refine_rounds params risk (Suc n) lanes =
     (let (lanes', _, changed) = refine_round params risk lanes
      in if changed then refine_rounds params risk n lanes' else lanes')"

definition refine :: "ConflictScheduler \<Rightarrow> lane list \<Rightarrow> RiskIndex \<Rightarrow> lane list" where
  "refine self lanes risk =
     (if cs_refinement_rounds self \<le> 0 then lanes
      else refine_rounds (cs_params self) risk (nat (cs_refinement_rounds self)) lanes)"

subsection \<open>The static schedule\<close>

record sched_env =
  env_random :: "int \<Rightarrow> nat \<Rightarrow> real"
  env_uuid1 :: string
  env_uuid2 :: string
  env_elapsed_ms :: real

definition greedy_lanes ::
  "ConflictScheduler \<Rightarrow> sched_env \<Rightarrow> TestIdentity list \<Rightarrow> (string \<rightharpoonup> TestStats) \<Rightarrow> RiskIndex
     \<Rightarrow> lane list result" where
  "greedy_lanes self env tests stats risk =
     bind_result
       (greedy_loop (nat (cs_workers self)) (cs_params self) risk
          (\<lambda>t. the (map_of (test_durations tests stats) t))
          (\<lambda>t. ti_node_id (the (map_of (tests_by_id tests) t)))
          \<lparr>gs_remaining = initial_order (env_random env (cs_seed self)) tests stats,
           gs_lanes = replicate (nat (cs_workers self)) [],
           gs_lane_ends = replicate (nat (cs_workers self)) 0\<rparr>)
       (\<lambda>g. Inr (gs_lanes g))"

definition flatten_lanes :: "lane list \<Rightarrow> ScheduledTest list" where
  "flatten_lanes lanes =
     sort_key (\<lambda>item. (sc_start item, sc_worker item, sc_test_id item)) (concat lanes)"

definition static_schedule ::
  "ConflictScheduler \<Rightarrow> sched_env \<Rightarrow> TestIdentity list \<Rightarrow> (string \<rightharpoonup> TestStats)
     \<Rightarrow> PairPrediction list \<Rightarrow> string option \<Rightarrow> Schedule result" where
  "static_schedule self env tests stats predictions run_id =
     (let risk = RiskIndex_init predictions
      in bind_result (greedy_lanes self env tests stats risk) (\<lambda>lanes.
           let lanes = (if length tests \<le> 64 then refine self lanes risk else lanes);
               flattened = flatten_lanes lanes
           in Inr \<lparr>sd_id = env_uuid1 env, sd_run_id = run_id_or run_id (env_uuid2 env),
                   sd_workers = cs_workers self, sd_policy = cs_policy self,
                   sd_tests = flattened, sd_scheduler_latency_ms = env_elapsed_ms env,
                   sd_expected_makespan = makespan_of flattened,
                   sd_expected_risk = schedule_risk risk flattened, sd_seed = cs_seed self\<rparr>))"

end
