(* ===== verification/Scheduler_Risk.thy ===== *)
theory Scheduler_Risk
  imports Scheduler
begin

section \<open>Risk of a placement\<close>

text \<open>
  What \<^verbatim>\<open>_placement_risk\<close> computes. The code finds the tests a placement overlaps with a binary
  search over lane end times and an early exit over start times; on lanes in execution order
  this is the plain scan over all tests of the other workers, and the result is one minus the
  product of the survival factors of the overlapping tests (\<open>placement_risk_spec\<close>). The
  locale \<open>risk_source\<close> is what the scheduler needs of its risk index.
\<close>

subsection \<open>The risk index as an interface\<close>

locale risk_source =
  fixes ok :: "'r \<Rightarrow> bool" and prob :: "'r \<Rightarrow> string \<Rightarrow> string \<Rightarrow> real"
  assumes prob_unit: "ok r \<Longrightarrow> 0 \<le> prob r a b \<and> prob r a b \<le> 1"
    and prob_sym: "ok r \<Longrightarrow> prob r a b = prob r b a"
begin

lemma prob_nonneg: "ok r \<Longrightarrow> 0 \<le> prob r a b"
  using prob_unit by blast

lemma survival_unit:
  assumes "ok r" and "\<And>x. x \<in> set xs \<Longrightarrow> 0 \<le> expo x \<and> expo x \<le> 1"
  shows "0 \<le> (\<Prod>x\<leftarrow>xs. 1 - prob r t (oid x) * expo x) \<and> (\<Prod>x\<leftarrow>xs. 1 - prob r t (oid x) * expo x) \<le> 1"
proof (rule prod_list_unit_interval)
  fix y assume "y \<in> set (map (\<lambda>x. 1 - prob r t (oid x) * expo x) xs)"
  then obtain x where "x \<in> set xs" and y: "y = 1 - prob r t (oid x) * expo x" by auto
  with assms(2) have "0 \<le> expo x \<and> expo x \<le> 1" by simp
  with prob_unit [OF assms(1), of t "oid x"] show "0 \<le> y \<and> y \<le> 1"
    unfolding y by (intro one_minus_unit) auto
qed

lemma survival_le_factor:
  assumes "ok r" and "\<And>x. x \<in> set xs \<Longrightarrow> 0 \<le> expo x \<and> expo x \<le> 1" and "y \<in> set xs"
  shows "(\<Prod>x\<leftarrow>xs. 1 - prob r t (oid x) * expo x) \<le> 1 - prob r t (oid y) * expo y"
  using assms(2,3)
proof (induction xs)
  case (Cons x xs)
  let ?f = "\<lambda>x. 1 - prob r t (oid x) * expo x"
  let ?P = "\<Prod>x\<leftarrow>xs. ?f x"
  have P: "0 \<le> ?P \<and> ?P \<le> 1" by (rule survival_unit [OF assms(1)]) (simp add: Cons.prems(1))
  have f: "0 \<le> ?f x \<and> ?f x \<le> 1"
    using prob_unit [OF assms(1), of t "oid x"] Cons.prems(1) [of x] by (intro one_minus_unit) auto
  show ?case
  proof (cases "y = x")
    case True
    then show ?thesis using mult_left_mono [of ?P 1 "?f x"] P f by simp
  next
    case False
    then have "?P \<le> ?f y" using Cons by simp
    moreover have "?f x * ?P \<le> ?P" using mult_right_mono [of "?f x" 1 ?P] P f by simp
    ultimately show ?thesis by simp
  qed
qed simp

lemma survival_one:
  assumes "\<And>x. x \<in> set xs \<Longrightarrow> prob r t (oid x) = 0"
  shows "(\<Prod>x\<leftarrow>xs. 1 - prob r t (oid x) * expo x) = 1"
  using assms by (induction xs) auto

lemma weighted_sum_nonneg:
  assumes "ok r" and "\<And>x. x \<in> set xs \<Longrightarrow> 0 \<le> expo x"
  shows "0 \<le> (\<Sum>x\<leftarrow>xs. prob r t (oid x) * expo x)"
  using assms prob_nonneg by (intro sum_list_nonneg_real) simp

end

definition risk_ok :: "RiskIndex \<Rightarrow> bool" where
  "risk_ok r \<longleftrightarrow> (\<forall>(k, p) \<in> set r. prediction_wf p)"

lemma risk_ok_init: "list_all prediction_wf ps \<Longrightarrow> risk_ok (RiskIndex_init ps)"
proof -
  assume ps: "list_all prediction_wf ps"
  have "prediction_wf p" if "(k, p) \<in> set (RiskIndex_init ps)" for k p
  proof -
    from that have "map_of (RiskIndex_init ps) k = Some p"
      by (simp add: RiskIndex_init_def)
    then have "map_of (rev (map (\<lambda>p. (PairPrediction_key p, p)) ps)) k = Some p"
      by (simp add: RiskIndex_init_def map_of_dict_of)
    then have "p \<in> set ps" by (auto dest!: map_of_SomeD)
    with ps show ?thesis by (simp add: list_all_iff)
  qed
  then show ?thesis by (auto simp: risk_ok_def)
qed

interpretation ri: risk_source risk_ok risk_probability
proof unfold_locales
  fix r a b assume r: "risk_ok r"
  show "0 \<le> risk_probability r a b \<and> risk_probability r a b \<le> 1"
    using r by (auto simp: risk_probability_def risk_ok_def prediction_wf_def
        split: option.splits dest: map_of_SomeD)
  show "risk_probability r a b = risk_probability r b a"
    by (simp add: risk_probability_def stable_pair_commute [of b a])
qed

subsection \<open>Lanes in execution order\<close>

fun lane_chain :: "real \<Rightarrow> lane \<Rightarrow> bool" where
  "lane_chain t [] = True"
| "lane_chain t (item # rest) \<longleftrightarrow>
     t \<le> sc_start item \<and> 0 < sc_duration item
       \<and> sc_end item = sc_start item + sc_duration item \<and> lane_chain (sc_end item) rest"

definition lane_valid :: "nat \<Rightarrow> lane \<Rightarrow> bool" where
  "lane_valid w lane \<longleftrightarrow> lane_chain 0 lane \<and> (\<forall>item\<in>set lane. sc_worker item = w)"

definition lanes_valid :: "lane list \<Rightarrow> bool" where
  "lanes_valid lanes \<longleftrightarrow> (\<forall>w<length lanes. lane_valid w (lanes ! w))"

lemma lane_chain_mono: "lane_chain t lane \<Longrightarrow> s \<le> t \<Longrightarrow> lane_chain s lane"
  by (cases lane) auto

lemma lane_chain_item:
  "lane_chain t lane \<Longrightarrow> item \<in> set lane \<Longrightarrow>
     t \<le> sc_start item \<and> 0 < sc_duration item \<and> sc_end item = sc_start item + sc_duration item"
  by (induction lane arbitrary: t) fastforce+

lemma lane_chain_start_le_end:
  "lane_chain t lane \<Longrightarrow> item \<in> set lane \<Longrightarrow> t < sc_end item"
  using lane_chain_item [of t lane item] by linarith

lemma lane_chain_sorted_start: "lane_chain t lane \<Longrightarrow> sorted (map sc_start lane)"
proof (induction lane arbitrary: t)
  case (Cons item rest)
  then have "\<And>o'. o' \<in> set rest \<Longrightarrow> sc_end item \<le> sc_start o'"
    using lane_chain_item [of "sc_end item" rest] by auto
  moreover have "sc_start item \<le> sc_end item" using Cons.prems by simp
  ultimately show ?case using Cons by fastforce
qed simp

lemma lane_chain_sorted_end: "lane_chain t lane \<Longrightarrow> sorted (map sc_end lane)"
proof (induction lane arbitrary: t)
  case (Cons item rest)
  then have "\<And>o'. o' \<in> set rest \<Longrightarrow> sc_end item \<le> sc_end o'"
    using lane_chain_start_le_end [of "sc_end item" rest] by (auto intro: less_imp_le)
  then show ?case using Cons by auto
qed simp

lemma lanes_validD: "lanes_valid lanes \<Longrightarrow> lane \<in> set lanes \<Longrightarrow> lane_chain 0 lane"
  by (metis in_set_conv_nth lane_valid_def lanes_valid_def)

subsection \<open>The binary search and the scan\<close>

lemma bisect_lane_stop [simp]: "\<not> low < high \<Longrightarrow> bisect_lane lane start low high = low"
  by (subst bisect_lane.simps) simp

lemma bisect_lane_range:
  "low \<le> high \<Longrightarrow> low \<le> bisect_lane lane start low high \<and> bisect_lane lane start low high \<le> high"
proof (induction lane start low high rule: bisect_lane.induct)
  case (1 lane start low high)
  show ?case
  proof (cases "low < high")
    case True
    let ?m = "(low + high) div 2"
    have m: "low \<le> ?m" "?m < high" using True by auto
    show ?thesis
    proof (cases "sc_end (lane ! ?m) \<le> start")
      case t: True
      with "1.IH"(1) [OF True refl t] m True show ?thesis
        by (simp add: bisect_lane.simps [of lane start low high] Let_def)
    next
      case f: False
      with "1.IH"(2) [OF True refl f] m True show ?thesis
        by (simp add: bisect_lane.simps [of lane start low high] Let_def)
    qed
  next
    case False
    then show ?thesis using "1.prems" by auto
  qed
qed

lemma bisect_lane_split:
  assumes "sorted (map sc_end lane)" and "low \<le> high" and "high \<le> length lane"
    and "\<forall>i<low. sc_end (lane ! i) \<le> start"
    and "\<forall>i. high \<le> i \<and> i < length lane \<longrightarrow> start < sc_end (lane ! i)"
  shows "(\<forall>i<bisect_lane lane start low high. sc_end (lane ! i) \<le> start)
     \<and> (\<forall>i. bisect_lane lane start low high \<le> i \<and> i < length lane \<longrightarrow> start < sc_end (lane ! i))"
  using assms
proof (induction lane start low high rule: bisect_lane.induct)
  case (1 lane start low high)
  show ?case
  proof (cases "low < high")
    case True
    let ?m = "(low + high) div 2"
    have m: "low \<le> ?m" "?m < high" "?m < length lane" using True "1.prems"(3) by auto
    have mono: "i \<le> j \<Longrightarrow> j < length lane \<Longrightarrow> sc_end (lane ! i) \<le> sc_end (lane ! j)" for i j
      using "1.prems"(1) by (auto simp: sorted_iff_nth_mono)
    show ?thesis
    proof (cases "sc_end (lane ! ?m) \<le> start")
      case t: True
      have "\<forall>i<?m + 1. sc_end (lane ! i) \<le> start"
        using mono [of _ ?m] m t by (auto simp: less_Suc_eq_le intro: order_trans)
      with "1.IH"(1) [OF True refl t] "1.prems" m True t show ?thesis
        by (simp add: bisect_lane.simps [of lane start low high] Let_def)
    next
      case f: False
      have "\<forall>i. ?m \<le> i \<and> i < length lane \<longrightarrow> start < sc_end (lane ! i)"
        using mono [of ?m] f by (meson less_le_trans not_le)
      with "1.IH"(2) [OF True refl f] "1.prems" m True f show ?thesis
        by (simp add: bisect_lane.simps [of lane start low high] Let_def)
    qed
  next
    case False
    then show ?thesis using "1.prems" by auto
  qed
qed

lemma bisect_lane_skips:
  assumes "sorted (map sc_end lane)"
  shows "drop (bisect_lane lane start 0 (length lane)) lane = dropWhile (\<lambda>o'. sc_end o' \<le> start) lane"
proof -
  let ?k = "bisect_lane lane start 0 (length lane)"
  have k: "?k \<le> length lane" using bisect_lane_range [of 0 "length lane"] by simp
  have s: "\<forall>i<?k. sc_end (lane ! i) \<le> start"
    "\<forall>i. ?k \<le> i \<and> i < length lane \<longrightarrow> start < sc_end (lane ! i)"
    using bisect_lane_split [OF assms, of 0 "length lane" start] by auto
  have "takeWhile (\<lambda>o'. sc_end o' \<le> start) lane = take ?k lane"
  proof (rule takeWhile_eq_take_P_nth)
    show "sc_end (lane ! i) \<le> start" if "i < ?k" "i < length lane" for i using s that by blast
    show "\<not> sc_end (lane ! ?k) \<le> start" if "?k < length lane" using s that by (simp add: not_le)
  qed
  then show ?thesis using k by (simp add: dropWhile_eq_drop)
qed

lemma filter_dropWhile: "(\<And>x. P x \<Longrightarrow> \<not> Q x) \<Longrightarrow> filter Q (dropWhile P xs) = filter Q xs"
  by (induction xs) auto

lemma overlap_before: "sc_end o' \<le> start \<Longrightarrow> \<not> 0 < overlap_of start fin o'"
  by (auto simp: overlap_of_def)

lemma overlap_after: "fin \<le> sc_start o' \<Longrightarrow> \<not> 0 < overlap_of start fin o'"
  by (auto simp: overlap_of_def)

lemma scan_lane_filter:
  assumes "sorted (map sc_start lane)"
  shows "scan_lane risk t start fin lane acc =
    foldl (\<lambda>acc o'. add_exposure risk t start fin o' acc) acc
      (filter (\<lambda>o'. 0 < overlap_of start fin o') lane)"
  using assms
proof (induction lane arbitrary: acc)
  case (Cons o' rest)
  show ?case
  proof (cases "fin \<le> sc_start o'")
    case True
    then have "\<forall>x\<in>set (o' # rest). fin \<le> sc_start x" using Cons.prems by force
    then have "filter (\<lambda>o'. 0 < overlap_of start fin o') (o' # rest) = []"
      using overlap_after by (auto simp: filter_empty_conv)
    then show ?thesis using True by (simp only: scan_lane.simps) simp
  next
    case False
    then show ?thesis using Cons by (auto simp: not_less)
  qed
qed simp

subsection \<open>The specification\<close>

definition overlapping_items :: "lane list \<Rightarrow> real \<Rightarrow> real \<Rightarrow> nat \<Rightarrow> ScheduledTest list" where
  "overlapping_items lanes start fin worker =
     concat (map (\<lambda>(i, lane). if i = worker then []
       else filter (\<lambda>o'. 0 < overlap_of start fin o') lane) (List.enumerate 0 lanes))"

definition placement_risk_spec ::
  "string \<Rightarrow> real \<Rightarrow> real \<Rightarrow> lane list \<Rightarrow> RiskIndex \<Rightarrow> nat \<Rightarrow> real \<times> string list" where
  "placement_risk_spec t start fin lanes risk worker =
     (let items = overlapping_items lanes start fin worker
      in (1 - (\<Prod>o'\<leftarrow>items. 1 - risk_probability risk t (sc_test_id o') * exposure_of start fin o'),
          map (risk_reason risk t)
            (filter (\<lambda>o'. 0.25 \<le> risk_probability risk t (sc_test_id o')) items)))"

lemma foldl_add_exposure:
  "foldl (\<lambda>acc o'. add_exposure risk t start fin o' acc) acc items =
     (fst acc * (\<Prod>o'\<leftarrow>items. 1 - risk_probability risk t (sc_test_id o') * exposure_of start fin o'),
      snd acc @ map (risk_reason risk t)
        (filter (\<lambda>o'. 0.25 \<le> risk_probability risk t (sc_test_id o')) items))"
  by (induction items arbitrary: acc) (auto simp: add_exposure_def Let_def)

lemma scan_lanes_filter:
  assumes "\<forall>il\<in>set ils. lane_chain 0 (snd il)"
  shows "scan_lanes risk t start fin worker ils acc =
    foldl (\<lambda>acc o'. add_exposure risk t start fin o' acc) acc
      (concat (map (\<lambda>(i, lane). if i = worker then []
        else filter (\<lambda>o'. 0 < overlap_of start fin o') lane) ils))"
  using assms
proof (induction ils arbitrary: acc)
  case (Cons il ils)
  obtain i lane where il: "il = (i, lane)" by (cases il)
  have c: "lane_chain 0 lane" using Cons.prems il by simp
  let ?d = "drop (bisect_lane lane start 0 (length lane)) lane"
  have d: "?d = dropWhile (\<lambda>o'. sc_end o' \<le> start) lane"
    by (rule bisect_lane_skips, rule lane_chain_sorted_end, rule c)
  have "sorted (map sc_start ?d)"
    using lane_chain_sorted_start [OF c] by (metis drop_map sorted_wrt_drop)
  then have scan: "scan_lane risk t start fin ?d acc' =
      foldl (\<lambda>acc o'. add_exposure risk t start fin o' acc) acc'
        (filter (\<lambda>o'. 0 < overlap_of start fin o') lane)" for acc'
    using filter_dropWhile [of "\<lambda>o'. sc_end o' \<le> start" "\<lambda>o'. 0 < overlap_of start fin o'" lane,
        OF overlap_before]
    by (simp only: scan_lane_filter d)
  show ?case using Cons il by (simp add: Let_def scan)
qed simp

lemma set_enumerate_lanes: "(i, lane) \<in> set (List.enumerate 0 lanes) \<Longrightarrow> lane \<in> set lanes \<and> i < length lanes \<and> lane = lanes ! i"
  by (auto simp: in_set_enumerate_eq)

lemma placement_risk_eq_spec:
  assumes "lanes_valid lanes"
  shows "placement_risk t start fin lanes risk worker = placement_risk_spec t start fin lanes risk worker"
proof -
  have "\<forall>il\<in>set (List.enumerate 0 lanes). lane_chain 0 (snd il)"
    using lanes_validD [OF assms] by (auto dest: set_enumerate_lanes)
  from scan_lanes_filter [OF this] show ?thesis
    by (simp add: placement_risk_def placement_risk_spec_def overlapping_items_def
        foldl_add_exposure Let_def)
qed

lemma exposure_unit: "0 \<le> exposure_of start fin o' \<and> exposure_of start fin o' \<le> 1"
  by (auto simp: exposure_of_def overlap_of_def)

lemma placement_risk_unit:
  assumes "lanes_valid lanes" and "risk_ok risk"
  shows "0 \<le> fst (placement_risk t start fin lanes risk worker)
    \<and> fst (placement_risk t start fin lanes risk worker) \<le> 1"
proof -
  let ?items = "overlapping_items lanes start fin worker"
  have "0 \<le> (\<Prod>o'\<leftarrow>?items. 1 - risk_probability risk t (sc_test_id o') * exposure_of start fin o')
      \<and> (\<Prod>o'\<leftarrow>?items. 1 - risk_probability risk t (sc_test_id o') * exposure_of start fin o') \<le> 1"
    using assms(2) exposure_unit by (intro ri.survival_unit) auto
  then show ?thesis
    using placement_risk_eq_spec [OF assms(1)] by (simp add: placement_risk_spec_def Let_def)
qed

lemma placement_risk_ge_item:
  assumes "lanes_valid lanes" and "risk_ok risk" and "o' \<in> set (overlapping_items lanes start fin worker)"
  shows "risk_probability risk t (sc_test_id o') * exposure_of start fin o'
    \<le> fst (placement_risk t start fin lanes risk worker)"
proof -
  have "(\<Prod>o'\<leftarrow>overlapping_items lanes start fin worker.
      1 - risk_probability risk t (sc_test_id o') * exposure_of start fin o')
    \<le> 1 - risk_probability risk t (sc_test_id o') * exposure_of start fin o'"
    using assms(2,3) exposure_unit by (intro ri.survival_le_factor) auto
  then show ?thesis
    using placement_risk_eq_spec [OF assms(1)] by (simp add: placement_risk_spec_def Let_def)
qed

lemma pair_exposure_sym: "risk_ok r \<Longrightarrow> pair_exposure r a b = pair_exposure r b a"
  using ri.prob_sym [of r] by (auto simp: pair_exposure_def pair_overlap_def min.commute max.commute)

lemma pair_exposure_nonneg: "risk_ok r \<Longrightarrow> 0 \<le> pair_exposure r a b"
  using ri.prob_nonneg [of r] by (auto simp: pair_exposure_def pair_overlap_def)

lemma schedule_risk_nonneg: "risk_ok r \<Longrightarrow> 0 \<le> schedule_risk r tests"
  by (induction tests) (auto intro!: add_nonneg_nonneg sum_list_nonneg_real pair_exposure_nonneg)

end
