(* ===== verification/Scheduler_Greedy.thy ===== *)
theory Scheduler_Greedy
  imports Scheduler_Valid
begin

section \<open>The greedy loop\<close>

text \<open>
  Invariants of the \<^verbatim>\<open>while remaining\<close> loop of \<^verbatim>\<open>static_schedule\<close>: \<open>lane_ends\<close> caches the
  end of every lane, the lanes stay in execution order, and the placed and the remaining tests
  together are the tests of the run. The loop returns for every scheduler that could be
  constructed. Without conflict risk it is list scheduling, with Graham's bound.
\<close>

subsection \<open>One placement\<close>

definition lane_end :: "lane \<Rightarrow> real" where
  "lane_end lane = (if lane = [] then 0 else sc_end (last lane))"

definition greedy_inv :: "nat \<Rightarrow> greedy_state \<Rightarrow> bool" where
  "greedy_inv W g \<longleftrightarrow>
     length (gs_lanes g) = W \<and> length (gs_lane_ends g) = W \<and> lanes_valid (gs_lanes g)
       \<and> (\<forall>w<W. gs_lane_ends g ! w = lane_end (gs_lanes g ! w))"

lemma choose_placement_start:
  "choose_placement params risk durations lanes worker start candidates = Inr (c, s, p, rs)
     \<Longrightarrow> start \<le> s"
  by (auto simp: choose_placement_def Let_def split: option.splits prod.splits if_splits)

lemma choose_placement_risk:
  "choose_placement params risk durations lanes worker start candidates = Inr (c, s, p, rs)
     \<Longrightarrow> (p, rs) = placement_risk c s (s + durations c) lanes risk worker"
  by (auto simp: choose_placement_def Let_def split: option.splits prod.splits if_splits)

lemma choose_placement_returns:
  assumes "candidates \<noteq> []"
  shows "\<exists>c s p rs. choose_placement params risk durations lanes worker start candidates
    = Inr (c, s, p, rs)"
proof -
  obtain c where "min_by (\<lambda>t. placement_cost params t start (durations t) lanes risk worker)
      candidates = Some c"
    using min_by_Some [OF assms] by blast
  then show ?thesis
    by (auto simp: choose_placement_def Let_def split: option.splits prod.splits if_splits)
qed

text \<open>The guarantee of the hard threshold: as long as some candidate of the window is below
  it, what is placed while other tests run is below it.\<close>

lemma choose_placement_safe:
  assumes "choose_placement params risk durations lanes worker start candidates = Inr (c, s, p, rs)"
    and "\<exists>t\<in>set candidates.
      fst (placement_risk t start (start + durations t) lanes risk worker) < po_hard_threshold params"
    and "overlapping_at lanes start worker \<noteq> []"
  shows "s = start \<and> p < po_hard_threshold params"
proof -
  let ?safe = "filter (\<lambda>t. fst (placement_risk t start (start + durations t) lanes risk worker)
      < po_hard_threshold params) candidates"
  have "?safe \<noteq> []" using assms(2) by (auto simp: filter_empty_conv)
  with assms(1,3) show ?thesis
    by (auto simp: choose_placement_def Let_def split: option.splits prod.splits if_splits
        dest!: min_by_in)
qed

text \<open>When no candidate is safe, the placement waits for the first running test to end.\<close>

lemma choose_placement_delay:
  assumes "choose_placement params risk durations lanes worker start candidates = Inr (c, s, p, rs)"
    and "\<forall>t\<in>set candidates. po_hard_threshold params
      \<le> fst (placement_risk t start (start + durations t) lanes risk worker)"
    and "overlapping_at lanes start worker \<noteq> []"
  shows "s \<in> sc_end ` set (overlapping_at lanes start worker)
    \<and> (\<forall>o'\<in>set (overlapping_at lanes start worker). s \<le> sc_end o')"
proof -
  let ?safe = "filter (\<lambda>t. fst (placement_risk t start (start + durations t) lanes risk worker)
      < po_hard_threshold params) candidates"
  have safe: "?safe = []" using assms(2) by (auto simp: filter_empty_conv not_less)
  obtain e where e: "min_by (\<lambda>e. e) (map sc_end (overlapping_at lanes start worker)) = Some e"
    using min_by_Some assms(3) by (metis map_is_Nil_conv)
  have "c \<in> set candidates" by (rule choose_placement_in [OF assms(1)])
  have s: "s = max start e"
    using assms(1,2) safe e assms(3)
    by (auto simp: choose_placement_def Let_def split: option.splits prod.splits if_splits
        dest!: min_by_in)
  have ein: "e \<in> sc_end ` set (overlapping_at lanes start worker)"
    and emin: "\<forall>o'\<in>set (overlapping_at lanes start worker). e \<le> sc_end o'"
    using min_by_in [OF e] min_by_le [OF e] by auto
  then have "start < e" by (auto simp: overlapping_at_def split: if_splits)
  with s ein emin show ?thesis by simp
qed

definition place ::
  "(string \<Rightarrow> real) \<Rightarrow> (string \<Rightarrow> string) \<Rightarrow> nat \<Rightarrow> string \<Rightarrow> real \<Rightarrow> real \<Rightarrow> string list \<Rightarrow> ScheduledTest"
  where
  "place durations node_ids worker c s p rs =
     ScheduledTest_init c (node_ids c) worker s (s + durations c) (durations c) p rs"

lemma place_simps [simp]:
  "sc_test_id (place d n w c s p rs) = c" "sc_node_id (place d n w c s p rs) = n c"
  "sc_worker (place d n w c s p rs) = w" "sc_start (place d n w c s p rs) = s"
  "sc_end (place d n w c s p rs) = s + d c" "sc_duration (place d n w c s p rs) = d c"
  "sc_risk_cost (place d n w c s p rs) = p"
  by (simp_all add: place_def ScheduledTest_init_def)

lemma greedy_stepE:
  assumes "greedy_step W params risk d n g = Inr g'"
  obtains w c s p rs where "w < W"
    and "\<forall>v<W. gs_lane_ends g ! w \<le> gs_lane_ends g ! v"
    and "choose_placement params risk d (gs_lanes g) w (gs_lane_ends g ! w)
           (take (po_lookahead params) (gs_remaining g)) = Inr (c, s, p, rs)"
    and "g' = \<lparr>gs_remaining = remove1 c (gs_remaining g),
               gs_lanes = (gs_lanes g)[w := gs_lanes g ! w @ [place d n w c s p rs]],
               gs_lane_ends = (gs_lane_ends g)[w := s + d c]\<rparr>"
proof -
  obtain w where w: "min_by (\<lambda>i. (gs_lane_ends g ! i, i)) [0..<W] = Some w"
    using assms by (auto simp: greedy_step_def split: option.splits)
  then obtain c s p rs where
      c: "choose_placement params risk d (gs_lanes g) w (gs_lane_ends g ! w)
           (take (po_lookahead params) (gs_remaining g)) = Inr (c, s, p, rs)"
    and g': "g' = \<lparr>gs_remaining = remove1 c (gs_remaining g),
               gs_lanes = (gs_lanes g)[w := gs_lanes g ! w @ [place d n w c s p rs]],
               gs_lane_ends = (gs_lane_ends g)[w := s + d c]\<rparr>"
    using assms by (auto simp: greedy_step_def Let_def place_def ScheduledTest_init_def)
  have "w < W" using min_by_in [OF w] by simp
  moreover have "gs_lane_ends g ! w \<le> gs_lane_ends g ! v" if "v < W" for v
    using min_by_le [OF w, of v] that by auto
  ultimately show thesis using that c g' by blast
qed

lemma lanes_valid_place:
  assumes "lanes_valid lanes" and "w < length lanes" and "lane_end (lanes ! w) \<le> s" and "0 < d c"
  shows "lanes_valid (lanes[w := lanes ! w @ [place d n w c s p rs]])"
proof -
  have "lane_valid w (lanes ! w)" using assms(1,2) by (simp add: lanes_valid_def)
  then have "lane_valid w (lanes ! w @ [place d n w c s p rs])"
    using assms(3,4) by (auto simp: lane_valid_def lane_chain_append lane_end_def split: if_splits)
  then show ?thesis using assms(1,2) by (auto simp: lanes_valid_def nth_list_update)
qed

lemma greedy_step_inv:
  assumes "greedy_step W params risk d n g = Inr g'" and "greedy_inv W g"
    and "\<forall>t\<in>set (gs_remaining g). 0 < d t"
  shows "greedy_inv W g'"
proof -
  from assms(1) obtain w c s p rs where w: "w < W"
    and ch: "choose_placement params risk d (gs_lanes g) w (gs_lane_ends g ! w)
           (take (po_lookahead params) (gs_remaining g)) = Inr (c, s, p, rs)"
    and g': "g' = \<lparr>gs_remaining = remove1 c (gs_remaining g),
               gs_lanes = (gs_lanes g)[w := gs_lanes g ! w @ [place d n w c s p rs]],
               gs_lane_ends = (gs_lane_ends g)[w := s + d c]\<rparr>"
    by (rule greedy_stepE)
  have "c \<in> set (gs_remaining g)" using choose_placement_in [OF ch] by (rule in_set_takeD)
  then have "0 < d c" using assms(3) by blast
  moreover have "lane_end (gs_lanes g ! w) \<le> s"
    using choose_placement_start [OF ch] assms(2) w by (simp add: greedy_inv_def)
  ultimately have "lanes_valid (gs_lanes g')"
    using lanes_valid_place assms(2) w by (simp add: greedy_inv_def g')
  then show ?thesis
    using assms(2) w by (auto simp: greedy_inv_def g' nth_list_update lane_end_def)
qed

subsection \<open>Every test is placed once\<close>

definition item_core :: "ScheduledTest \<Rightarrow> string \<times> string \<times> real" where
  "item_core item = (sc_test_id item, sc_node_id item, sc_duration item)"

definition core_of :: "(string \<Rightarrow> real) \<Rightarrow> (string \<Rightarrow> string) \<Rightarrow> string \<Rightarrow> string \<times> string \<times> real" where
  "core_of d n t = (t, n t, d t)"

definition placed :: "lane list \<Rightarrow> (string \<times> string \<times> real) multiset" where
  "placed lanes = mset (map item_core (concat lanes))"

lemma placed_append:
  assumes "w < length lanes"
  shows "placed (lanes[w := lanes ! w @ [item]]) = add_mset (item_core item) (placed lanes)"
proof -
  have "mset (concat (lanes[w := lanes ! w @ [item]])) + mset (lanes ! w)
      = add_mset item (mset (concat lanes)) + mset (lanes ! w)"
    using mset_concat_update [OF assms, of "lanes ! w @ [item]"] by simp
  then have "mset (concat (lanes[w := lanes ! w @ [item]])) = add_mset item (mset (concat lanes))"
    by (rule add_right_imp_eq)
  then show ?thesis by (simp add: placed_def del: mset_concat)
qed

definition greedy_total :: "(string \<Rightarrow> real) \<Rightarrow> (string \<Rightarrow> string) \<Rightarrow> greedy_state \<Rightarrow> (string \<times> string \<times> real) multiset" where
  "greedy_total d n g = placed (gs_lanes g) + image_mset (core_of d n) (mset (gs_remaining g))"

lemma greedy_step_total:
  assumes "greedy_step W params risk d n g = Inr g'" and "length (gs_lanes g) = W"
  shows "greedy_total d n g' = greedy_total d n g"
proof -
  from assms(1) obtain w c s p rs where w: "w < W"
    and ch: "choose_placement params risk d (gs_lanes g) w (gs_lane_ends g ! w)
           (take (po_lookahead params) (gs_remaining g)) = Inr (c, s, p, rs)"
    and g': "g' = \<lparr>gs_remaining = remove1 c (gs_remaining g),
               gs_lanes = (gs_lanes g)[w := gs_lanes g ! w @ [place d n w c s p rs]],
               gs_lane_ends = (gs_lane_ends g)[w := s + d c]\<rparr>"
    by (rule greedy_stepE)
  have c: "c \<in> set (gs_remaining g)" using choose_placement_in [OF ch] by (rule in_set_takeD)
  have "mset (gs_remaining g) = add_mset c (mset (remove1 c (gs_remaining g)))"
    using c by (simp add: insert_DiffM)
  then have "image_mset (core_of d n) (mset (gs_remaining g))
      = add_mset (core_of d n c) (image_mset (core_of d n) (mset (remove1 c (gs_remaining g))))"
    by (metis image_mset_add_mset)
  moreover have "item_core (place d n w c s p rs) = core_of d n c"
    by (simp add: item_core_def core_of_def)
  ultimately show ?thesis
    using placed_append [of w "gs_lanes g" "place d n w c s p rs"] w assms(2)
    by (simp add: greedy_total_def g')
qed

lemma greedy_step_shrinks:
  "greedy_step W params risk d n g = Inr g1 \<Longrightarrow> length (gs_remaining g1) < length (gs_remaining g)"
  using greedy_step_remaining [of W params risk d n g g1]
  by (auto simp: length_remove1 intro!: diff_less length_pos_if_in_set)

text \<open>A property kept by every iteration holds at the end, where nothing remains.\<close>

lemma greedy_loop_preserves:
  assumes step: "\<And>g g1. I g \<Longrightarrow> greedy_step W params risk d n g = Inr g1 \<Longrightarrow> I g1"
    and "greedy_loop W params risk d n g = Inr g'" and "I g"
  shows "I g' \<and> gs_remaining g' = []"
  using assms(2,3)
proof (induction "length (gs_remaining g)" arbitrary: g rule: less_induct)
  case less
  show ?case
  proof (cases "gs_remaining g = []")
    case True
    then show ?thesis using less.prems by (simp add: greedy_loop.simps)
  next
    case False
    then obtain g1 where g1: "greedy_step W params risk d n g = Inr g1"
        and "greedy_loop W params risk d n g1 = Inr g'"
      using less.prems(1) by (subst (asm) greedy_loop.simps) (auto split: sum.splits)
    then show ?thesis
      using less.hyps [OF greedy_step_shrinks [OF g1]] step [OF less.prems(2) g1] by blast
  qed
qed

lemma greedy_step_returns:
  assumes "0 < W" and "0 < po_lookahead params" and "gs_remaining g \<noteq> []"
  shows "\<exists>g1. greedy_step W params risk d n g = Inr g1"
proof -
  obtain w where w: "min_by (\<lambda>i. (gs_lane_ends g ! i, i)) [0..<W] = Some w"
    using min_by_Some assms(1) by fastforce
  have "take (po_lookahead params) (gs_remaining g) \<noteq> []" using assms(2,3) by simp
  from choose_placement_returns [OF this] obtain c s p rs where
    "choose_placement params risk d (gs_lanes g) w (gs_lane_ends g ! w)
       (take (po_lookahead params) (gs_remaining g)) = Inr (c, s, p, rs)" by blast
  with w show ?thesis by (simp add: greedy_step_def Let_def)
qed

lemma greedy_loop_returns:
  assumes "0 < W" and "0 < po_lookahead params"
  shows "\<exists>g'. greedy_loop W params risk d n g = Inr g'"
proof (induction "length (gs_remaining g)" arbitrary: g rule: less_induct)
  case less
  show ?case
  proof (cases "gs_remaining g = []")
    case True
    then show ?thesis by (simp add: greedy_loop.simps)
  next
    case False
    then obtain g1 where g1: "greedy_step W params risk d n g = Inr g1"
      using greedy_step_returns [OF assms] by blast
    then show ?thesis
      using less.hyps [OF greedy_step_shrinks [OF g1]] False by (subst greedy_loop.simps) simp
  qed
qed

lemma greedy_step_remaining_subset:
  "greedy_step W params risk d n g = Inr g1 \<Longrightarrow> set (gs_remaining g1) \<subseteq> set (gs_remaining g)"
  using greedy_step_remaining [of W params risk d n g g1] set_remove1_subset by fastforce

lemma greedy_loop_correct:
  assumes "greedy_loop W params risk d n g = Inr g'" and "greedy_inv W g"
    and "\<forall>t\<in>set (gs_remaining g). 0 < d t"
  shows "greedy_inv W g' \<and> placed (gs_lanes g') = greedy_total d n g"
proof -
  let ?I = "\<lambda>h. greedy_inv W h \<and> (\<forall>t\<in>set (gs_remaining h). 0 < d t) \<and> greedy_total d n h = greedy_total d n g"
  have "?I g' \<and> gs_remaining g' = []"
  proof (rule greedy_loop_preserves [where I = ?I, OF _ assms(1)])
    fix h h1 assume h: "?I h" and s: "greedy_step W params risk d n h = Inr h1"
    have "greedy_inv W h1" using greedy_step_inv [OF s] h by blast
    moreover have "greedy_total d n h1 = greedy_total d n g"
      using greedy_step_total [OF s] h by (simp add: greedy_inv_def)
    moreover have "\<forall>t\<in>set (gs_remaining h1). 0 < d t"
      using greedy_step_remaining_subset [OF s] h by blast
    ultimately show "?I h1" by blast
  qed (use assms in simp)
  then show ?thesis by (auto simp: greedy_total_def [of d n g'])
qed

subsection \<open>The lanes of a run\<close>

definition scheduler_ok :: "ConflictScheduler \<Rightarrow> bool" where
  "scheduler_ok self \<longleftrightarrow> 0 < cs_workers self \<and> 0 < po_lookahead (cs_params self)"

lemma ConflictScheduler_init_ok:
  "ConflictScheduler_init w pol seed rw ht rounds = Inr self \<Longrightarrow> scheduler_ok self"
  by (cases pol) (auto simp: ConflictScheduler_init_def scheduler_ok_def Let_def split: if_splits)

abbreviation run_ids :: "TestIdentity list \<Rightarrow> string list" where
  "run_ids tests \<equiv> dict_keys (tests_by_id tests)"

abbreviation duration_fn :: "TestIdentity list \<Rightarrow> (string \<rightharpoonup> TestStats) \<Rightarrow> string \<Rightarrow> real" where
  "duration_fn tests stats \<equiv> \<lambda>t. the (map_of (test_durations tests stats) t)"

abbreviation node_fn :: "TestIdentity list \<Rightarrow> string \<Rightarrow> string" where
  "node_fn tests \<equiv> \<lambda>t. ti_node_id (the (map_of (tests_by_id tests) t))"

lemma set_run_ids: "set (run_ids tests) = ti_id ` set tests"
  by (simp add: tests_by_id_def set_keys_dict_of image_image)

lemma distinct_run_ids: "distinct (run_ids tests)"
  by (simp add: tests_by_id_def)

lemma map_of_key_value:
  "x \<in> set xs \<Longrightarrow> map_of (dict_of (map (\<lambda>x. (k x, f (k x))) xs)) (k x) = Some (f (k x))"
proof -
  assume x: "x \<in> set xs"
  have "map_of (rev (map (\<lambda>k. (k, f k)) (map k xs))) (k x) = Some (f (k x))"
    using x by (intro map_of_fun_pairs) simp
  then show ?thesis by (simp add: map_of_dict_of comp_def)
qed

lemma duration_fn_eq:
  assumes "t \<in> ti_id ` set tests"
  shows "duration_fn tests stats t = clamped_duration stats t"
proof -
  obtain x where x: "x \<in> set tests" "t = ti_id x" using assms by auto
  show ?thesis
    using map_of_key_value [OF x(1), of ti_id "clamped_duration stats"] x(2)
    by (simp add: test_durations_def)
qed

lemma clamped_duration_pos: "0 < clamped_duration stats t"
  by (simp add: clamped_duration_def max_def)

lemma greedy_lanes_returns:
  "scheduler_ok self \<Longrightarrow> \<exists>lanes. greedy_lanes self env tests stats risk = Inr lanes"
  using greedy_loop_returns [of "nat (cs_workers self)" "cs_params self"]
  by (fastforce simp: greedy_lanes_def scheduler_ok_def)

lemma greedy_inv_initial:
  "greedy_inv W \<lparr>gs_remaining = r, gs_lanes = replicate W [], gs_lane_ends = replicate W 0\<rparr>"
  by (simp add: greedy_inv_def lanes_valid_def lane_valid_def lane_end_def)

lemma greedy_lanes_correct:
  assumes "greedy_lanes self env tests stats risk = Inr lanes"
  shows "length lanes = nat (cs_workers self) \<and> lanes_valid lanes
    \<and> placed lanes = image_mset (core_of (duration_fn tests stats) (node_fn tests)) (mset (run_ids tests))"
proof -
  let ?g = "\<lparr>gs_remaining = initial_order (env_random env (cs_seed self)) tests stats,
     gs_lanes = replicate (nat (cs_workers self)) [],
     gs_lane_ends = replicate (nat (cs_workers self)) 0\<rparr>"
  let ?d = "duration_fn tests stats" and ?n = "node_fn tests"
  obtain g' where l: "greedy_loop (nat (cs_workers self)) (cs_params self) risk ?d ?n ?g = Inr g'"
    and lanes: "lanes = gs_lanes g'"
    using assms by (auto simp: greedy_lanes_def)
  have rem: "mset (initial_order (env_random env (cs_seed self)) tests stats) = mset (run_ids tests)"
    by (simp add: initial_order_def)
  then have "set (gs_remaining ?g) = ti_id ` set tests"
    using set_run_ids by (metis greedy_state.select_convs(1) set_mset_mset)
  then have "\<forall>t\<in>set (gs_remaining ?g). 0 < ?d t"
    using duration_fn_eq clamped_duration_pos by metis
  from greedy_loop_correct [OF l greedy_inv_initial this] show ?thesis
    by (simp add: lanes greedy_inv_def greedy_total_def placed_def rem)
qed

end
