(* ===== verification/Scheduler_Refine.thy ===== *)
theory Scheduler_Refine
  imports Scheduler_Greedy
begin

section \<open>Refinement by adjacent swaps\<close>

text \<open>
  \<^verbatim>\<open>_refine\<close> tries to swap neighbours of a lane and re-flows the lane after every attempt, the
  rejected ones included. It keeps every lane valid, keeps the tests of every lane, and never
  lengthens the schedule. On lanes without idle time it never raises the objective; on lanes
  with idle time a rejected swap is not undone, because re-flowing removes the idle time that a
  hard-threshold delay had put there, and the objective can get worse.
\<close>

subsection \<open>Re-flowing a lane\<close>

definition unplaced :: "ScheduledTest \<Rightarrow> ScheduledTest" where
  "unplaced item = item\<lparr>sc_worker := 0, sc_start := 0, sc_end := 0\<rparr>"

lemma unplaced_unplaced [simp]: "item_core (unplaced a) = item_core a"
  by (simp add: unplaced_def item_core_def)

lemma unplaced_core: "unplaced a = unplaced b \<Longrightarrow> item_core a = item_core b"
  by (metis unplaced_unplaced)

lemma placing_unplaced:
  "(unplaced a)\<lparr>sc_worker := w, sc_start := c, sc_end := e\<rparr> = a\<lparr>sc_worker := w, sc_start := c, sc_end := e\<rparr>"
  by (simp add: unplaced_def)

lemma unplaced_reflow [simp]: "map unplaced (reflow_from c w lane) = map unplaced lane"
  by (induction lane arbitrary: c) (auto simp: unplaced_def)

lemma reflow_unplaced:
  "map unplaced lane = map unplaced lane' \<Longrightarrow> reflow_from c w lane = reflow_from c w lane'"
proof (induction lane arbitrary: c lane')
  case (Cons a lane)
  then obtain b rest where l: "lane' = b # rest" "unplaced a = unplaced b"
      "map unplaced lane = map unplaced rest"
    by (cases lane') auto
  have d: "sc_duration a = sc_duration b"
    using unplaced_core [OF l(2)] by (simp add: item_core_def)
  have "a\<lparr>sc_worker := w, sc_start := c, sc_end := c + sc_duration b\<rparr>
      = b\<lparr>sc_worker := w, sc_start := c, sc_end := c + sc_duration b\<rparr>"
    using placing_unplaced l(2) by metis
  with Cons.IH [OF l(3)] d l(1) show ?case by simp
qed simp

lemma map_core_unplaced:
  assumes "map unplaced xs = map unplaced ys" shows "map item_core xs = map item_core ys"
proof -
  have "map item_core (map unplaced xs) = map item_core (map unplaced ys)" using assms by simp
  then show ?thesis by (simp add: comp_def)
qed

lemma core_reflow [simp]: "map item_core (reflow_lane lane w) = map item_core lane"
  by (rule map_core_unplaced) (simp add: reflow_lane_def)

lemma length_reflow [simp]: "length (reflow_lane lane w) = length lane"
  by (metis core_reflow length_map)

lemma reflow_reflow: "reflow_lane (reflow_lane lane v) w = reflow_lane lane w"
  unfolding reflow_lane_def by (rule reflow_unplaced) simp

lemma reflow_from_chain:
  "\<forall>item\<in>set lane. 0 < sc_duration item \<Longrightarrow> lane_chain c (reflow_from c w lane)"
  by (induction lane arbitrary: c) auto

lemma reflow_from_worker: "item \<in> set (reflow_from c w lane) \<Longrightarrow> sc_worker item = w"
  by (induction lane arbitrary: c) auto

lemma reflow_lane_valid: "\<forall>item\<in>set lane. 0 < sc_duration item \<Longrightarrow> lane_valid w (reflow_lane lane w)"
  using reflow_from_chain reflow_from_worker by (auto simp: lane_valid_def reflow_lane_def)

lemma reflow_from_end:
  "lane \<noteq> [] \<Longrightarrow> sc_end (last (reflow_from c w lane)) = c + work_of lane"
proof (induction lane arbitrary: c)
  case (Cons item rest)
  then show ?case by (cases rest) (auto simp: work_of_def)
qed simp

lemma reflow_lane_end: "lane_end (reflow_lane lane w) = work_of lane"
proof (cases "lane = []")
  case False
  then have "reflow_lane lane w \<noteq> []" by (metis length_0_conv length_reflow)
  then show ?thesis using reflow_from_end [OF False, of 0 w] by (simp add: lane_end_def reflow_lane_def)
qed (simp add: lane_end_def reflow_lane_def work_of_def)

subsection \<open>Swaps\<close>

lemma map_swap_adjacent: "i + 1 < length xs \<Longrightarrow> map f (swap_adjacent xs i) = swap_adjacent (map f xs) i"
  by (simp add: swap_adjacent_def map_update)

lemma length_swap_adjacent [simp]: "length (swap_adjacent xs i) = length xs"
  by (simp add: swap_adjacent_def)

lemma mset_swap_adjacent_eq: "i + 1 < length xs \<Longrightarrow> mset (swap_adjacent xs i) = mset xs"
  using mset_swap_adjacent [of i xs] by (simp add: swap_adjacent_def)

lemma swap_adjacent_twice: "i + 1 < length xs \<Longrightarrow> swap_adjacent (swap_adjacent xs i) i = xs"
  by (rule nth_equalityI) (auto simp: swap_adjacent_def nth_list_update)

text \<open>Rejecting a swap leaves the lane re-flowed, not as it was.\<close>

lemma rejected_swap:
  assumes "i + 1 < length lane"
  shows "reflow_lane (swap_adjacent (reflow_lane (swap_adjacent lane i) w) i) w = reflow_lane lane w"
proof -
  have "map unplaced (swap_adjacent (reflow_lane (swap_adjacent lane i) w) i)
      = swap_adjacent (swap_adjacent (map unplaced lane) i) i"
    using assms by (simp add: map_swap_adjacent reflow_lane_def [symmetric]) (simp add: reflow_lane_def map_swap_adjacent)
  also have "\<dots> = map unplaced lane" using assms by (simp add: swap_adjacent_twice)
  finally show ?thesis unfolding reflow_lane_def by (rule reflow_unplaced)
qed

subsection \<open>What one attempt does\<close>

definition same_tests :: "lane list \<Rightarrow> lane list \<Rightarrow> bool" where
  "same_tests lanes lanes' \<longleftrightarrow> length lanes' = length lanes
     \<and> (\<forall>w<length lanes. mset (map item_core (lanes' ! w)) = mset (map item_core (lanes ! w)))"

lemma same_tests_refl [simp]: "same_tests lanes lanes"
  by (simp add: same_tests_def)

lemma same_tests_trans: "same_tests a b \<Longrightarrow> same_tests b c \<Longrightarrow> same_tests a c"
  by (auto simp: same_tests_def)

lemma same_tests_update:
  assumes "mset (map item_core lane) = mset (map item_core (lanes ! w))"
  shows "same_tests lanes (lanes[w := lane])"
  using assms
  by (cases "w < length lanes") (auto simp: same_tests_def nth_list_update list_update_beyond)

lemma core_mset_length: "mset (map item_core xs) = mset (map item_core ys) \<Longrightarrow> length xs = length ys"
  by (metis length_map size_mset)

lemma core_mset_work: "mset (map item_core xs) = mset (map item_core ys) \<Longrightarrow> work_of xs = work_of ys"
proof -
  assume "mset (map item_core xs) = mset (map item_core ys)"
  then have "mset (map (\<lambda>c. snd (snd c)) (map item_core xs)) = mset (map (\<lambda>c. snd (snd c)) (map item_core ys))"
    by (metis mset_map)
  then have "mset (map sc_duration xs) = mset (map sc_duration ys)"
    by (simp add: comp_def item_core_def)
  then show ?thesis unfolding work_of_def by (metis sum_mset_sum_list)
qed

lemma core_mset_durations:
  assumes "mset (map item_core xs) = mset (map item_core ys)"
  shows "sc_duration ` set xs = sc_duration ` set ys"
proof -
  have "item_core ` set xs = item_core ` set ys" using assms by (metis list.set_map set_mset_mset)
  then have "(\<lambda>c. snd (snd c)) ` item_core ` set xs = (\<lambda>c. snd (snd c)) ` item_core ` set ys" by simp
  then show ?thesis by (simp add: image_image item_core_def)
qed

lemma placed_concat: "placed lanes = (\<Sum>lane\<leftarrow>lanes. mset (map item_core lane))"
  by (induction lanes) (auto simp: placed_def)

lemma same_tests_placed: "same_tests lanes lanes' \<Longrightarrow> placed lanes' = placed lanes"
  unfolding placed_concat
  by (rule arg_cong [where f = sum_list], rule nth_equalityI) (auto simp: same_tests_def)

text \<open>An attempt replaces one lane by a re-flowed permutation of itself.\<close>

lemma refine_swap_lanes:
  assumes "w < length lanes" and "i + 1 < length (lanes ! w)"
  shows "\<exists>lane. fst (refine_swap params risk w (lanes, b, ch) i) = lanes[w := reflow_lane lane w]
     \<and> mset (map item_core lane) = mset (map item_core (lanes ! w))"
proof -
  let ?s = "swap_adjacent (lanes ! w) i"
  have 1: "mset (map item_core ?s) = mset (map item_core (lanes ! w))"
    using assms(2) by (simp add: map_swap_adjacent mset_swap_adjacent_eq del: mset_map)
  have 2: "reflow_lane (swap_adjacent (reflow_lane ?s w) i) w = reflow_lane (lanes ! w) w"
    using assms(2) by (rule rejected_swap)
  show ?thesis
  proof (cases "objective params (concat (lanes[w := reflow_lane ?s w])) risk + 1 / 10 ^ 9 < b")
    case True
    then show ?thesis using 1 by (auto simp: refine_swap_def Let_def)
  next
    case False
    then have "fst (refine_swap params risk w (lanes, b, ch) i) = lanes[w := reflow_lane (lanes ! w) w]"
      by (simp add: refine_swap_def Let_def 2)
    then show ?thesis by blast
  qed
qed

lemma reflow_step:
  assumes "lanes_valid lanes" and "w < length lanes"
    and "mset (map item_core lane) = mset (map item_core (lanes ! w))"
  shows "lanes_valid (lanes[w := reflow_lane lane w])"
    and "same_tests lanes (lanes[w := reflow_lane lane w])"
    and "lane_end (reflow_lane lane w) \<le> lane_end (lanes ! w)"
proof -
  have lv: "lane_valid w (lanes ! w)" using assms(1,2) by (simp add: lanes_valid_def)
  then have pos: "\<forall>item\<in>set (lanes ! w). 0 < sc_duration item"
    using lane_chain_item by (auto simp: lane_valid_def)
  have "\<forall>item\<in>set lane. 0 < sc_duration item"
  proof
    fix item assume "item \<in> set lane"
    then have "sc_duration item \<in> sc_duration ` set (lanes ! w)"
      using core_mset_durations [OF assms(3)] by blast
    then show "0 < sc_duration item" using pos by auto
  qed
  then have "lane_valid w (reflow_lane lane w)" by (rule reflow_lane_valid)
  then show "lanes_valid (lanes[w := reflow_lane lane w])"
    using assms(1,2) by (auto simp: lanes_valid_def nth_list_update)
  show "same_tests lanes (lanes[w := reflow_lane lane w])"
    using assms(3) by (intro same_tests_update) (simp del: mset_map)
  have "0 + work_of (lanes ! w) \<le> (if lanes ! w = [] then 0 else sc_end (last (lanes ! w)))"
    using lv by (intro lane_chain_work) (simp add: lane_valid_def)
  then show "lane_end (reflow_lane lane w) \<le> lane_end (lanes ! w)"
    using core_mset_work [OF assms(3)] by (simp add: reflow_lane_end) (simp add: lane_end_def)
qed

subsection \<open>Invariants of the whole refinement\<close>

text \<open>Any relation between the lanes before and after that every attempt respects holds for
  the result of the refinement.\<close>

lemma refine_one_lane_invariant:
  assumes swap: "\<And>s i. J s \<Longrightarrow> i + 1 < length (fst s ! w) \<Longrightarrow> J (refine_swap params risk w s i)"
    and len: "\<And>s i. J s \<Longrightarrow> i + 1 < length (fst s ! w) \<Longrightarrow>
      length (fst (refine_swap params risk w s i) ! w) = length (fst s ! w)"
    and "J s"
  shows "J (refine_one_lane params risk s w)"
proof -
  have "J (foldl (refine_swap params risk w) s is)"
    if "\<forall>i\<in>set is. i + 1 < length (fst s ! w)" "J s" for "is" s
    using that
  proof (induction "is" arbitrary: s)
    case (Cons i "is")
    then show ?case using swap [of s i] len [of s i] by simp
  qed simp
  moreover have "\<forall>i\<in>set [0..<length (fst s ! w) - 1]. i + 1 < length (fst s ! w)" by auto
  ultimately show ?thesis using assms(3) unfolding refine_one_lane_def by blast
qed

lemma foldl_invariant:
  assumes "\<And>s x. J s \<Longrightarrow> x \<in> set xs \<Longrightarrow> J (f s x)" and "J s"
  shows "J (foldl f s xs)"
  using assms by (induction xs arbitrary: s) auto

lemma refine_round_invariant:
  assumes swap: "\<And>s w i. J s \<Longrightarrow> w < length lanes \<Longrightarrow> i + 1 < length (fst s ! w) \<Longrightarrow>
      J (refine_swap params risk w s i)"
    and same: "\<And>s. J s \<Longrightarrow> same_tests lanes (fst s)"
    and init: "J (lanes, objective params (concat lanes) risk, False)"
  shows "J (refine_round params risk lanes)"
  unfolding refine_round_def
proof (rule foldl_invariant)
  fix s w assume s: "J s" and w: "w \<in> set [0..<length lanes]"
  show "J (refine_one_lane params risk s w)"
  proof (rule refine_one_lane_invariant [where J = J])
    fix s i assume s: "J s" and i: "i + 1 < length (fst s ! w)"
    show sw: "J (refine_swap params risk w s i)" using swap s i w by simp
    have "mset (map item_core (fst (refine_swap params risk w s i) ! w)) = mset (map item_core (fst s ! w))"
      using same [OF s] same [OF sw] w by (simp add: same_tests_def del: mset_map)
    then show "length (fst (refine_swap params risk w s i) ! w) = length (fst s ! w)"
      by (rule core_mset_length)
  qed (rule s)
qed (rule init)

definition lanes_makespan :: "lane list \<Rightarrow> real" where
  "lanes_makespan lanes = makespan_of (concat lanes)"

definition ends_le :: "lane list \<Rightarrow> lane list \<Rightarrow> bool" where
  "ends_le lanes' lanes \<longleftrightarrow> (\<forall>w<length lanes. lane_end (lanes' ! w) \<le> lane_end (lanes ! w))"

definition refined :: "lane list \<Rightarrow> lane list \<Rightarrow> bool" where
  "refined lanes lanes' \<longleftrightarrow> lanes_valid lanes' \<and> same_tests lanes lanes' \<and> ends_le lanes' lanes"

lemma refined_refl: "lanes_valid lanes \<Longrightarrow> refined lanes lanes"
  by (simp add: refined_def ends_le_def)

lemma refined_trans: "refined a b \<Longrightarrow> refined b c \<Longrightarrow> refined a c"
  by (auto simp: refined_def ends_le_def same_tests_def intro: order_trans)

lemma refine_swap_refined:
  assumes "refined lanes (fst s)" and "w < length lanes" and "i + 1 < length (fst s ! w)"
  shows "refined lanes (fst (refine_swap params risk w s i))"
proof -
  obtain ls b ch where s: "s = (ls, b, ch)" by (cases s) auto
  have l: "lanes_valid ls" "w < length ls"
    using assms(1,2) s by (auto simp: refined_def same_tests_def)
  obtain lane where r: "fst (refine_swap params risk w s i) = ls[w := reflow_lane lane w]"
    and m: "mset (map item_core lane) = mset (map item_core (ls ! w))"
    using refine_swap_lanes [OF l(2), of i params risk b ch] assms(3) s by auto
  note step = reflow_step [OF l m]
  have "ends_le (ls[w := reflow_lane lane w]) ls"
    using step(3) l(2) by (auto simp: ends_le_def nth_list_update)
  then have "refined ls (ls[w := reflow_lane lane w])"
    using step(1,2) by (simp add: refined_def)
  then show ?thesis using assms(1) refined_trans s r by simp
qed

lemma refine_round_refined:
  "lanes_valid lanes \<Longrightarrow> refined lanes (fst (refine_round params risk lanes))"
proof (rule refine_round_invariant [where J = "\<lambda>s. refined lanes (fst s)"])
  fix s :: refine_state and w i
  assume "refined lanes (fst s)" "w < length lanes" "i + 1 < length (fst s ! w)"
  then show "refined lanes (fst (refine_swap params risk w s i))" by (rule refine_swap_refined)
next
  fix s :: refine_state
  assume "refined lanes (fst s)"
  then show "same_tests lanes (fst s)" by (simp add: refined_def)
qed (simp add: refined_refl)

lemma refine_rounds_refined: "lanes_valid lanes \<Longrightarrow> refined lanes (refine_rounds params risk n lanes)"
proof (induction n arbitrary: lanes)
  case 0
  then show ?case by (simp add: refined_refl)
next
  case (Suc n)
  obtain lanes' b ch where r: "refine_round params risk lanes = (lanes', b, ch)" by (cases "refine_round params risk lanes") auto
  have "refined lanes lanes'" using refine_round_refined [OF Suc.prems, of params risk] r by simp
  moreover from this have "refined lanes' (refine_rounds params risk n lanes')"
    using Suc.IH by (simp add: refined_def)
  ultimately show ?case using r refined_trans by (auto simp: Let_def)
qed

lemma refine_refined: "lanes_valid lanes \<Longrightarrow> refined lanes (refine self lanes risk)"
  by (simp add: refine_def refine_rounds_refined refined_refl)

end
