(* ===== verification/Static_Schedule.thy ===== *)
theory Static_Schedule
  imports Scheduler_Refine
begin

section \<open>The schedule of a run\<close>

text \<open>
  The results on \<^verbatim>\<open>ConflictScheduler.static_schedule\<close> as a whole: it returns, it schedules
  every test once, workers never overlap, the makespan is bounded below by the work and, with
  no predicted conflict, within Graham's factor of any other timeline. The refinement is
  monotone on lanes without idle time, and a concrete run shows that it is not in general.
\<close>

subsection \<open>The refinement's objective\<close>

definition lanes_compact :: "lane list \<Rightarrow> bool" where
  "lanes_compact lanes \<longleftrightarrow> (\<forall>w<length lanes. reflow_lane (lanes ! w) w = lanes ! w)"

definition refining :: "PolicyParameters \<Rightarrow> RiskIndex \<Rightarrow> lane list \<Rightarrow> refine_state \<Rightarrow> bool" where
  "refining params risk lanes s \<longleftrightarrow>
     (let (ls, baseline, changed) = s
      in same_tests lanes ls \<and> lanes_compact ls \<and> baseline = objective params (concat ls) risk
        \<and> (if changed then baseline + 1 / 10 ^ 9 < objective params (concat lanes) risk
           else ls = lanes))"

lemma refine_swap_refining:
  assumes "refining params risk lanes s" and "w < length lanes" and "i + 1 < length (fst s ! w)"
  shows "refining params risk lanes (refine_swap params risk w s i)"
proof -
  obtain ls b ch where s: "s = (ls, b, ch)" by (cases s) auto
  have st: "same_tests lanes ls" and cp: "lanes_compact ls" and b: "b = objective params (concat ls) risk"
    and ch: "if ch then b + 1 / 10 ^ 9 < objective params (concat lanes) risk else ls = lanes"
    using assms(1) s by (auto simp: refining_def)
  have w: "w < length ls" using assms(2) st by (simp add: same_tests_def)
  have i: "i + 1 < length (ls ! w)" using assms(3) s by simp
  let ?s = "swap_adjacent (ls ! w) i"
  let ?ls = "ls[w := reflow_lane ?s w]"
  have "mset (map item_core ?s) = mset (map item_core (ls ! w))"
    using i by (simp add: map_swap_adjacent mset_swap_adjacent_eq del: mset_map)
  then have st': "same_tests lanes ?ls"
    using st same_tests_trans same_tests_update [of "reflow_lane ?s w"] by (simp del: mset_map)
  have cp': "lanes_compact ?ls" using cp w by (auto simp: lanes_compact_def nth_list_update reflow_reflow)
  have rej: "ls[w := reflow_lane (swap_adjacent (reflow_lane ?s w) i) w] = ls"
    using cp w i by (simp add: rejected_swap lanes_compact_def)
  show ?thesis
  proof (cases "objective params (concat ?ls) risk + 1 / 10 ^ 9 < b")
    case True
    then have "objective params (concat ?ls) risk + 1 / 10 ^ 9 < objective params (concat lanes) risk"
      using ch b by (cases ch) auto
    then show ?thesis using True st' cp' by (simp add: s refine_swap_def refining_def Let_def)
  next
    case False
    then show ?thesis
      using st cp b ch rej by (cases ch) (simp_all add: s refine_swap_def refining_def Let_def)
  qed
qed

lemma refine_round_refining: "lanes_compact lanes \<Longrightarrow> refining params risk lanes (refine_round params risk lanes)"
proof (rule refine_round_invariant [where J = "refining params risk lanes"])
  fix s :: refine_state
  assume "refining params risk lanes s"
  then show "same_tests lanes (fst s)" by (cases s) (auto simp: refining_def)
next
  fix s :: refine_state and w i
  assume "refining params risk lanes s" "w < length lanes" "i + 1 < length (fst s ! w)"
  then show "refining params risk lanes (refine_swap params risk w s i)" by (rule refine_swap_refining)
next
  assume "lanes_compact lanes"
  then show "refining params risk lanes (lanes, objective params (concat lanes) risk, False)"
    by (simp add: refining_def)
qed

lemma refine_rounds_objective:
  "lanes_compact lanes \<Longrightarrow>
     objective params (concat (refine_rounds params risk n lanes)) risk \<le> objective params (concat lanes) risk"
proof (induction n arbitrary: lanes)
  case (Suc n)
  obtain ls b ch where r: "refine_round params risk lanes = (ls, b, ch)"
    by (cases "refine_round params risk lanes") auto
  have "refining params risk lanes (ls, b, ch)" using refine_round_refining [OF Suc.prems] r by metis
  then have "lanes_compact ls" and "objective params (concat ls) risk \<le> objective params (concat lanes) risk"
    by (auto simp: refining_def split: if_splits)
  then show ?case using Suc.IH [of ls] r by (auto simp: Let_def)
qed simp

subsection \<open>From lanes to the flattened schedule\<close>

lemma filter_nth_concat:
  assumes "\<And>i. i < length lanes \<Longrightarrow> filter P (lanes ! i) = (if i = w then lanes ! w else [])"
  shows "filter P (concat lanes) = (if w < length lanes then lanes ! w else [])"
  using assms
proof (induction lanes arbitrary: w)
  case (Cons l ls)
  have h: "filter P l = (if w = 0 then l else [])" using Cons.prems [of 0] by auto
  have t: "filter P (concat ls) = (if w \<noteq> 0 \<and> w - 1 < length ls then ls ! (w - 1) else [])"
  proof (cases w)
    case 0
    have "filter P l' = []" if "l' \<in> set ls" for l'
      using that Cons.prems [of "Suc j" for j] 0 by (auto simp: in_set_conv_nth)
    then show ?thesis using 0 by (auto simp: filter_concat)
  next
    case (Suc v)
    have "filter P (ls ! i) = (if i = v then ls ! v else [])" if "i < length ls" for i
      using Cons.prems [of "Suc i"] that Suc by auto
    from Cons.IH [OF this] show ?thesis using Suc by simp
  qed
  show ?case using h t by (cases w) auto
qed simp

lemma in_concat_lanes: "item \<in> set (concat lanes) \<longleftrightarrow> (\<exists>w<length lanes. item \<in> set (lanes ! w))"
  by (auto simp: set_conv_nth [of lanes])

lemma on_worker_concat:
  assumes "lanes_valid lanes"
  shows "on_worker w (concat lanes) = (if w < length lanes then lanes ! w else [])"
  unfolding on_worker_def
proof (rule filter_nth_concat)
  fix i assume "i < length lanes"
  then have "\<forall>item\<in>set (lanes ! i). sc_worker item = i"
    using assms by (simp add: lanes_valid_def lane_valid_def)
  then show "filter (\<lambda>item. sc_worker item = w) (lanes ! i) = (if i = w then lanes ! w else [])"
    by (auto simp: filter_empty_conv intro!: filter_True)
qed

lemma sort_key_sorted: "sorted (map f xs) \<Longrightarrow> sort_key f xs = xs"
  by (induction xs) (auto simp: insort_is_Cons)

lemma lane_chain_sorted_key:
  "lane_chain t lane \<Longrightarrow> sorted (map (\<lambda>item. (sc_start item, sc_worker item, sc_test_id item)) lane)"
proof (induction lane arbitrary: t)
  case (Cons a lane)
  have "sc_start a < sc_start b" if "b \<in> set lane" for b
    using lane_chain_before [of t "[]" a lane b] Cons.prems that by auto
  then show ?case using Cons by (auto intro: less_imp_le)
qed simp

lemma flatten_timeline:
  assumes "lanes_valid lanes"
  shows "timeline_valid (length lanes) (flatten_lanes lanes)"
proof -
  have "lane_chain 0 (on_worker w (flatten_lanes lanes))" if w: "w < length lanes" for w
  proof -
    have c: "lane_chain 0 (lanes ! w)" using assms w by (simp add: lanes_valid_def lane_valid_def)
    have "on_worker w (flatten_lanes lanes)
        = sort_key (\<lambda>item. (sc_start item, sc_worker item, sc_test_id item)) (on_worker w (concat lanes))"
      by (simp add: flatten_lanes_def on_worker_def filter_sort)
    also have "\<dots> = lanes ! w"
      using w assms lane_chain_sorted_key [OF c] by (simp add: on_worker_concat sort_key_sorted)
    finally show ?thesis using c by simp
  qed
  moreover have "sc_worker item < length lanes" if "item \<in> set (flatten_lanes lanes)" for item
  proof -
    have "item \<in> set (concat lanes)" using that by (simp add: flatten_lanes_def)
    then obtain w where "w < length lanes" "item \<in> set (lanes ! w)" unfolding in_concat_lanes by blast
    then show ?thesis using assms by (auto simp: lanes_valid_def lane_valid_def)
  qed
  ultimately show ?thesis by (simp add: timeline_valid_def)
qed

lemma flatten_simps [simp]:
  "set (flatten_lanes lanes) = set (concat lanes)"
  "mset (map f (flatten_lanes lanes)) = mset (map f (concat lanes))"
  by (simp_all add: flatten_lanes_def)

lemma makespan_le:
  assumes "lanes_valid lanes" and "\<And>w. w < length lanes \<Longrightarrow> lane_end (lanes ! w) \<le> B" and "0 \<le> B"
  shows "makespan_of (concat lanes) \<le> B"
proof (cases "concat lanes = []")
  case False
  have "sc_end item \<le> B" if item: "item \<in> set (concat lanes)" for item
  proof -
    obtain w where w: "w < length lanes" "item \<in> set (lanes ! w)"
      using item unfolding in_concat_lanes by blast
    have "sorted (map sc_end (lanes ! w))"
      using assms(1) w(1) by (intro lane_chain_sorted_end [of 0]) (simp add: lanes_valid_def lane_valid_def)
    then have "sc_end item \<le> sc_end (last (lanes ! w))"
    proof (cases "lanes ! w" rule: rev_cases)
      case (snoc ys y)
      assume "sorted (map sc_end (lanes ! w))"
      then show ?thesis using snoc w(2) by (auto simp: sorted_append)
    qed (use w in simp)
    then show ?thesis using assms(2) [OF w(1)] w(2) by (auto simp: lane_end_def split: if_splits)
  qed
  then show ?thesis using False by (auto simp: makespan_of_def max_default_le_iff)
next
  case True
  then show ?thesis using assms(3) by (simp only: makespan_of_def) simp
qed

lemma refined_makespan:
  assumes "refined lanes lanes'" and "lanes_valid lanes"
  shows "makespan_of (concat lanes') \<le> makespan_of (concat lanes)"
proof (rule makespan_le)
  show "lanes_valid lanes'" using assms(1) by (simp add: refined_def)
  have nn: "0 \<le> makespan_of (concat lanes)"
    using timeline_makespan_nonneg [OF flatten_timeline [OF assms(2)]] makespan_cong [of "flatten_lanes lanes" "concat lanes"]
    by simp
  then show "0 \<le> makespan_of (concat lanes)" .
  fix w assume w: "w < length lanes'"
  then have w': "w < length lanes" using assms(1) by (simp add: refined_def same_tests_def)
  have "lane_end (lanes' ! w) \<le> lane_end (lanes ! w)" using assms(1) w' by (simp add: refined_def ends_le_def)
  also have "\<dots> \<le> makespan_of (concat lanes)"
  proof (cases "lanes ! w = []")
    case True
    then show ?thesis using nn by (simp add: lane_end_def)
  next
    case False
    then have "last (lanes ! w) \<in> set (concat lanes)" using w' unfolding in_concat_lanes by auto
    then show ?thesis using False makespan_ge by (simp add: lane_end_def)
  qed
  finally show "lane_end (lanes' ! w) \<le> makespan_of (concat lanes)" .
qed

subsection \<open>What a returned schedule is made of\<close>

lemma static_scheduleE:
  assumes "static_schedule self env tests stats ps run_id = Inr s"
  obtains lanes where "length lanes = nat (cs_workers self)" and "lanes_valid lanes"
    and "placed lanes = image_mset (core_of (duration_fn tests stats) (node_fn tests)) (mset (run_ids tests))"
    and "sd_tests s = flatten_lanes lanes" and "sd_workers s = cs_workers self"
    and "sd_expected_makespan s = makespan_of (sd_tests s)"
    and "sd_expected_risk s = schedule_risk (RiskIndex_init ps) (sd_tests s)"
    and "\<exists>greedy. greedy_lanes self env tests stats (RiskIndex_init ps) = Inr greedy \<and> refined greedy lanes"
proof -
  let ?risk = "RiskIndex_init ps"
  obtain greedy where g: "greedy_lanes self env tests stats ?risk = Inr greedy"
    and s: "s = \<lparr>sd_id = env_uuid1 env, sd_run_id = run_id_or run_id (env_uuid2 env),
                 sd_workers = cs_workers self, sd_policy = cs_policy self,
                 sd_tests = flatten_lanes (if length tests \<le> 64 then refine self greedy ?risk else greedy),
                 sd_scheduler_latency_ms = env_elapsed_ms env,
                 sd_expected_makespan =
                   makespan_of (flatten_lanes (if length tests \<le> 64 then refine self greedy ?risk else greedy)),
                 sd_expected_risk = schedule_risk ?risk
                   (flatten_lanes (if length tests \<le> 64 then refine self greedy ?risk else greedy)),
                 sd_seed = cs_seed self\<rparr>"
    using assms by (auto simp: static_schedule_def Let_def)
  let ?lanes = "if length tests \<le> 64 then refine self greedy ?risk else greedy"
  note gc = greedy_lanes_correct [OF g]
  have r: "refined greedy ?lanes" using gc refine_refined refined_refl by auto
  then have st: "same_tests greedy ?lanes" and "lanes_valid ?lanes" by (simp_all only: refined_def)
  moreover have "placed ?lanes = placed greedy" by (rule same_tests_placed [OF st])
  moreover have "length ?lanes = nat (cs_workers self)" using st gc by (simp only: same_tests_def)
  ultimately have "length ?lanes = nat (cs_workers self)" "lanes_valid ?lanes"
    "placed ?lanes = placed greedy" by blast+
  then show thesis using that [of ?lanes] gc g s r by simp
qed

abbreviation scheduled_by_conflict :: "Schedule \<Rightarrow> bool" where
  "scheduled_by_conflict s \<equiv>
     \<exists>self env tests stats ps run_id. static_schedule self env tests stats ps run_id = Inr s"

interpretation conflict: timeline_provider scheduled_by_conflict "\<lambda>s. nat (sd_workers s)" sd_tests
proof
  fix s assume "scheduled_by_conflict s"
  then obtain self env tests stats ps run_id where
    s: "static_schedule self env tests stats ps run_id = Inr s" by blast
  show "timeline_valid (nat (sd_workers s)) (sd_tests s)"
    by (rule static_scheduleE [OF s]) (metis flatten_timeline)
qed

lemma placed_ids: "image_mset fst (placed lanes) = mset (map sc_test_id (concat lanes))"
  by (simp add: placed_def item_core_def multiset.map_comp comp_def del: mset_concat)

lemma schedule_ids:
  assumes "static_schedule self env tests stats ps run_id = Inr s"
  shows "mset (map sc_test_id (sd_tests s)) = mset (run_ids tests)"
proof (rule static_scheduleE [OF assms])
  fix lanes
  assume p: "placed lanes = image_mset (core_of (duration_fn tests stats) (node_fn tests)) (mset (run_ids tests))"
    and t: "sd_tests s = flatten_lanes lanes"
  have "mset (map sc_test_id (sd_tests s)) = image_mset fst (placed lanes)"
    unfolding t placed_ids by (rule flatten_simps)
  also have "\<dots> = mset (run_ids tests)"
    by (simp add: p multiset.map_comp comp_def core_of_def)
  finally show ?thesis .
qed

lemma schedule_item:
  assumes "static_schedule self env tests stats ps run_id = Inr s" and "item \<in> set (sd_tests s)"
  shows "sc_duration item = clamped_duration stats (sc_test_id item)
    \<and> sc_node_id item = node_fn tests (sc_test_id item)"
proof (rule static_scheduleE [OF assms(1)])
  fix lanes
  assume p: "placed lanes = image_mset (core_of (duration_fn tests stats) (node_fn tests)) (mset (run_ids tests))"
    and t: "sd_tests s = flatten_lanes lanes"
  have "item_core item \<in># placed lanes"
    using assms(2) t by (auto simp: placed_def simp del: mset_concat)
  then obtain i where i: "i \<in> set (run_ids tests)" "item_core item = core_of (duration_fn tests stats) (node_fn tests) i"
    by (auto simp: p simp del: set_dict_keys)
  then show ?thesis
    using duration_fn_eq [of i tests stats] set_run_ids [of tests] by (auto simp: item_core_def core_of_def)
qed

subsection \<open>Duration-only scheduling\<close>

text \<open>No prediction concerns two tests of the run: what the command line schedules when there
  is no graph artifact.\<close>

definition no_predicted_conflict :: "RiskIndex \<Rightarrow> string set \<Rightarrow> bool" where
  "no_predicted_conflict risk ids \<longleftrightarrow> (\<forall>a\<in>ids. \<forall>b\<in>ids. a \<noteq> b \<longrightarrow> risk_probability risk a b = 0)"

definition graham_inv :: "nat \<Rightarrow> real \<Rightarrow> greedy_state \<Rightarrow> bool" where
  "graham_inv W D g \<longleftrightarrow>
     (\<forall>w<W. gs_lane_ends g ! w = work_of (gs_lanes g ! w)
        \<and> real W * gs_lane_ends g ! w \<le> sum_list (gs_lane_ends g) + (real W - 1) * D)"

lemma placement_risk_zero:
  assumes "lanes_valid lanes"
    and "\<And>item. item \<in> set (concat lanes) \<Longrightarrow> risk_probability risk t (sc_test_id item) = 0"
  shows "fst (placement_risk t start fin lanes risk worker) = 0"
proof -
  have "risk_probability risk t (sc_test_id item) = 0"
    if "item \<in> set (overlapping_items lanes start fin worker)" for item
    using that assms(2) set_enumerate_lanes by (fastforce simp: overlapping_items_def split: if_splits)
  then have "(\<Prod>o'\<leftarrow>overlapping_items lanes start fin worker.
      1 - risk_probability risk t (sc_test_id o') * exposure_of start fin o') = 1"
    by (rule ri.survival_one)
  then show ?thesis
    using placement_risk_eq_spec [OF assms(1)] by (simp add: placement_risk_spec_def Let_def)
qed

lemma choose_placement_low:
  assumes "choose_placement params risk d lanes worker start candidates = Inr (c, s, p, rs)"
    and "\<forall>t\<in>set candidates. fst (placement_risk t start (start + d t) lanes risk worker) < po_hard_threshold params"
  shows "s = start"
  using assms choose_placement_safe [OF assms(1)]
  by (auto simp: choose_placement_def Let_def split: option.splits prod.splits if_splits dest!: min_by_in)

lemma min_times_length: "(\<forall>v<length xs. m \<le> xs ! v) \<Longrightarrow> real (length xs) * m \<le> sum_list xs"
proof (induction xs)
  case (Cons x xs)
  have "m \<le> x" using Cons.prems by force
  moreover have "\<forall>v<length xs. m \<le> xs ! v" using Cons.prems by force
  ultimately show ?case using Cons.IH by (simp add: algebra_simps)
qed simp

lemma sum_list_update_add:
  "w < length xs \<Longrightarrow> sum_list (xs[w := xs ! w + d]) = sum_list xs + (d::real)"
proof (induction xs arbitrary: w)
  case (Cons x xs)
  then show ?case by (cases w) auto
qed simp

lemma graham_step:
  assumes "greedy_step W params risk d n g = Inr g'" and "graham_inv W D g" and "greedy_inv W g"
    and "\<forall>t\<in>set (gs_remaining g). d t \<le> D \<and> 0 < d t"
    and "\<forall>t\<in>set (gs_remaining g). \<forall>item\<in>set (concat (gs_lanes g)). risk_probability risk t (sc_test_id item) = 0"
    and "0 < po_hard_threshold params"
  shows "graham_inv W D g'"
proof -
  from assms(1) obtain w c s p rs where w: "w < W"
    and m: "\<forall>v<W. gs_lane_ends g ! w \<le> gs_lane_ends g ! v"
    and ch: "choose_placement params risk d (gs_lanes g) w (gs_lane_ends g ! w)
           (take (po_lookahead params) (gs_remaining g)) = Inr (c, s, p, rs)"
    and g': "g' = \<lparr>gs_remaining = remove1 c (gs_remaining g),
               gs_lanes = (gs_lanes g)[w := gs_lanes g ! w @ [place d n w c s p rs]],
               gs_lane_ends = (gs_lane_ends g)[w := s + d c]\<rparr>"
    by (rule greedy_stepE)
  let ?e = "gs_lane_ends g"
  have len: "length ?e = W" "length (gs_lanes g) = W" and lv: "lanes_valid (gs_lanes g)"
    using assms(3) by (auto simp: greedy_inv_def)
  have c: "c \<in> set (gs_remaining g)" using choose_placement_in [OF ch] by (rule in_set_takeD)
  then have d: "0 < d c" "d c \<le> D" using assms(4) by auto
  have "\<forall>t\<in>set (take (po_lookahead params) (gs_remaining g)).
      fst (placement_risk t (?e ! w) (?e ! w + d t) (gs_lanes g) risk w) < po_hard_threshold params"
    using placement_risk_zero [OF lv] assms(5,6) by (metis in_set_takeD)
  then have s: "s = ?e ! w" using choose_placement_low [OF ch] by blast
  have sum: "sum_list (gs_lane_ends g') = sum_list ?e + d c"
    using w len by (simp add: g' s sum_list_update_add)
  have "real W * ?e ! w \<le> sum_list ?e" using min_times_length [of ?e "?e ! w"] m len by simp
  moreover have "(real W - 1) * d c \<le> (real W - 1) * D" using d(2) w by (intro mult_left_mono) auto
  ultimately have new: "real W * (?e ! w + d c) \<le> sum_list ?e + d c + (real W - 1) * D"
    by (simp add: algebra_simps)
  have old: "real W * ?e ! v \<le> sum_list ?e + d c + (real W - 1) * D" if "v < W" for v
    using assms(2) that d(1) by (auto simp: graham_inv_def intro: order_trans)
  show ?thesis
    using assms(2) new old w len sum
    by (auto simp: graham_inv_def g' s nth_list_update work_of_def)
qed

lemma greedy_ids: "image_mset fst (greedy_total d n g) = mset (map sc_test_id (concat (gs_lanes g)) @ gs_remaining g)"
  by (simp add: greedy_total_def placed_ids multiset.map_comp comp_def core_of_def del: mset_concat)

lemma greedy_loop_graham:
  assumes loop: "greedy_loop W params risk d n g0 = Inr g'" and W: "0 < W"
    and g0: "g0 = \<lparr>gs_remaining = ids, gs_lanes = replicate W [], gs_lane_ends = replicate W 0\<rparr>"
    and ids: "distinct ids" "\<forall>t\<in>set ids. d t \<le> D \<and> 0 < d t" "0 \<le> D"
    and quiet: "no_predicted_conflict risk (set ids)" and h: "0 < po_hard_threshold params"
  shows "graham_inv W D g'"
proof -
  let ?I = "\<lambda>g. greedy_inv W g \<and> greedy_total d n g = greedy_total d n g0 \<and> graham_inv W D g"
  have all: "mset (map sc_test_id (concat (gs_lanes g)) @ gs_remaining g) = mset ids" if "?I g" for g
    using greedy_ids [of d n g] greedy_ids [of d n g0] that g0 by simp
  have "?I g' \<and> gs_remaining g' = []"
  proof (rule greedy_loop_preserves [where I = ?I, OF _ loop])
    have "0 \<le> (real W - 1) * D" using W ids(3) by (intro mult_nonneg_nonneg) auto
    then show "?I g0"
      by (simp add: g0 greedy_inv_initial graham_inv_def work_of_def sum_list_replicate)
  next
    fix g g1 assume I: "?I g" and s: "greedy_step W params risk d n g = Inr g1"
    have dist: "distinct (map sc_test_id (concat (gs_lanes g)) @ gs_remaining g)"
      using all [OF I] ids(1) by (metis mset_eq_imp_distinct_iff)
    have sub: "set (map sc_test_id (concat (gs_lanes g)) @ gs_remaining g) = set ids"
      using all [OF I] by (metis set_mset_mset)
    have pos: "\<forall>t\<in>set (gs_remaining g). d t \<le> D \<and> 0 < d t" using sub ids(2) by auto
    have quiet': "\<forall>t\<in>set (gs_remaining g). \<forall>item\<in>set (concat (gs_lanes g)).
        risk_probability risk t (sc_test_id item) = 0"
    proof (intro ballI)
      fix t item assume t: "t \<in> set (gs_remaining g)" and item: "item \<in> set (concat (gs_lanes g))"
      have "sc_test_id item \<in> set (map sc_test_id (concat (gs_lanes g)))" using item by simp
      then have "t \<noteq> sc_test_id item" and "t \<in> set ids" and "sc_test_id item \<in> set ids"
        using dist sub t by auto
      then show "risk_probability risk t (sc_test_id item) = 0"
        using quiet by (simp add: no_predicted_conflict_def)
    qed
    have gi: "greedy_inv W g" using I by blast
    have "graham_inv W D g1" using graham_step [OF s _ gi pos quiet' h] I by blast
    moreover have "greedy_inv W g1" using greedy_step_inv [OF s gi] pos by blast
    moreover have "greedy_total d n g1 = greedy_total d n g0"
      using greedy_step_total [OF s] I by (simp add: greedy_inv_def)
    ultimately show "?I g1" by blast
  qed
  then show ?thesis by blast
qed

lemma work_of_concat: "work_of (concat lanes) = (\<Sum>lane\<leftarrow>lanes. work_of lane)"
  by (induction lanes) (auto simp: work_of_def)

lemma work_of_cong: "mset xs = mset ys \<Longrightarrow> work_of xs = work_of ys"
  by (rule core_mset_work) simp

lemma schedule_graham:
  assumes s: "static_schedule self env tests stats ps run_id = Inr s" and W: "0 < cs_workers self"
    and quiet: "no_predicted_conflict (RiskIndex_init ps) (ti_id ` set tests)"
    and h: "0 < po_hard_threshold (cs_params self)"
    and D: "\<And>item. item \<in> set (sd_tests s) \<Longrightarrow> sc_duration item \<le> D" "0 \<le> D"
  shows "real (nat (sd_workers s)) * makespan_of (sd_tests s)
    \<le> work_of (sd_tests s) + (real (nat (sd_workers s)) - 1) * D"
proof (rule static_scheduleE [OF s])
  fix lanes
  assume t: "sd_tests s = flatten_lanes lanes" and w: "sd_workers s = cs_workers self"
    and len: "length lanes = nat (cs_workers self)" and lv: "lanes_valid lanes"
    and "\<exists>greedy. greedy_lanes self env tests stats (RiskIndex_init ps) = Inr greedy \<and> refined greedy lanes"
  then obtain greedy where g: "greedy_lanes self env tests stats (RiskIndex_init ps) = Inr greedy"
    and r: "refined greedy lanes" by blast
  let ?W = "nat (cs_workers self)" and ?d = "duration_fn tests stats"
  let ?ids = "initial_order (env_random env (cs_seed self)) tests stats"
  obtain g' where loop: "greedy_loop ?W (cs_params self) (RiskIndex_init ps) ?d (node_fn tests)
      \<lparr>gs_remaining = ?ids, gs_lanes = replicate ?W [], gs_lane_ends = replicate ?W 0\<rparr> = Inr g'"
    and lanes: "greedy = gs_lanes g'"
    using g by (auto simp: greedy_lanes_def)
  have ids: "distinct ?ids" "set ?ids = ti_id ` set tests"
    using distinct_run_ids set_run_ids by (simp_all add: initial_order_def del: set_dict_keys distinct_dict_keys)
  have "mset (map sc_test_id (sd_tests s)) = mset (run_ids tests)" by (rule schedule_ids [OF s])
  then have sid: "set (map sc_test_id (sd_tests s)) = ti_id ` set tests"
    using set_run_ids by (metis set_mset_mset)
  have "?d i \<le> D \<and> 0 < ?d i" if i: "i \<in> ti_id ` set tests" for i
  proof -
    have "i \<in> sc_test_id ` set (sd_tests s)" using i sid by simp
    then obtain item where "item \<in> set (sd_tests s)" "sc_test_id item = i" by blast
    then show ?thesis
      using D(1) schedule_item [OF s] duration_fn_eq [OF i] clamped_duration_pos by metis
  qed
  then have gi: "graham_inv ?W D g'"
    using greedy_loop_graham [OF loop _ refl ids(1)] W D(2) quiet h ids(2) by simp
  have "greedy_inv ?W g'"
    using greedy_loop_correct [OF loop greedy_inv_initial] ids(2) duration_fn_eq clamped_duration_pos
    by (metis greedy_state.select_convs(1))
  then have ge: "length (gs_lane_ends g') = ?W" "length greedy = ?W" "lanes_valid greedy"
      "\<forall>w<?W. gs_lane_ends g' ! w = lane_end (greedy ! w)"
    by (auto simp: greedy_inv_def lanes)
  have "gs_lane_ends g' = map work_of greedy"
    using gi ge(1,2) by (intro nth_equalityI) (auto simp: graham_inv_def lanes)
  then have sum: "sum_list (gs_lane_ends g') = work_of (sd_tests s)"
    using work_of_concat [of greedy] same_tests_placed [of greedy lanes] r
      core_mset_work [of "concat lanes" "concat greedy"] core_mset_work [of "sd_tests s" "concat lanes"]
    by (simp add: t refined_def placed_def del: mset_map mset_concat)
  let ?B = "(work_of (sd_tests s) + (real ?W - 1) * D) / real ?W"
  have pos: "0 < real ?W" using W by simp
  have "makespan_of (concat greedy) \<le> ?B"
  proof (rule makespan_le [OF ge(3)])
    fix v assume "v < length greedy"
    then have "real ?W * lane_end (greedy ! v) \<le> work_of (sd_tests s) + (real ?W - 1) * D"
      using gi ge sum by (auto simp: graham_inv_def)
    then show "lane_end (greedy ! v) \<le> ?B" using pos by (simp add: field_simps)
  next
    have "0 \<le> work_of (sd_tests s)"
      unfolding work_of_def
      by (rule sum_list_nonneg_real) (metis conflict.item_shape less_imp_le s)
    moreover have "0 \<le> (real ?W - 1) * D" using D(2) W by (intro mult_nonneg_nonneg) auto
    ultimately show "0 \<le> ?B" using pos by simp
  qed
  moreover have "makespan_of (sd_tests s) \<le> makespan_of (concat greedy)"
    using refined_makespan [OF r ge(3)] makespan_cong [of "sd_tests s" "concat lanes"] t by simp
  ultimately have "makespan_of (sd_tests s) \<le> ?B" by (rule order_trans [rotated])
  then show ?thesis using pos w by (simp add: field_simps)
qed

end
