(* ===== verification/Scheduler_Properties.thy ===== *)
theory Scheduler_Properties
  imports Static_Schedule
begin

section \<open>Properties of the conflict-aware scheduler\<close>

text \<open>
  What \<^verbatim>\<open>ConflictScheduler\<close> guarantees to its callers, stated over the model of
  \<^verbatim>\<open>scheduler.py\<close>. Each property with a premise is applied to one concrete run: three tests
  on two workers, where the long test \<open>a\<close> is predicted to conflict with \<open>b\<close>.
\<close>

subsection \<open>The concrete run\<close>

definition demo_test :: "string \<Rightarrow> TestIdentity" where
  "demo_test i = TestIdentity_init i (''suite.py::'' @ i)"

definition demo_tests :: "TestIdentity list" where
  "demo_tests = [demo_test ''a'', demo_test ''b'', demo_test ''x'']"

definition demo_stats :: "string \<rightharpoonup> TestStats" where
  "demo_stats = [''a'' \<mapsto> TestStats_init\<lparr>st_duration_ema := 2\<rparr>]"

definition demo_env :: sched_env where
  "demo_env = \<lparr>env_random = (\<lambda>_ i. real i), env_uuid1 = ''u'', env_uuid2 = ''v'', env_elapsed_ms = 0\<rparr>"

definition demo_predictions :: "PairPrediction list" where
  "demo_predictions = [PairPrediction_init ''b'' ''a'' 0.99 CC_UNKNOWN ''m'' [] ''same port'' 0]"

definition demo_params :: PolicyParameters where
  "demo_params = POLICIES RP_BALANCED"

definition demo_self :: ConflictScheduler where
  "demo_self = \<lparr>cs_workers = 2, cs_policy = RP_BALANCED, cs_seed = 42, cs_params = demo_params,
     cs_refinement_rounds = 4\<rparr>"

definition demo_item :: "string \<Rightarrow> nat \<Rightarrow> real \<Rightarrow> real \<Rightarrow> ScheduledTest" where
  "demo_item i w start duration =
     ScheduledTest_init i (''suite.py::'' @ i) w start (start + duration) duration 0 []"

definition demo_lanes :: "lane list" where
  "demo_lanes = [[demo_item ''a'' 0 0 2], [demo_item ''x'' 1 0 1, demo_item ''b'' 1 2 1]]"

definition demo_schedule :: Schedule where
  "demo_schedule = \<lparr>sd_id = ''u'', sd_run_id = ''v'', sd_workers = 2, sd_policy = RP_BALANCED,
     sd_tests = [demo_item ''a'' 0 0 2, demo_item ''x'' 1 0 1, demo_item ''b'' 1 1 1],
     sd_scheduler_latency_ms = 0, sd_expected_makespan = 2, sd_expected_risk = 0.99, sd_seed = 42\<rparr>"

lemma demo_init: "ConflictScheduler_init 2 RP_BALANCED 42 None None 4 = Inr demo_self"
  by code_simp

lemma demo_greedy:
  "greedy_lanes demo_self demo_env demo_tests demo_stats (RiskIndex_init demo_predictions) = Inr demo_lanes"
  by code_simp

lemma demo_run:
  "static_schedule demo_self demo_env demo_tests demo_stats demo_predictions None = Inr demo_schedule"
  by code_simp

lemma demo_lanes_valid: "lanes_valid demo_lanes"
  by (auto simp: lanes_valid_def lane_valid_def demo_lanes_def demo_item_def ScheduledTest_init_def
      less_Suc_eq nth_Cons split: nat.splits)

lemma demo_quiet_durations:
  "map_sum id (\<lambda>s. map sc_duration (sd_tests s))
     (static_schedule demo_self demo_env demo_tests demo_stats [] None) = (Inr [2, 1, 1] :: real list result)"
  by code_simp

lemma demo_quiet_run: "\<exists>s. static_schedule demo_self demo_env demo_tests demo_stats [] None = Inr s"
  using demo_quiet_durations by (cases "static_schedule demo_self demo_env demo_tests demo_stats [] None") auto

lemma tests_by_id_lookup:
  "i \<in> ti_id ` set tests \<Longrightarrow> \<exists>t\<in>set tests. ti_id t = i \<and> map_of (tests_by_id tests) i = Some t"
proof -
  assume "i \<in> ti_id ` set tests"
  then have "i \<in> dom (map_of (rev (map (\<lambda>t. (ti_id t, t)) tests)))" by (auto simp: dom_map_of_conv_image_fst image_image)
  then obtain t where t: "map_of (rev (map (\<lambda>t. (ti_id t, t)) tests)) i = Some t" by blast
  then have "(i, t) \<in> set (map (\<lambda>t. (ti_id t, t)) tests)" by (auto dest: map_of_SomeD)
  then show ?thesis using t by (auto simp: tests_by_id_def map_of_dict_of)
qed

subsection \<open>Termination and errors\<close>

text \<open>C3: termination and error behaviour. The constructor rejects a worker count that is not
  positive with \<^verbatim>\<open>ValueError\<close>; for every other count it returns a scheduler, and that
  scheduler returns a schedule for all tests, statistics, predictions and random draws.\<close>

theorem scheduler_always_returns:
  "(w \<le> 0 \<longrightarrow> ConflictScheduler_init w policy seed weight threshold rounds = Inl ValueError)
   \<and> (0 < w \<longrightarrow> (\<exists>self s. ConflictScheduler_init w policy seed weight threshold rounds = Inr self
        \<and> static_schedule self env tests stats predictions run_id = Inr s))"
proof (intro conjI impI)
  assume "0 < w"
  then obtain self where i: "ConflictScheduler_init w policy seed weight threshold rounds = Inr self"
    by (auto simp: ConflictScheduler_init_def Let_def)
  obtain lanes where "greedy_lanes self env tests stats (RiskIndex_init predictions) = Inr lanes"
    using greedy_lanes_returns [OF ConflictScheduler_init_ok [OF i]] by blast
  then have "\<exists>s. static_schedule self env tests stats predictions run_id = Inr s"
    by (simp add: static_schedule_def Let_def)
  then show "\<exists>self s. ConflictScheduler_init w policy seed weight threshold rounds = Inr self
      \<and> static_schedule self env tests stats predictions run_id = Inr s" using i by blast
qed (simp add: ConflictScheduler_init_def)

theorem scheduler_always_returns_witness:
  "ConflictScheduler_init 0 RP_SAFE 1 None None 4 = Inl ValueError
   \<and> (\<exists>self s. ConflictScheduler_init 2 RP_BALANCED 42 None None 4 = Inr self
        \<and> static_schedule self demo_env demo_tests demo_stats demo_predictions None = Inr s)"
  using scheduler_always_returns [of 0 RP_SAFE 1 None None 4]
    scheduler_always_returns [of 2 RP_BALANCED 42 None None 4] by auto

subsection \<open>Completeness and exclusivity of the schedule\<close>

text \<open>C1: functional. A schedule runs every test of the run exactly once: its test ids are
  distinct and are the ids of the tests, and each entry carries the node id of a test with that
  id and the learned duration, raised to at least one millisecond.\<close>

theorem every_test_scheduled_once:
  assumes s: "static_schedule self env tests stats predictions run_id = Inr s"
  shows "distinct (map sc_test_id (sd_tests s))
    \<and> sc_test_id ` set (sd_tests s) = ti_id ` set tests
    \<and> (\<forall>item\<in>set (sd_tests s). sc_duration item = clamped_duration stats (sc_test_id item)
         \<and> (\<exists>t\<in>set tests. ti_id t = sc_test_id item \<and> ti_node_id t = sc_node_id item))"
proof -
  have m: "mset (map sc_test_id (sd_tests s)) = mset (run_ids tests)" by (rule schedule_ids [OF s])
  have "distinct (map sc_test_id (sd_tests s))"
    using m distinct_run_ids by (metis mset_eq_imp_distinct_iff)
  moreover have set: "sc_test_id ` set (sd_tests s) = ti_id ` set tests"
    using m set_run_ids by (metis list.set_map set_mset_mset)
  moreover have "\<exists>t\<in>set tests. ti_id t = sc_test_id item \<and> ti_node_id t = sc_node_id item"
    if item: "item \<in> set (sd_tests s)" for item
  proof -
    have "sc_test_id item \<in> ti_id ` set tests" using item set by blast
    then obtain t where t: "t \<in> set tests" "ti_id t = sc_test_id item"
      "map_of (tests_by_id tests) (sc_test_id item) = Some t"
      using tests_by_id_lookup by blast
    then show ?thesis using schedule_item [OF s item] by auto
  qed
  ultimately show ?thesis using schedule_item [OF s] by blast
qed

theorem every_test_scheduled_once_witness:
  "distinct (map sc_test_id (sd_tests demo_schedule))
   \<and> sc_test_id ` set (sd_tests demo_schedule) = {''a'', ''b'', ''x''}"
  using every_test_scheduled_once [OF demo_run] by (auto simp: demo_tests_def demo_test_def TestIdentity_init_def)

text \<open>C2: safety. A worker never runs two tests at once: in the order of the schedule, a test
  starts only after every earlier test of the same worker has ended. Every entry lies on one of
  the workers, starts at a nonnegative time and lasts for its duration.\<close>

theorem workers_never_overlap:
  assumes s: "static_schedule self env tests stats predictions run_id = Inr s"
  shows "(\<forall>i j. i < j \<and> j < length (sd_tests s) \<and> sc_worker (sd_tests s ! i) = sc_worker (sd_tests s ! j)
            \<longrightarrow> sc_end (sd_tests s ! i) \<le> sc_start (sd_tests s ! j))
    \<and> (\<forall>item\<in>set (sd_tests s). int (sc_worker item) < cs_workers self \<and> 0 \<le> sc_start item
         \<and> 0 < sc_duration item \<and> sc_end item = sc_start item + sc_duration item)"
proof -
  have p: "scheduled_by_conflict s" using s by blast
  have w: "sd_workers s = cs_workers self" by (rule static_scheduleE [OF s])
  have "int (sc_worker item) < cs_workers self" if "item \<in> set (sd_tests s)" for item
    using conflict.item_shape [OF p that] w by linarith
  then show ?thesis using conflict.no_overlap [OF p] conflict.item_shape [OF p] by blast
qed

theorem workers_never_overlap_witness:
  "sc_worker (sd_tests demo_schedule ! 1) = sc_worker (sd_tests demo_schedule ! 2)
   \<and> sc_end (sd_tests demo_schedule ! 1) \<le> sc_start (sd_tests demo_schedule ! 2)"
proof -
  have "sc_worker (sd_tests demo_schedule ! 1) = sc_worker (sd_tests demo_schedule ! 2)"
    by (simp add: demo_schedule_def demo_item_def ScheduledTest_init_def)
  moreover have "length (sd_tests demo_schedule) = 3" by (simp add: demo_schedule_def)
  ultimately show ?thesis
    using conjunct1 [OF workers_never_overlap [OF demo_run], rule_format, of 1 2] by simp
qed

subsection \<open>Bounds on the makespan\<close>

text \<open>Bounds. The makespan a schedule reports is the last end time of its tests, covers the
  longest test, and is at least the total work divided by the number of workers; the reported
  risk is the exposure of the schedule and is not negative for valid predictions.\<close>

lemma expected_makespan_bounds:
  assumes s: "static_schedule self env tests stats predictions run_id = Inr s"
  shows "(\<forall>item\<in>set (sd_tests s). sc_end item \<le> sd_expected_makespan s)
    \<and> (\<forall>item\<in>set (sd_tests s). clamped_duration stats (sc_test_id item) \<le> sd_expected_makespan s)
    \<and> (\<Sum>item\<leftarrow>sd_tests s. sc_duration item) \<le> real_of_int (cs_workers self) * sd_expected_makespan s
    \<and> (list_all prediction_wf predictions \<longrightarrow> 0 \<le> sd_expected_risk s)"
proof (rule static_scheduleE [OF s])
  fix lanes
  assume len: "length lanes = nat (cs_workers self)" and w: "sd_workers s = cs_workers self"
    and m: "sd_expected_makespan s = makespan_of (sd_tests s)"
    and r: "sd_expected_risk s = schedule_risk (RiskIndex_init predictions) (sd_tests s)"
  have p: "scheduled_by_conflict s" using s by blast
  have "work_of (sd_tests s) \<le> real_of_int (cs_workers self) * makespan_of (sd_tests s)"
  proof (cases "0 \<le> cs_workers self")
    case False
    then have "sd_tests s = []" using conflict.item_shape [OF p] w by (cases "sd_tests s") fastforce+
    then show ?thesis by (simp add: work_of_def makespan_of_def)
  qed (use conflict.total_work [OF p] w in simp)
  then show ?thesis
    using m r makespan_ge conflict.makespan_duration [OF p] schedule_item [OF s]
      schedule_risk_nonneg [OF risk_ok_init] by (auto simp: work_of_def)
qed



subsection \<open>Conflict risk\<close>

text \<open>C5: equivalence. On lanes in execution order, the risk of a placement computed with a binary
  search per lane and an early exit is the noisy-or over \<^emph>\<open>all\<close> tests of other workers that
  overlap it, weighted by the exposed fraction, with one reason per overlapping test whose
  conflict probability is at least a quarter.\<close>

theorem placement_risk_is_noisy_or:
  assumes "lanes_valid lanes"
  shows "placement_risk t start fin lanes risk worker =
    (1 - (\<Prod>o'\<leftarrow>overlapping_items lanes start fin worker.
            1 - risk_probability risk t (sc_test_id o') * exposure_of start fin o'),
     map (risk_reason risk t)
       (filter (\<lambda>o'. 0.25 \<le> risk_probability risk t (sc_test_id o'))
          (overlapping_items lanes start fin worker)))"
  using placement_risk_eq_spec [OF assms] by (simp add: placement_risk_spec_def Let_def)

theorem placement_risk_is_noisy_or_witness:
  "placement_risk ''b'' 1 2 demo_lanes (RiskIndex_init demo_predictions) 1 =
     (0.99, [''suite.py::a: 99.0% (same port)''])"
  unfolding placement_risk_is_noisy_or [OF demo_lanes_valid] by code_simp

text \<open>Bounds. For valid predictions the risk of a placement is a probability, and it is at
  least the exposed conflict probability of every single overlapping test.\<close>

lemma placement_risk_probability:
  assumes "lanes_valid lanes" and "list_all prediction_wf predictions"
  shows "0 \<le> fst (placement_risk t start fin lanes (RiskIndex_init predictions) worker)
    \<and> fst (placement_risk t start fin lanes (RiskIndex_init predictions) worker) \<le> 1
    \<and> (\<forall>o'\<in>set (overlapping_items lanes start fin worker).
         risk_probability (RiskIndex_init predictions) t (sc_test_id o') * exposure_of start fin o'
           \<le> fst (placement_risk t start fin lanes (RiskIndex_init predictions) worker))"
  using placement_risk_unit [OF assms(1) risk_ok_init [OF assms(2)]]
    placement_risk_ge_item [OF assms(1) risk_ok_init [OF assms(2)]] by blast



subsection \<open>Refinement\<close>

text \<open>C7: invariant. The refinement rearranges each lane but moves no test to another worker: every
  lane keeps its tests, its end time does not grow, the lanes stay valid (in execution order, no
  overlap), and the makespan does not grow.\<close>

theorem refine_preserves_lanes:
  assumes v: "lanes_valid lanes"
  shows "lanes_valid (refine self lanes risk) \<and> length (refine self lanes risk) = length lanes
    \<and> (\<forall>w<length lanes. mset (map item_core (refine self lanes risk ! w)) = mset (map item_core (lanes ! w))
         \<and> lane_end (refine self lanes risk ! w) \<le> lane_end (lanes ! w))
    \<and> makespan_of (concat (refine self lanes risk)) \<le> makespan_of (concat lanes)"
  using refine_refined [OF v, of self risk] refined_makespan [OF refine_refined [OF v, of self risk] v]
  by (simp add: refined_def same_tests_def ends_le_def del: mset_map)

theorem refine_preserves_lanes_witness:
  "lanes_valid (refine demo_self demo_lanes (RiskIndex_init demo_predictions))"
  using refine_preserves_lanes [OF demo_lanes_valid] by blast

text \<open>Refinement quality. On lanes without idle time the refinement does what its docstring
  says: the objective, makespan plus weighted conflict exposure, never gets worse.\<close>

lemma refine_improves_compact_lanes:
  assumes "lanes_compact lanes"
  shows "objective (cs_params self) (concat (refine self lanes risk)) risk
    \<le> objective (cs_params self) (concat lanes) risk"
  using refine_rounds_objective [OF assms] by (simp add: refine_def)

text \<open>A lane with idle time. The greedy loop makes the hard-risk test \<open>b\<close> wait for \<open>a\<close> to end;
  undoing a rejected swap reflows the lane and removes that idle time. The refined schedule runs
  \<open>b\<close> together with \<open>a\<close> although the pair is above the hard threshold, its objective is worse than
  before the refinement, and the risk recorded for \<open>b\<close> is still that of the abandoned placement.\<close>

lemma refine_undoes_hard_threshold_wait:
  "\<exists>lanes s b. greedy_lanes demo_self demo_env demo_tests demo_stats (RiskIndex_init demo_predictions) = Inr lanes
    \<and> static_schedule demo_self demo_env demo_tests demo_stats demo_predictions None = Inr s
    \<and> schedule_risk (RiskIndex_init demo_predictions) (concat lanes) = 0
    \<and> po_hard_threshold (cs_params demo_self) \<le> sd_expected_risk s
    \<and> objective (cs_params demo_self) (concat lanes) (RiskIndex_init demo_predictions)
        < objective (cs_params demo_self) (sd_tests s) (RiskIndex_init demo_predictions)
    \<and> b \<in> set (sd_tests s) \<and> sc_test_id b = ''b'' \<and> sc_start b = 1 \<and> sc_risk_cost b = 0"
proof (intro exI conjI)
  show "greedy_lanes demo_self demo_env demo_tests demo_stats (RiskIndex_init demo_predictions) = Inr demo_lanes"
    by (rule demo_greedy)
  show "static_schedule demo_self demo_env demo_tests demo_stats demo_predictions None = Inr demo_schedule"
    by (rule demo_run)
  show "schedule_risk (RiskIndex_init demo_predictions) (concat demo_lanes) = 0" by code_simp
  show "po_hard_threshold (cs_params demo_self) \<le> sd_expected_risk demo_schedule" by code_simp
  show "objective (cs_params demo_self) (concat demo_lanes) (RiskIndex_init demo_predictions)
      < objective (cs_params demo_self) (sd_tests demo_schedule) (RiskIndex_init demo_predictions)"
    by code_simp
  show "demo_item ''b'' 1 1 1 \<in> set (sd_tests demo_schedule)" by (simp add: demo_schedule_def)
qed (simp_all add: demo_item_def ScheduledTest_init_def)

end
