(* ===== verification/Baselines.thy ===== *)
theory Baselines
  imports Scheduler_Properties
begin

section \<open>The baseline schedulers (\<^verbatim>\<open>scheduler.py\<close>)\<close>

text \<open>
  \<^verbatim>\<open>RandomScheduler\<close> shuffles the tests and gives each to the worker that becomes free first,
  kept in a heap of pairs of end time and worker; \<^verbatim>\<open>SerialScheduler\<close> runs them one after the
  other. Both meet the contract \<open>timeline_provider\<close>. \<^verbatim>\<open>random.shuffle\<close> draws its indices
  from \<open>below\<close>, where \<open>below k n\<close> is the \<open>k\<close>-th draw, an index below \<open>n\<close>.
\<close>

subsection \<open>The heap\<close>

definition heappop :: "(real \<times> nat) list \<Rightarrow> ((real \<times> nat) \<times> (real \<times> nat) list) option" where
  "heappop heap = (case min_by (\<lambda>e. e) heap of None \<Rightarrow> None | Some m \<Rightarrow> Some (m, remove1 m heap))"

definition heappush :: "(real \<times> nat) list \<Rightarrow> real \<times> nat \<Rightarrow> (real \<times> nat) list" where
  "heappush heap e = heap @ [e]"

locale min_heap =
  fixes pop :: "'q \<Rightarrow> ('e::linorder \<times> 'q) option" and push :: "'q \<Rightarrow> 'e \<Rightarrow> 'q"
    and elems :: "'q \<Rightarrow> 'e multiset"
  assumes pop_None: "pop q = None \<longleftrightarrow> elems q = {#}"
    and pop_elems: "pop q = Some (m, q') \<Longrightarrow> elems q = add_mset m (elems q')"
    and pop_min: "pop q = Some (m, q') \<Longrightarrow> x \<in># elems q \<Longrightarrow> m \<le> x"
    and push_elems: "elems (push q e) = add_mset e (elems q)"
begin

lemma replaced: "pop q = Some (m, q') \<Longrightarrow> add_mset m (elems (push q' e)) = add_mset e (elems q)"
  by (simp add: pop_elems push_elems)

lemma popE:
  assumes "elems q \<noteq> {#}"
  obtains m q' where "pop q = Some (m, q')" and "m \<in># elems q" and "\<forall>x\<in>#elems q. m \<le> x"
proof (cases "pop q")
  case None
  then show thesis using assms pop_None by blast
next
  case (Some r)
  then show thesis using that [of "fst r" "snd r"] pop_elems [of q "fst r" "snd r"] pop_min [of q "fst r" "snd r"]
    by (cases r) auto
qed

end

interpretation worker_heap: min_heap heappop heappush mset
proof
  fix q :: "(real \<times> nat) list" and m q' x e
  show "heappop q = None \<longleftrightarrow> mset q = {#}" by (auto simp: heappop_def split: option.splits dest: min_by_in)
  show "mset (heappush q e) = add_mset e (mset q)" by (simp add: heappush_def)
  assume p: "heappop q = Some (m, q')"
  then have m: "min_by (\<lambda>e. e) q = Some m" and q': "q' = remove1 m q"
    by (auto simp: heappop_def split: option.splits)
  show "mset q = add_mset m (mset q')" using min_by_in [OF m] by (simp add: q')
  show "m \<le> x" if "x \<in># mset q" using min_by_le [OF m] that by simp
qed

subsection \<open>Operations\<close>

fun shuffle_from :: "(nat \<Rightarrow> nat \<Rightarrow> nat) \<Rightarrow> nat \<Rightarrow> nat \<Rightarrow> 'a list \<Rightarrow> 'a list" where
  "shuffle_from below k 0 xs = xs"
| "shuffle_from below k (Suc i) xs =
     (let j = below k (Suc i + 1)
      in shuffle_from below (k + 1) i (xs[Suc i := xs ! j, j := xs ! Suc i]))"

definition py_shuffle :: "(nat \<Rightarrow> nat \<Rightarrow> nat) \<Rightarrow> 'a list \<Rightarrow> 'a list" where
  "py_shuffle below xs = shuffle_from below 0 (length xs - 1) xs"

definition baseline_item :: "(string \<rightharpoonup> TestStats) \<Rightarrow> TestIdentity \<Rightarrow> nat \<Rightarrow> real \<Rightarrow> ScheduledTest" where
  "baseline_item stats test worker start =
     (let duration = clamped_duration stats (ti_id test)
      in ScheduledTest_init (ti_id test) (ti_node_id test) worker start (start + duration) duration 0 [])"

fun random_place ::
  "(string \<rightharpoonup> TestStats) \<Rightarrow> TestIdentity list \<Rightarrow> (real \<times> nat) list \<Rightarrow> ScheduledTest list
     \<Rightarrow> ((real \<times> nat) list \<times> ScheduledTest list) result" where
  "random_place stats [] heap lanes = Inr (heap, lanes)"
| "random_place stats (test # order) heap lanes =
     (case heappop heap of
        None \<Rightarrow> Inl IndexError
      | Some ((start, worker), heap') \<Rightarrow>
          random_place stats order
            (heappush heap' (start + clamped_duration stats (ti_id test), worker))
            (lanes @ [baseline_item stats test worker start]))"

definition random_schedule ::
  "int \<Rightarrow> int \<Rightarrow> (int \<Rightarrow> nat \<Rightarrow> nat \<Rightarrow> nat) \<Rightarrow> sched_env \<Rightarrow> TestIdentity list \<Rightarrow> (string \<rightharpoonup> TestStats)
     \<Rightarrow> string option \<Rightarrow> Schedule result" where
  "random_schedule workers seed below env tests stats run_id =
     bind_result
       (random_place stats (py_shuffle (below seed) tests)
          (map (\<lambda>worker. (0, worker)) [0..<nat workers]) [])
       (\<lambda>(heap, lanes).
          Inr \<lparr>sd_id = env_uuid1 env, sd_run_id = run_id_or run_id (env_uuid2 env),
               sd_workers = workers, sd_policy = RP_AGGRESSIVE, sd_tests = lanes,
               sd_scheduler_latency_ms = env_elapsed_ms env,
               sd_expected_makespan = makespan_of lanes, sd_expected_risk = 0, sd_seed = seed\<rparr>)"

fun serial_place :: "(string \<rightharpoonup> TestStats) \<Rightarrow> real \<Rightarrow> TestIdentity list \<Rightarrow> ScheduledTest list \<times> real" where
  "serial_place stats cursor [] = ([], cursor)"
| "serial_place stats cursor (test # tests) =
     (let (scheduled, final) = serial_place stats (cursor + clamped_duration stats (ti_id test)) tests
      in (baseline_item stats test 0 cursor # scheduled, final))"

definition serial_schedule ::
  "sched_env \<Rightarrow> TestIdentity list \<Rightarrow> (string \<rightharpoonup> TestStats) \<Rightarrow> string option \<Rightarrow> Schedule" where
  "serial_schedule env tests stats run_id =
     (let (scheduled, cursor) = serial_place stats 0 tests
      in \<lparr>sd_id = env_uuid1 env, sd_run_id = run_id_or run_id (env_uuid2 env),
          sd_workers = 1, sd_policy = RP_SAFE, sd_tests = scheduled,
          sd_scheduler_latency_ms = env_elapsed_ms env,
          sd_expected_makespan = cursor, sd_expected_risk = 0, sd_seed = 0\<rparr>)"

subsection \<open>Shuffling\<close>

text \<open>What the source relies on: \<^verbatim>\<open>_randbelow(n)\<close> returns an index below \<open>n\<close>.\<close>

definition draws_below :: "(nat \<Rightarrow> nat \<Rightarrow> nat) \<Rightarrow> bool" where
  "draws_below below \<longleftrightarrow> (\<forall>k n. 0 < n \<longrightarrow> below k n < n)"

lemma mset_swap_nth: "i < length xs \<Longrightarrow> j < length xs \<Longrightarrow> mset (xs[i := xs ! j, j := xs ! i]) = mset xs"
  by (rule mset_swap)

lemma mset_shuffle_from:
  "draws_below below \<Longrightarrow> xs = [] \<or> i < length xs \<Longrightarrow> mset (shuffle_from below k i xs) = mset xs"
proof (induction i arbitrary: k xs)
  case (Suc i)
  show ?case
  proof (cases "xs = []")
    case False
    let ?j = "below k (Suc i + 1)" and ?i = "Suc i"
    let ?ys = "xs[?i := xs ! ?j, ?j := xs ! ?i]"
    have i: "?i < length xs" using Suc.prems(2) False by simp
    then have j: "?j < length xs" using Suc.prems(1) by (metis draws_below_def Suc_eq_plus1 Suc_leI order_less_le_trans zero_less_Suc)
    have "mset (shuffle_from below (k + 1) i ?ys) = mset ?ys"
      using Suc.IH [OF Suc.prems(1)] i by simp
    also have "\<dots> = mset xs" by (rule mset_swap_nth [OF i j])
    finally show ?thesis by (simp add: Let_def)
  qed (use Suc in \<open>simp add: Let_def\<close>)
qed simp

lemma mset_py_shuffle: "draws_below below \<Longrightarrow> mset (py_shuffle below xs) = mset xs"
  by (cases "xs = []") (auto simp: py_shuffle_def intro!: mset_shuffle_from)

subsection \<open>List scheduling over the heap\<close>

definition heap_inv :: "nat \<Rightarrow> real \<Rightarrow> (real \<times> nat) list \<Rightarrow> ScheduledTest list \<Rightarrow> bool" where
  "heap_inv W D heap lanes \<longleftrightarrow>
     image_mset snd (mset heap) = mset [0..<W] \<and> timeline_valid W lanes
     \<and> (\<Sum>e\<in>#mset heap. fst e) = work_of lanes
     \<and> (\<forall>(e, w)\<in>#mset heap. 0 \<le> e \<and> (\<forall>item\<in>set (on_worker w lanes). sc_end item \<le> e)
          \<and> real W * e \<le> work_of lanes + (real W - 1) * D)"

lemma baseline_item_simps [simp]:
  "sc_test_id (baseline_item stats t w s) = ti_id t" "sc_node_id (baseline_item stats t w s) = ti_node_id t"
  "sc_worker (baseline_item stats t w s) = w" "sc_start (baseline_item stats t w s) = s"
  "sc_duration (baseline_item stats t w s) = clamped_duration stats (ti_id t)"
  "sc_end (baseline_item stats t w s) = s + clamped_duration stats (ti_id t)"
  by (simp_all add: baseline_item_def ScheduledTest_init_def Let_def)

lemma on_worker_append: "on_worker w (xs @ ys) = on_worker w xs @ on_worker w ys"
  by (simp add: on_worker_def)

lemma timeline_valid_snoc:
  assumes "timeline_valid W lanes" and "sc_worker item < W" and "0 \<le> sc_start item" and "0 < sc_duration item"
    and "sc_end item = sc_start item + sc_duration item"
    and "\<forall>o'\<in>set (on_worker (sc_worker item) lanes). sc_end o' \<le> sc_start item"
  shows "timeline_valid W (lanes @ [item])"
proof -
  have "lane_chain 0 (on_worker w lanes @ on_worker w [item])" if "w < W" for w
  proof (cases "w = sc_worker item")
    case True
    have "sc_end (last (on_worker w lanes)) \<le> sc_start item" if "on_worker w lanes \<noteq> []"
      using assms(6) True last_in_set [OF that] by blast
    then show ?thesis
      using assms that True by (auto simp: lane_chain_append timeline_valid_def on_worker_def [of _ "[item]"])
  next
    case False
    then show ?thesis using assms(1) that by (simp add: timeline_valid_def on_worker_def)
  qed
  then show ?thesis using assms(1,2) by (auto simp: timeline_valid_def on_worker_append)
qed

lemma min_times_size: "(\<forall>e\<in>#M. m \<le> fst e) \<Longrightarrow> real (size M) * m \<le> (\<Sum>e\<in>#M. fst e)"
  by (induction M) (auto simp: algebra_simps)

lemma heap_inv_step:
  assumes inv: "heap_inv W D heap lanes" and pop: "heappop heap = Some ((start, w), heap')"
    and D: "clamped_duration stats (ti_id t) \<le> D"
  shows "heap_inv W D (heappush heap' (start + clamped_duration stats (ti_id t), w))
           (lanes @ [baseline_item stats t w start])"
proof -
  let ?d = "clamped_duration stats (ti_id t)" and ?item = "baseline_item stats t w start"
  have h: "mset heap = add_mset (start, w) (mset heap')" by (rule worker_heap.pop_elems [OF pop])
  have ids: "add_mset w (image_mset snd (mset heap')) = mset [0..<W]"
    using inv h by (simp add: heap_inv_def)
  have w: "w < W" using arg_cong [OF ids, of set_mset] by auto
  have fresh: "v \<noteq> w" if "(e, v) \<in># mset heap'" for e v
  proof
    assume "v = w"
    then have "w \<in># image_mset snd (mset heap')" using that by force
    then have "Suc 1 \<le> count (mset [0..<W]) w" unfolding ids [symmetric] by simp
    then show False by (simp add: count_mset_set' split: if_splits)
  qed
  have start: "0 \<le> start" "\<forall>o'\<in>set (on_worker w lanes). sc_end o' \<le> start"
    using inv h by (auto simp: heap_inv_def)
  have v: "timeline_valid W (lanes @ [?item])"
    using inv w start clamped_duration_pos by (intro timeline_valid_snoc) (auto simp: heap_inv_def)
  have sum: "(\<Sum>e\<in>#mset heap. fst e) = work_of lanes" using inv by (simp add: heap_inv_def)
  have work: "work_of (lanes @ [?item]) = work_of lanes + ?d" by (simp add: work_of_def)
  have "size (mset heap) = W" using arg_cong [OF ids, of size] h by simp
  moreover have "\<forall>e\<in>#mset heap. start \<le> fst e"
    using worker_heap.pop_min [OF pop] by (fastforce simp: less_eq_prod_def)
  ultimately have "real W * start \<le> work_of lanes" using min_times_size [of "mset heap" start] sum by metis
  moreover have "(real W - 1) * ?d \<le> (real W - 1) * D" using D w by (intro mult_left_mono) auto
  ultimately have new: "real W * (start + ?d) \<le> work_of lanes + ?d + (real W - 1) * D"
    by (simp add: algebra_simps)
  have old: "0 \<le> e \<and> (\<forall>item\<in>set (on_worker v (lanes @ [?item])). sc_end item \<le> e)
      \<and> real W * e \<le> work_of lanes + ?d + (real W - 1) * D" if "(e, v) \<in># mset heap'" for e v
    using inv h that fresh [OF that] clamped_duration_pos [of stats "ti_id t"]
    by (fastforce simp: heap_inv_def on_worker_append on_worker_def)
  have mine: "\<forall>item\<in>set (on_worker w (lanes @ [?item])). sc_end item \<le> start + ?d"
    using start clamped_duration_pos [of stats "ti_id t"] by (auto simp: on_worker_append on_worker_def)
  show ?thesis
    using v ids sum h work new old mine start(1) clamped_duration_pos [of stats "ti_id t"]
    by (auto simp: heap_inv_def worker_heap.push_elems)
qed

lemma heap_inv_initial: "0 < W \<Longrightarrow> 0 \<le> D \<Longrightarrow> heap_inv W D (map (\<lambda>w. (0, w)) [0..<W]) []"
  by (auto simp: heap_inv_def timeline_valid_def on_worker_def work_of_def multiset.map_comp comp_def
      intro!: mult_nonneg_nonneg)

lemma random_place_correct:
  assumes "heap_inv W D heap lanes" and "0 < W" and "\<forall>t\<in>set order. clamped_duration stats (ti_id t) \<le> D"
  shows "\<exists>heap' lanes'. random_place stats order heap lanes = Inr (heap', lanes') \<and> heap_inv W D heap' lanes'
    \<and> map item_core lanes' = map item_core lanes
        @ map (\<lambda>t. (ti_id t, ti_node_id t, clamped_duration stats (ti_id t))) order"
  using assms(1,3)
proof (induction order arbitrary: heap lanes)
  case (Cons t order)
  have "mset heap \<noteq> {#}" using Cons.prems(1) assms(2) by (auto simp: heap_inv_def mset_set_empty_iff)
  then obtain start w heap' where pop: "heappop heap = Some ((start, w), heap')"
    by (metis worker_heap.popE surj_pair)
  have "heap_inv W D (heappush heap' (start + clamped_duration stats (ti_id t), w))
      (lanes @ [baseline_item stats t w start])"
    using heap_inv_step [OF Cons.prems(1) pop] Cons.prems(2) by simp
  from Cons.IH [OF this] show ?case using Cons.prems(2) pop by (auto simp: item_core_def)
qed simp

subsection \<open>The schedules\<close>

lemma random_schedule_place:
  "random_schedule workers seed below env tests stats run_id = Inr s \<longleftrightarrow>
     (\<exists>heap lanes. random_place stats (py_shuffle (below seed) tests)
          (map (\<lambda>worker. (0, worker)) [0..<nat workers]) [] = Inr (heap, lanes)
        \<and> s = \<lparr>sd_id = env_uuid1 env, sd_run_id = run_id_or run_id (env_uuid2 env),
               sd_workers = workers, sd_policy = RP_AGGRESSIVE, sd_tests = lanes,
               sd_scheduler_latency_ms = env_elapsed_ms env,
               sd_expected_makespan = makespan_of lanes, sd_expected_risk = 0, sd_seed = seed\<rparr>)"
  by (auto simp: random_schedule_def)

lemma random_schedule_correct:
  assumes W: "0 < workers" and D: "0 \<le> D"
    and order: "\<forall>t\<in>set (py_shuffle (below seed) tests). clamped_duration stats (ti_id t) \<le> D"
  shows "\<exists>heap s. random_schedule workers seed below env tests stats run_id = Inr s
    \<and> heap_inv (nat workers) D heap (sd_tests s) \<and> sd_workers s = workers
    \<and> sd_expected_makespan s = makespan_of (sd_tests s)
    \<and> map item_core (sd_tests s) = map (\<lambda>t. (ti_id t, ti_node_id t, clamped_duration stats (ti_id t)))
        (py_shuffle (below seed) tests)"
  using random_place_correct [OF heap_inv_initial [OF _ D] _ order, of "nat workers"] W
  by (auto simp: random_schedule_place)

lemma member_le_sum_list_real: "x \<in> set xs \<Longrightarrow> \<forall>y\<in>set xs. 0 \<le> y \<Longrightarrow> x \<le> sum_list xs" for x :: real
  by (induction xs) (auto intro: add_increasing add_increasing2 sum_list_nonneg)

lemma heap_makespan:
  assumes inv: "heap_inv W D heap items" and W: "0 < W" and D: "0 \<le> D"
  shows "real W * makespan_of items \<le> work_of items + (real W - 1) * D"
proof -
  have v: "timeline_valid W items" using inv by (simp add: heap_inv_def)
  have B: "real W * sc_end item \<le> work_of items + (real W - 1) * D" if item: "item \<in> set items" for item
  proof -
    have "sc_worker item \<in># image_mset snd (mset heap)"
      using inv v item by (simp add: heap_inv_def timeline_valid_def)
    then obtain e where e: "(e, sc_worker item) \<in># mset heap" by auto
    then have "sc_end item \<le> e" "real W * e \<le> work_of items + (real W - 1) * D"
      using inv item by (auto simp: heap_inv_def on_worker_def)
    then show ?thesis by (smt (verit) W mult_left_mono of_nat_0_le_iff)
  qed
  show ?thesis
  proof (cases "items = []")
    case False
    then obtain item where "item \<in> set items" "makespan_of items = sc_end item"
      using max_default_in [of "map sc_end items" 0] by (auto simp: makespan_of_def)
    then show ?thesis using B by simp
  qed (use D W in \<open>simp add: makespan_of_def work_of_def\<close>)
qed

abbreviation core_of_test :: "(string \<rightharpoonup> TestStats) \<Rightarrow> TestIdentity \<Rightarrow> string \<times> string \<times> real" where
  "core_of_test stats \<equiv> \<lambda>t. (ti_id t, ti_node_id t, clamped_duration stats (ti_id t))"

lemma random_schedule_total:
  assumes W: "0 < workers"
  shows "\<exists>s. random_schedule workers seed below env tests stats run_id = Inr s \<and> sd_workers s = workers
    \<and> sd_expected_makespan s = makespan_of (sd_tests s)
    \<and> map item_core (sd_tests s) = map (core_of_test stats) (py_shuffle (below seed) tests)"
proof -
  let ?durations = "map (\<lambda>t. clamped_duration stats (ti_id t)) (py_shuffle (below seed) tests)"
  have nn: "\<forall>x\<in>set ?durations. 0 \<le> x" using clamped_duration_pos by (auto intro: less_imp_le)
  have "0 \<le> sum_list ?durations" using nn by (intro sum_list_nonneg) blast
  moreover have "\<forall>t\<in>set (py_shuffle (below seed) tests). clamped_duration stats (ti_id t) \<le> sum_list ?durations"
    using nn by (intro ballI member_le_sum_list_real) auto
  ultimately show ?thesis
    using random_schedule_correct [OF W, of "sum_list ?durations" below seed tests stats env run_id] by blast
qed

lemma random_graham:
  assumes s: "random_schedule workers seed below env tests stats run_id = Inr s" and W: "0 < workers"
    and B: "\<And>item. item \<in> set (sd_tests s) \<Longrightarrow> sc_duration item \<le> B" "0 \<le> B"
  shows "real (nat workers) * makespan_of (sd_tests s) \<le> work_of (sd_tests s) + (real (nat workers) - 1) * B"
proof -
  have core: "map item_core (sd_tests s) = map (core_of_test stats) (py_shuffle (below seed) tests)"
    using random_schedule_total [OF W, of seed below env tests stats run_id] s by auto
  have "clamped_duration stats (ti_id t) \<le> B" if t: "t \<in> set (py_shuffle (below seed) tests)" for t
  proof -
    have "core_of_test stats t \<in> set (map (core_of_test stats) (py_shuffle (below seed) tests))"
      using t by (auto intro: image_eqI)
    then have "core_of_test stats t \<in> set (map item_core (sd_tests s))" unfolding core .
    then show ?thesis using B(1) by (auto simp: item_core_def)
  qed
  then obtain heap where "heap_inv (nat workers) B heap (sd_tests s)"
    using random_schedule_correct [OF W B(2), of below seed tests stats env run_id] s by auto
  then show ?thesis by (rule heap_makespan) (use W B(2) in auto)
qed

abbreviation scheduled_at_random :: "Schedule \<Rightarrow> bool" where
  "scheduled_at_random s \<equiv>
     \<exists>workers seed below env tests stats run_id.
       random_schedule workers seed below env tests stats run_id = Inr s"

lemma random_place_empty_heap: "random_place stats order [] lanes = Inr r \<Longrightarrow> r = ([], lanes)"
  by (cases order) (auto simp: heappop_def min_by_def)

interpretation random: timeline_provider scheduled_at_random "\<lambda>s. nat (sd_workers s)" sd_tests
proof
  fix s assume "scheduled_at_random s"
  then obtain workers seed below env tests stats run_id where
    s: "random_schedule workers seed below env tests stats run_id = Inr s" by blast
  show "timeline_valid (nat (sd_workers s)) (sd_tests s)"
  proof (cases "0 < workers")
    case True
    let ?D = "max_default 0 (map (\<lambda>t. clamped_duration stats (ti_id t)) (py_shuffle (below seed) tests))"
    have "0 \<le> ?D"
    proof (cases "py_shuffle (below seed) tests")
      case (Cons t ts)
      then have "clamped_duration stats (ti_id t) \<le> ?D" by (intro max_default_ge) simp
      then show ?thesis using clamped_duration_pos [of stats "ti_id t"] by linarith
    qed simp
    moreover have "\<forall>t\<in>set (py_shuffle (below seed) tests). clamped_duration stats (ti_id t) \<le> ?D"
      by (intro ballI max_default_ge) simp
    ultimately show ?thesis
      using random_schedule_correct [OF True, of ?D below seed tests stats env run_id] s
      by (auto simp: heap_inv_def)
  next
    case False
    then show ?thesis
      using s by (auto simp: random_schedule_place timeline_valid_def on_worker_def
          dest!: random_place_empty_heap)
  qed
qed

lemma serial_place_correct:
  assumes "0 \<le> cursor"
  shows "lane_chain cursor (fst (serial_place stats cursor tests))
    \<and> map item_core (fst (serial_place stats cursor tests))
        = map (\<lambda>t. (ti_id t, ti_node_id t, clamped_duration stats (ti_id t))) tests
    \<and> snd (serial_place stats cursor tests)
        = cursor + (\<Sum>t\<leftarrow>tests. clamped_duration stats (ti_id t))
    \<and> (\<forall>item\<in>set (fst (serial_place stats cursor tests)). sc_worker item = 0)"
  using assms
proof (induction tests arbitrary: cursor)
  case (Cons t tests)
  have "0 \<le> cursor + clamped_duration stats (ti_id t)"
    using Cons.prems clamped_duration_pos [of stats "ti_id t"] by linarith
  from Cons.IH [OF this] show ?case
    using clamped_duration_pos [of stats "ti_id t"] by (auto simp: item_core_def Let_def split: prod.splits)
qed simp

lemma serial_schedule_correct:
  "timeline_valid 1 (sd_tests (serial_schedule env tests stats run_id))
   \<and> map item_core (sd_tests (serial_schedule env tests stats run_id))
        = map (\<lambda>t. (ti_id t, ti_node_id t, clamped_duration stats (ti_id t))) tests
   \<and> sd_expected_makespan (serial_schedule env tests stats run_id)
        = (\<Sum>t\<leftarrow>tests. clamped_duration stats (ti_id t))"
proof -
  note c = serial_place_correct [of 0 stats tests]
  have "on_worker 0 (fst (serial_place stats 0 tests)) = fst (serial_place stats 0 tests)"
    using c by (simp add: on_worker_def)
  then show ?thesis
    using c by (auto simp: serial_schedule_def Let_def timeline_valid_def split: prod.splits)
qed

interpretation serial: timeline_provider
  "\<lambda>s. \<exists>env tests stats run_id. s = serial_schedule env tests stats run_id" "\<lambda>s. 1" sd_tests
  by unfold_locales (use serial_schedule_correct in blast)

subsection \<open>Properties\<close>

text \<open>C13: functional and bounds. With at least one worker and index draws in range the random
  baseline returns a schedule; it runs every test it was given (duplicates included) once with
  its clamped duration, workers never overlap, and its reported makespan is within the factor
  \<open>2 - 1/W\<close> of any assignment of the same durations to the same workers. Without workers it
  raises \<^verbatim>\<open>IndexError\<close> on a nonempty suite.\<close>

theorem random_baseline_correct:
  assumes d: "draws_below (below seed)"
  shows "(0 < workers \<longrightarrow> (\<exists>s. random_schedule workers seed below env tests stats run_id = Inr s
      \<and> mset (map item_core (sd_tests s))
          = mset (map (\<lambda>t. (ti_id t, ti_node_id t, clamped_duration stats (ti_id t))) tests)
      \<and> timeline_valid (nat workers) (sd_tests s)
      \<and> (\<forall>other. timeline_valid (nat workers) other \<and> mset (map sc_duration other) = mset (map sc_duration (sd_tests s))
            \<longrightarrow> sd_expected_makespan s \<le> (2 - 1 / real_of_int workers) * makespan_of other)))
    \<and> (workers \<le> 0 \<and> tests \<noteq> [] \<longrightarrow>
         random_schedule workers seed below env tests stats run_id = Inl IndexError)"
proof (intro conjI impI)
  assume W: "0 < workers"
  obtain s where s: "random_schedule workers seed below env tests stats run_id = Inr s"
    and w: "sd_workers s = workers" and e: "sd_expected_makespan s = makespan_of (sd_tests s)"
    and core: "map item_core (sd_tests s) = map (core_of_test stats) (py_shuffle (below seed) tests)"
    using random_schedule_total [OF W] by blast
  have m: "mset (map item_core (sd_tests s))
      = mset (map (\<lambda>t. (ti_id t, ti_node_id t, clamped_duration stats (ti_id t))) tests)"
    by (simp add: core mset_py_shuffle [OF d])
  have p: "scheduled_at_random s" using s by blast
  have "sd_expected_makespan s \<le> (2 - 1 / real_of_int workers) * makespan_of other"
    if o: "timeline_valid (nat workers) other" "mset (map sc_duration other) = mset (map sc_duration (sd_tests s))"
    for other
    using random.approximation [OF p _ random_graham [OF s W] o] e W by simp
  then show "\<exists>s. random_schedule workers seed below env tests stats run_id = Inr s
      \<and> mset (map item_core (sd_tests s))
          = mset (map (\<lambda>t. (ti_id t, ti_node_id t, clamped_duration stats (ti_id t))) tests)
      \<and> timeline_valid (nat workers) (sd_tests s)
      \<and> (\<forall>other. timeline_valid (nat workers) other \<and> mset (map sc_duration other) = mset (map sc_duration (sd_tests s))
            \<longrightarrow> sd_expected_makespan s \<le> (2 - 1 / real_of_int workers) * makespan_of other)"
    using s m random.provides [OF p] unfolding w by (intro exI [of _ s] conjI allI impI) auto
next
  assume h: "workers \<le> 0 \<and> tests \<noteq> []"
  have "py_shuffle (below seed) tests \<noteq> []"
    using h mset_py_shuffle [OF d, of tests] by (metis mset_zero_iff)
  then obtain t ts where "py_shuffle (below seed) tests = t # ts" by (cases "py_shuffle (below seed) tests") auto
  then show "random_schedule workers seed below env tests stats run_id = Inl IndexError"
    using h by (simp add: random_schedule_def heappop_def min_by_def)
qed

theorem random_baseline_correct_witness:
  "random_schedule 0 7 (\<lambda>_ _ _. 0) demo_env demo_tests demo_stats None = Inl IndexError
   \<and> (\<exists>s. random_schedule 2 7 (\<lambda>_ _ _. 0) demo_env demo_tests demo_stats None = Inr s
        \<and> timeline_valid 2 (sd_tests s))"
proof -
  have "draws_below (\<lambda>_ _. 0)" by (simp add: draws_below_def)
  then show ?thesis
    using random_baseline_correct [of "\<lambda>_ _ _. 0" 7 0 demo_env demo_tests demo_stats None]
      random_baseline_correct [of "\<lambda>_ _ _. 0" 7 2 demo_env demo_tests demo_stats None]
    by (auto simp: demo_tests_def)
qed

text \<open>Functional. The serial baseline runs the tests in the given order on one worker without
  overlap; the makespan it reports is the sum of the clamped durations, which no timeline of the
  same durations on \<open>W\<close> workers beats by more than the factor \<open>W\<close>.\<close>

lemma serial_baseline_correct:
  "timeline_valid 1 (sd_tests (serial_schedule env tests stats run_id))
   \<and> map sc_test_id (sd_tests (serial_schedule env tests stats run_id)) = map ti_id tests
   \<and> sd_expected_makespan (serial_schedule env tests stats run_id)
        = (\<Sum>t\<leftarrow>tests. clamped_duration stats (ti_id t))
   \<and> (\<forall>W other. timeline_valid W other \<and> mset (map sc_duration other)
          = mset (map sc_duration (sd_tests (serial_schedule env tests stats run_id)))
        \<longrightarrow> sd_expected_makespan (serial_schedule env tests stats run_id) \<le> real W * makespan_of other)"
proof -
  let ?s = "serial_schedule env tests stats run_id"
  let ?core = "\<lambda>t. (ti_id t, ti_node_id t, clamped_duration stats (ti_id t))"
  have core: "map item_core (sd_tests ?s) = map ?core tests" using serial_schedule_correct by blast
  have "map sc_test_id (sd_tests ?s) = map fst (map item_core (sd_tests ?s))"
    by (simp add: item_core_def)
  moreover have "map sc_duration (sd_tests ?s) = map (snd \<circ> snd) (map item_core (sd_tests ?s))"
    by (simp add: item_core_def)
  ultimately have ids: "map sc_test_id (sd_tests ?s) = map ti_id tests"
    and durs: "map sc_duration (sd_tests ?s) = map (\<lambda>t. clamped_duration stats (ti_id t)) tests"
    unfolding core by simp_all
  have "sd_expected_makespan ?s \<le> real W * makespan_of other"
    if o: "timeline_valid W other" "mset (map sc_duration other) = mset (map sc_duration (sd_tests ?s))" for W other
  proof -
    have "sd_expected_makespan ?s = work_of other"
      using serial_schedule_correct o(2) durs unfolding work_of_def by (metis sum_mset_sum_list)
    then show ?thesis using timeline_total_work [OF o(1)] by simp
  qed
  then show ?thesis using serial_schedule_correct ids by blast
qed

end
