(* ===== verification/Graph_Properties.thy ===== *)
theory Graph_Properties
  imports Heuristic Baselines
begin

section \<open>Properties of the graph and the heuristic predictor\<close>

subsection \<open>The graph\<close>

text \<open>Refinement. A graph that represents an event log represents the extended log after
  \<^verbatim>\<open>add_event\<close>: every edge aggregates exactly the events of its test on its resource, both
  adjacency indexes and the test and resource tables agree with the log.\<close>

lemma add_event_refines_append:
  assumes "graph_built evs g"
  shows "graph_built (evs @ [e]) (add_event g e)"
  by (rule add_event_built [OF assms])

definition demo_event :: "string \<Rightarrow> Operation \<Rightarrow> TraceEvent" where
  "demo_event t operation = \<lparr>ev_execution_id = ''x'', ev_test_id = t, ev_timestamp_ns = 5, ev_pid = 1, ev_tid = 1,
     ev_cgroup_id = 0, ev_resource_type = RT_FILE, ev_resource_identifier = ''/data'', ev_operation = operation,
     ev_access_mode = AM_SHARED, ev_source = ES_REPLAY, ev_metadata = PDict [], ev_sequence = 0\<rparr>"

text \<open>C12: functional. Building a graph from any events and tests succeeds. The edge of a test and
  a resource exists exactly when the log has such an event; it counts the events per operation and
  in total, collects their modes, is mutating exactly when one of them mutates, and spans a time
  window that ends at the latest time stamp. The tests are those given and those seen.\<close>

theorem from_events_correct:
  "\<exists>g. from_events evs tests = Inr g
     \<and> fst ` set (gr_tests g) = ti_id ` set tests \<union> ev_test_id ` set evs
     \<and> (\<forall>t r. case map_of (gr_edges g) (t, r) of
          None \<Rightarrow> touches t r evs = []
        | Some a \<Rightarrow> touches t r evs \<noteq> [] \<and> ag_total a = int (length (touches t r evs))
            \<and> (\<forall>operation. dict_get (ag_counts a) operation 0
                 = int (length (filter (\<lambda>e. ev_operation e = operation) (touches t r evs))))
            \<and> ag_modes a = ev_access_mode ` set (touches t r evs)
            \<and> ag_mutating a = mutates evs t r
            \<and> ag_first_ns a \<le> ag_last_ns a \<and> ag_last_ns a = foldl max 0 (map ev_timestamp_ns (touches t r evs)))"
proof -
  obtain g where g: "from_events evs tests = Inr g" "graph_built evs g"
      "fst ` set (gr_tests g) = ti_id ` set tests \<union> ev_test_id ` set evs"
    using from_events_built by blast
  then show ?thesis
    using graph_builtD(7) [OF g(2)] mutates_edge aggregate_of_window
    by (intro exI [of _ g]) (simp add: aggregate_of_simps)
qed

text \<open>Functional. The statistics a graph learns from its events: a test that occurs in the log
  has as resource count the number of distinct resources it touched and as write ratio the share
  of its events on resources it mutated, which lies in the unit interval; other tests have none.\<close>

lemma refreshed_statistics:
  "\<exists>g. from_events evs tests = Inr g
     \<and> (\<forall>t. map_of (gr_test_stats g) t =
          (if t \<in> ev_test_id ` set evs
           then Some (TestStats_init\<lparr>st_resource_count := int (card (resources_of t evs)),
                  st_write_ratio :=
                    real (length (filter (\<lambda>e. ev_test_id e = t \<and> mutates evs t (event_rid e)) evs))
                    / real (length (filter (\<lambda>e. ev_test_id e = t) evs))\<rparr>)
           else None))"
proof -
  have "event_stats t evs TestStats_init = TestStats_init\<lparr>st_resource_count := int (card (resources_of t evs)),
      st_write_ratio := real (length (filter (\<lambda>e. ev_test_id e = t \<and> mutates evs t (event_rid e)) evs))
        / real (length (filter (\<lambda>e. ev_test_id e = t) evs))\<rparr>" for t
  proof -
    have "filter (\<lambda>e. \<exists>e'\<in>set (filter (\<lambda>e. ev_test_id e = t) evs). event_rid e' = event_rid e
            \<and> is_mutating (ev_operation e') (ev_access_mode e')) (filter (\<lambda>e. ev_test_id e = t) evs)
        = filter (\<lambda>e. ev_test_id e = t \<and> mutates evs t (event_rid e)) evs"
      by (auto simp: mutates_def intro!: filter_cong)
    moreover have "event_rid ` set (filter (\<lambda>e. ev_test_id e = t) evs) = resources_of t evs"
      by (simp add: resources_of_def)
    ultimately show ?thesis unfolding event_stats_def Let_def by simp
  qed
  then show ?thesis using from_events_built [of evs tests] by auto
qed

text \<open>C11: functional. The candidate pairs of a graph built from a log are, without repetition,
  exactly the ordered pairs of distinct tests that touched a common resource which, unless
  read-only sharing is included, at least one of the two mutated.\<close>

theorem candidate_pairs_correct:
  "\<exists>g pairs. from_events evs tests = Inr g \<and> candidate_pairs g include_readonly = Inr pairs
     \<and> distinct pairs
     \<and> (\<forall>a b. (a, b) \<in> set pairs \<longleftrightarrow>
          a < b \<and> (\<exists>r. touches a r evs \<noteq> [] \<and> touches b r evs \<noteq> []
            \<and> (include_readonly \<or> mutates evs a r \<or> mutates evs b r)))"
proof -
  obtain g where g: "from_events evs tests = Inr g" "graph_built evs g" "gr_pair_history g = []"
    using from_events_built by blast
  obtain pairs where "candidate_pairs g include_readonly = Inr pairs" "distinct pairs"
      "set pairs = {(a, b). a < b \<and> (\<exists>r. a \<in> tests_of r evs \<and> b \<in> tests_of r evs \<and> wanted evs include_readonly r (a, b))}"
    using candidate_pairs_built [OF g(2), of include_readonly] g(3) by auto
  then show ?thesis
    using g(1) by (intro exI [of _ g] exI [of _ pairs]) (simp add: touches_Nil_iff tests_of_iff wanted_def)
qed

text \<open>Functional and bounds. The features of any two tests are computed without error and in
  either argument order alike; their counters are the numbers of shared resources on which the
  log shows the respective access pattern, the ratios lie in the unit interval, and the only
  change to the graph is the insertion of default statistics.\<close>

lemma pair_features_correct:
  "\<exists>g f g'. from_events evs tests = Inr g \<and> pair_features g x y = Inr (f, g') \<and> pair_features g y x = Inr (f, g')
     \<and> (pf_test_a f, pf_test_b f) = stable_pair x y
     \<and> features_reflect evs f \<and> features_ranges f \<and> features_stats g f
     \<and> g' = g\<lparr>gr_test_stats := gr_test_stats g'\<rparr>"
proof -
  obtain g where g: "from_events evs tests = Inr g" "graph_built evs g" using from_events_built by blast
  let ?g' = "snd (stats_for (snd (stats_for g (fst (stable_pair x y)))) (snd (stable_pair x y)))"
  obtain f where f: "pair_features g x y = Inr (f, ?g')" "(pf_test_a f, pf_test_b f) = stable_pair x y"
      "features_reflect evs f" "features_ranges f" "features_stats g f"
    using pair_features_built [OF g(2), of x y] by blast
  have "pair_features g y x = pair_features g x y" by (simp add: pair_features_def stable_pair_commute [of y x])
  moreover have "?g' = g\<lparr>gr_test_stats := gr_test_stats ?g'\<rparr>"
    by (auto simp: stats_for_def split: option.splits)
  ultimately show ?thesis using f g(1) by (intro exI [of _ g] exI [of _ f] exI [of _ ?g']) simp
qed

subsection \<open>The heuristic predictor\<close>

definition demo_features :: PairFeatures where
  "demo_features = (PairFeatures_init ''a'' ''b'')\<lparr>pf_shared_resources := 1, pf_shared_bind := 1,
     pf_write_write := 1, pf_mean_rarity := 1/2\<rparr>"

lemma demo_counts_ok: "counts_ok demo_features"
  by (simp add: counts_ok_def heuristic_signals_def demo_features_def PairFeatures_init_def)

lemma read_only_score:
  assumes "pf_shared_resources f \<noteq> 0" and "\<not> shows_signal f" and "historical_rate f = 0"
  shows "pp_probability (score base now f) \<le> 0.02"
proof -
  have capped: "max 0 (min 1 (min 0.02 x)) \<le> (0.02 :: real)" for x by (auto simp: max_def min_def)
  have "pp_probability (score base now f) =
      max 0 (min 1 (min 0.02 (base + 0.001 * real_of_int (pf_shared_resources f) * pf_mean_rarity f)))"
    using assms by (simp add: score_simps shared_probability_def)
  then show ?thesis using capped by metis
qed

text \<open>Equivalence. For a pair that shows some conflict signal and has no co-failure history,
  the sequential updates of the score amount to one noisy-or: every occurrence of a signal
  independently spares the pair with the complement of the signal's weight.\<close>

lemma heuristic_score_closed_form:
  assumes "counts_ok f" and "shows_signal f" and "pf_historical_cofailures f = 0" and "0 \<le> base" and "base \<le> 1"
  shows "pp_probability (score base now f) = 1 - (1 - base)
    * 0.005 ^ nat (pf_shared_bind f) * 0.03 ^ nat (pf_create_create f) * 0.08 ^ nat (pf_shared_locks f)
    * 0.06 ^ nat (pf_shared_unix_sockets f) * 0.1 ^ nat (pf_shared_redis_writes f)
    * 0.12 ^ nat (pf_delete_read f) * 0.18 ^ nat (pf_write_write f) * 0.35 ^ nat (pf_read_write f)"
proof -
  have "historical_rate f = 0" using assms(3) by (simp add: historical_rate_def)
  then have "pp_probability (score base now f) = max 0 (min 1 (signal_probability base f))"
    using assms(2) by (simp add: score_simps shared_probability_def)
  also have "\<dots> = signal_probability base f" using signal_probability_bounds [OF assms(1,4,5)] assms(4) by simp
  also have "\<dots> = 1 - (1 - base)
    * (0.005 ^ nat (pf_shared_bind f) * 0.03 ^ nat (pf_create_create f) * 0.08 ^ nat (pf_shared_locks f)
    * 0.06 ^ nat (pf_shared_unix_sockets f) * 0.1 ^ nat (pf_shared_redis_writes f)
    * 0.12 ^ nat (pf_delete_read f) * 0.18 ^ nat (pf_write_write f) * 0.35 ^ nat (pf_read_write f))"
    using assms(1) by (simp add: signal_probability_def heuristic_signals_def counts_ok_def power_int_def)
  finally show ?thesis by (simp only: mult.assoc)
qed

text \<open>Bounds. The score is a valid prediction for the pair, lies above the floor and above the
  weight of every signal that occurs, history never lowers it, and a pair with shared resources
  but no signal and no history scores at most two percent.\<close>

lemma heuristic_score_bounds:
  assumes "counts_ok f" and "0 \<le> base" and "base \<le> 1" and "0 \<le> historical_rate f"
  shows "prediction_wf (score base now f)
    \<and> PairPrediction_key (score base now f) = stable_pair (pf_test_a f) (pf_test_b f)
    \<and> (\<forall>s\<in>set (heuristic_signals f). fst s \<noteq> 0 \<longrightarrow> fst (snd s) \<le> pp_probability (score base now f))
    \<and> (shows_signal f \<longrightarrow> base \<le> pp_probability (score base now f))
    \<and> (pf_shared_resources f \<noteq> 0 \<and> \<not> shows_signal f \<and> historical_rate f = 0
        \<longrightarrow> pp_probability (score base now f) \<le> 0.02 \<and> pp_cause (score base now f) = CC_UNKNOWN)"
proof -
  have "base \<le> pp_probability (score base now f)" if "shows_signal f"
    using that signal_probability_bounds [OF assms(1-3)]
      score_ge_shared [OF shared_probability_le_one [OF assms(1-3)] assms(4), of now]
    by (simp add: shared_probability_def)
  moreover have "pp_probability (score base now f) \<le> 0.02 \<and> pp_cause (score base now f) = CC_UNKNOWN"
    if h: "pf_shared_resources f \<noteq> 0" "\<not> shows_signal f" "historical_rate f = 0"
  proof -
    have "filter (\<lambda>s. fst s \<noteq> 0) (heuristic_signals f) = []"
      using h(2) by (simp add: shows_signal_def filter_empty_conv)
    then have "signal_cause CC_UNKNOWN (heuristic_signals f) = CC_UNKNOWN"
      unfolding signal_cause_def Let_def by simp
    then show ?thesis using read_only_score [OF h] by (simp add: score_simps(2))
  qed
  ultimately show ?thesis using score_wf score_simps(3) score_ge_weight [OF assms] by blast
qed

text \<open>Functional. The cause a score reports is that of the last signal of weight above nine
  tenths, if one occurs, and otherwise that of the first signal that occurs: with several strong
  signals it is not the one of the largest weight.\<close>

lemma heuristic_cause:
  "pp_cause (score base now f) =
     (let seen = filter (\<lambda>s. fst s \<noteq> 0) (heuristic_signals f); strong = filter (\<lambda>s. 0.9 < fst (snd s)) seen
      in if strong \<noteq> [] then fst (snd (snd (last strong)))
         else if seen \<noteq> [] then fst (snd (snd (hd seen))) else CC_UNKNOWN)"
  unfolding score_simps signal_cause_def Let_def by simp

text \<open>A resource that one test mutates and the other uses without reading it (by an \<^verbatim>\<open>EXEC\<close> or a
  \<^verbatim>\<open>CONNECT\<close>) raises \<^verbatim>\<open>shared_writes\<close> but none of the signals, so the pair is scored at no more
  than two percent and explained as sharing read-only resources.\<close>

lemma unread_write_scored_as_read_only:
  assumes "pf_shared_writes f = 1" and "pf_shared_resources f = 1" and "\<not> shows_signal f" and "historical_rate f = 0"
  shows "pp_probability (score base now f) \<le> 0.02
    \<and> pp_explanation (score base now f) = ''1 shared read-only resource(s)''"
proof -
  let ?st = "foldl add_signal (base, CC_UNKNOWN, []) (heuristic_signals f)"
  obtain p c rs where st: "?st = (p, c, rs)" by (cases ?st)
  have "filter (\<lambda>s. fst s \<noteq> 0) (heuristic_signals f) = []"
    using assms(3) by (simp add: shows_signal_def filter_empty_conv)
  then have "rs = []"
    using fold_signals_reasons [of "(base, CC_UNKNOWN, [])" "heuristic_signals f"] unfolding st by simp
  moreover have "str_int 1 = ''1''" by code_simp
  ultimately have "pp_explanation (score base now f) = ''1 shared read-only resource(s)''"
    unfolding score_def st using assms by (auto simp: Let_def PairPrediction_init_def split: prod.splits)
  moreover have "pp_probability (score base now f) \<le> 0.02"
    using assms by (intro read_only_score) auto
  ultimately show ?thesis by simp
qed

subsection \<open>From accesses to scheduling risk\<close>

lemma risk_lookup:
  assumes "distinct (map PairPrediction_key ps)" and "p \<in> set ps" and "PairPrediction_key p = stable_pair a b" and "a \<noteq> b"
  shows "risk_probability (RiskIndex_init ps) a b = pp_probability p"
proof -
  let ?kvs = "map (\<lambda>p. (PairPrediction_key p, p)) ps"
  have "distinct (map fst (rev ?kvs))" using assms(1) by (simp add: comp_def flip: rev_map)
  moreover have "(stable_pair a b, p) \<in> set (rev ?kvs)" using assms(2) by (auto simp flip: assms(3))
  ultimately have "map_of (rev ?kvs) (stable_pair a b) = Some p" by (rule map_of_is_SomeI)
  then show ?thesis using assms(4) by (simp add: risk_probability_def RiskIndex_init_def map_of_dict_of)
qed

lemma risk_lookup_none:
  assumes "stable_pair a b \<notin> set (map PairPrediction_key ps)" and "a \<noteq> b"
  shows "risk_probability (RiskIndex_init ps) a b = 0"
proof -
  have "map_of (dict_of (map (\<lambda>p. (PairPrediction_key p, p)) ps)) (stable_pair a b) = None"
    using assms(1) by (auto simp: map_of_eq_None_iff set_keys_dict_of image_image)
  then show ?thesis using assms(2) by (simp add: risk_probability_def RiskIndex_init_def)
qed

lemma performs_resources: "performs evs t r operation \<Longrightarrow> r \<in> resources_of t evs"
  by (auto simp: performs_def resources_of_def)

lemma mutates_resources: "mutates evs t r \<Longrightarrow> r \<in> resources_of t evs"
  by (auto simp: mutates_def resources_of_def)

lemma performs_mutates: "performs evs t r operation \<Longrightarrow> is_mutating operation AM_UNKNOWN \<Longrightarrow> mutates evs t r"
  by (auto simp: performs_def mutates_def is_mutating_def)

lemma predicted_risk:
  assumes g: "gr_pair_history g = []" and ps: "distinct (map PairPrediction_key ps)"
    and keys: "set (map PairPrediction_key ps) =
      {(a, b). a < b \<and> (\<exists>r. a \<in> tests_of r evs \<and> b \<in> tests_of r evs \<and> wanted evs incl r (a, b))}"
    and pred: "\<forall>p\<in>set ps. predicted evs g base (PairPrediction_key p) p"
    and ab: "a \<noteq> b" "r \<in> resources_of a evs" "r \<in> resources_of b evs" "mutates evs a r \<or> mutates evs b r"
  obtains f n where "risk_probability (RiskIndex_init ps) a b = pp_probability (score base n f)"
    and "(pf_test_a f, pf_test_b f) = stable_pair a b"
    and "features_reflect evs f" and "features_ranges f" and "historical_rate f = 0"
proof -
  have "stable_pair a b \<in> set (map PairPrediction_key ps)"
    unfolding keys using ab by (cases "a < b") (auto simp: stable_pair_def tests_of_iff wanted_def)
  then obtain p where p: "p \<in> set ps" "PairPrediction_key p = stable_pair a b" by auto
  obtain f n where f: "p = score base n f" "(pf_test_a f, pf_test_b f) = stable_pair (fst (stable_pair a b)) (snd (stable_pair a b))"
      "features_reflect evs f" "features_ranges f" "features_stats g f"
    using bspec [OF pred p(1)] unfolding predicted_def p(2) by blast
  have "historical_rate f = 0" using f(5) g by (simp add: features_stats_def historical_rate_def)
  moreover have "stable_pair (fst (stable_pair a b)) (snd (stable_pair a b)) = stable_pair a b"
    by (auto simp: stable_pair_def)
  ultimately show thesis using that [of n f] risk_lookup [OF ps p ab(1)] f by simp
qed

lemma signal_present:
  assumes "features_reflect evs f" and "(pf_test_a f, pf_test_b f) = stable_pair a b"
    and "r \<in> resources_of a evs" and "r \<in> resources_of b evs"
  shows bind_signal: "performs evs a r OP_BIND \<Longrightarrow> performs evs b r OP_BIND \<Longrightarrow>
      \<exists>s\<in>set (heuristic_signals f). fst s \<noteq> 0 \<and> fst (snd s) = 0.995"
    and write_signal: "mutates evs a r \<Longrightarrow> mutates evs b r \<Longrightarrow>
      \<exists>s\<in>set (heuristic_signals f). fst s \<noteq> 0 \<and> fst (snd s) = 0.82"
    and read_signal: "mutates evs a r \<Longrightarrow> performs evs b r OP_READ \<Longrightarrow>
      \<exists>s\<in>set (heuristic_signals f). fst s \<noteq> 0 \<and> fst (snd s) = 0.65"
proof -
  have shared: "r \<in> set (sharing evs (pf_test_a f) (pf_test_b f))"
    using assms(2-) by (auto simp: stable_pair_def split: if_splits)
  have ab: "(pf_test_a f = a \<and> pf_test_b f = b) \<or> (pf_test_a f = b \<and> pf_test_b f = a)"
    using assms(2) by (auto simp: stable_pair_def split: if_splits)
  have present: "counted P (sharing evs (pf_test_a f) (pf_test_b f)) \<noteq> 0" if "P r" for P
    using that shared unfolding counted_nonzero by blast
  have sig: "pf_shared_bind f \<noteq> 0 \<Longrightarrow> \<exists>s\<in>set (heuristic_signals f). fst s \<noteq> 0 \<and> fst (snd s) = 0.995"
    "pf_write_write f \<noteq> 0 \<Longrightarrow> \<exists>s\<in>set (heuristic_signals f). fst s \<noteq> 0 \<and> fst (snd s) = 0.82"
    "pf_read_write f \<noteq> 0 \<Longrightarrow> \<exists>s\<in>set (heuristic_signals f). fst s \<noteq> 0 \<and> fst (snd s) = 0.65"
    by (simp_all add: heuristic_signals_def)
  show "performs evs a r OP_BIND \<Longrightarrow> performs evs b r OP_BIND \<Longrightarrow>
      \<exists>s\<in>set (heuristic_signals f). fst s \<noteq> 0 \<and> fst (snd s) = 0.995"
    using assms(1) ab by (intro sig(1)) (auto simp only: features_reflect_def Let_def intro!: present)
  show "mutates evs a r \<Longrightarrow> mutates evs b r \<Longrightarrow>
      \<exists>s\<in>set (heuristic_signals f). fst s \<noteq> 0 \<and> fst (snd s) = 0.82"
    using assms(1) ab by (intro sig(2)) (auto simp only: features_reflect_def Let_def intro!: present)
  show "mutates evs a r \<Longrightarrow> performs evs b r OP_READ \<Longrightarrow>
      \<exists>s\<in>set (heuristic_signals f). fst s \<noteq> 0 \<and> fst (snd s) = 0.65"
    using assms(1) ab by (intro sig(3)) (auto simp only: features_reflect_def Let_def intro!: present)
qed

lemma risk_ge_weight:
  assumes base: "0 \<le> base" "base \<le> 1"
    and g: "gr_pair_history g = []" and ps: "distinct (map PairPrediction_key ps)"
    and keys: "set (map PairPrediction_key ps) =
      {(a, b). a < b \<and> (\<exists>r. a \<in> tests_of r evs \<and> b \<in> tests_of r evs \<and> wanted evs incl r (a, b))}"
    and pred: "\<forall>p\<in>set ps. predicted evs g base (PairPrediction_key p) p"
    and ab: "a \<noteq> b" "r \<in> resources_of a evs" "r \<in> resources_of b evs" "mutates evs a r \<or> mutates evs b r"
    and sig: "\<And>f. features_reflect evs f \<Longrightarrow> (pf_test_a f, pf_test_b f) = stable_pair a b
      \<Longrightarrow> \<exists>s\<in>set (heuristic_signals f). fst s \<noteq> 0 \<and> fst (snd s) = w"
  shows "w \<le> risk_probability (RiskIndex_init ps) a b"
proof (rule predicted_risk [OF g ps keys pred ab])
  fix f n
  assume f: "risk_probability (RiskIndex_init ps) a b = pp_probability (score base n f)"
    "(pf_test_a f, pf_test_b f) = stable_pair a b" "features_reflect evs f" "features_ranges f" "historical_rate f = 0"
  obtain s where "s \<in> set (heuristic_signals f)" "fst s \<noteq> 0" "fst (snd s) = w" using sig [OF f(3,2)] by blast
  then show "w \<le> risk_probability (RiskIndex_init ps) a b"
    using score_ge_weight [OF features_counts_ok [OF f(3,4)] base, of s n] f(1,5) by simp
qed

end
