(* ===== verification/Normalize_Properties.thy ===== *)
theory Normalize_Properties
  imports Normalize
begin

section \<open>Properties of normalisation\<close>

text \<open>
  Canonical form, stability and privacy of path identifiers, endpoints as canonical text, and the
  contract \<open>normalizer\<close> on which the tracer rests.
\<close>

subsection \<open>Clean paths\<close>

definition clean_comp :: "string \<Rightarrow> bool" where
  "clean_comp c \<longleftrightarrow> c \<noteq> [] \<and> c \<noteq> ''.'' \<and> c \<noteq> ''..'' \<and> CHR ''/'' \<notin> set c"

definition rooted_path :: "nat \<Rightarrow> string list \<Rightarrow> string" where
  "rooted_path k comps = replicate k (CHR ''/'') @ join_with ''/'' comps"

lemma norm_comps_clean:
  "\<forall>c\<in>set pieces. CHR ''/'' \<notin> set c \<Longrightarrow> \<forall>c\<in>set comps. clean_comp c \<Longrightarrow>
     \<forall>c\<in>set (foldl (norm_comp True) comps pieces). clean_comp c"
proof (induction pieces arbitrary: comps)
  case (Cons p pieces)
  have "last comps \<noteq> ''..''" if "comps \<noteq> []"
    using last_in_set [OF that] Cons.prems(2) by (auto simp: clean_comp_def)
  then have "\<forall>c\<in>set (norm_comp True comps p). clean_comp c"
    using Cons.prems by (auto simp: norm_comp_def clean_comp_def dest: in_set_butlastD)
  then show ?case using Cons by simp
qed simp

lemma norm_comps_subset: "set (foldl (norm_comp b) comps pieces) \<subseteq> set comps \<union> set pieces"
proof (induction pieces arbitrary: comps)
  case (Cons p pieces)
  have "set (norm_comp b comps p) \<subseteq> set comps \<union> {p}"
    by (auto simp: norm_comp_def dest: in_set_butlastD)
  then show ?case using Cons [of "norm_comp b comps p"] by auto
qed simp

lemma norm_comps_id: "\<forall>c\<in>set pieces. clean_comp c \<Longrightarrow> foldl (norm_comp b) comps pieces = comps @ pieces"
  by (induction pieces arbitrary: comps) (auto simp: norm_comp_def clean_comp_def)

lemma foldl_norm_skip [simp]: "foldl (norm_comp b) comps (replicate k []) = comps"
  by (induction k) (auto simp: norm_comp_def)

lemma join_hd: "\<forall>c\<in>set comps. clean_comp c \<Longrightarrow> comps \<noteq> [] \<Longrightarrow> join_with ''/'' comps \<noteq> [] \<and> hd (join_with ''/'' comps) \<noteq> CHR ''/''"
  by (cases comps rule: list.exhaust; cases "tl comps"; cases "hd comps") (auto simp: clean_comp_def)

lemma leading_slashes_rooted:
  assumes "\<forall>c\<in>set comps. clean_comp c" and "k \<in> {1, 2}"
  shows "leading_slashes (rooted_path k comps) = k"
proof (cases "comps = []")
  case True
  then show ?thesis using assms(2) by (auto simp: leading_slashes_def rooted_path_def startswith_def numeral_2_eq_2)
next
  case False
  obtain c s where "join_with ''/'' comps = c # s" "c \<noteq> CHR ''/''"
    using join_hd [OF assms(1) False] by (cases "join_with ''/'' comps") auto
  then show ?thesis using assms(2) by (auto simp: leading_slashes_def rooted_path_def startswith_def numeral_2_eq_2)
qed

lemma split_slashes: "split_on (CHR ''/'') (replicate k (CHR ''/'') @ s) = replicate k [] @ split_on (CHR ''/'') s"
  by (induction k) auto

lemma split_rooted:
  assumes "\<forall>c\<in>set comps. clean_comp c"
  shows "split_on (CHR ''/'') (rooted_path k comps) = replicate k [] @ (if comps = [] then [[]] else comps)"
proof (cases "comps = []")
  case False
  then have "split_on (CHR ''/'') (join_with ''/'' comps) = comps"
    using assms by (intro split_on_join) (auto simp: clean_comp_def)
  then show ?thesis using False by (simp add: rooted_path_def split_slashes)
qed (use split_slashes [of k "[]"] in \<open>simp add: rooted_path_def\<close>)

lemma normpath_rooted:
  assumes "startswith path ''/''"
  shows "\<exists>k comps. k \<in> {1, 2} \<and> (\<forall>c\<in>set comps. clean_comp c) \<and> normpath path = rooted_path k comps
    \<and> set comps \<subseteq> set (split_on (CHR ''/'') path)"
proof -
  let ?comps = "foldl (norm_comp True) [] (split_on (CHR ''/'') path)"
  have k: "leading_slashes path \<in> {1, 2}" using assms by (auto simp: leading_slashes_def)
  have "\<forall>c\<in>set ?comps. clean_comp c" by (rule norm_comps_clean) (auto dest: split_on_not_in)
  moreover have "set ?comps \<subseteq> set (split_on (CHR ''/'') path)"
    using norm_comps_subset [of True "[]"] by simp
  moreover have "normpath path = rooted_path (leading_slashes path) ?comps"
    using assms k by (auto simp: normpath_def Let_def rooted_path_def startswith_def)
  ultimately show ?thesis using k by blast
qed

lemma normpath_clean:
  assumes "\<forall>c\<in>set comps. clean_comp c" and "k \<in> {1, 2}"
  shows "normpath (rooted_path k comps) = rooted_path k comps"
proof -
  have "foldl (norm_comp True) [] (replicate k [] @ (if comps = [] then [[]] else comps)) = comps"
    using norm_comps_id [OF assms(1), of True "[]"] by (auto simp: norm_comp_def)
  moreover have "rooted_path k comps \<noteq> []" using assms(2) by (auto simp: rooted_path_def)
  ultimately show ?thesis
    using assms(2) by (auto simp: normpath_def Let_def leading_slashes_rooted [OF assms] split_rooted [OF assms(1)]
        simp flip: rooted_path_def)
qed

definition stabilized :: "string \<Rightarrow> string" where
  "stabilized c = (if ephemeral c then ''$RUN_TMP'' else c)"

lemma run_tmp: "clean_comp ''$RUN_TMP''" "\<not> ephemeral ''$RUN_TMP''"
  by (simp_all add: clean_comp_def ephemeral_def startswith_def)

lemma slashes_not_ephemeral: "\<not> ephemeral (replicate k (CHR ''/''))"
  by (cases k) (simp_all add: ephemeral_def startswith_def)

lemma stabilize_rooted:
  assumes "\<forall>c\<in>set comps. clean_comp c" and "k \<in> {1, 2}"
  shows "stabilize (rooted_path k comps) = rooted_path k (map stabilized comps)"
proof -
  have "filter (\<lambda>c. c \<noteq> [] \<and> c \<noteq> ''.'') (replicate k [] @ (if comps = [] then [[]] else comps)) = comps"
    using assms(1) by (auto simp: clean_comp_def intro!: filter_True)
  then have "path_parts (rooted_path k comps) = replicate k (CHR ''/'') # comps"
    using assms(2) unfolding path_parts_def leading_slashes_rooted [OF assms] split_rooted [OF assms(1)] by auto
  then show ?thesis
    using assms(2) slashes_not_ephemeral [of k]
    by (auto simp: stabilize_def path_of_parts_def rooted_path_def stabilized_def [abs_def] numeral_2_eq_2)
qed

lemma stabilized_clean: "clean_comp c \<Longrightarrow> clean_comp (stabilized c) \<and> \<not> ephemeral (stabilized c)"
  using run_tmp by (auto simp: stabilized_def)

lemma split_on_chars: "p \<in> set (split_on a s) \<Longrightarrow> set p \<subseteq> set s"
proof (induction s arbitrary: p)
  case (Cons c s)
  then show ?case by (cases "split_on a s") (fastforce split: if_splits)+
qed simp

lemma join_chars: "set (join_with sep ps) \<subseteq> set sep \<union> (\<Union>p\<in>set ps. set p)"
  by (induction sep ps rule: join_with.induct) auto

abbreviation backslash :: char where
  "backslash \<equiv> CHR 0x5C"

lemma normalize_pathE:
  assumes "normalize_path policy raw operation = Some v"
    and "np_repository_root policy = None" and "\<not> np_redact_paths policy"
  obtains k comps where "k \<in> {1, 2}" and "\<forall>c\<in>set comps. clean_comp c \<and> \<not> ephemeral c"
    and "v = rooted_path k comps" and "backslash \<notin> set v"
proof -
  let ?raw = "replace_char backslash (CHR ''/'') (py_strip raw)"
  let ?path = "if startswith ?raw ''/'' then ?raw else CHR ''/'' # ?raw"
  have "startswith ?path ''/''" by (auto simp: startswith_def)
  from normpath_rooted [OF this] obtain k comps where k: "k \<in> {1, 2}" and clean: "\<forall>c\<in>set comps. clean_comp c"
    and n: "normpath ?path = rooted_path k comps" and sub: "set comps \<subseteq> set (split_on (CHR ''/'') ?path)" by blast
  have "v = stabilize (normpath ?path)"
    using assms by (auto simp: normalize_path_def Let_def relocate_def split: if_splits)
  then have v: "v = rooted_path k (map stabilized comps)" using stabilize_rooted [OF clean k] n by simp
  have "backslash \<notin> set ?path" by (auto simp: replace_char_def)
  then have "backslash \<notin> set c" if "c \<in> set comps" for c
    using that sub split_on_chars by fastforce
  then have "backslash \<notin> set (stabilized c)" if "c \<in> set comps" for c using that by (simp add: stabilized_def)
  then have "backslash \<notin> set v"
    using join_chars [of "''/''" "map stabilized comps"] by (auto simp: v rooted_path_def)
  then show thesis using that [of k "map stabilized comps"] k v clean stabilized_clean by auto
qed

lemma rooted_path_starts: "k \<in> {1, 2} \<Longrightarrow> startswith (rooted_path k comps) ''/''"
  by (auto simp: rooted_path_def startswith_def numeral_2_eq_2)

subsection \<open>Properties of paths\<close>

text \<open>Functional. Without redaction and repository rewriting a path identifier is in canonical
  form: one or two leading slashes and components that are not empty, \<^verbatim>\<open>.\<close> or \<^verbatim>\<open>..\<close>, hold no slash
  or backslash and name no runner directory.\<close>

lemma path_canonical_form:
  assumes "normalize_path policy raw operation = Some v"
    and "np_repository_root policy = None" and "\<not> np_redact_paths policy"
  shows "\<exists>k comps. k \<in> {1, 2} \<and> v = replicate k (CHR ''/'') @ join_with ''/'' comps
    \<and> list_all (\<lambda>c. c \<noteq> [] \<and> c \<noteq> ''.'' \<and> c \<noteq> ''..'' \<and> CHR ''/'' \<notin> set c \<and> \<not> ephemeral c) comps
    \<and> backslash \<notin> set v"
  using assms by (rule normalize_pathE) (auto simp: rooted_path_def clean_comp_def list_all_iff)

lemma demo_path:
  "normalize_path NormalizationPolicy_init ''/tmp/pytest-of-u/./x/../data.db '' OP_WRITE = Some ''/tmp/$RUN_TMP/data.db''"
  by code_simp

lemma normalize_path_again:
  assumes "normalize_path policy raw operation = Some v"
    and "np_repository_root policy = None" and "\<not> np_redact_paths policy"
    and "stripped v" and "again \<noteq> OP_READ \<or> np_include_readonly_system policy"
  shows "normalize_path policy v again = Some v"
proof -
  obtain k comps where k: "k \<in> {1, 2}" and clean: "\<forall>c\<in>set comps. clean_comp c \<and> \<not> ephemeral c"
    and v: "v = rooted_path k comps" and b: "backslash \<notin> set v"
    using assms(1-3) by (rule normalize_pathE)
  have s: "startswith v ''/''" using rooted_path_starts [OF k] v by simp
  then have "v \<noteq> []" "v \<notin> {''(null)'', ''<unknown>''}" by (auto simp: startswith_def)
  moreover have "py_strip v = v" by (rule py_strip_stripped [OF assms(4)])
  moreover have "replace_char backslash (CHR ''/'') v = v"
    using b by (auto simp: replace_char_def intro!: map_idI)
  moreover have "normpath v = v" using normpath_clean [OF _ k] clean v by blast
  moreover have "stabilize v = v"
  proof -
    have "map stabilized comps = comps" using clean by (auto simp: stabilized_def intro!: map_idI)
    then show ?thesis using stabilize_rooted [OF _ k, of comps] clean v by simp
  qed
  ultimately show ?thesis using s assms(2,3,5) by (auto simp: normalize_path_def Let_def relocate_def)
qed



definition path_value :: "string \<Rightarrow> string" where
  "path_value raw = replace_char backslash (CHR ''/'') (py_strip raw)"

definition names_path :: "string \<Rightarrow> bool" where
  "names_path raw \<longleftrightarrow> path_value raw \<noteq> [] \<and> path_value raw \<notin> {''(null)'', ''<unknown>''}"

definition canonical_path :: "string \<Rightarrow> string" where
  "canonical_path raw = normpath (if startswith (path_value raw) ''/'' then path_value raw else CHR ''/'' # path_value raw)"

lemma normalize_path_named:
  assumes "names_path raw"
  shows "normalize_path policy raw operation =
    (if operation = OP_READ \<and> \<not> np_include_readonly_system policy \<and> excluded policy (canonical_path raw) then None
     else let value = stabilize (relocate policy (canonical_path raw))
          in Some (if np_redact_paths policy
                   then ''sha256:'' @ sha256_hexdigest (np_hash_salt policy @ [CHR 0x00] @ value) else value))"
  using assms unfolding normalize_path_def names_path_def canonical_path_def path_value_def Let_def by simp

text \<open>Safety. Only reads are filtered: a mutating or other non-read access to any named path
  yields an identifier, even below an excluded prefix; a read is dropped exactly when its
  normalised path is excluded and system reads are not included.\<close>

lemma only_reads_are_filtered:
  assumes "names_path raw"
  shows "normalize_path policy raw operation = None \<longleftrightarrow>
    operation = OP_READ \<and> \<not> np_include_readonly_system policy \<and> excluded policy (canonical_path raw)"
  by (simp add: normalize_path_named [OF assms] Let_def)

text \<open>Stability across checkouts. Two runs with their repositories at different places agree on
  the identifier of a file with the same path below the repository.\<close>

lemma repository_location_irrelevant:
  assumes "np_repository_root p = Some r" and "r \<noteq> []" and "np_repository_root q = Some s" and "s \<noteq> []"
    and "np_redact_paths p = np_redact_paths q" and "np_hash_salt p = np_hash_salt q"
    and "names_path raw" and "canonical_path raw = normpath (replace_char backslash (CHR ''/'') r) @ ''/'' @ rel"
    and "names_path raw'" and "canonical_path raw' = normpath (replace_char backslash (CHR ''/'') s) @ ''/'' @ rel"
    and "operation \<noteq> OP_READ"
  shows "normalize_path p raw operation = normalize_path q raw' operation"
proof -
  have "under (x @ ''/'' @ rel) x" for x by (simp add: under_def startswith_def)
  then have "relocate p (canonical_path raw) = ''$REPO/'' @ rel" "relocate q (canonical_path raw') = ''$REPO/'' @ rel"
    using assms by (simp_all add: relocate_def Let_def)
  then show ?thesis
    using assms(5,6,11) unfolding normalize_path_named [OF assms(7)] normalize_path_named [OF assms(9)]
    by (simp add: Let_def)
qed

text \<open>A gap of the exclusion. \<^verbatim>\<open>posixpath.normpath\<close> keeps two leading slashes, so a read of a
  system file named with a doubled slash is not filtered, and it gets another identity than the
  same file named with a single slash.\<close>

lemma doubled_slash_escapes_exclusion:
  "normalize_path NormalizationPolicy_init ''/usr/lib/x'' OP_READ = None
   \<and> normalize_path NormalizationPolicy_init ''//usr/lib/x'' OP_READ = Some ''//usr/lib/x''
   \<and> normalize_path NormalizationPolicy_init ''//data'' OP_WRITE \<noteq> normalize_path NormalizationPolicy_init ''/data'' OP_WRITE"
proof (intro conjI)
  show "normalize_path NormalizationPolicy_init ''/usr/lib/x'' OP_READ = None" by code_simp
  show "normalize_path NormalizationPolicy_init ''//usr/lib/x'' OP_READ = Some ''//usr/lib/x''" by code_simp
  show "normalize_path NormalizationPolicy_init ''//data'' OP_WRITE \<noteq> normalize_path NormalizationPolicy_init ''/data'' OP_WRITE"
    by code_simp
qed

subsection \<open>Endpoints\<close>

lemma lower_plain: "is_decimal c \<or> c = CHR ''.'' \<or> c = CHR '':'' \<Longrightarrow> lower_char c = c"
  by (auto simp: lower_char_def is_decimal_def)

lemma lower_protocols:
  "py_lower ''tcp:'' = ''tcp:''" "py_lower ''TCP:'' = ''tcp:''" "py_lower ''udp:'' = ''udp:''" "py_lower ''UDP:'' = ''udp:''"
  by code_simp+

definition dotted :: "nat list \<Rightarrow> nat \<Rightarrow> string" where
  "dotted octets port = str_ipv4 octets @ '':'' @ str_nat port"

lemma dotted_chars: "c \<in> set (dotted octets port) \<Longrightarrow> is_decimal c \<or> c = CHR ''.'' \<or> c = CHR '':''"
  using str_ipv4_chars [of octets] str_nat_decimal [of port] by (auto simp: dotted_def list_all_iff)

lemma dotted_lower: "py_lower (dotted octets port) = dotted octets port"
  unfolding py_lower_def by (rule map_idI) (rule lower_plain [OF dotted_chars])

lemma plain_not_space: "is_decimal c \<or> c = CHR ''.'' \<or> c = CHR '':'' \<Longrightarrow> \<not> is_space c"
  by (auto simp: is_decimal_def is_space_def)

lemma dotted_stripped: "stripped (dotted octets port)"
  using dotted_chars [of _ octets port] plain_not_space
  by (cases "dotted octets port = []") (auto simp: stripped_def)

lemma dotted_starts: "length octets = 4 \<Longrightarrow> \<exists>c s. dotted octets port = c # s \<and> is_decimal c"
proof (cases octets)
  case (Cons a as)
  obtain c s where c: "str_nat a = c # s" by (cases "str_nat a") auto
  have "is_decimal c" using str_nat_decimal [of a] c by simp
  moreover have "\<exists>s. dotted octets port = c # s"
    using Cons c by (cases as) (auto simp: dotted_def str_ipv4_def)
  ultimately show ?thesis by blast
qed simp

lemma decimal_not_protocol: "is_decimal c \<Longrightarrow> c \<noteq> CHR ''t'' \<and> c \<noteq> CHR ''u'' \<and> c \<noteq> CHR ''[''"
  by (auto simp: is_decimal_def)

lemma split_dotted:
  assumes "length octets = 4"
  shows "split_endpoint (dotted octets port) = Some (str_ipv4 octets, str_nat port)"
proof -
  have "\<not> startswith (dotted octets port) ''[''"
    using dotted_starts [OF assms, of port] decimal_not_protocol by (auto simp: startswith_def)
  moreover have "rpartition_char (CHR '':'') (dotted octets port) = (str_ipv4 octets, True, str_nat port)"
    using rpartition_char_append [of "CHR '':''" "str_nat port" "str_ipv4 octets"]
    by (simp add: dotted_def str_nat_no_char is_decimal_def)
  ultimately show ?thesis by (simp add: split_endpoint_def)
qed

definition endpoint_text :: "NormalizationPolicy \<Rightarrow> ResourceType \<Rightarrow> nat list \<Rightarrow> nat \<Rightarrow> string" where
  "endpoint_text policy kind octets port =
     (if kind = RT_TCP_ENDPOINT then ''TCP:'' else ''UDP:'')
       @ (if hd octets = 127 then np_loopback_alias policy else str_ipv4 octets) @ '':'' @ str_nat port"

lemma normalize_dotted:
  assumes o: "length octets = 4" "\<forall>n\<in>set octets. n < 256" and p: "port \<le> 65535"
    and v: "(let value = py_lower (py_strip raw); protocol = protocol_of kind
      in if startswith value (protocol @ '':'') then drop (length protocol + 1) value else value) = dotted octets port"
  shows "normalize_endpoint policy raw kind = Some (endpoint_text policy kind octets port)"
proof -
  have ne: "str_ipv4 octets \<noteq> []" using o(1) by (intro str_ipv4_not_Nil) auto
  have "parse_ip (str_ipv4 octets) = Some (IPv4 octets)" using parse_str_ipv4 [OF o] by (simp add: parse_ip_def)
  then show ?thesis
    using v split_dotted [OF o(1), of port] ne p
    by (simp add: normalize_endpoint_def Let_def endpoint_text_def str_int_def)
qed

text \<open>Functional and round trip. A dotted IPv4 endpoint with a valid port, with or without its
  protocol prefix, normalises to protocol, address and port, with every loopback address replaced
  by the alias; the text so obtained for an address that is not loopback normalises to itself.\<close>

lemma ipv4_endpoint_canonical:
  assumes "length octets = 4" and "\<forall>n\<in>set octets. n < 256" and "port \<le> 65535"
    and "kind = RT_TCP_ENDPOINT \<or> kind = RT_UDP_ENDPOINT"
  shows "normalize_endpoint policy (str_ipv4 octets @ '':'' @ str_nat port) kind = Some (endpoint_text policy kind octets port)
    \<and> normalize_endpoint policy (protocol_of kind @ '':'' @ str_ipv4 octets @ '':'' @ str_nat port) kind
        = Some (endpoint_text policy kind octets port)
    \<and> (hd octets \<noteq> 127 \<longrightarrow> normalize_endpoint policy (endpoint_text policy kind octets port) kind
        = Some (endpoint_text policy kind octets port))"
proof -
  let ?d = "dotted octets port"
  obtain c s where cs: "?d = c # s" "is_decimal c" using dotted_starts [OF assms(1)] by blast
  have ds: "py_strip ?d = ?d" by (rule py_strip_stripped [OF dotted_stripped])
  have plain: "\<not> startswith ?d (protocol_of kind @ '':'')"
    using cs decimal_not_protocol [OF cs(2)] by (auto simp: startswith_def protocol_of_def)
  have pre: "stripped (q @ ?d)" if "q \<noteq> []" "\<not> is_space (hd q)" for q
    using that dotted_stripped [of octets port] cs(1) by (auto simp: stripped_def)
  have bare: "normalize_endpoint policy ?d kind = Some (endpoint_text policy kind octets port)"
    by (rule normalize_dotted [OF assms(1-3)]) (simp add: ds dotted_lower plain Let_def)
  have prefixed: "normalize_endpoint policy (q @ ?d) kind = Some (endpoint_text policy kind octets port)"
    if q: "q \<in> {''tcp:'', ''TCP:''} \<and> kind = RT_TCP_ENDPOINT \<or> q \<in> {''udp:'', ''UDP:''} \<and> kind = RT_UDP_ENDPOINT" for q
  proof (rule normalize_dotted [OF assms(1-3)])
    have "py_strip (q @ ?d) = q @ ?d" using q by (intro py_strip_stripped pre) (auto simp: is_space_def)
    moreover have "py_lower q = protocol_of kind @ '':''"
      using q lower_protocols by (auto simp: protocol_of_def)
    ultimately show "(let value = py_lower (py_strip (q @ ?d)); protocol = protocol_of kind
        in if startswith value (protocol @ '':'') then drop (length protocol + 1) value else value) = ?d"
      using dotted_lower [of octets port] by (simp add: py_lower_def Let_def startswith_def)
  qed
  have named: "normalize_endpoint policy ((protocol_of kind @ '':'') @ ?d) kind = Some (endpoint_text policy kind octets port)"
    by (rule prefixed) (use assms(4) in \<open>auto simp: protocol_of_def\<close>)
  have again: "normalize_endpoint policy ((if kind = RT_TCP_ENDPOINT then ''TCP:'' else ''UDP:'') @ ?d) kind
      = Some (endpoint_text policy kind octets port)"
    by (rule prefixed) (use assms(4) in auto)
  have "(if kind = RT_TCP_ENDPOINT then ''TCP:'' else ''UDP:'') @ ?d = endpoint_text policy kind octets port"
    if "hd octets \<noteq> 127" using that by (simp only: endpoint_text_def dotted_def if_False)
  then show ?thesis
    using bare named again by (simp only: dotted_def append_assoc not_False_eq_True simp_thms) metis
qed

subsection \<open>Logical resources\<close>

lemma partition_char_eq: "partition_char a s = (h, b, t) \<Longrightarrow> (b \<longrightarrow> s = h @ a # t \<and> a \<notin> set h) \<and> (\<not> b \<longrightarrow> h = s)"
proof -
  assume p: "partition_char a s = (h, b, t)"
  show ?thesis
  proof (cases "a \<in> set s")
    case True
    then have hb: "h = takeWhile (\<lambda>c. c \<noteq> a) s" "b" "t = tl (dropWhile (\<lambda>c. c \<noteq> a) s)"
      using p by (auto simp: partition_char_def)
    have ne: "dropWhile (\<lambda>c. c \<noteq> a) s \<noteq> []" using True by auto
    then have "dropWhile (\<lambda>c. c \<noteq> a) s = a # t"
      using hd_dropWhile [OF ne] hb(3) by (cases "dropWhile (\<lambda>c. c \<noteq> a) s") auto
    then have "s = h @ a # t" using takeWhile_dropWhile_id [of "\<lambda>c. c \<noteq> a" s] hb(1) by simp
    then show ?thesis using hb(1,2) by (auto dest: set_takeWhileD)
  qed (use p in \<open>auto simp: partition_char_def\<close>)
qed

lemma normalize_redisE:
  assumes "normalize_redis raw = Some v"
  obtains db key where "v = ''REDIS:'' @ db @ '':'' @ key" and "key \<noteq> []" and "last key = last (py_strip raw)"
    and "db = ''0'' \<and> key = py_strip raw \<or> py_isdigit db \<and> py_strip raw = db @ '':'' @ key"
proof -
  obtain h b t where p: "partition_char (CHR '':'') (py_strip raw) = (h, b, t)" by (cases "partition_char (CHR '':'') (py_strip raw)")
  let ?split = "b \<and> py_isdigit h"
  have v: "v = ''REDIS:'' @ (if ?split then h else ''0'') @ '':'' @ (if ?split then t else py_strip raw)"
    and ne: "(if ?split then t else py_strip raw) \<noteq> []"
    using assms by (auto simp: normalize_redis_def Let_def p split: if_splits)
  have eq: "py_strip raw = h @ CHR '':'' # t" if ?split using partition_char_eq [OF p] that by blast
  show thesis
    by (rule that [OF v ne]) (use eq ne in \<open>auto split: if_splits\<close>)
qed

text \<open>A Redis identifier is not stable under a second normalisation. The event sink records
  normalised identifiers and the replay of its file normalises them again: each pass puts another
  \<^verbatim>\<open>REDIS:0:\<close> in front, whatever database the key belongs to.\<close>

lemma redis_renormalization_prefixes:
  assumes "normalize_redis raw = Some v"
  shows "normalize_redis v = Some (''REDIS:0:'' @ v) \<and> normalize_redis v \<noteq> Some v"
proof -
  obtain db key where v: "v = ''REDIS:'' @ db @ '':'' @ key" and key: "key \<noteq> []" "last key = last (py_strip raw)"
    and db: "db = ''0'' \<and> key = py_strip raw \<or> py_isdigit db \<and> py_strip raw = db @ '':'' @ key"
    by (rule normalize_redisE [OF assms])
  have "py_strip raw \<noteq> []" using db key(1) by auto
  then have "\<not> is_space (last (py_strip raw))" using stripped_py_strip [of raw] by (auto simp: stripped_def)
  then have "stripped v" using key by (auto simp: v stripped_def is_space_def)
  then have s: "py_strip v = v" by (rule py_strip_stripped)
  have "partition_char (CHR '':'') v = (''REDIS'', True, db @ '':'' @ key)"
    using partition_char_append [of "CHR '':''" "''REDIS''" "db @ '':'' @ key"] by (simp add: v)
  moreover have "\<not> py_isdigit ''REDIS''" by code_simp
  ultimately have "normalize_redis v = Some (''REDIS:0:'' @ v)"
    using s by (simp add: normalize_redis_def Let_def v)
  then show ?thesis by (simp add: append_eq_conv_conj)
qed

subsection \<open>Events\<close>

text \<open>What the tracer needs of a normaliser: it rewrites nothing but the resource identifier, and
  the only exception it raises comes from a process event.\<close>

locale normalizer =
  fixes norm :: "TraceEvent \<Rightarrow> TraceEvent option result"
  assumes keeps: "norm e = Inr (Some e') \<Longrightarrow> e' = e\<lparr>ev_resource_identifier := ev_resource_identifier e'\<rparr>"
    and raises: "norm e = Inl err \<Longrightarrow> err = IndexError \<and> ev_resource_type e = RT_PROCESS"
begin

lemma same_test: "norm e = Inr (Some e') \<Longrightarrow> ev_test_id e' = ev_test_id e"
  using keeps by (metis TraceEvent.simps(2) TraceEvent.select_convs(2) TraceEvent.surjective TraceEvent.update_convs(8))

end

lemma normalize_process_raises: "normalize_process raw = Inl err \<Longrightarrow> err = IndexError"
  by (auto simp: normalize_process_def Let_def split: if_splits)

interpretation rn: normalizer "normalize_event policy" for policy
proof
  fix e e' err
  show "normalize_event policy e = Inr (Some e') \<Longrightarrow> e' = e\<lparr>ev_resource_identifier := ev_resource_identifier e'\<rparr>"
    by (auto simp: normalize_event_def split: option.splits)
  show "normalize_event policy e = Inl err \<Longrightarrow> err = IndexError \<and> ev_resource_type e = RT_PROCESS"
    by (auto simp: normalize_event_def bind_result_eq_Inl normalize_identifier_def Let_def
        split: if_splits dest: normalize_process_raises)
qed

lemma collect_normalized_eq:
  "collect_normalized policy events = Inr out \<Longrightarrow>
     out = List.map_filter (\<lambda>e. case normalize_event policy e of Inr r \<Rightarrow> r | Inl _ \<Rightarrow> None) events
     \<and> (\<forall>e\<in>set events. \<exists>r. normalize_event policy e = Inr r)"
  by (induction events arbitrary: out) (auto simp: List.map_filter_def split: option.splits)

text \<open>C15: functional and ordering. Normalising a batch of events returns, ordered by time stamp and
  sequence number and otherwise in the order of the input, exactly the events that are kept, each
  an input event of which only the resource identifier was rewritten.\<close>

theorem normalize_events_correct:
  assumes "normalize_events events policy = Inr out"
  shows "sorted (map (\<lambda>e. (ev_timestamp_ns e, ev_sequence e)) out)
    \<and> mset out = mset (List.map_filter (\<lambda>e. case normalize_event policy e of Inr r \<Rightarrow> r | Inl _ \<Rightarrow> None) events)
    \<and> (\<forall>k. filter (\<lambda>e. (ev_timestamp_ns e, ev_sequence e) = k) out =
         filter (\<lambda>e. (ev_timestamp_ns e, ev_sequence e) = k)
           (List.map_filter (\<lambda>e. case normalize_event policy e of Inr r \<Rightarrow> r | Inl _ \<Rightarrow> None) events))
    \<and> (\<forall>e'\<in>set out. \<exists>e\<in>set events. e' = e\<lparr>ev_resource_identifier := ev_resource_identifier e'\<rparr>)"
proof -
  let ?kept = "List.map_filter (\<lambda>e. case normalize_event policy e of Inr r \<Rightarrow> r | Inl _ \<Rightarrow> None) events"
  let ?key = "\<lambda>e. (ev_timestamp_ns e, ev_sequence e)"
  have out: "out = sort_key ?key ?kept"
    using assms by (auto simp: normalize_events_def dest: collect_normalized_eq)
  have "\<exists>e\<in>set events. e' = e\<lparr>ev_resource_identifier := ev_resource_identifier e'\<rparr>" if kept: "e' \<in> set ?kept" for e'
  proof -
    obtain e where "e \<in> set events" "normalize_event policy e = Inr (Some e')"
      using kept by (auto simp: List.map_filter_def split: sum.splits option.splits)
    then show ?thesis using rn.keeps by blast
  qed
  moreover have "filter (\<lambda>e. ?key e = k) (sort_key ?key ?kept) = filter (\<lambda>e. ?key e = k) ?kept" for k
    using sort_key_stable [of ?key k ?kept] by (simp add: eq_commute)
  ultimately show ?thesis unfolding out by simp
qed

definition logical_event :: "int \<Rightarrow> string \<Rightarrow> TraceEvent" where
  "logical_event time ident = \<lparr>ev_execution_id = ''x'', ev_test_id = ''t'', ev_timestamp_ns = time, ev_pid = 1, ev_tid = 1,
     ev_cgroup_id = 0, ev_resource_type = RT_OTHER_LOGICAL_RESOURCE, ev_resource_identifier = ident,
     ev_operation = OP_WRITE, ev_access_mode = AM_WRITE, ev_source = ES_REPLAY, ev_metadata = PDict [], ev_sequence = 0\<rparr>"

theorem normalize_events_correct_witness:
  "normalize_events [logical_event 2 '' b'', logical_event 5 [], logical_event 1 ''a''] NormalizationPolicy_init
     = Inr [logical_event 1 ''a'', logical_event 2 ''b'']
   \<and> sorted (map (\<lambda>e. (ev_timestamp_ns e, ev_sequence e)) [logical_event 1 ''a'', logical_event 2 ''b''])"
proof -
  have n: "normalize_events [logical_event 2 '' b'', logical_event 5 [], logical_event 1 ''a''] NormalizationPolicy_init
      = Inr [logical_event 1 ''a'', logical_event 2 ''b'']" by code_simp
  then show ?thesis using normalize_events_correct [OF n] by blast
qed

text \<open>Error. Normalisation raises only for process events, and there is one: a command line whose
  text before the first NUL has no word raises \<^verbatim>\<open>IndexError\<close> instead of being dropped.\<close>

lemma process_without_word_raises:
  "normalize_process [CHR 0x00] = Inl IndexError
   \<and> (\<forall>policy e err. normalize_event policy e = Inl err \<longrightarrow> err = IndexError \<and> ev_resource_type e = RT_PROCESS)"
proof
  show "normalize_process [CHR 0x00] = Inl IndexError" by code_simp
qed (use rn.raises in blast)

end
