(* ===== verification/Event_Sink.thy ===== *)
theory Event_Sink
  imports Normalize_Properties "HOL-Library.Sublist"
begin

section \<open>The event sink (\<^verbatim>\<open>EventSink\<close> of \<^verbatim>\<open>tracing.py\<close>)\<close>

text \<open>
  \<^verbatim>\<open>EventSink\<close> couples threads that submit events to one writer thread through a bounded queue.
  The record holds the fields of the object, the state of the writer thread and the lines written
  so far (as the documents whose JSON text is written). Every access to the queue is one atomic
  step, the counters \<^verbatim>\<open>captured\<close> and \<^verbatim>\<open>dropped\<close> belong to the submitting side and
  \<^verbatim>\<open>processed\<close> and \<^verbatim>\<open>unattributed\<close> to the writer, so an execution is an interleaving of the
  operations below: \<open>sink_run\<close> is its labelled step relation. A step that blocks (\<^verbatim>\<open>put\<close> on a full
  queue, \<^verbatim>\<open>get\<close> on an empty one) is the absence of a step.
\<close>

subsection \<open>State and operations\<close>

datatype thread_state = Not_Started | Running | Finished

record EventSink =
  sk_capacity :: int
  sk_policy :: NormalizationPolicy
  sk_quality :: TraceQuality
  sk_queue :: "TraceEvent option list"
  sk_thread :: thread_state
  sk_failure :: "py_error option"
  sk_output :: "pyval list"

definition EventSink_init :: "int \<Rightarrow> NormalizationPolicy \<Rightarrow> EventSink" where
  "EventSink_init capacity policy =
     \<lparr>sk_capacity = capacity, sk_policy = policy, sk_quality = TraceQuality_init, sk_queue = [],
      sk_thread = Not_Started, sk_failure = None, sk_output = []\<rparr>"

definition start :: "EventSink \<Rightarrow> EventSink" where
  "start self = self\<lparr>sk_thread := Running\<rparr>"

text \<open>\<^verbatim>\<open>queue.Queue(capacity)\<close> is unbounded when the capacity is not positive.\<close>

definition queue_full :: "EventSink \<Rightarrow> bool" where
  "queue_full self \<longleftrightarrow> 0 < sk_capacity self \<and> sk_capacity self \<le> int (length (sk_queue self))"

definition submit :: "EventSink \<Rightarrow> TraceEvent \<Rightarrow> bool \<times> EventSink" where
  "submit self event =
     (let self = self\<lparr>sk_quality := (sk_quality self)\<lparr>q_captured := q_captured (sk_quality self) + 1\<rparr>\<rparr>
      in if queue_full self
         then (False, self\<lparr>sk_quality := (sk_quality self)\<lparr>q_dropped := q_dropped (sk_quality self) + 1\<rparr>\<rparr>)
         else (True, self\<lparr>sk_queue := sk_queue self @ [Some event]\<rparr>))"

text \<open>\<^verbatim>\<open>close\<close> first puts the sentinel, blocking while the queue is full (\<open>None\<close>), then joins the
  thread and returns or raises according to what it finds.\<close>

definition close_put :: "EventSink \<Rightarrow> EventSink option" where
  "close_put self = (if queue_full self then None else Some (self\<lparr>sk_queue := sk_queue self @ [None]\<rparr>))"

definition close_result :: "EventSink \<Rightarrow> TraceQuality result" where
  "close_result self =
     (if sk_thread self = Running then Inl RuntimeError
      else if sk_failure self \<noteq> None then Inl RuntimeError
      else Inr (sk_quality self))"

text \<open>One iteration of the loop of \<^verbatim>\<open>_consume\<close>; \<open>None\<close> while \<^verbatim>\<open>get\<close> blocks or the thread does not
  run. An exception ends the thread and is kept as its failure.\<close>

definition consume_event :: "EventSink \<Rightarrow> TraceEvent \<Rightarrow> EventSink" where
  "consume_event self event =
     (case normalize_event (sk_policy self) event of
        Inl err \<Rightarrow> self\<lparr>sk_thread := Finished, sk_failure := Some err\<rparr>
      | Inr None \<Rightarrow> self
      | Inr (Some normalized) \<Rightarrow>
          self\<lparr>sk_output := sk_output self @ [TraceEvent_to_dict normalized],
               sk_quality := (sk_quality self)
                 \<lparr>q_processed := q_processed (sk_quality self) + 1,
                  q_unattributed := q_unattributed (sk_quality self)
                    + (if ev_test_id normalized = [] then 1 else 0)\<rparr>\<rparr>)"

definition consume :: "EventSink \<Rightarrow> EventSink option" where
  "consume self =
     (case sk_queue self of
        [] \<Rightarrow> None
      | item # rest \<Rightarrow>
          if sk_thread self \<noteq> Running then None
          else let self = self\<lparr>sk_queue := rest\<rparr>
               in Some (case item of None \<Rightarrow> self\<lparr>sk_thread := Finished\<rparr> | Some event \<Rightarrow> consume_event self event))"

subsection \<open>Executions\<close>

text \<open>Opening the file or writing a line may fail; in the second case the event being written is
  lost with the thread.\<close>

datatype sink_label = Started | Submitted TraceEvent | Sentinel | Consumed | Open_Failed | Write_Failed

inductive sink_step :: "EventSink \<Rightarrow> sink_label \<Rightarrow> EventSink \<Rightarrow> bool" where
  starts: "sk_thread s = Not_Started \<Longrightarrow> sink_step s Started (start s)"
| submits: "sink_step s (Submitted e) (snd (submit s e))"
| puts: "close_put s = Some s' \<Longrightarrow> sink_step s Sentinel s'"
| consumes: "consume s = Some s' \<Longrightarrow> sink_step s Consumed s'"
| open_fails: "sk_thread s = Running \<Longrightarrow> sk_output s = [] \<Longrightarrow>
    sink_step s Open_Failed (s\<lparr>sk_thread := Finished, sk_failure := Some OSError\<rparr>)"
| write_fails: "sk_thread s = Running \<Longrightarrow> sk_queue s = Some e # q \<Longrightarrow>
    sink_step s Write_Failed (s\<lparr>sk_queue := q, sk_thread := Finished, sk_failure := Some OSError\<rparr>)"

inductive_cases sink_stepE: "sink_step s l s'"

inductive sink_run :: "EventSink \<Rightarrow> sink_label list \<Rightarrow> EventSink \<Rightarrow> bool" where
  stop: "sink_run s [] s"
| and_then: "sink_run s ls s' \<Longrightarrow> sink_step s' l s'' \<Longrightarrow> sink_run s (ls @ [l]) s''"

definition submitted :: "sink_label list \<Rightarrow> TraceEvent list" where
  "submitted ls = List.map_filter (\<lambda>l. case l of Submitted e \<Rightarrow> Some e | _ \<Rightarrow> None) ls"

definition queued :: "EventSink \<Rightarrow> TraceEvent list" where
  "queued s = List.map_filter id (sk_queue s)"

definition kept :: "NormalizationPolicy \<Rightarrow> TraceEvent list \<Rightarrow> TraceEvent list" where
  "kept policy evs = List.map_filter (\<lambda>e. case normalize_event policy e of Inr r \<Rightarrow> r | Inl _ \<Rightarrow> None) evs"

lemma submitted_snoc [simp]:
  "submitted (ls @ [l]) = submitted ls @ (case l of Submitted e \<Rightarrow> [e] | _ \<Rightarrow> [])"
  by (simp add: submitted_def List.map_filter_def split: sink_label.splits)

lemma kept_append [simp]: "kept policy (xs @ ys) = kept policy xs @ kept policy ys"
  by (simp add: kept_def List.map_filter_def)

lemma kept_Cons [simp]: "kept policy (e # ys) = (case normalize_event policy e of Inr (Some e') \<Rightarrow> [e'] | _ \<Rightarrow> []) @ kept policy ys"
  by (simp add: kept_def List.map_filter_def split: sum.splits option.splits)

lemma kept_Nil [simp]: "kept policy [] = []"
  by (simp add: kept_def List.map_filter_def)

subsection \<open>The invariant\<close>

text \<open>The sink refines a plain log: the accepted events are a subsequence of the submitted ones, the
  writer works through them first in, first out, and the counters count.\<close>

definition sink_inv :: "TraceEvent list \<Rightarrow> TraceEvent list \<Rightarrow> TraceEvent list \<Rightarrow> EventSink \<Rightarrow> bool" where
  "sink_inv subs written lost s \<longleftrightarrow>
     subseq (written @ lost @ queued s) subs
     \<and> length lost \<le> 1 \<and> (lost \<noteq> [] \<longrightarrow> sk_failure s \<noteq> None \<and> sk_thread s = Finished)
     \<and> (sk_failure s \<noteq> None \<longrightarrow> sk_thread s = Finished)
     \<and> sk_output s = map TraceEvent_to_dict (kept (sk_policy s) written)
     \<and> q_captured (sk_quality s) = int (length subs)
     \<and> q_dropped (sk_quality s) = int (length subs) - int (length (written @ lost @ queued s))
     \<and> q_processed (sk_quality s) = int (length (sk_output s))
     \<and> q_unattributed (sk_quality s) = int (length (filter (\<lambda>e. ev_test_id e = []) (kept (sk_policy s) written)))
     \<and> q_parse_failures (sk_quality s) = 0
     \<and> (0 < sk_capacity s \<longrightarrow> int (length (sk_queue s)) \<le> sk_capacity s)"

lemma queued_simps [simp]:
  "sk_queue s = [] \<Longrightarrow> queued s = []"
  "sk_queue s = None # q \<Longrightarrow> queued s = List.map_filter id q"
  "sk_queue s = Some e # q \<Longrightarrow> queued s = e # List.map_filter id q"
  "queued (s\<lparr>sk_queue := q'\<rparr>) = List.map_filter id q'"
  "queued (s\<lparr>sk_quality := qu\<rparr>) = queued s"
  "queued (s\<lparr>sk_thread := t\<rparr>) = queued s"
  "queued (s\<lparr>sk_failure := er\<rparr>) = queued s"
  "queued (s\<lparr>sk_output := out\<rparr>) = queued s"
  by (simp_all add: queued_def List.map_filter_def)

lemma map_filter_snoc [simp]:
  "List.map_filter id (q @ [None]) = List.map_filter id q"
  "List.map_filter id (q @ [Some e]) = List.map_filter id q @ [e]"
  by (simp_all add: List.map_filter_def)

lemma subseq_appendI: "subseq xs ys \<Longrightarrow> subseq xs (ys @ zs)"
  using list_emb_append_mono [of "(=)" xs ys "[]" zs] by simp

lemma sink_inv_submit:
  assumes inv: "sink_inv subs written lost s"
  shows "sink_inv (subs @ [e]) written lost (snd (submit s e))"
proof (cases "queue_full s")
  case True
  then have q: "snd (submit s e) = s\<lparr>sk_quality := (sk_quality s)
      \<lparr>q_captured := q_captured (sk_quality s) + 1, q_dropped := q_dropped (sk_quality s) + 1\<rparr>\<rparr>"
    by (simp add: submit_def queue_full_def Let_def)
  show ?thesis unfolding q using inv by (auto simp: sink_inv_def subseq_appendI)
next
  case False
  then have q: "snd (submit s e) = s\<lparr>sk_quality := (sk_quality s)\<lparr>q_captured := q_captured (sk_quality s) + 1\<rparr>,
      sk_queue := sk_queue s @ [Some e]\<rparr>"
    by (simp add: submit_def queue_full_def Let_def)
  have sub: "subseq ((written @ lost @ queued s) @ [e]) (subs @ [e])"
    using inv by (intro list_emb_append_mono) (auto simp: sink_inv_def)
  show ?thesis unfolding q using inv False sub by (auto simp: sink_inv_def queue_full_def queued_def)
qed

lemma sink_inv_consume:
  assumes inv: "sink_inv subs written lost s" and step: "consume s = Some s'"
  shows "\<exists>written' lost'. sink_inv subs written' lost' s'"
proof -
  obtain item q where q: "sk_queue s = item # q" and run: "sk_thread s = Running"
      and s': "s' = (case item of None \<Rightarrow> s\<lparr>sk_queue := q, sk_thread := Finished\<rparr> | Some e \<Rightarrow> consume_event (s\<lparr>sk_queue := q\<rparr>) e)"
    using step by (auto simp: consume_def Let_def split: list.splits if_splits option.splits)
  have lost: "lost = []" using inv run by (auto simp: sink_inv_def)
  show ?thesis
  proof (cases item)
    case None
    then show ?thesis
      using inv q s' by (intro exI [of _ written] exI [of _ lost]) (auto simp: sink_inv_def)
  next
    case (Some e)
    show ?thesis
    proof (cases "normalize_event (sk_policy s) e")
      case (Inl err)
      then show ?thesis
        using inv q s' Some lost
        by (intro exI [of _ written] exI [of _ "[e]"]) (auto simp: sink_inv_def consume_event_def)
    next
      case (Inr r)
      then show ?thesis
        using inv q s' Some lost run
        by (intro exI [of _ "written @ [e]"] exI [of _ "[]"])
          (cases r; auto simp: sink_inv_def consume_event_def)
    qed
  qed
qed

lemma sink_inv_step:
  assumes inv: "sink_inv subs written lost s" and step: "sink_step s l s'"
  shows "\<exists>written' lost'. sink_inv (subs @ (case l of Submitted e \<Rightarrow> [e] | _ \<Rightarrow> [])) written' lost' s'"
  using step
proof cases
  case starts
  then show ?thesis using inv by (intro exI [of _ written] exI [of _ lost]) (auto simp: sink_inv_def start_def)
next
  case (submits e)
  then show ?thesis using sink_inv_submit [OF inv] by auto
next
  case puts
  then have s': "s' = s\<lparr>sk_queue := sk_queue s @ [None]\<rparr>" and room: "\<not> queue_full s" and l: "l = Sentinel"
    by (auto simp: close_put_def split: if_splits)
  have "queued s' = queued s" unfolding s' by (simp add: queued_def)
  then have "sink_inv subs written lost s'" using inv room by (auto simp: sink_inv_def s' queue_full_def)
  then show ?thesis unfolding l by auto
next
  case consumes
  then show ?thesis using sink_inv_consume [OF inv] by auto
next
  case open_fails
  then show ?thesis using inv by (intro exI [of _ written] exI [of _ lost]) (auto simp: sink_inv_def)
next
  case (write_fails e q)
  then show ?thesis using inv by (intro exI [of _ written] exI [of _ "[e]"]) (auto simp: sink_inv_def)
qed

lemma sink_inv_run:
  "sink_run s0 ls s \<Longrightarrow> s0 = EventSink_init capacity policy \<Longrightarrow>
     (\<exists>written lost. sink_inv (submitted ls) written lost s) \<and> sk_policy s = policy \<and> sk_capacity s = capacity"
proof (induction rule: sink_run.induct)
  case (stop s)
  have "sink_inv [] [] [] s" unfolding stop by (simp add: sink_inv_def EventSink_init_def TraceQuality_init_def)
  moreover have "sk_policy s = policy" "sk_capacity s = capacity" unfolding stop by (simp_all add: EventSink_init_def)
  ultimately show ?case by (auto simp: submitted_def List.map_filter_def)
next
  case (and_then s ls s' l s'')
  have "sk_policy s'' = sk_policy s' \<and> sk_capacity s'' = sk_capacity s'"
    using and_then.hyps(2)
    by (cases rule: sink_step.cases)
      (auto simp: start_def submit_def close_put_def consume_def consume_event_def Let_def
        split: if_splits list.splits option.splits sum.splits)
  then show ?case using and_then sink_inv_step by (simp, blast)
qed

subsection \<open>Draining and blocking\<close>

lemma sink_run_trans: "sink_run s' ms s'' \<Longrightarrow> sink_run s ls s' \<Longrightarrow> sink_run s (ls @ ms) s''"
proof (induction rule: sink_run.induct)
  case (and_then s' ms s'' l u)
  then show ?case using sink_run.and_then [of s "ls @ ms" s'' l u] by simp
qed simp

lemma sink_run_first: "sink_step s l s' \<Longrightarrow> sink_run s' ms s'' \<Longrightarrow> sink_run s (l # ms) s''"
  using sink_run_trans [of s' ms s'' s "[l]"] sink_run.and_then [OF sink_run.stop, of s l s'] by simp

text \<open>While no event before the sentinel makes the normaliser raise, the writer reaches the sentinel
  after as many iterations as there are items up to it.\<close>

lemma drains:
  assumes "sk_thread s = Running" "sk_queue s = map Some evs @ None # rest"
    and "\<And>e. e \<in> set evs \<Longrightarrow> \<exists>r. normalize_event (sk_policy s) e = Inr r"
  shows "\<exists>s'. sink_run s (replicate (length evs + 1) Consumed) s' \<and> sk_thread s' = Finished
    \<and> sk_failure s' = sk_failure s \<and> sk_queue s' = rest
    \<and> sk_output s' = sk_output s @ map TraceEvent_to_dict (kept (sk_policy s) evs)"
  using assms
proof (induction evs arbitrary: s)
  case Nil
  let ?s' = "s\<lparr>sk_queue := rest, sk_thread := Finished\<rparr>"
  have "consume s = Some ?s'" using Nil by (simp add: consume_def)
  then have "sink_run s ([] @ [Consumed]) ?s'" by (intro sink_run.and_then [OF sink_run.stop] sink_step.consumes)
  then show ?case by (intro exI [of _ ?s']) simp
next
  case (Cons e evs)
  obtain r where r: "normalize_event (sk_policy s) e = Inr r" using Cons.prems(3) by auto
  let ?s1 = "consume_event (s\<lparr>sk_queue := map Some evs @ None # rest\<rparr>) e"
  have first: "sink_step s Consumed ?s1" using Cons.prems by (intro sink_step.consumes) (simp add: consume_def)
  have s1: "sk_thread ?s1 = Running" "sk_queue ?s1 = map Some evs @ None # rest" "sk_policy ?s1 = sk_policy s"
      "sk_failure ?s1 = sk_failure s" "sk_output ?s1 = sk_output s @ map TraceEvent_to_dict (kept (sk_policy s) [e])"
    using Cons.prems r by (auto simp: consume_event_def split: option.splits)
  obtain s' where s': "sink_run ?s1 (replicate (length evs + 1) Consumed) s'" "sk_thread s' = Finished"
      "sk_failure s' = sk_failure ?s1" "sk_queue s' = rest"
      "sk_output s' = sk_output ?s1 @ map TraceEvent_to_dict (kept (sk_policy ?s1) evs)"
    using Cons.IH [OF s1(1,2)] Cons.prems(3) s1(3) by auto
  have "sink_run s (replicate (length (e # evs) + 1) Consumed) s'" using sink_run_first [OF first s'(1)] by simp
  moreover have "sk_output s' = sk_output s @ map TraceEvent_to_dict (kept (sk_policy s) (e # evs))"
    using s'(5) s1(3,5) by simp
  ultimately show ?case using s'(2-4) s1(4) by (intro exI [of _ s']) simp
qed

lemma stuck_step:
  assumes "sink_step s l s'" "sk_thread s = Finished" "queue_full s"
  shows "sk_thread s' = Finished \<and> queue_full s' \<and> sk_output s' = sk_output s"
  using assms
  by (cases rule: sink_step.cases)
    (auto simp: submit_def close_put_def consume_def queue_full_def Let_def split: list.splits)

lemma stuck_run:
  "sink_run s ls s' \<Longrightarrow> sk_thread s = Finished \<Longrightarrow> queue_full s \<Longrightarrow>
     sk_thread s' = Finished \<and> queue_full s' \<and> sk_output s' = sk_output s"
  by (induction rule: sink_run.induct) (auto dest: stuck_step)

subsection \<open>Properties\<close>

text \<open>C16: invariant and refinement of a log. After any interleaving of submissions, writer iterations and
  failures, the events the sink accepted and has not yet written down are a subsequence of the submitted
  ones in submission order; the file holds exactly the kept part of the worked-off prefix, in order; the
  queue never exceeds its capacity; at most one event is lost, and only when the writer failed; and the
  counters are exact. A dropped event is counted in both \<^verbatim>\<open>captured\<close> and \<^verbatim>\<open>dropped\<close>, so
  completeness divides by more than was submitted as soon as anything is dropped.\<close>

theorem sink_refines_log:
  assumes "sink_run (EventSink_init capacity policy) ls s"
  shows "\<exists>written lost.
      subseq (written @ lost @ queued s) (submitted ls)
    \<and> length lost \<le> 1 \<and> (lost \<noteq> [] \<longrightarrow> sk_failure s \<noteq> None)
    \<and> sk_output s = map TraceEvent_to_dict (kept policy written)
    \<and> (0 < capacity \<longrightarrow> int (length (sk_queue s)) \<le> capacity)
    \<and> q_captured (sk_quality s) = int (length (submitted ls))
    \<and> q_dropped (sk_quality s) = int (length (submitted ls)) - int (length (written @ lost @ queued s))
    \<and> q_processed (sk_quality s) = int (length (kept policy written))
    \<and> q_unattributed (sk_quality s) = int (length (filter (\<lambda>e. ev_test_id e = []) (kept policy written)))
    \<and> (submitted ls \<noteq> [] \<longrightarrow> completeness (sk_quality s)
        = real (length (kept policy written)) / (real (length (submitted ls)) + real_of_int (q_dropped (sk_quality s))))"
proof -
  obtain written lost where inv: "sink_inv (submitted ls) written lost s"
      and s: "sk_policy s = policy" "sk_capacity s = capacity"
    using sink_inv_run [OF assms refl] by blast
  have "length (written @ lost @ queued s) \<le> length (submitted ls)"
    using inv by (auto simp: sink_inv_def dest: list_emb_length)
  then have dropped: "0 \<le> q_dropped (sk_quality s)" using inv by (simp add: sink_inv_def)
  have "completeness (sk_quality s)
      = real (length (kept policy written)) / (real (length (submitted ls)) + real_of_int (q_dropped (sk_quality s)))"
    if "submitted ls \<noteq> []"
  proof -
    have "0 < int (length (submitted ls))" using that by simp
    moreover have c: "q_captured (sk_quality s) = int (length (submitted ls))"
        "q_processed (sk_quality s) = int (length (kept policy written))"
      using inv s by (simp_all add: sink_inv_def)
    ultimately have "q_captured (sk_quality s) + q_dropped (sk_quality s) \<noteq> 0" using dropped by linarith
    then show ?thesis by (simp add: completeness_def c)
  qed
  then show ?thesis using inv s by (intro exI [of _ written] exI [of _ lost]) (simp add: sink_inv_def)
qed


text \<open>A failed writer blocks \<^verbatim>\<open>close\<close>. When the writer thread has ended while the queue is full,
  the sentinel can never be put: whatever happens afterwards, \<^verbatim>\<open>close\<close> blocks for ever in its
  \<^verbatim>\<open>put\<close>, before the timeout and the recorded failure are looked at.\<close>

lemma failed_writer_blocks_close:
  assumes "sk_thread s = Finished" "queue_full s" "sink_run s ls s'"
  shows "close_put s' = None \<and> sk_output s' = sk_output s"
  using stuck_run [OF assms(3,1,2)] by (simp add: close_put_def)

definition process_event :: "string \<Rightarrow> TraceEvent" where
  "process_event command = (logical_event 1 command)\<lparr>ev_resource_type := RT_PROCESS\<rparr>"

definition demo_sink :: "int \<Rightarrow> EventSink" where
  "demo_sink capacity = start (EventSink_init capacity NormalizationPolicy_init)"

theorem sink_refines_log_witness:
  "q_captured (sk_quality (snd (submit (snd (submit (EventSink_init 1 NormalizationPolicy_init) (logical_event 1 ''a''))) (logical_event 2 ''b'')))) = 2
   \<and> length (sk_queue (snd (submit (snd (submit (EventSink_init 1 NormalizationPolicy_init) (logical_event 1 ''a''))) (logical_event 2 ''b'')))) \<le> 1"
proof -
  let ?init = "EventSink_init 1 NormalizationPolicy_init"
  let ?s = "snd (submit (snd (submit ?init (logical_event 1 ''a''))) (logical_event 2 ''b''))"
  have "sink_run ?init [Submitted (logical_event 1 ''a''), Submitted (logical_event 2 ''b'')] ?s"
    by (rule sink_run_first [OF sink_step.submits sink_run_first [OF sink_step.submits sink_run.stop]])
  from sink_refines_log [OF this] show ?thesis by (auto simp: submitted_def List.map_filter_def)
qed


end
