(* ===== verification/Replay.thy ===== *)
theory Replay
  imports Normalize_Properties
begin

section \<open>Replay and logical telemetry (\<^verbatim>\<open>tracing.py\<close>)\<close>

text \<open>
  \<^verbatim>\<open>ReplayTracer\<close> feeds the lines of a recorded trace through the normaliser to a consumer,
  \<^verbatim>\<open>read_events\<close> collects them, \<^verbatim>\<open>require_quality\<close> is the gate of \<^verbatim>\<open>trace replay\<close>;
  \<^verbatim>\<open>LogicalResourceClient\<close> and \<^verbatim>\<open>RedisTelemetry\<close> produce events. JSON text is the host's:
  \<open>loads\<close> and \<open>dumps\<close> are arguments (the text of a float is the interpreter's), \<open>repr_of\<close> is the
  text \<^verbatim>\<open>str\<close> gives a float or a container. The lines of the stream, the clock, the process and
  thread ids and the environment are arguments too; what is sent or slept is returned.
\<close>

subsection \<open>The replay loop\<close>

record 's replay_state =
  rs_quality :: TraceQuality
  rs_last_timestamp :: "int option"
  rs_slept :: "real list"
  rs_consumer :: 's

definition parse_line :: "(string \<Rightarrow> pyval result) \<Rightarrow> (pyval \<Rightarrow> string) \<Rightarrow> NormalizationPolicy \<Rightarrow> string \<Rightarrow> TraceEvent option result" where
  "parse_line loads repr_of policy line =
     bind_result (loads line) (\<lambda>value. bind_result (TraceEvent_from_dict repr_of value) (normalize_event policy))"

definition caught :: "py_error \<Rightarrow> bool" where
  "caught err \<longleftrightarrow> err \<in> {ValueError, TypeError, KeyError}"

text \<open>The pacing of \<^verbatim>\<open>replay\<close>: the delay since the last event, at most a second.
  \<^verbatim>\<open>time.sleep\<close> raises on a negative argument.\<close>

definition replay_sleep :: "real \<Rightarrow> int option \<Rightarrow> int \<Rightarrow> real list result" where
  "replay_sleep speed last_timestamp now =
     (case last_timestamp of
        None \<Rightarrow> Inr []
      | Some last_ns \<Rightarrow>
          if speed = 0 then Inr []
          else let delay = real_of_int (max 0 (now - last_ns)) / 1000000000 / speed
               in if delay = 0 then Inr []
                  else if min delay 1 < 0 then Inl ValueError
                  else Inr [min delay 1])"

definition bump_processed :: "TraceEvent \<Rightarrow> TraceQuality \<Rightarrow> TraceQuality" where
  "bump_processed normalized q =
     q\<lparr>q_processed := q_processed q + 1,
       q_unattributed := q_unattributed q + (if ev_test_id normalized = [] then 1 else 0)\<rparr>"

definition deliver :: "real \<Rightarrow> ('s \<Rightarrow> TraceEvent \<Rightarrow> 's result) \<Rightarrow> 's replay_state \<Rightarrow> TraceEvent \<Rightarrow> 's replay_state \<times> py_error option" where
  "deliver speed consumer st normalized =
     (case replay_sleep speed (rs_last_timestamp st) (ev_timestamp_ns normalized) of
        Inl err \<Rightarrow> (st, Some err)
      | Inr slept \<Rightarrow>
          let st = st\<lparr>rs_slept := rs_slept st @ slept\<rparr>
          in case consumer (rs_consumer st) normalized of
               Inl err \<Rightarrow> (st, Some err)
             | Inr c \<Rightarrow>
                 (st\<lparr>rs_consumer := c, rs_quality := bump_processed normalized (rs_quality st),
                     rs_last_timestamp := Some (ev_timestamp_ns normalized)\<rparr>, None))"

text \<open>One iteration of the loop, then the loop: an exception that is not caught leaves the
  counters as they are and ends it.\<close>

definition replay_line ::
  "(string \<Rightarrow> pyval result) \<Rightarrow> (pyval \<Rightarrow> string) \<Rightarrow> NormalizationPolicy \<Rightarrow> real \<Rightarrow> ('s \<Rightarrow> TraceEvent \<Rightarrow> 's result)
     \<Rightarrow> 's replay_state \<Rightarrow> string \<Rightarrow> 's replay_state \<times> py_error option" where
  "replay_line loads repr_of policy speed consumer st line =
     (let stripped = py_strip line
      in if stripped = [] then (st, None)
         else let st = st\<lparr>rs_quality := (rs_quality st)\<lparr>q_captured := q_captured (rs_quality st) + 1\<rparr>\<rparr>
              in case parse_line loads repr_of policy stripped of
                   Inl err \<Rightarrow>
                     if caught err
                     then (st\<lparr>rs_quality := (rs_quality st)\<lparr>q_parse_failures := q_parse_failures (rs_quality st) + 1\<rparr>\<rparr>, None)
                     else (st, Some err)
                 | Inr None \<Rightarrow> (st, None)
                 | Inr (Some normalized) \<Rightarrow> deliver speed consumer st normalized)"

fun replay_lines ::
  "(string \<Rightarrow> pyval result) \<Rightarrow> (pyval \<Rightarrow> string) \<Rightarrow> NormalizationPolicy \<Rightarrow> real \<Rightarrow> ('s \<Rightarrow> TraceEvent \<Rightarrow> 's result)
     \<Rightarrow> 's replay_state \<Rightarrow> string list \<Rightarrow> 's replay_state \<times> py_error option" where
  "replay_lines loads repr_of policy speed consumer st [] = (st, None)"
| "replay_lines loads repr_of policy speed consumer st (line # lines) =
     (case replay_line loads repr_of policy speed consumer st line of
        (st, Some err) \<Rightarrow> (st, Some err)
      | (st, None) \<Rightarrow> replay_lines loads repr_of policy speed consumer st lines)"

definition replay ::
  "(string \<Rightarrow> pyval result) \<Rightarrow> (pyval \<Rightarrow> string) \<Rightarrow> NormalizationPolicy \<Rightarrow> TraceQuality \<Rightarrow> string list
     \<Rightarrow> ('s \<Rightarrow> TraceEvent \<Rightarrow> 's result) \<Rightarrow> 's \<Rightarrow> real \<Rightarrow> 's replay_state \<times> TraceQuality result" where
  "replay loads repr_of policy quality source consumer c speed =
     (case replay_lines loads repr_of policy speed consumer
            \<lparr>rs_quality = quality, rs_last_timestamp = None, rs_slept = [], rs_consumer = c\<rparr> source of
        (st, Some err) \<Rightarrow> (st, Inl err)
      | (st, None) \<Rightarrow> (st, Inr (rs_quality st)))"

definition read_events ::
  "(string \<Rightarrow> pyval result) \<Rightarrow> (pyval \<Rightarrow> string) \<Rightarrow> NormalizationPolicy \<Rightarrow> string list \<Rightarrow> (TraceEvent list \<times> TraceQuality) result" where
  "read_events loads repr_of policy source =
     (case replay loads repr_of policy TraceQuality_init source (\<lambda>events e. Inr (events @ [e])) [] 0 of
        (st, Inl err) \<Rightarrow> Inl err
      | (st, Inr quality) \<Rightarrow> Inr (rs_consumer st, quality))"

definition require_quality :: "TraceQuality \<Rightarrow> real \<Rightarrow> unit result" where
  "require_quality quality minimum =
     (if quality_score quality < minimum then Inl TraceQualityError else Inr ())"

subsection \<open>Logical telemetry\<close>

record LogicalResourceClient =
  lc_socket_path :: string
  lc_execution_id :: string
  lc_test_id :: string

definition LogicalResourceClient_init ::
  "(string \<Rightarrow> string option) \<Rightarrow> string \<Rightarrow> string option \<Rightarrow> string option \<Rightarrow> LogicalResourceClient" where
  "LogicalResourceClient_init getenv socket_path execution_id test_id =
     \<lparr>lc_socket_path = socket_path,
      lc_execution_id = (case execution_id of Some e \<Rightarrow> e
        | None \<Rightarrow> (case getenv ''CONFLICTGRAPH_EXECUTION_ID'' of None \<Rightarrow> [] | Some e \<Rightarrow> e)),
      lc_test_id = (case test_id of Some t \<Rightarrow> t
        | None \<Rightarrow> (case getenv ''CONFLICTGRAPH_TEST_ID'' of None \<Rightarrow> [] | Some t \<Rightarrow> t))\<rparr>"

text \<open>The clock and the ids of the calling thread.\<close>

record host =
  h_time_ns :: int
  h_pid :: int
  h_tid :: int

definition emitted_event ::
  "host \<Rightarrow> LogicalResourceClient \<Rightarrow> ResourceType \<Rightarrow> string \<Rightarrow> Operation \<Rightarrow> AccessMode \<Rightarrow> (string \<times> pyval) list option \<Rightarrow> TraceEvent" where
  "emitted_event h client kind identifier operation mode metadata =
     \<lparr>ev_execution_id = lc_execution_id client, ev_test_id = lc_test_id client, ev_timestamp_ns = h_time_ns h,
      ev_pid = h_pid h, ev_tid = h_tid h, ev_cgroup_id = 0, ev_resource_type = kind,
      ev_resource_identifier = identifier, ev_operation = operation, ev_access_mode = mode,
      ev_source = ES_REDIS_ADAPTER, ev_metadata = PDict (case metadata of None \<Rightarrow> [] | Some d \<Rightarrow> d), ev_sequence = 0\<rparr>"

text \<open>\<^verbatim>\<open>emit\<close>: the datagram sent (destination and bytes), or the exception.\<close>

definition emit ::
  "(pyval \<Rightarrow> string) \<Rightarrow> host \<Rightarrow> LogicalResourceClient \<Rightarrow> ResourceType \<Rightarrow> string \<Rightarrow> Operation \<Rightarrow> AccessMode
     \<Rightarrow> (string \<times> pyval) list option \<Rightarrow> (string \<times> int list) result" where
  "emit dumps h client kind identifier operation mode metadata =
     (let payload = utf8_encode (dumps (TraceEvent_to_dict (emitted_event h client kind identifier operation mode metadata)))
      in if length payload > 8192 then Inl ValueError else Inr (lc_socket_path client, payload))"

record RedisTelemetry =
  rt_client :: LogicalResourceClient
  rt_database :: int

definition redis_name :: "RedisTelemetry \<Rightarrow> string \<Rightarrow> string" where
  "redis_name self key = str_int (rt_database self) @ '':'' @ key"

definition redis_read :: "(pyval \<Rightarrow> string) \<Rightarrow> host \<Rightarrow> RedisTelemetry \<Rightarrow> string \<Rightarrow> (string \<times> int list) result" where
  "redis_read dumps h self key = emit dumps h (rt_client self) RT_REDIS_KEY (redis_name self key) OP_READ AM_READ None"

definition redis_write :: "(pyval \<Rightarrow> string) \<Rightarrow> host \<Rightarrow> RedisTelemetry \<Rightarrow> string \<Rightarrow> (string \<times> int list) result" where
  "redis_write dumps h self key = emit dumps h (rt_client self) RT_REDIS_KEY (redis_name self key) OP_WRITE AM_WRITE None"

definition redis_delete :: "(pyval \<Rightarrow> string) \<Rightarrow> host \<Rightarrow> RedisTelemetry \<Rightarrow> string \<Rightarrow> (string \<times> int list) result" where
  "redis_delete dumps h self key = emit dumps h (rt_client self) RT_REDIS_KEY (redis_name self key) OP_DELETE AM_WRITE None"

definition flush_database :: "(pyval \<Rightarrow> string) \<Rightarrow> host \<Rightarrow> RedisTelemetry \<Rightarrow> (string \<times> int list) result" where
  "flush_database dumps h self =
     emit dumps h (rt_client self) RT_REDIS_KEY (redis_name self ''*'') OP_DELETE AM_EXCLUSIVE
       (Some [(''scope'', PStr ''database'')])"

subsection \<open>What a line contributes\<close>

datatype line_outcome = Blank | Unparsable | Filtered | Kept TraceEvent | Escapes py_error

definition outcome :: "(string \<Rightarrow> pyval result) \<Rightarrow> (pyval \<Rightarrow> string) \<Rightarrow> NormalizationPolicy \<Rightarrow> string \<Rightarrow> line_outcome" where
  "outcome loads repr_of policy line =
     (if py_strip line = [] then Blank
      else case parse_line loads repr_of policy (py_strip line) of
             Inl err \<Rightarrow> (if caught err then Unparsable else Escapes err)
           | Inr None \<Rightarrow> Filtered
           | Inr (Some e) \<Rightarrow> Kept e)"

definition kept_of :: "line_outcome list \<Rightarrow> TraceEvent list" where
  "kept_of os = List.map_filter (\<lambda>r. case r of Kept e \<Rightarrow> Some e | _ \<Rightarrow> None) os"

definition outcomes_quality :: "TraceQuality \<Rightarrow> line_outcome list \<Rightarrow> TraceQuality" where
  "outcomes_quality q os =
     q\<lparr>q_captured := q_captured q + int (length (filter (\<lambda>r. r \<noteq> Blank) os)),
       q_processed := q_processed q + int (length (kept_of os)),
       q_unattributed := q_unattributed q + int (length (filter (\<lambda>e. ev_test_id e = []) (kept_of os))),
       q_parse_failures := q_parse_failures q + int (length (filter (\<lambda>r. r = Unparsable) os))\<rparr>"

lemma kept_of_simps [simp]:
  "kept_of [] = []"
  "kept_of (r # os) = (case r of Kept e \<Rightarrow> [e] | _ \<Rightarrow> []) @ kept_of os"
  by (simp_all add: kept_of_def List.map_filter_def split: line_outcome.splits)

lemma outcomes_quality_Nil [simp]: "outcomes_quality q [] = q"
  by (simp add: outcomes_quality_def)

lemma outcomes_quality_Cons:
  "outcomes_quality q (r # os) = outcomes_quality (outcomes_quality q [r]) os"
  by (cases r) (simp_all add: outcomes_quality_def)

definition first_escape :: "line_outcome list \<Rightarrow> py_error option" where
  "first_escape os = (case List.map_filter (\<lambda>r. case r of Escapes err \<Rightarrow> Some err | _ \<Rightarrow> None) os of [] \<Rightarrow> None | err # _ \<Rightarrow> Some err)"

lemma first_escape_simps [simp]:
  "first_escape [] = None"
  "first_escape (r # os) = (case r of Escapes err \<Rightarrow> Some err | _ \<Rightarrow> first_escape os)"
  by (simp_all add: first_escape_def List.map_filter_def split: line_outcome.splits)

lemma first_escape_None: "first_escape os = None \<longleftrightarrow> (\<forall>err. Escapes err \<notin> set os)"
  by (induction os) (auto split: line_outcome.splits)

text \<open>One iteration does to the state what the outcome of its line says, for the collecting consumer.\<close>

lemma replay_line_outcome:
  "replay_line loads repr_of policy 0 (\<lambda>events e. Inr (events @ [e])) st line =
     (let r = outcome loads repr_of policy line
      in (st\<lparr>rs_quality := outcomes_quality (rs_quality st) [r], rs_consumer := rs_consumer st @ kept_of [r],
            rs_last_timestamp := (case r of Kept e \<Rightarrow> Some (ev_timestamp_ns e) | _ \<Rightarrow> rs_last_timestamp st)\<rparr>,
         first_escape [r]))"
  by (auto simp: replay_line_def outcome_def outcomes_quality_def deliver_def bump_processed_def replay_sleep_def Let_def
      split: sum.splits option.splits)

lemma replay_lines_outcome:
  assumes "replay_lines loads repr_of policy 0 (\<lambda>events e. Inr (events @ [e])) st lines = (st', r)"
  shows "r = first_escape (map (outcome loads repr_of policy) lines)
    \<and> (r = None \<longrightarrow> rs_quality st' = outcomes_quality (rs_quality st) (map (outcome loads repr_of policy) lines)
         \<and> rs_consumer st' = rs_consumer st @ kept_of (map (outcome loads repr_of policy) lines))"
  using assms
proof (induction lines arbitrary: st)
  case (Cons line lines)
  let ?r = "outcome loads repr_of policy line"
  show ?case
  proof (cases "first_escape [?r]")
    case None
    let ?st = "st\<lparr>rs_quality := outcomes_quality (rs_quality st) [?r], rs_consumer := rs_consumer st @ kept_of [?r],
      rs_last_timestamp := (case ?r of Kept e \<Rightarrow> Some (ev_timestamp_ns e) | _ \<Rightarrow> rs_last_timestamp st)\<rparr>"
    have "replay_lines loads repr_of policy 0 (\<lambda>events e. Inr (events @ [e])) ?st lines = (st', r)"
      using Cons.prems None by (simp add: replay_line_outcome Let_def)
    from Cons.IH [OF this] show ?thesis
      using None outcomes_quality_Cons [of "rs_quality st" ?r "map (outcome loads repr_of policy) lines"]
      by (cases ?r) simp_all
  next
    case (Some err)
    then show ?thesis using Cons.prems by (cases ?r) (auto simp: replay_line_outcome Let_def)
  qed
qed auto

lemma read_events_outcomes:
  "read_events loads repr_of policy lines =
     (let os = map (outcome loads repr_of policy) lines
      in case first_escape os of Some err \<Rightarrow> Inl err | None \<Rightarrow> Inr (kept_of os, outcomes_quality TraceQuality_init os))"
proof -
  let ?st = "\<lparr>rs_quality = TraceQuality_init, rs_last_timestamp = None, rs_slept = [], rs_consumer = []\<rparr>"
  obtain st' r where r: "replay_lines loads repr_of policy 0 (\<lambda>events e. Inr (events @ [e])) ?st lines = (st', r)" by fastforce
  show ?thesis using replay_lines_outcome [OF r] r
    by (auto simp: read_events_def replay_def Let_def split: option.splits)
qed

subsection \<open>Exceptions of a line\<close>

lemma int_of_pyval_raises: "int_of_pyval v = Inl err \<Longrightarrow> err \<in> {ValueError, TypeError, OverflowError}"
  by (auto simp: int_of_pyval_def split: pyval.splits option.splits if_splits)

lemma getitem_raises: "getitem v k = Inl err \<Longrightarrow> err \<in> {KeyError, TypeError}"
  by (auto simp: getitem_def dict_index_def split: pyval.splits option.splits)

lemma from_dict_raises:
  "TraceEvent_from_dict repr_of v = Inl err \<Longrightarrow> err \<in> {ValueError, TypeError, KeyError, OverflowError}"
  unfolding TraceEvent_from_dict_def
  by (elim bind_result_eq_Inl [THEN iffD1, THEN disjE] exE conjE)
    (auto simp: bind_result_eq_Inl dest!: getitem_raises int_of_pyval_raises rt.lookup_error op.lookup_error
      am.lookup_error es.lookup_error)

lemma parse_line_raises:
  assumes "\<And>text err. loads text = Inl err \<Longrightarrow> err = ValueError" "parse_line loads repr_of policy line = Inl err"
  shows "caught err \<or> err \<in> {OverflowError, IndexError}"
  using assms by (auto simp: parse_line_def bind_result_eq_Inl caught_def dest: from_dict_raises rn.raises)

subsection \<open>Properties\<close>

text \<open>C19: functional. Reading a trace keeps, in the order of the file, exactly the events of the lines
  that parse and are not filtered, counts every line that is not blank as captured and every line with a
  caught exception as a parse failure; it raises exactly when some line raises an exception that is
  not caught, and then the first one.\<close>

theorem read_events_correct:
  "read_events loads repr_of policy lines =
     (let os = map (outcome loads repr_of policy) lines
      in case first_escape os of
           Some err \<Rightarrow> Inl err
         | None \<Rightarrow> Inr (kept_of os,
             \<lparr>q_captured = int (length (filter (\<lambda>r. r \<noteq> Blank) os)), q_processed = int (length (kept_of os)), q_dropped = 0,
              q_unattributed = int (length (filter (\<lambda>e. ev_test_id e = []) (kept_of os))),
              q_parse_failures = int (length (filter (\<lambda>r. r = Unparsable) os))\<rparr>))"
  by (simp add: read_events_outcomes outcomes_quality_def TraceQuality_init_def Let_def split: option.splits)

text \<open>Error. With a JSON reader that raises only \<^verbatim>\<open>JSONDecodeError\<close> (a \<^verbatim>\<open>ValueError\<close>), a
  replay can be aborted only by \<^verbatim>\<open>OverflowError\<close> (an infinite number where an integer is
  expected) or \<^verbatim>\<open>IndexError\<close> (a process event without a command word).\<close>

lemma replay_aborts_only_on:
  assumes "\<And>text err. loads text = Inl err \<Longrightarrow> err = ValueError"
    and "read_events loads repr_of policy lines = Inl err"
  shows "err \<in> {OverflowError, IndexError}"
proof -
  let ?os = "map (outcome loads repr_of policy) lines"
  have "first_escape ?os = Some err"
    using assms(2) by (auto simp: read_events_outcomes Let_def split: option.splits)
  moreover have "first_escape os = Some err \<Longrightarrow> Escapes err \<in> set os" for os
    by (induction os) (auto split: line_outcome.splits)
  ultimately obtain line where "outcome loads repr_of policy line = Escapes err" by fastforce
  then have "parse_line loads repr_of policy (py_strip line) = Inl err" "\<not> caught err"
    by (auto simp: outcome_def split: if_splits sum.splits option.splits)
  then show ?thesis using parse_line_raises [of loads repr_of policy "py_strip line" err] assms(1) by blast
qed

definition infinite_document :: pyval where
  "infinite_document = PDict [(''execution_id'', PStr ''x''), (''test_id'', PStr ''t''), (''timestamp_ns'', PInf True)]"

text \<open>Bounds. The quality score of a replayed trace is the share of its non-blank lines that gave an
  attributed event, so the quality gate rejects the trace exactly when that share is below the minimum.
  Events the normaliser filters on purpose count against it like unreadable lines do.\<close>

lemma replay_quality_gate:
  assumes "read_events loads repr_of policy lines = Inr (events, q)" and "\<exists>line\<in>set lines. py_strip line \<noteq> []"
  shows "quality_score q = real (length (filter (\<lambda>e. ev_test_id e \<noteq> []) events)) / real (length (filter (\<lambda>l. py_strip l \<noteq> []) lines))
    \<and> (require_quality q minimum = Inl TraceQualityError \<longleftrightarrow>
         real (length (filter (\<lambda>e. ev_test_id e \<noteq> []) events)) < minimum * real (length (filter (\<lambda>l. py_strip l \<noteq> []) lines)))"
proof -
  let ?os = "map (outcome loads repr_of policy) lines"
  let ?n = "length (filter (\<lambda>l. py_strip l \<noteq> []) lines)" and ?a = "length (filter (\<lambda>e. ev_test_id e \<noteq> []) events)"
  have events: "events = kept_of ?os" and q: "q = outcomes_quality TraceQuality_init ?os"
    using assms(1) by (auto simp: read_events_outcomes Let_def split: option.splits)
  have blank: "outcome loads repr_of policy l = Blank \<longleftrightarrow> py_strip l = []" for l
    by (auto simp: outcome_def split: sum.splits option.splits)
  have n: "length (filter (\<lambda>r. r \<noteq> Blank) ?os) = ?n" by (simp add: filter_map o_def blank)
  have pos: "0 < ?n" using assms(2) by (auto simp: length_greater_0_conv filter_empty_conv)
  have le: "length (kept_of os) \<le> length (filter (\<lambda>r. r \<noteq> Blank) os)" for os
    by (induction os) (auto split: line_outcome.splits)
  have split: "length (filter (\<lambda>e. ev_test_id e = []) events) + ?a = length events"
    by (rule sum_length_filter_compl)
  have counts: "q_captured q = int ?n" "q_dropped q = 0" "q_processed q = int (length events)"
      "q_unattributed q = int (length events) - int ?a"
    using n split by (auto simp: q outcomes_quality_def TraceQuality_init_def events)
  have "?a \<le> ?n" using le [of ?os] n split events by simp
  have "completeness q * attribution_rate q = real ?a / real ?n"
  proof (cases "events = []")
    case False
    then have "0 < real (length events)" by simp
    moreover have "attribution_rate q = real ?a / real (length events)"
      using False by (simp add: attribution_rate_def counts(3,4) diff_divide_distrib)
    moreover have "completeness q = real (length events) / real ?n"
      using pos by (simp add: completeness_def counts(1-3))
    ultimately show ?thesis by simp
  qed (use counts pos in \<open>simp add: completeness_def attribution_rate_def\<close>)
  then have score: "quality_score q = real ?a / real ?n"
    using \<open>?a \<le> ?n\<close> pos by (simp add: quality_score_def min_absorb2 max_absorb2)
  moreover have "real ?a / real ?n < minimum \<longleftrightarrow> real ?a < minimum * real ?n" using pos by (simp add: pos_divide_less_eq)
  ultimately show ?thesis by (simp add: require_quality_def)
qed

definition excluded_read :: pyval where
  "excluded_read = TraceEvent_to_dict ((logical_event 1 ''/usr/lib/x'')\<lparr>ev_resource_type := RT_FILE, ev_operation := OP_READ\<rparr>)"

end
