(* ===== verification/Recording.thy ===== *)
theory Recording
  imports Event_Sink Replay
begin

section \<open>Recording a trace and reading it back\<close>

text \<open>
  The composition of the event sink with the replay of its file, and of the Redis telemetry with the
  normaliser. \<open>json_sort\<close> is what \<^verbatim>\<open>json.loads\<close> returns for the text \<^verbatim>\<open>json.dumps\<close> writes with
  \<^verbatim>\<open>sort_keys\<close>: the same value, every dictionary in the order of its keys.
\<close>

fun json_sort :: "pyval \<Rightarrow> pyval" where
  "json_sort (PList vs) = PList (map json_sort vs)"
| "json_sort (PDict kvs) = PDict (sort_key fst (map (\<lambda>(k, v). (k, json_sort v)) kvs))"
| "json_sort v = v"

definition attributes :: "pyval \<Rightarrow> (string \<times> pyval) list" where
  "attributes v = (case v of PDict d \<Rightarrow> d | _ \<Rightarrow> [])"

lemma json_sort_dict: "json_sort (PDict d) = PDict (attributes (json_sort (PDict d)))"
  by (simp add: attributes_def)

lemma map_of_sorted: "distinct (map fst kvs) \<Longrightarrow> map_of (sort_key fst kvs) = map_of kvs"
  by (rule map_of_eqI) (auto simp: distinct_map mset_map [symmetric] intro: map_of_eqI)

lemma json_sort_to_dict:
  "TraceEvent_from_dict repr_of (json_sort (TraceEvent_to_dict e)) = Inr (e\<lparr>ev_metadata := json_sort (ev_metadata e)\<rparr>)"
proof -
  obtain kvs where d: "TraceEvent_to_dict e = PDict kvs" by (simp add: TraceEvent_to_dict_def)
  have "distinct (map fst kvs)" using d by (auto simp: TraceEvent_to_dict_def)
  let ?kvs = "map (\<lambda>(k, v). (k, json_sort v)) kvs"
  have same: "map_of (sort_key fst ?kvs) = map_of ?kvs"
    using \<open>distinct (map fst kvs)\<close> by (intro map_of_sorted) (simp add: comp_def split_def)
  have get: "getitem (PDict (sort_key fst ?kvs)) k = getitem (PDict ?kvs) k"
      "getdefault (PDict (sort_key fst ?kvs)) k dflt = getdefault (PDict ?kvs) k dflt" for k dflt
    by (simp_all add: getitem_def getdefault_def dict_index_def dict_get_def same)
  have "json_sort (TraceEvent_to_dict e) = PDict (sort_key fst ?kvs)" by (simp add: d)
  moreover have "PDict ?kvs = TraceEvent_to_dict (e\<lparr>ev_metadata := json_sort (ev_metadata e)\<rparr>)"
    using d by (auto simp: TraceEvent_to_dict_def)
  ultimately show ?thesis
    by (simp add: TraceEvent_from_dict_def get)
      (simp add: TraceEvent_to_dict_def getitem_def getdefault_def dict_index_def dict_get_def int_of_pyval_def str_of_pyval_def)
qed

lemma strip_line: "stripped t \<Longrightarrow> t \<noteq> [] \<Longrightarrow> py_strip (t @ [CHR 0x0A]) = t"
proof -
  assume t: "stripped t" "t \<noteq> []"
  then have "dropWhile is_space (t @ [CHR 0x0A]) = t @ [CHR 0x0A]" by (simp add: dropWhile_hd stripped_def)
  moreover have "is_space (CHR 0x0A)" by code_simp
  ultimately show ?thesis
    using t py_strip_stripped [OF t(1)]
    by (simp add: py_strip_def lstrip_by_def rstrip_by_def dropWhile_hd stripped_def hd_rev)
qed

abbreviation path_kinds :: "ResourceType set" where
  "path_kinds \<equiv> {RT_FILE, RT_DIRECTORY, RT_FILE_LOCK, RT_UNIX_SOCKET, RT_DATABASE_RESOURCE}"

lemma normalize_event_again:
  assumes "normalize_event policy e = Inr (Some e')" and "ev_resource_type e \<in> path_kinds"
    and "np_repository_root policy = None" "\<not> np_redact_paths policy" "stripped (ev_resource_identifier e')"
    and "ev_operation e \<noteq> OP_READ \<or> np_include_readonly_system policy"
  shows "normalize_event policy e' = Inr (Some e')"
proof -
  obtain i where i: "normalize_path policy (ev_resource_identifier e) (ev_operation e) = Some i"
      and e': "e' = e\<lparr>ev_resource_identifier := i\<rparr>"
    using assms(1,2) by (auto simp: normalize_event_def normalize_identifier_def split: option.splits if_splits)
  have "normalize_path policy i (ev_operation e) = Some i"
    using normalize_path_again [OF i assms(3,4)] assms(5,6) e' by simp
  then show ?thesis using assms(2) by (auto simp: normalize_event_def normalize_identifier_def e')
qed

definition recorded_file :: "(pyval \<Rightarrow> string) \<Rightarrow> EventSink \<Rightarrow> string list" where
  "recorded_file dumps s = map (\<lambda>d. dumps d @ [CHR 0x0A]) (sk_output s)"

lemma kept_in: "e' \<in> set (kept policy evs) \<longleftrightarrow> (\<exists>e\<in>set evs. normalize_event policy e = Inr (Some e'))"
  by (induction evs) (auto split: sum.splits option.splits)

lemma kept_outcomes: "kept_of (map Kept evs) = evs" "first_escape (map Kept evs) = None"
    "filter (\<lambda>r. r \<noteq> Blank) (map Kept evs) = map Kept evs" "filter (\<lambda>r. r = Unparsable) (map Kept evs) = []"
  by (induction evs) simp_all

lemma read_recorded:
  assumes "\<forall>e\<in>set evs. normalize_event policy e = Inr (Some e) \<and> json_sort (ev_metadata e) = ev_metadata e
      \<and> loads (dumps (TraceEvent_to_dict e)) = Inr (json_sort (TraceEvent_to_dict e))
      \<and> stripped (dumps (TraceEvent_to_dict e)) \<and> dumps (TraceEvent_to_dict e) \<noteq> []"
  shows "read_events loads repr_of policy (map (\<lambda>e. dumps (TraceEvent_to_dict e) @ [CHR 0x0A]) evs)
    = Inr (evs, \<lparr>q_captured = int (length evs), q_processed = int (length evs), q_dropped = 0,
        q_unattributed = int (length (filter (\<lambda>e. ev_test_id e = []) evs)), q_parse_failures = 0\<rparr>)"
proof -
  have "outcome loads repr_of policy (dumps (TraceEvent_to_dict e) @ [CHR 0x0A]) = Kept e" if "e \<in> set evs" for e
  proof -
    have "e\<lparr>ev_metadata := json_sort (ev_metadata e)\<rparr> = e" using assms that by simp
    then show ?thesis using assms that by (simp add: outcome_def parse_line_def strip_line json_sort_to_dict)
  qed
  then have "map (outcome loads repr_of policy) (map (\<lambda>e. dumps (TraceEvent_to_dict e) @ [CHR 0x0A]) evs) = map Kept evs"
    by simp
  then show ?thesis
    by (simp add: read_events_outcomes Let_def kept_outcomes outcomes_quality_def TraceQuality_init_def del: map_map)
qed

subsection \<open>Properties\<close>


definition file_write :: TraceEvent where
  "file_write = (logical_event 1 ''/srv/data.db'')\<lparr>ev_resource_type := RT_FILE\<rparr>"


subsection \<open>Redis telemetry\<close>

lemma rstrip_append: "rstrip_by p (s @ t) = (if rstrip_by p t = [] then rstrip_by p s else s @ rstrip_by p t)"
proof -
  have "dropWhile p (rev t @ rev s) = (if dropWhile p (rev t) = [] then dropWhile p (rev s) else dropWhile p (rev t) @ rev s)"
    by (simp add: dropWhile_append dropWhile_eq_Nil_conv)
  then show ?thesis by (simp add: rstrip_by_def)
qed

lemma redis_name_strip:
  assumes "0 \<le> rt_database self" "rstrip_by is_space key \<noteq> []"
  shows "py_strip (redis_name self key) = str_nat (nat (rt_database self)) @ '':'' @ rstrip_by is_space key"
proof -
  let ?db = "str_nat (nat (rt_database self))"
  have db: "str_int (rt_database self) = ?db" using assms(1) by (simp add: str_int_def)
  have "stripped ?db" by (rule stripped_decimal [OF str_nat_decimal])
  then have "lstrip_by is_space (?db @ '':'' @ key) = ?db @ '':'' @ key"
    by (cases ?db) (auto simp: lstrip_by_def stripped_def)
  moreover have "\<not> is_space (CHR '':'')" by code_simp
  ultimately show ?thesis
    using assms(2) by (simp add: py_strip_def redis_name_def db) (simp add: rstrip_append [of _ ?db] rstrip_append [of _ "'':''", simplified])
qed

lemma normalize_redis_name:
  assumes "0 \<le> rt_database self" "rstrip_by is_space key \<noteq> []"
  shows "normalize_redis (redis_name self key) = Some (''REDIS:'' @ str_nat (nat (rt_database self)) @ '':'' @ rstrip_by is_space key)"
proof -
  let ?db = "str_nat (nat (rt_database self))"
  have "CHR '':'' \<notin> set ?db" by (rule str_nat_no_char) code_simp
  then have "partition_char (CHR '':'') (?db @ CHR '':'' # rstrip_by is_space key) = (?db, True, rstrip_by is_space key)"
    by (rule partition_char_append)
  then show ?thesis using assms(2) by (simp add: normalize_redis_def redis_name_strip [OF assms] Let_def)
qed

end
