(* ===== verification/Attribution.thy ===== *)
theory Attribution
  imports Types
begin

section \<open>Attribution of events to executions (\<^verbatim>\<open>tracing.py\<close>)\<close>

text \<open>
  \<^verbatim>\<open>AttributionRegistry\<close>: control groups and process ids that belong to a registered execution, and
  the fork edges seen so far. Every method holds the registry's lock for its whole body, so each
  is one atomic operation on the record. \<open>nearest\<close> is the specification of the ancestry walk.
\<close>

subsection \<open>State and operations\<close>

record ExecutionRegistration =
  er_execution_id :: string
  er_test_id :: string
  er_cgroup_id :: int
  er_process_group_id :: int
  er_root_pid :: int
  er_registered_at_ns :: int

record AttributionRegistry =
  ar_cgroups :: "(int, ExecutionRegistration) dict"
  ar_pids :: "(int, ExecutionRegistration) dict"
  ar_parents :: "(int, int) dict"

definition AttributionRegistry_init :: AttributionRegistry where
  "AttributionRegistry_init = \<lparr>ar_cgroups = [], ar_pids = [], ar_parents = []\<rparr>"

definition register :: "AttributionRegistry \<Rightarrow> ExecutionRegistration \<Rightarrow> AttributionRegistry" where
  "register self r =
     (let self = (if er_cgroup_id r \<noteq> 0
                  then self\<lparr>ar_cgroups := AList.update (er_cgroup_id r) r (ar_cgroups self)\<rparr> else self)
      in if er_root_pid r \<noteq> 0
         then self\<lparr>ar_pids := AList.update (er_root_pid r) r (ar_pids self)\<rparr> else self)"

definition register_fork :: "AttributionRegistry \<Rightarrow> int \<Rightarrow> int \<Rightarrow> AttributionRegistry" where
  "register_fork self parent_pid child_pid =
     (let self = self\<lparr>ar_parents := AList.update child_pid parent_pid (ar_parents self)\<rparr>
      in case map_of (ar_pids self) parent_pid of
           Some r \<Rightarrow> self\<lparr>ar_pids := AList.update child_pid r (ar_pids self)\<rparr>
         | None \<Rightarrow> self)"

definition unregister :: "AttributionRegistry \<Rightarrow> string \<Rightarrow> AttributionRegistry" where
  "unregister self execution_id =
     (let removed = fst ` set (filter (\<lambda>(k, v). er_execution_id v = execution_id) (ar_pids self))
      in \<lparr>ar_cgroups = filter (\<lambda>(k, v). er_execution_id v \<noteq> execution_id) (ar_cgroups self),
          ar_pids = filter (\<lambda>(k, v). er_execution_id v \<noteq> execution_id) (ar_pids self),
          ar_parents = filter (\<lambda>(child, parent). child \<notin> removed \<and> parent \<notin> removed) (ar_parents self)\<rparr>)"

lemma dict_get_in: "dict_get d k v \<in> insert v (snd ` set d)"
  by (auto simp: dict_get_def split: option.splits dest: map_of_SomeD intro: rev_image_eqI)

text \<open>The ancestry walk of \<^verbatim>\<open>resolve\<close>. The set of visited ids grows within the finite set of ids
  that occur as a parent, which bounds the loop even on a cyclic fork table.\<close>

function walk ::
  "(int, ExecutionRegistration) dict \<Rightarrow> (int, int) dict \<Rightarrow> int set \<Rightarrow> int \<Rightarrow> ExecutionRegistration option" where
  "walk pids parents seen current =
     (if current \<noteq> 0 \<and> current \<notin> seen
      then (case map_of pids current of
              Some r \<Rightarrow> Some r
            | None \<Rightarrow> walk pids parents (insert current seen) (dict_get parents current 0))
      else None)"
  by pat_completeness auto

termination
proof (relation "measure (\<lambda>(pids, parents, seen, current). card (insert current (insert 0 (snd ` set parents)) - seen))", goal_cases)
  case (2 pids parents seen current)
  let ?next = "dict_get parents current 0" and ?ids = "insert 0 (snd ` set parents)"
  have "insert ?next ?ids - insert current seen \<subset> insert current ?ids - seen"
    using 2 dict_get_in [of parents current 0] by auto
  moreover have "finite (insert current ?ids - seen)" by simp
  ultimately show ?case by (simp add: psubset_card_mono del: insert_Diff_if)
qed simp

declare walk.simps [simp del]

definition resolve ::
  "AttributionRegistry \<Rightarrow> int \<Rightarrow> int \<Rightarrow> ExecutionRegistration option \<times> AttributionRegistry" where
  "resolve self cgroup_id pid =
     (case (if cgroup_id \<noteq> 0 then map_of (ar_cgroups self) cgroup_id else None) of
        Some r \<Rightarrow> (Some r, self)
      | None \<Rightarrow>
          (case walk (ar_pids self) (ar_parents self) {} pid of
             Some r \<Rightarrow> (Some r, self\<lparr>ar_pids := AList.update pid r (ar_pids self)\<rparr>)
           | None \<Rightarrow> (None, self)))"

subsection \<open>The nearest registered ancestor\<close>

inductive nearest ::
  "(int \<rightharpoonup> ExecutionRegistration) \<Rightarrow> (int \<rightharpoonup> int) \<Rightarrow> int \<Rightarrow> ExecutionRegistration \<Rightarrow> bool"
  for pids parents where
  here: "pid \<noteq> 0 \<Longrightarrow> pids pid = Some r \<Longrightarrow> nearest pids parents pid r"
| up: "pid \<noteq> 0 \<Longrightarrow> pids pid = None \<Longrightarrow> parents pid = Some q \<Longrightarrow> nearest pids parents q r
    \<Longrightarrow> nearest pids parents pid r"

inductive_cases nearestE: "nearest pids parents pid r"

lemma nearest_unique: "nearest pids parents pid r \<Longrightarrow> nearest pids parents pid s \<Longrightarrow> r = s"
  by (induction rule: nearest.induct) (auto elim: nearestE)

lemma nearest_nonzero: "nearest pids parents pid r \<Longrightarrow> pid \<noteq> 0"
  by (auto elim: nearestE)

lemma walk_sound: "walk pids parents seen pid = Some r \<Longrightarrow> nearest (map_of pids) (map_of parents) pid r"
proof (induction pids parents seen pid rule: walk.induct)
  case (1 pids parents seen pid)
  have c: "pid \<noteq> 0 \<and> pid \<notin> seen" using 1(2) by (subst (asm) walk.simps) (auto split: if_splits)
  show ?case
  proof (cases "map_of pids pid")
    case (Some s)
    then show ?thesis using 1(2) c by (subst (asm) walk.simps) (auto intro: nearest.here)
  next
    case None
    then have "walk pids parents (insert pid seen) (dict_get parents pid 0) = Some r"
      using 1(2) c by (subst (asm) walk.simps) auto
    then have n: "nearest (map_of pids) (map_of parents) (dict_get parents pid 0) r" using 1(1) c None by blast
    then obtain q where "map_of parents pid = Some q"
      using nearest_nonzero by (fastforce simp: dict_get_def split: option.splits)
    then show ?thesis using n c None by (auto simp: dict_get_def intro: nearest.up)
  qed
qed

text \<open>For the converse: the ids on the way to the nearest ancestor are unregistered, and the way
  does not come back to an id it has left, so the walk is never cut short by its visited set.\<close>

inductive steps_to :: "(int \<rightharpoonup> ExecutionRegistration) \<Rightarrow> (int \<rightharpoonup> int) \<Rightarrow> int \<Rightarrow> nat \<Rightarrow> ExecutionRegistration \<Rightarrow> bool"
  for pids parents where
  here: "pid \<noteq> 0 \<Longrightarrow> pids pid = Some r \<Longrightarrow> steps_to pids parents pid 0 r"
| up: "pid \<noteq> 0 \<Longrightarrow> pids pid = None \<Longrightarrow> parents pid = Some q \<Longrightarrow> steps_to pids parents q n r
    \<Longrightarrow> steps_to pids parents pid (Suc n) r"

inductive_cases steps_toE: "steps_to pids parents pid n r"

lemma nearest_steps: "nearest pids parents pid r \<Longrightarrow> \<exists>n. steps_to pids parents pid n r"
  by (induction rule: nearest.induct) (auto intro: steps_to.intros)

lemma steps_to_unique: "steps_to pids parents pid n r \<Longrightarrow> steps_to pids parents pid m s \<Longrightarrow> n = m"
proof (induction arbitrary: m rule: steps_to.induct)
  case (up pid q n r)
  from up.prems obtain k where "m = Suc k" "steps_to pids parents q k s"
    using up.hyps by (cases rule: steps_toE) auto
  then show ?case using up.IH by simp
qed (auto elim: steps_toE)

lemma walk_complete:
  assumes "steps_to (map_of pids) (map_of parents) pid n r"
    and "\<forall>x\<in>seen. \<forall>m s. steps_to (map_of pids) (map_of parents) x m s \<longrightarrow> n < m"
  shows "walk pids parents seen pid = Some r"
  using assms
proof (induction arbitrary: seen rule: steps_to.induct)
  case (here pid r)
  then have "pid \<notin> seen" using steps_to.here by blast
  then show ?case using here by (subst walk.simps) simp
next
  case (up pid q n r)
  have me: "steps_to (map_of pids) (map_of parents) pid (Suc n) r" using up.hyps by (rule steps_to.up)
  then have "pid \<notin> seen" using up.prems by blast
  moreover have "walk pids parents (insert pid seen) q = Some r"
    using up.prems steps_to_unique [OF me] by (intro up.IH) fastforce
  ultimately show ?case using up.hyps by (subst walk.simps) (simp add: dict_get_def)
qed

lemma walk_iff_nearest: "walk pids parents {} pid = Some r \<longleftrightarrow> nearest (map_of pids) (map_of parents) pid r"
  using walk_sound nearest_steps walk_complete [of pids parents pid _ r "{}"] by fastforce

subsection \<open>Histories of operations\<close>

datatype registry_op = Register ExecutionRegistration | Fork int int | Unregister string | Resolve int int

fun apply_op :: "AttributionRegistry \<Rightarrow> registry_op \<Rightarrow> AttributionRegistry" where
  "apply_op self (Register r) = register self r"
| "apply_op self (Fork parent child) = register_fork self parent child"
| "apply_op self (Unregister e) = unregister self e"
| "apply_op self (Resolve cgroup pid) = snd (resolve self cgroup pid)"

definition run_ops :: "registry_op list \<Rightarrow> AttributionRegistry" where
  "run_ops history = foldl apply_op AttributionRegistry_init history"

definition registry_wf :: "AttributionRegistry \<Rightarrow> bool" where
  "registry_wf self \<longleftrightarrow> dict_wf (ar_cgroups self) \<and> dict_wf (ar_pids self) \<and> dict_wf (ar_parents self)"

lemma dict_wf_filter: "dict_wf d \<Longrightarrow> dict_wf (filter P d)"
  by (induction d) auto

lemma map_of_filter: "dict_wf d \<Longrightarrow> map_of (filter P d) k = (case map_of d k of None \<Rightarrow> None | Some v \<Rightarrow> if P (k, v) then Some v else None)"
  by (induction d) (auto split: option.splits simp: map_of_eq_None_iff rev_image_eqI)

lemma apply_op_wf: "registry_wf self \<Longrightarrow> registry_wf (apply_op self op)"
  by (cases op) (auto simp: registry_wf_def register_def register_fork_def unregister_def resolve_def Let_def dict_wf_filter
      split: option.splits)

lemma run_ops_wf: "registry_wf (run_ops history)"
proof -
  have "registry_wf self \<Longrightarrow> registry_wf (foldl apply_op self history)" for self
    by (induction history arbitrary: self) (auto simp: apply_op_wf)
  then show ?thesis by (simp add: run_ops_def registry_wf_def AttributionRegistry_init_def)
qed

text \<open>No entry of a table belongs to an execution.\<close>

definition forgotten :: "string \<Rightarrow> AttributionRegistry \<Rightarrow> bool" where
  "forgotten e self \<longleftrightarrow>
     list_all (\<lambda>(k, v). er_execution_id v \<noteq> e) (ar_cgroups self)
     \<and> list_all (\<lambda>(k, v). er_execution_id v \<noteq> e) (ar_pids self)"

lemma list_all_update: "list_all (\<lambda>(k, v). Q v) d \<Longrightarrow> Q v \<Longrightarrow> list_all (\<lambda>(k, v). Q v) (AList.update k v d)"
  by (induction d) auto

lemma list_all_lookup: "list_all (\<lambda>(k, v). Q v) d \<Longrightarrow> map_of d k = Some v \<Longrightarrow> Q v"
  by (auto simp: list_all_iff dest!: map_of_SomeD)

lemma forgotten_lookup: "forgotten e self \<Longrightarrow> map_of (ar_pids self) p = Some r \<Longrightarrow> er_execution_id r \<noteq> e"
  "forgotten e self \<Longrightarrow> map_of (ar_cgroups self) c = Some r \<Longrightarrow> er_execution_id r \<noteq> e"
  by (auto simp: forgotten_def dest: list_all_lookup)

lemma forgotten_nearest: "nearest (map_of (ar_pids self)) parents p r \<Longrightarrow> forgotten e self \<Longrightarrow> er_execution_id r \<noteq> e"
  by (induction rule: nearest.induct) (auto dest: forgotten_lookup)

lemma forgotten_resolve: "forgotten e self \<Longrightarrow> fst (resolve self c p) = Some r \<Longrightarrow> er_execution_id r \<noteq> e"
  by (auto simp: resolve_def walk_iff_nearest split: option.splits if_splits dest: forgotten_lookup forgotten_nearest)

lemma unregister_forgotten: "forgotten e (unregister self e)"
  by (auto simp: forgotten_def unregister_def Let_def list_all_iff)

lemma forgotten_step:
  assumes "forgotten e self" and "\<forall>r. op = Register r \<longrightarrow> er_execution_id r \<noteq> e"
  shows "forgotten e (apply_op self op)"
proof (cases op)
  case (Register r)
  then show ?thesis using assms by (simp add: register_def Let_def forgotten_def list_all_update)
next
  case (Fork p c)
  then show ?thesis
    using assms(1) forgotten_lookup(1) [OF assms(1)]
    by (auto simp: register_fork_def Let_def forgotten_def list_all_update split: option.splits)
next
  case (Unregister x)
  then show ?thesis using assms(1) by (auto simp: forgotten_def unregister_def Let_def list_all_iff)
next
  case (Resolve c p)
  then show ?thesis
    using assms(1) forgotten_resolve [OF assms(1), of c p]
    by (auto simp: resolve_def forgotten_def list_all_update split: option.splits if_splits)
qed

lemma forgotten_steps:
  "forgotten e self \<Longrightarrow> \<forall>r. Register r \<in> set history \<longrightarrow> er_execution_id r \<noteq> e \<Longrightarrow> forgotten e (foldl apply_op self history)"
proof (induction history arbitrary: self)
  case (Cons op history)
  then have "forgotten e (apply_op self op)" by (intro forgotten_step) auto
  then show ?case using Cons by simp
qed simp

subsection \<open>Caching and removal\<close>

lemma nearest_cached:
  assumes "nearest pids parents p r"
  shows "nearest (pids(p \<mapsto> r)) parents x s \<longleftrightarrow> nearest pids parents x s"
proof
  assume "nearest (pids(p \<mapsto> r)) parents x s"
  then show "nearest pids parents x s"
  proof (induction rule: nearest.induct)
    case (here x s)
    then show ?case using assms by (cases "x = p") (auto intro: nearest.here)
  next
    case (up x q s)
    then show ?case by (cases "x = p") (auto intro: nearest.up)
  qed
next
  assume "nearest pids parents x s"
  then show "nearest (pids(p \<mapsto> r)) parents x s"
  proof (induction rule: nearest.induct)
    case (here x s)
    then have "nearest pids parents x s" by (rule nearest.here)
    then show ?case using here nearest_unique [OF assms] by (cases "x = p") (auto intro: nearest.here)
  next
    case (up x q s)
    show ?case
    proof (cases "x = p")
      case True
      have "nearest pids parents x s" by (rule nearest.up [OF up.hyps])
      then have "s = r" using nearest_unique [OF assms] True by blast
      then show ?thesis using True up.hyps(1) by (intro nearest.here) simp_all
    next
      case False
      then show ?thesis using up by (intro nearest.up [of x _ _ q]) simp_all
    qed
  qed
qed

lemma nearest_unregister:
  assumes wf: "registry_wf self" and r: "er_execution_id r \<noteq> e"
  shows "nearest (map_of (ar_pids (unregister self e))) (map_of (ar_parents (unregister self e))) p r
    \<longleftrightarrow> nearest (map_of (ar_pids self)) (map_of (ar_parents self)) p r"
proof -
  let ?pids = "map_of (ar_pids self)" and ?parents = "map_of (ar_parents self)"
  let ?pids' = "map_of (ar_pids (unregister self e))" and ?parents' = "map_of (ar_parents (unregister self e))"
  let ?gone = "\<lambda>x. \<exists>v. ?pids x = Some v \<and> er_execution_id v = e"
  have wf': "dict_wf (ar_pids self)" "dict_wf (ar_parents self)" using wf by (auto simp: registry_wf_def)
  have gone: "x \<in> fst ` set (filter (\<lambda>(k, v). er_execution_id v = e) (ar_pids self)) \<longleftrightarrow> ?gone x" for x
    using wf'(1) by (force simp: image_iff)
  have pids: "?pids' x = (if ?gone x then None else ?pids x)" for x
    unfolding unregister_def Let_def AttributionRegistry.simps map_of_filter [OF wf'(1)]
    by (cases "?pids x") simp_all
  have parents: "?parents' x = (case ?parents x of None \<Rightarrow> None | Some q \<Rightarrow> if ?gone x \<or> ?gone q then None else Some q)" for x
    unfolding unregister_def Let_def AttributionRegistry.simps gone using wf'(2)
    by (auto simp: map_of_filter split: option.splits)
  show ?thesis
  proof
    assume "nearest ?pids' ?parents' p r"
    then show "nearest ?pids ?parents p r"
      by (induction rule: nearest.induct) (auto simp: pids parents split: if_splits option.splits intro: nearest.intros)
  next
    assume "nearest ?pids ?parents p r"
    then show "nearest ?pids' ?parents' p r" using r
    proof (induction rule: nearest.induct)
      case (here x s)
      then show ?case by (auto simp: pids intro!: nearest.here)
    next
      case (up x q s)
      have "\<not> ?gone q" using up.hyps(4) up.prems by (auto elim: nearestE)
      then show ?case using up by (auto simp: pids parents intro!: nearest.up [of x _ _ q])
    qed
  qed
qed

lemma resolve_fst:
  "fst (resolve self c p) = Some r \<longleftrightarrow>
     (if c \<noteq> 0 \<and> map_of (ar_cgroups self) c \<noteq> None then map_of (ar_cgroups self) c = Some r
      else nearest (map_of (ar_pids self)) (map_of (ar_parents self)) p r)"
  by (auto simp: resolve_def walk_iff_nearest [symmetric] split: option.splits)

subsection \<open>Properties\<close>

definition demo_registration :: "string \<Rightarrow> int \<Rightarrow> int \<Rightarrow> ExecutionRegistration" where
  "demo_registration e cgroup pid = \<lparr>er_execution_id = e, er_test_id = ''t'', er_cgroup_id = cgroup,
     er_process_group_id = 0, er_root_pid = pid, er_registered_at_ns = 0\<rparr>"

text \<open>C20: equivalence and termination. Resolution returns the registration of a known control group,
  and otherwise that of the nearest registered ancestor of the process along the fork edges, if
  there is one; the walk with its visited set stops on every fork table, cyclic ones included.\<close>

theorem resolve_nearest_ancestor:
  "fst (resolve self cgroup pid) = Some r \<longleftrightarrow>
     (if cgroup \<noteq> 0 \<and> map_of (ar_cgroups self) cgroup \<noteq> None then map_of (ar_cgroups self) cgroup = Some r
      else nearest (map_of (ar_pids self)) (map_of (ar_parents self)) pid r)"
  by (rule resolve_fst)

text \<open>Invariant. Resolving is observationally pure: the entry it caches for the process never
  changes the answer of a later resolution of any control group and process.\<close>

lemma resolve_cache_transparent:
  "fst (resolve (snd (resolve self cgroup pid)) c p) = fst (resolve self c p)"
proof -
  have "fst (resolve (snd (resolve self cgroup pid)) c p) = Some r \<longleftrightarrow> fst (resolve self c p) = Some r" for r
  proof (cases "\<exists>s. (cgroup = 0 \<or> map_of (ar_cgroups self) cgroup = None) \<and> walk (ar_pids self) (ar_parents self) {} pid = Some s")
    case True
    then obtain s where s: "cgroup = 0 \<or> map_of (ar_cgroups self) cgroup = None"
        "walk (ar_pids self) (ar_parents self) {} pid = Some s" by blast
    then have "snd (resolve self cgroup pid) = self\<lparr>ar_pids := AList.update pid s (ar_pids self)\<rparr>"
      by (auto simp: resolve_def)
    moreover have "nearest (map_of (ar_pids self)) (map_of (ar_parents self)) pid s"
      using s(2) by (simp add: walk_iff_nearest)
    ultimately show ?thesis by (simp add: resolve_fst nearest_cached)
  next
    case False
    then have "snd (resolve self cgroup pid) = self" by (auto simp: resolve_def split: option.splits)
    then show ?thesis by simp
  qed
  then show ?thesis by (metis option.exhaust)
qed

text \<open>Safety. After an execution is unregistered, and as long as it is not registered again, no
  resolution attributes anything to it, whatever forks, registrations of other executions and
  resolutions happen before and after; and what was attributed by process to another execution
  at the time of the removal still is.\<close>

lemma unregistered_stays_forgotten:
  assumes "\<forall>r. Register r \<in> set later \<longrightarrow> er_execution_id r \<noteq> e"
  shows "(\<forall>c p r. fst (resolve (run_ops (earlier @ Unregister e # later)) c p) = Some r \<longrightarrow> er_execution_id r \<noteq> e)
    \<and> (\<forall>p r. er_execution_id r \<noteq> e \<longrightarrow>
         (fst (resolve (run_ops (earlier @ [Unregister e])) 0 p) = Some r \<longleftrightarrow> fst (resolve (run_ops earlier) 0 p) = Some r))"
proof -
  have "forgotten e (run_ops (earlier @ Unregister e # later))"
    using forgotten_steps [OF unregister_forgotten assms] by (simp add: run_ops_def)
  moreover have "run_ops (earlier @ [Unregister e]) = unregister (run_ops earlier) e" by (simp add: run_ops_def)
  ultimately show ?thesis
    using forgotten_resolve nearest_unregister [OF run_ops_wf [of earlier]] by (simp add: resolve_fst)
qed

text \<open>A process id that is reused keeps its old attribution. When an id that once belonged to a
  registered execution is reported again as the child of an unregistered process, the fork only
  records the new parent: events of the new process are still attributed to the old execution.\<close>

lemma reused_pid_misattributed:
  "nearest (map_of (ar_pids (run_ops [Register (demo_registration ''e'' 0 10), Fork 10 11])))
     (map_of (ar_parents (run_ops [Register (demo_registration ''e'' 0 10), Fork 10 11]))) 11 (demo_registration ''e'' 0 10)
   \<and> map_of (ar_pids (run_ops [Register (demo_registration ''e'' 0 10), Fork 10 11])) 99 = None
   \<and> fst (resolve (run_ops [Register (demo_registration ''e'' 0 10), Fork 10 11, Fork 99 11]) 0 11)
       = Some (demo_registration ''e'' 0 10)"
proof (intro conjI)
  show "fst (resolve (run_ops [Register (demo_registration ''e'' 0 10), Fork 10 11, Fork 99 11]) 0 11)
       = Some (demo_registration ''e'' 0 10)" by code_simp
  show "map_of (ar_pids (run_ops [Register (demo_registration ''e'' 0 10), Fork 10 11])) 99 = None"
    by (simp add: run_ops_def register_def register_fork_def AttributionRegistry_init_def demo_registration_def)
  show "nearest (map_of (ar_pids (run_ops [Register (demo_registration ''e'' 0 10), Fork 10 11])))
     (map_of (ar_parents (run_ops [Register (demo_registration ''e'' 0 10), Fork 10 11]))) 11 (demo_registration ''e'' 0 10)"
  proof (rule nearest.here)
    show "map_of (ar_pids (run_ops [Register (demo_registration ''e'' 0 10), Fork 10 11])) 11
      = Some (demo_registration ''e'' 0 10)" by code_simp
  qed simp
qed

end
