(* ===== verification/Executor.thy ===== *)
theory Executor
  imports Types
begin

section \<open>Running a schedule (\<^verbatim>\<open>executor.py\<close>)\<close>

text \<open>
  \<^verbatim>\<open>PytestAdapter\<close> collects test identities from the output of pytest, \<^verbatim>\<open>ScheduleExecutor\<close> runs one
  coroutine per worker over the queues filled from a schedule, and \<^verbatim>\<open>update_duration_stats\<close> folds
  the results into the statistics. What a child process does is an argument (a value of
  \<open>process_outcome\<close>), and so are the uuids, the clocks and the decoding of bytes. A coroutine is only
  interrupted at an \<^verbatim>\<open>await\<close>, so an execution is an interleaving of the steps of \<open>exec_step\<close>.
\<close>

subsection \<open>The pytest adapter\<close>

record PytestConfig =
  pc_executable :: string
  pc_working_directory :: string
  pc_timeout_seconds :: real
  pc_extra_args :: "string list"
  pc_environment :: "(string, string) dict"
  pc_output_limit_bytes :: int

text \<open>\<^verbatim>\<open>str.splitlines\<close> on code points below 256.\<close>

definition line_break :: "char \<Rightarrow> bool" where
  "line_break c \<longleftrightarrow> of_char c \<in> {10 :: nat, 11, 12, 13, 28, 29, 30, 133}"

fun splitlines_from :: "string \<Rightarrow> string \<Rightarrow> string list" where
  "splitlines_from cur [] = (if cur = [] then [] else [cur])"
| "splitlines_from cur (c # s) =
     (if line_break c
      then cur # splitlines_from [] (if c = CHR 0x0D \<and> s \<noteq> [] \<and> hd s = CHR 0x0A then tl s else s)
      else splitlines_from (cur @ [c]) s)"

definition splitlines :: "string \<Rightarrow> string list" where
  "splitlines s = splitlines_from [] s"

text \<open>\<^verbatim>\<open>_NODE_LINE\<close>: no white space, and a \<^verbatim>\<open>::\<close> with something on both sides.\<close>

definition node_line :: "string \<Rightarrow> bool" where
  "node_line s \<longleftrightarrow> \<not> list_ex is_space s
     \<and> list_ex (\<lambda>i. 1 \<le> i \<and> take 2 (drop i s) = ''::'' \<and> i + 2 < length s) [0..<length s]"

definition collect_line :: "string \<Rightarrow> TestIdentity option" where
  "collect_line line =
     (let candidate = py_strip line
      in if node_line candidate \<and> \<not> startswith candidate ''='' \<and> \<not> startswith candidate ''<''
         then Some (from_pytest_nodeid candidate ''local'' ''unknown'') else None)"

record completed_process =
  cp_returncode :: int
  cp_stdout :: string
  cp_stderr :: string

definition collect_command :: "PytestConfig \<Rightarrow> string list \<Rightarrow> string list" where
  "collect_command config targets =
     [pc_executable config, ''-m'', ''pytest'', ''--collect-only'', ''-q''] @ targets @ pc_extra_args config"

text \<open>\<open>run\<close> is \<^verbatim>\<open>subprocess.run\<close>: \<open>None\<close> stands for \<^verbatim>\<open>OSError\<close> or \<^verbatim>\<open>TimeoutExpired\<close>.\<close>

definition collect ::
  "(string list \<Rightarrow> completed_process option) \<Rightarrow> PytestConfig \<Rightarrow> string list \<Rightarrow> TestIdentity list result" where
  "collect run config targets =
     (case run (collect_command config targets) of
        None \<Rightarrow> Inl ExecutionError
      | Some completed \<Rightarrow>
          let tests = List.map_filter collect_line (splitlines (cp_stdout completed))
          in if cp_returncode completed \<notin> {0, 5} then Inl ExecutionError
             else if tests = [] \<and> cp_returncode completed \<noteq> 5 then Inl ExecutionError
             else Inr tests)"

definition setdefault :: "'k \<Rightarrow> 'v \<Rightarrow> ('k, 'v) dict \<Rightarrow> ('k, 'v) dict" where
  "setdefault k v d = (case map_of d k of None \<Rightarrow> AList.update k v d | Some _ \<Rightarrow> d)"

definition dict_update :: "('k, 'v) dict \<Rightarrow> ('k, 'v) dict \<Rightarrow> ('k, 'v) dict" where
  "dict_update d other = foldl (\<lambda>d (k, v). AList.update k v d) d other"

definition adapter_environment :: "(string, string) dict \<Rightarrow> PytestConfig \<Rightarrow> (string, string) dict" where
  "adapter_environment environ config = setdefault ''PYTHONHASHSEED'' ''0'' (dict_update environ (pc_environment config))"

subsection \<open>One test\<close>

text \<open>What the child process did: ended with a return code and its output; timed out, with the return
  code it had by then, whether it ends within the grace period after \<^verbatim>\<open>SIGTERM\<close> and its final
  code; or an \<^verbatim>\<open>OSError\<close> was raised, before or after the timeout.\<close>

datatype process_outcome =
    Ended "int option" "int list" "int list"
  | Over_Time "int option" bool "int option"
  | Os_Error string bool

datatype signal = SIGTERM | SIGKILL

definition terminate :: "int option \<Rightarrow> bool \<Rightarrow> signal list" where
  "terminate returncode ends_in_grace =
     (if returncode \<noteq> None then [] else if ends_in_grace then [SIGTERM] else [SIGTERM, SIGKILL])"

text \<open>\<^verbatim>\<open>payload[:limit]\<close>, also for a negative limit.\<close>

definition slice_to :: "int \<Rightarrow> 'a list \<Rightarrow> 'a list" where
  "slice_to n xs = take (nat (if 0 \<le> n then n else int (length xs) + n)) xs"

definition truncation_marker :: "int list" where
  "truncation_marker = map (\<lambda>c. int (of_char c)) ([CHR 0x0A] @ ''...[output truncated by ConflictGraph]'')"

definition decode_output :: "(int list \<Rightarrow> string) \<Rightarrow> PytestConfig \<Rightarrow> int list \<Rightarrow> string" where
  "decode_output decode config payload =
     (let limit = pc_output_limit_bytes config
      in decode (if int (length payload) > limit then slice_to limit payload @ truncation_marker else payload))"

definition contains :: "string \<Rightarrow> string \<Rightarrow> bool" where
  "contains s sub \<longleftrightarrow> list_ex (\<lambda>i. take (length sub) (drop i s) = sub) [0..<length s + 1]"

definition blames :: "string \<Rightarrow> bool" where
  "blames line \<longleftrightarrow> contains (py_lower line) ''failed'' \<or> contains (py_lower line) ''error''"

definition failure_summary :: "string \<Rightarrow> string \<Rightarrow> string" where
  "failure_summary stdout stderr =
     (let lines = map py_strip (filter (\<lambda>line. py_strip line \<noteq> []) (splitlines (stdout @ [CHR 0x0A] @ stderr)))
      in case find blames (rev lines) of
           Some line \<Rightarrow> take 1000 line
         | None \<Rightarrow> (if lines \<noteq> [] then take 1000 (last lines) else ''test process failed without output''))"

definition test_environment ::
  "(string, string) dict \<Rightarrow> PytestConfig \<Rightarrow> string \<Rightarrow> string \<Rightarrow> ScheduledTest \<Rightarrow> (string, string) dict" where
  "test_environment environ config run_id execution_id scheduled =
     dict_update (adapter_environment environ config)
       [(''CONFLICTGRAPH_RUN_ID'', run_id), (''CONFLICTGRAPH_EXECUTION_ID'', execution_id),
        (''CONFLICTGRAPH_TEST_ID'', sc_test_id scheduled), (''CONFLICTGRAPH_WORKER_ID'', str_nat (sc_worker scheduled))]"

definition test_command :: "PytestConfig \<Rightarrow> ScheduledTest \<Rightarrow> string list" where
  "test_command config scheduled =
     [pc_executable config, ''-m'', ''pytest'', ''-q'', ''--tb=short'', sc_node_id scheduled] @ pc_extra_args config"

text \<open>The uuid and the clock readings of one run.\<close>

record run_host =
  rh_execution_id :: string
  rh_started_at :: int
  rh_ended_at :: int
  rh_duration :: real

definition finished_result ::
  "run_host \<Rightarrow> string \<Rightarrow> ScheduledTest \<Rightarrow> ExecutionStatus \<Rightarrow> int \<Rightarrow> string \<Rightarrow> string \<Rightarrow> string \<Rightarrow> bool \<Rightarrow> ExecutionResult" where
  "finished_result h run_id scheduled status exit_code stdout stderr failure timed_out =
     \<lparr>xr_execution_id = rh_execution_id h, xr_run_id = run_id, xr_test_id = sc_test_id scheduled,
      xr_node_id = sc_node_id scheduled, xr_worker = sc_worker scheduled, xr_status = status,
      xr_started_at = rh_started_at h, xr_ended_at = rh_ended_at h, xr_duration_seconds = rh_duration h,
      xr_exit_code = exit_code, xr_stdout = stdout, xr_stderr = stderr, xr_failure_message = failure,
      xr_timed_out = timed_out\<rparr>"

definition process_result ::
  "(int list \<Rightarrow> string) \<Rightarrow> PytestConfig \<Rightarrow> run_host \<Rightarrow> string \<Rightarrow> ScheduledTest \<Rightarrow> int option \<Rightarrow> int list \<Rightarrow> int list \<Rightarrow> bool \<Rightarrow> ExecutionResult" where
  "process_result decode config h run_id scheduled returncode stdout_raw stderr_raw timed_out =
     (let exit_code = (case returncode of Some code \<Rightarrow> code | None \<Rightarrow> -1);
          stdout = decode_output decode config stdout_raw;
          stderr = decode_output decode config stderr_raw;
          status = (if timed_out then XS_TIMED_OUT else if exit_code = 0 then XS_PASSED else XS_FAILED);
          failure = (if status = XS_PASSED then [] else failure_summary stdout stderr)
      in finished_result h run_id scheduled status exit_code stdout stderr failure timed_out)"

definition timeout_message :: "int list" where
  "timeout_message = map (\<lambda>c. int (of_char c)) ''test exceeded configured timeout''"

text \<open>\<^verbatim>\<open>_run_one\<close>: the result and the signals sent to the process group.\<close>

definition run_one ::
  "(int list \<Rightarrow> string) \<Rightarrow> PytestConfig \<Rightarrow> run_host \<Rightarrow> string \<Rightarrow> ScheduledTest \<Rightarrow> process_outcome \<Rightarrow> ExecutionResult \<times> signal list" where
  "run_one decode config h run_id scheduled outcome =
     (case outcome of
        Ended returncode stdout_raw stderr_raw \<Rightarrow>
          (process_result decode config h run_id scheduled returncode stdout_raw stderr_raw False, [])
      | Over_Time returncode ends_in_grace final \<Rightarrow>
          (process_result decode config h run_id scheduled (if returncode = None then final else returncode)
             [] timeout_message True, terminate returncode ends_in_grace)
      | Os_Error text timed_out \<Rightarrow>
          (finished_result h run_id scheduled XS_INFRA_ERROR (-1) [] text text timed_out, []))"

subsection \<open>The worker pool\<close>

text \<open>\<^verbatim>\<open>execute\<close> fills one queue per worker from the schedule sorted by worker and start, each closed by
  a sentinel, and starts one coroutine per worker. A worker is at the head of its loop (\<open>Idle\<close>),
  sleeping until the estimated start of a test it took (\<open>Waiting\<close>), running it (\<open>Executing\<close>), or has
  returned (\<open>Returned\<close>).\<close>

datatype worker_state = Idle | Waiting ScheduledTest | Executing ScheduledTest | Returned

record executor_state =
  xe_queues :: "ScheduledTest option list list"
  xe_workers :: "worker_state list"
  xe_results :: "ExecutionResult list"
  xe_notified :: "ExecutionResult list"
  xe_cancelled :: bool

definition execution_order :: "Schedule \<Rightarrow> ScheduledTest list" where
  "execution_order schedule = sort_key (\<lambda>value. (sc_worker value, sc_start value)) (sd_tests schedule)"

fun fill_queues :: "ScheduledTest list \<Rightarrow> ScheduledTest option list list \<Rightarrow> ScheduledTest option list list result" where
  "fill_queues [] queues = Inr queues"
| "fill_queues (item # items) queues =
     (if sc_worker item < length queues
      then fill_queues items (queues[sc_worker item := queues ! sc_worker item @ [Some item]])
      else Inl IndexError)"

definition execute_start :: "Schedule \<Rightarrow> bool \<Rightarrow> executor_state result" where
  "execute_start schedule cancelled =
     bind_result (fill_queues (execution_order schedule) (replicate (nat (sd_workers schedule)) []))
       (\<lambda>queues. Inr \<lparr>xe_queues = map (\<lambda>q. q @ [None]) queues,
                      xe_workers = replicate (nat (sd_workers schedule)) Idle,
                      xe_results = [], xe_notified = [], xe_cancelled = cancelled\<rparr>)"

text \<open>The head of the loop: leave when cancelled or at the sentinel, otherwise take the next test.\<close>

definition worker_head :: "executor_state \<Rightarrow> nat \<Rightarrow> executor_state" where
  "worker_head st w =
     (if xe_cancelled st then st\<lparr>xe_workers := (xe_workers st)[w := Returned]\<rparr>
      else case xe_queues st ! w of
             [] \<Rightarrow> st
           | item # rest \<Rightarrow>
               let st = st\<lparr>xe_queues := (xe_queues st)[w := rest]\<rparr>
               in case item of
                    None \<Rightarrow> st\<lparr>xe_workers := (xe_workers st)[w := Returned]\<rparr>
                  | Some scheduled \<Rightarrow> st\<lparr>xe_workers := (xe_workers st)[w := Waiting scheduled]\<rparr>)"

text \<open>The rest of the loop body once the result is there; \<open>listening\<close> says that a callback was given.\<close>

definition worker_finish :: "bool \<Rightarrow> bool \<Rightarrow> executor_state \<Rightarrow> nat \<Rightarrow> ExecutionResult \<Rightarrow> executor_state" where
  "worker_finish fail_fast listening st w r =
     st\<lparr>xe_results := xe_results st @ [r],
        xe_notified := (if listening then xe_notified st @ [r] else xe_notified st),
        xe_cancelled := (xe_cancelled st \<or> fail_fast \<and> xr_status r \<noteq> XS_PASSED),
        xe_workers := (xe_workers st)[w := Idle]\<rparr>"

definition cancel :: "executor_state \<Rightarrow> executor_state" where
  "cancel st = st\<lparr>xe_cancelled := True\<rparr>"

definition execute_results :: "executor_state \<Rightarrow> ExecutionResult list" where
  "execute_results st = sort_key xr_started_at (xe_results st)"

definition result_of :: "ScheduledTest \<Rightarrow> ExecutionResult \<Rightarrow> bool" where
  "result_of t r \<longleftrightarrow> xr_test_id r = sc_test_id t \<and> xr_node_id r = sc_node_id t \<and> xr_worker r = sc_worker t"

inductive exec_step :: "bool \<Rightarrow> bool \<Rightarrow> executor_state \<Rightarrow> executor_state \<Rightarrow> bool" for fail_fast listening where
  head: "w < length (xe_workers st) \<Longrightarrow> xe_workers st ! w = Idle \<Longrightarrow> xe_cancelled st \<or> xe_queues st ! w \<noteq> [] \<Longrightarrow>
    exec_step fail_fast listening st (worker_head st w)"
| launch: "w < length (xe_workers st) \<Longrightarrow> xe_workers st ! w = Waiting t \<Longrightarrow>
    exec_step fail_fast listening st (st\<lparr>xe_workers := (xe_workers st)[w := Executing t]\<rparr>)"
| finish: "w < length (xe_workers st) \<Longrightarrow> xe_workers st ! w = Executing t \<Longrightarrow> result_of t r \<Longrightarrow>
    exec_step fail_fast listening st (worker_finish fail_fast listening st w r)"

inductive exec_run :: "bool \<Rightarrow> bool \<Rightarrow> executor_state \<Rightarrow> nat \<Rightarrow> executor_state \<Rightarrow> bool" for fail_fast listening where
  stop: "exec_run fail_fast listening st 0 st"
| again: "exec_run fail_fast listening st n st' \<Longrightarrow> exec_step fail_fast listening st' st'' \<Longrightarrow>
    exec_run fail_fast listening st (Suc n) st''"
| cancels: "exec_run fail_fast listening st n st' \<Longrightarrow> exec_run fail_fast listening st n (cancel st')"

lemma run_one_result_of: "result_of t (fst (run_one decode config h run_id t outcome))"
  by (auto simp: run_one_def process_result_def finished_result_def result_of_def Let_def split: process_outcome.splits)

subsection \<open>Interruption\<close>

text \<open>\<^verbatim>\<open>CancelledError\<close> in \<^verbatim>\<open>_run_one\<close>: \<open>process\<close> is \<open>None\<close> before the process was created, and then its
  return code, if it has ended. The group of a live process is killed and the exception raised again.\<close>

definition run_one_cancelled :: "int option option \<Rightarrow> signal list" where
  "run_one_cancelled process = (case process of Some None \<Rightarrow> [SIGKILL] | _ \<Rightarrow> [])"

text \<open>\<^verbatim>\<open>CancelledError\<close> in \<^verbatim>\<open>execute\<close>: every task is cancelled and awaited, and the exception is raised
  again, so there are no results; the state that is left, and the signals for the tests that were running.\<close>

fun running_test :: "worker_state \<Rightarrow> ScheduledTest option" where
  "running_test (Executing t) = Some t"
| "running_test _ = None"

definition execute_cancelled ::
  "executor_state \<Rightarrow> (ScheduledTest \<Rightarrow> int option option) \<Rightarrow> executor_state \<times> (ScheduledTest \<times> signal list) list" where
  "execute_cancelled st process =
     (st\<lparr>xe_cancelled := True, xe_workers := map (\<lambda>_. Returned) (xe_workers st)\<rparr>,
      map (\<lambda>t. (t, run_one_cancelled (process t))) (List.map_filter running_test (xe_workers st)))"

subsection \<open>Statistics\<close>

definition update_stat :: "real \<Rightarrow> TestStats \<Rightarrow> ExecutionResult \<Rightarrow> TestStats" where
  "update_stat alpha item r =
     (let executions = st_executions item + 1;
          failures = st_failure_rate item * real_of_int (executions - 1) + (if xr_status r \<noteq> XS_PASSED then 1 else 0)
      in item\<lparr>st_duration_ema := alpha * xr_duration_seconds r + (1 - alpha) * st_duration_ema item,
              st_executions := executions,
              st_failure_rate := failures / real_of_int executions\<rparr>)"

text \<open>An unknown test raises \<^verbatim>\<open>KeyError\<close>; the statistics updated before stay updated, so the
  state is returned with the exception.\<close>

fun update_duration_stats ::
  "(string, TestStats) dict \<Rightarrow> ExecutionResult list \<Rightarrow> real \<Rightarrow> (string, TestStats) dict \<times> py_error option" where
  "update_duration_stats stats [] alpha = (stats, None)"
| "update_duration_stats stats (r # results) alpha =
     (case map_of stats (xr_test_id r) of
        None \<Rightarrow> (stats, Some KeyError)
      | Some item \<Rightarrow> update_duration_stats (AList.update (xr_test_id r) (update_stat alpha item r) stats) results alpha)"

end
