(* ===== verification/Executor_Properties.thy ===== *)
theory Executor_Properties
  imports Executor
begin

section \<open>Properties of the executor\<close>

text \<open>
  The invariant of the worker pool: each worker has worked off a prefix of its lane, holds at most one
  test, and the rest is still queued before the sentinel. From it follow the order and uniqueness of
  the executions, completeness when nothing cancelled the run, and what cancellation leaves undone;
  a rank bounds the number of steps, and a step is always possible until every worker returned.
\<close>

subsection \<open>Filling the queues\<close>

definition lane :: "nat \<Rightarrow> ScheduledTest list \<Rightarrow> ScheduledTest list" where
  "lane w ts = filter (\<lambda>t. sc_worker t = w) ts"

lemma lane_simps [simp]:
  "lane w [] = []" "lane w (t # ts) = (if sc_worker t = w then [t] else []) @ lane w ts"
  by (simp_all add: lane_def)

lemma fill_queues_lanes:
  "fill_queues ts qs = Inr qs' \<Longrightarrow> length qs' = length qs
     \<and> (\<forall>w<length qs. qs' ! w = qs ! w @ map Some (lane w ts)) \<and> (\<forall>t\<in>set ts. sc_worker t < length qs)"
proof (induction ts qs rule: fill_queues.induct)
  case (2 item items queues)
  then show ?case by (auto simp: nth_list_update split: if_splits)
qed simp

lemma fill_queues_total: "\<forall>t\<in>set ts. sc_worker t < length qs \<Longrightarrow> \<exists>qs'. fill_queues ts qs = Inr qs'"
  by (induction ts qs rule: fill_queues.induct) auto

lemma fill_queues_raises: "fill_queues ts qs = Inl e \<Longrightarrow> e = IndexError \<and> (\<exists>t\<in>set ts. \<not> sc_worker t < length qs)"
  by (induction ts qs rule: fill_queues.induct) (auto split: if_splits)

subsection \<open>The invariant\<close>

fun holding :: "worker_state \<Rightarrow> ScheduledTest list" where
  "holding (Waiting t) = [t]"
| "holding (Executing t) = [t]"
| "holding _ = []"

definition results_by :: "nat \<Rightarrow> executor_state \<Rightarrow> ExecutionResult list" where
  "results_by w st = filter (\<lambda>r. xr_worker r = w) (xe_results st)"

definition worker_ok ::
  "ScheduledTest list \<Rightarrow> worker_state \<Rightarrow> ScheduledTest option list \<Rightarrow> ExecutionResult list \<Rightarrow> bool \<Rightarrow> bool" where
  "worker_ok l state queue rs cancelled \<longleftrightarrow> (\<exists>finished rest. l = finished @ holding state @ rest
     \<and> list_all2 result_of finished rs
     \<and> (if state = Returned then cancelled \<or> rest = [] else queue = map Some rest @ [None]))"

lemma worker_ok_cancelled: "worker_ok l Idle q rs c \<Longrightarrow> worker_ok l Returned q' rs True"
  unfolding worker_ok_def by auto

lemma worker_ok_sentinel: "worker_ok l Idle (None # q) rs c \<Longrightarrow> worker_ok l Returned q' rs c"
  unfolding worker_ok_def by (auto simp: Cons_eq_append_conv Cons_eq_map_conv)

lemma worker_ok_take: "worker_ok l Idle (Some t # q) rs c \<Longrightarrow> worker_ok l (Waiting t) q rs c"
  unfolding worker_ok_def by (auto simp: Cons_eq_append_conv Cons_eq_map_conv)

lemma worker_ok_launch: "worker_ok l (Waiting t) q rs c \<Longrightarrow> worker_ok l (Executing t) q rs c"
  by (simp add: worker_ok_def)

lemma worker_ok_finish:
  assumes "worker_ok l (Executing t) q rs c" "result_of t r"
  shows "worker_ok l Idle q (rs @ [r]) c"
proof -
  obtain finished rest where "l = finished @ t # rest" "list_all2 result_of finished rs" "q = map Some rest @ [None]"
    using assms(1) by (auto simp: worker_ok_def)
  then have "l = (finished @ [t]) @ rest" "list_all2 result_of (finished @ [t]) (rs @ [r])" "q = map Some rest @ [None]"
    using assms(2) by (simp_all add: list_all2_appendI)
  then show ?thesis unfolding worker_ok_def by (intro exI [of _ "finished @ [t]"] exI [of _ rest]) simp
qed

lemma worker_ok_mono: "worker_ok l state q rs c \<Longrightarrow> (c \<Longrightarrow> c') \<Longrightarrow> worker_ok l state q rs c'"
  unfolding worker_ok_def by metis

lemma worker_ok_queue: "worker_ok l state q rs c \<Longrightarrow> state \<noteq> Returned \<Longrightarrow> q \<noteq> []"
  unfolding worker_ok_def by auto

lemma worker_ok_holding: "worker_ok l (Executing t) q rs c \<Longrightarrow> t \<in> set l"
  unfolding worker_ok_def by auto

definition worker_inv :: "ScheduledTest list \<Rightarrow> executor_state \<Rightarrow> nat \<Rightarrow> bool" where
  "worker_inv ts st w \<longleftrightarrow>
     worker_ok (lane w ts) (xe_workers st ! w) (xe_queues st ! w) (results_by w st) (xe_cancelled st)"

definition pool_inv :: "ScheduledTest list \<Rightarrow> executor_state \<Rightarrow> bool" where
  "pool_inv ts st \<longleftrightarrow> length (xe_queues st) = length (xe_workers st)
     \<and> (\<forall>w<length (xe_workers st). worker_inv ts st w)
     \<and> (\<forall>r\<in>set (xe_results st). xr_worker r < length (xe_workers st))"

lemma pool_invD:
  assumes "pool_inv ts st"
  shows "length (xe_queues st) = length (xe_workers st)" "w < length (xe_workers st) \<Longrightarrow> worker_inv ts st w"
    "r \<in> set (xe_results st) \<Longrightarrow> xr_worker r < length (xe_workers st)"
  using assms by (auto simp: pool_inv_def)

lemma lane_worker: "t \<in> set (lane w ts) \<Longrightarrow> sc_worker t = w"
  by (simp add: lane_def)

lemma pool_inv_update:
  assumes inv: "pool_inv ts st" and w: "w < length (xe_workers st)"
    and new: "worker_ok (lane w ts) s q (results_by w st') (xe_cancelled st')"
    and st': "xe_workers st' = (xe_workers st)[w := s]" "xe_queues st' = (xe_queues st)[w := q]"
    and rs: "\<And>v. v \<noteq> w \<Longrightarrow> results_by v st' = results_by v st" "\<forall>r\<in>set (xe_results st'). xr_worker r < length (xe_workers st)"
    and c: "xe_cancelled st \<Longrightarrow> xe_cancelled st'"
  shows "pool_inv ts st'"
proof -
  have len: "length (xe_queues st) = length (xe_workers st)" by (rule pool_invD(1) [OF inv])
  have "worker_inv ts st' v" if v: "v < length (xe_workers st)" for v
  proof (cases "v = w")
    case True
    then show ?thesis using new w len by (simp add: worker_inv_def st')
  next
    case False
    have "worker_ok (lane v ts) (xe_workers st ! v) (xe_queues st ! v) (results_by v st) (xe_cancelled st')"
      using pool_invD(2) [OF inv v] c by (auto simp: worker_inv_def intro: worker_ok_mono)
    then show ?thesis using False by (simp add: worker_inv_def st' rs(1))
  qed
  then show ?thesis using len rs(2) by (simp add: pool_inv_def st')
qed

lemma worker_head_inv:
  assumes inv: "pool_inv ts st" and w: "w < length (xe_workers st)" "xe_workers st ! w = Idle"
  shows "pool_inv ts (worker_head st w)"
proof -
  have ok: "worker_ok (lane w ts) Idle (xe_queues st ! w) (results_by w st) (xe_cancelled st)"
    using pool_invD(2) [OF inv w(1)] w(2) by (simp add: worker_inv_def)
  note rs = pool_invD(3) [OF inv]
  show ?thesis
  proof (cases "xe_cancelled st")
    case True
    then have head: "worker_head st w = st\<lparr>xe_workers := (xe_workers st)[w := Returned]\<rparr>" by (simp add: worker_head_def)
    show ?thesis unfolding head
      by (rule pool_inv_update [OF inv w(1), of Returned "xe_queues st ! w"])
        (use True rs worker_ok_cancelled [OF ok] in \<open>simp_all add: results_by_def\<close>)
  next
    case False
    obtain item rest where q: "xe_queues st ! w = item # rest" using worker_ok_queue [OF ok] by (cases "xe_queues st ! w") auto
    let ?s = "case item of None \<Rightarrow> Returned | Some t \<Rightarrow> Waiting t"
    have head: "worker_head st w = st\<lparr>xe_queues := (xe_queues st)[w := rest], xe_workers := (xe_workers st)[w := ?s]\<rparr>"
      using False q by (simp add: worker_head_def split: option.splits)
    have "worker_ok (lane w ts) ?s rest (results_by w st) (xe_cancelled st)"
      using ok unfolding q by (cases item) (auto intro: worker_ok_sentinel worker_ok_take)
    then show ?thesis unfolding head
      by (intro pool_inv_update [OF inv w(1), of ?s rest]) (use rs in \<open>simp_all add: results_by_def\<close>)
  qed
qed

lemma worker_finish_inv:
  assumes inv: "pool_inv ts st" and w: "w < length (xe_workers st)" "xe_workers st ! w = Executing t" and r: "result_of t r"
  shows "pool_inv ts (worker_finish fail_fast listening st w r)"
proof -
  have ok: "worker_ok (lane w ts) (Executing t) (xe_queues st ! w) (results_by w st) (xe_cancelled st)"
    using pool_invD(2) [OF inv w(1)] w(2) by (simp add: worker_inv_def)
  let ?st = "worker_finish fail_fast listening st w r"
  have rw: "xr_worker r = w" using r lane_worker [OF worker_ok_holding [OF ok]] by (simp add: result_of_def)
  have "results_by w ?st = results_by w st @ [r]" using rw by (simp add: results_by_def worker_finish_def)
  then have "worker_ok (lane w ts) Idle (xe_queues st ! w) (results_by w ?st) (xe_cancelled ?st)"
    using worker_ok_mono [OF worker_ok_finish [OF ok r], of "xe_cancelled ?st"] by (simp add: worker_finish_def)
  then show ?thesis
    by (rule pool_inv_update [OF inv w(1)])
      (use rw w(1) pool_invD(3) [OF inv] in \<open>auto simp: worker_finish_def results_by_def\<close>)
qed

lemma launch_inv:
  assumes inv: "pool_inv ts st" and w: "w < length (xe_workers st)" "xe_workers st ! w = Waiting t"
  shows "pool_inv ts (st\<lparr>xe_workers := (xe_workers st)[w := Executing t]\<rparr>)"
proof -
  have "worker_ok (lane w ts) (Executing t) (xe_queues st ! w) (results_by w st) (xe_cancelled st)"
    using pool_invD(2) [OF inv w(1)] w(2) by (simp add: worker_inv_def worker_ok_launch)
  then show ?thesis
    by (intro pool_inv_update [OF inv w(1), of "Executing t" "xe_queues st ! w"])
      (use pool_invD(3) [OF inv] in \<open>simp_all add: results_by_def\<close>)
qed

lemma exec_step_inv: "exec_step fail_fast listening st st' \<Longrightarrow> pool_inv ts st \<Longrightarrow> pool_inv ts st'"
  by (induction rule: exec_step.induct) (auto intro: worker_head_inv launch_inv worker_finish_inv)

lemma cancel_inv: "pool_inv ts st \<Longrightarrow> pool_inv ts (cancel st)"
  using worker_ok_mono unfolding pool_inv_def worker_inv_def cancel_def results_by_def by simp blast

lemma exec_run_inv: "exec_run fail_fast listening st n st' \<Longrightarrow> pool_inv ts st \<Longrightarrow> pool_inv ts st'"
  by (induction rule: exec_run.induct) (auto intro: exec_step_inv cancel_inv)

lemma execute_start_inv:
  assumes "execute_start schedule cancelled = Inr st"
  shows "pool_inv (execution_order schedule) st \<and> length (xe_workers st) = nat (sd_workers schedule)
    \<and> xe_cancelled st = cancelled \<and> (\<forall>t\<in>set (sd_tests schedule). sc_worker t < nat (sd_workers schedule))"
proof -
  let ?ts = "execution_order schedule"
  obtain qs where qs: "fill_queues ?ts (replicate (nat (sd_workers schedule)) []) = Inr qs"
      and st: "st = \<lparr>xe_queues = map (\<lambda>q. q @ [None]) qs, xe_workers = replicate (nat (sd_workers schedule)) Idle,
        xe_results = [], xe_notified = [], xe_cancelled = cancelled\<rparr>"
    using assms by (auto simp: execute_start_def)
  note lanes = fill_queues_lanes [OF qs]
  have "set ?ts = set (sd_tests schedule)" by (simp add: execution_order_def)
  then show ?thesis using lanes unfolding st by (auto simp: pool_inv_def worker_inv_def worker_ok_def results_by_def)
qed

subsection \<open>Steps, progress and cancellation\<close>

fun state_rank :: "worker_state \<Rightarrow> nat" where
  "state_rank (Waiting t) = 3"
| "state_rank (Executing t) = 2"
| "state_rank Idle = 1"
| "state_rank Returned = 0"

definition pool_rank :: "executor_state \<Rightarrow> nat" where
  "pool_rank st = sum_list (map (\<lambda>q. 3 * length q) (xe_queues st)) + sum_list (map state_rank (xe_workers st))"

lemma sum_list_update_less:
  fixes f :: "'a \<Rightarrow> nat"
  assumes "i < length xs"
  shows "sum_list (map f (xs[i := x])) + f (xs ! i) = sum_list (map f xs) + f x"
  using assms
proof (induction xs arbitrary: i)
  case (Cons y ys)
  then show ?case by (cases i) auto
qed simp

lemma rank_workers:
  "w < length (xe_workers st) \<Longrightarrow> xe_workers st ! w = s \<Longrightarrow>
     sum_list (map state_rank ((xe_workers st)[w := s'])) + state_rank s = sum_list (map state_rank (xe_workers st)) + state_rank s'"
  using sum_list_update_less [of w "xe_workers st" state_rank s'] by simp

lemma worker_head_rank:
  assumes inv: "length (xe_queues st) = length (xe_workers st)" and w: "w < length (xe_workers st)" "xe_workers st ! w = Idle"
    and en: "xe_cancelled st \<or> xe_queues st ! w \<noteq> []"
  shows "pool_rank (worker_head st w) < pool_rank st"
proof (cases "xe_cancelled st")
  case True
  then show ?thesis using rank_workers [OF w, of Returned] by (simp add: worker_head_def pool_rank_def)
next
  case False
  then obtain item rest where q: "xe_queues st ! w = item # rest" using en by (cases "xe_queues st ! w") auto
  have "sum_list (map (\<lambda>q. 3 * length q) ((xe_queues st)[w := rest])) + 3 * length (item # rest)
      = sum_list (map (\<lambda>q. 3 * length q) (xe_queues st)) + 3 * length rest"
    using sum_list_update_less [of w "xe_queues st" "\<lambda>q. 3 * length q" rest] w(1) inv q by simp
  then show ?thesis
    using False q rank_workers [OF w, of Returned] rank_workers [OF w, of "Waiting (the item)"]
    by (cases item) (simp_all add: worker_head_def pool_rank_def)
qed

lemma exec_step_rank:
  assumes "exec_step fail_fast listening st st'" "length (xe_queues st) = length (xe_workers st)"
  shows "pool_rank st' < pool_rank st"
  using assms
proof cases
  case (head w)
  then show ?thesis using worker_head_rank assms(2) by blast
next
  case (launch w t)
  then show ?thesis using rank_workers [of w st "Waiting t" "Executing t"] by (simp add: pool_rank_def)
next
  case (finish w t r)
  then show ?thesis using rank_workers [of w st "Executing t" Idle] by (simp add: pool_rank_def worker_finish_def)
qed

lemma exec_run_rank: "exec_run fail_fast listening st n st' \<Longrightarrow> pool_inv ts st \<Longrightarrow> n + pool_rank st' \<le> pool_rank st"
proof (induction rule: exec_run.induct)
  case (again st n st' st'')
  then have "pool_inv ts st'" using exec_run_inv by blast
  then have "pool_rank st'' < pool_rank st'" using exec_step_rank again.hyps(2) pool_invD(1) by blast
  then show ?case using again by simp
qed (simp_all add: pool_rank_def cancel_def)

lemma exec_progress:
  assumes inv: "pool_inv ts st" and "\<exists>w<length (xe_workers st). xe_workers st ! w \<noteq> Returned"
  shows "\<exists>st'. exec_step fail_fast listening st st'"
proof -
  obtain w where w: "w < length (xe_workers st)" "xe_workers st ! w \<noteq> Returned" using assms(2) by blast
  have ok: "worker_ok (lane w ts) (xe_workers st ! w) (xe_queues st ! w) (results_by w st) (xe_cancelled st)"
    using pool_invD(2) [OF inv w(1)] by (simp add: worker_inv_def)
  show ?thesis
  proof (cases "xe_workers st ! w")
    case Idle
    then show ?thesis using exec_step.head [OF w(1)] worker_ok_queue [OF ok w(2)] by blast
  next
    case (Waiting t)
    then show ?thesis using exec_step.launch [OF w(1)] by blast
  next
    case (Executing t)
    then show ?thesis using exec_step.finish [OF w(1) _ run_one_result_of] by blast
  qed (use w in simp)
qed

definition busy :: "executor_state \<Rightarrow> nat" where
  "busy st = sum_list (map (\<lambda>s. length (holding s)) (xe_workers st))"

lemma busy_update:
  "w < length (xe_workers st) \<Longrightarrow> xe_workers st ! w = s \<Longrightarrow>
     sum_list (map (\<lambda>s. length (holding s)) ((xe_workers st)[w := s'])) + length (holding s) = busy st + length (holding s')"
  using sum_list_update_less [of w "xe_workers st" "\<lambda>s. length (holding s)" s'] by (simp add: busy_def)

lemma cancelled_step:
  assumes "exec_step fail_fast listening st st'" "xe_cancelled st"
  shows "xe_cancelled st' \<and> xe_queues st' = xe_queues st \<and> length (xe_results st') + busy st' = length (xe_results st) + busy st"
  using assms
proof cases
  case (head w)
  then show ?thesis using assms(2) busy_update [of w st Idle Returned] by (simp add: worker_head_def busy_def)
next
  case (launch w t)
  then show ?thesis using assms(2) busy_update [of w st "Waiting t" "Executing t"] by (simp add: busy_def)
next
  case (finish w t r)
  then show ?thesis using assms(2) busy_update [of w st "Executing t" Idle] by (simp add: worker_finish_def busy_def)
qed

lemma cancelled_run:
  "exec_run fail_fast listening st n st' \<Longrightarrow> xe_cancelled st \<Longrightarrow>
     xe_cancelled st' \<and> xe_queues st' = xe_queues st \<and> length (xe_results st') + busy st' = length (xe_results st) + busy st"
  by (induction rule: exec_run.induct) (auto simp: cancel_def busy_def dest: cancelled_step)

lemma notified_step: "exec_step fail_fast True st st' \<Longrightarrow> xe_notified st = xe_results st \<Longrightarrow> xe_notified st' = xe_results st'"
  by (induction rule: exec_step.induct)
    (auto simp: worker_head_def worker_finish_def Let_def split: list.splits option.splits)

lemma notified_run: "exec_run fail_fast True st n st' \<Longrightarrow> xe_notified st = xe_results st \<Longrightarrow> xe_notified st' = xe_results st'"
  by (induction rule: exec_run.induct) (auto simp: cancel_def dest: notified_step)

subsection \<open>Counting\<close>

lemma mset_lanes:
  fixes f :: "'a \<Rightarrow> nat"
  assumes "\<forall>x\<in>set xs. f x < n"
  shows "mset xs = (\<Sum>w<n. mset (filter (\<lambda>x. f x = w) xs))"
  using assms
proof (induction xs)
  case (Cons x xs)
  have "(\<Sum>w<n. if f x = w then {#x#} else {#}) = (\<Sum>w\<in>{f x}. {#x#})"
    by (rule sum.mono_neutral_cong_right) (use Cons.prems in auto)
  then have one: "(\<Sum>w<n. if f x = w then {#x#} else {#}) = {#x#}" by simp
  have "(\<Sum>w<n. mset (filter (\<lambda>x. f x = w) (x # xs)))
      = (\<Sum>w<n. (if f x = w then {#x#} else {#}) + mset (filter (\<lambda>x. f x = w) xs))"
    by (rule sum.cong) auto
  also have "\<dots> = {#x#} + mset xs" unfolding sum.distrib one using Cons by (simp del: mset_filter)
  finally show ?case by simp
qed simp

lemma image_size_sum:
  "image_mset g (\<Sum>w<n. F w) = (\<Sum>w<n. image_mset g (F w))" "size (\<Sum>w<n. F w) = (\<Sum>w<n. size (F w))"
  for n :: nat
  by (induction n) simp_all

lemma result_of_ids: "list_all2 result_of ts rs \<Longrightarrow> map xr_test_id rs = map sc_test_id ts \<and> map xr_node_id rs = map sc_node_id ts"
  by (induction rule: list_all2_induct) (auto simp: result_of_def)

lemma lanes_complete:
  assumes "\<forall>w<n. list_all2 result_of (lane w ts) (filter (\<lambda>r. xr_worker r = w) rs)"
    and "\<forall>t\<in>set ts. sc_worker t < n" "\<forall>r\<in>set rs. xr_worker r < n"
  shows "mset (map xr_node_id rs) = mset (map sc_node_id ts)" "mset (map xr_test_id rs) = mset (map sc_test_id ts)"
proof -
  have sums: "image_mset g (mset rs) = image_mset h (mset ts)"
    if "\<And>ts rs. list_all2 result_of ts rs \<Longrightarrow> map g rs = map h ts" for g :: "ExecutionResult \<Rightarrow> string" and h
  proof -
    have "image_mset g (mset rs) = (\<Sum>w<n. image_mset g (mset (filter (\<lambda>r. xr_worker r = w) rs)))"
      by (subst mset_lanes [OF assms(3)]) (simp add: image_size_sum(1))
    also have "\<dots> = (\<Sum>w<n. image_mset h (mset (lane w ts)))"
    proof (rule sum.cong [OF refl])
      fix w assume "w \<in> {..<n}"
      then have "map g (filter (\<lambda>r. xr_worker r = w) rs) = map h (lane w ts)" using assms(1) that by simp
      then show "image_mset g (mset (filter (\<lambda>r. xr_worker r = w) rs)) = image_mset h (mset (lane w ts))"
        by (metis mset_map)
    qed
    also have "\<dots> = image_mset h (mset ts)"
      using arg_cong [OF mset_lanes [OF assms(2)], of "image_mset h"] by (simp add: image_size_sum(1) lane_def)
    finally show ?thesis .
  qed
  show "mset (map xr_node_id rs) = mset (map sc_node_id ts)" using sums [of xr_node_id sc_node_id] result_of_ids by simp
  show "mset (map xr_test_id rs) = mset (map sc_test_id ts)" using sums [of xr_test_id sc_test_id] result_of_ids by simp
qed

lemma start_rank:
  assumes "execute_start schedule cancelled = Inr st"
  shows "pool_rank st = 3 * length (sd_tests schedule) + 4 * nat (sd_workers schedule)"
proof -
  let ?n = "nat (sd_workers schedule)" and ?ts = "execution_order schedule"
  obtain qs where qs: "fill_queues ?ts (replicate ?n []) = Inr qs"
      and st: "st = \<lparr>xe_queues = map (\<lambda>q. q @ [None]) qs, xe_workers = replicate ?n Idle,
        xe_results = [], xe_notified = [], xe_cancelled = cancelled\<rparr>"
    using assms by (auto simp: execute_start_def)
  note lanes = fill_queues_lanes [OF qs, simplified]
  have qs': "qs = map (\<lambda>w. map Some (lane w ?ts)) [0..<?n]" using lanes by (intro nth_equalityI) auto
  have total: "(\<Sum>w<?n. length (lane w ?ts)) = length ?ts"
  proof -
    have "size (mset ?ts) = (\<Sum>w<?n. size (mset (filter (\<lambda>t. sc_worker t = w) ?ts)))"
      using mset_lanes [of ?ts sc_worker ?n] lanes by (metis image_size_sum(2))
    then show ?thesis by (simp add: lane_def del: mset_filter)
  qed
  have "sum_list (map (\<lambda>q. 3 * length q) (xe_queues st)) = (\<Sum>w<?n. 3 * (length (lane w ?ts) + 1))"
    by (simp add: st qs' comp_def sum_list_sum_nth atLeast0LessThan)
  also have "\<dots> = 3 * length ?ts + 3 * ?n" by (simp add: sum.distrib sum_distrib_left [symmetric] total)
  finally show ?thesis by (simp add: pool_rank_def st sum_list_replicate execution_order_def)
qed

lemma exec_step_workers: "exec_step fail_fast listening st st' \<Longrightarrow> length (xe_workers st') = length (xe_workers st)"
  by (induction rule: exec_step.induct)
    (auto simp: worker_head_def worker_finish_def Let_def split: list.splits option.splits)

lemma exec_run_workers: "exec_run fail_fast listening st n st' \<Longrightarrow> length (xe_workers st') = length (xe_workers st)"
  by (induction rule: exec_run.induct) (simp_all add: cancel_def exec_step_workers)

lemma executor_complete:
  assumes inv: "pool_inv ts st" and returned: "list_all (\<lambda>s. s = Returned) (xe_workers st)" "\<not> xe_cancelled st"
    and ts: "\<forall>t\<in>set ts. sc_worker t < length (xe_workers st)"
  shows "mset (map xr_test_id (execute_results st)) = mset (map sc_test_id ts)"
    "mset (map xr_node_id (execute_results st)) = mset (map sc_node_id ts)"
proof -
  have "list_all2 result_of (lane w ts) (filter (\<lambda>r. xr_worker r = w) (xe_results st))" if w: "w < length (xe_workers st)" for w
  proof -
    have "xe_workers st ! w = Returned" using returned(1) w by (simp add: list_all_length)
    then show ?thesis using pool_invD(2) [OF inv w] returned(2) by (auto simp: worker_inv_def worker_ok_def results_by_def)
  qed
  then have "\<forall>w<length (xe_workers st). list_all2 result_of (lane w ts) (filter (\<lambda>r. xr_worker r = w) (xe_results st))" by blast
  note complete = lanes_complete [OF this ts]
  have "\<forall>r\<in>set (xe_results st). xr_worker r < length (xe_workers st)" using pool_invD(3) [OF inv] by blast
  from complete [OF this] show "mset (map xr_test_id (execute_results st)) = mset (map sc_test_id ts)"
      "mset (map xr_node_id (execute_results st)) = mset (map sc_node_id ts)"
    by (simp_all add: execute_results_def)
qed

subsection \<open>Properties\<close>

text \<open>C21: functional and ordering. Whatever the interleaving of the workers and of cancellations, each worker
  executes a prefix of its tests in the order of the schedule, each at most once, and every result is
  reported to the callback; when all workers returned and nothing was cancelled, the results are exactly
  one per scheduled test.\<close>

theorem executor_runs_schedule:
  assumes start: "execute_start schedule cancelled = Inr st" and run: "exec_run fail_fast True st n st'"
  shows "(\<forall>w<nat (sd_workers schedule). \<exists>finished rest. lane w (execution_order schedule) = finished @ rest
           \<and> list_all2 result_of finished (results_by w st'))
    \<and> xe_notified st' = xe_results st'
    \<and> (list_all (\<lambda>s. s = Returned) (xe_workers st') \<and> \<not> xe_cancelled st' \<longrightarrow>
         mset (map xr_test_id (execute_results st')) = mset (map sc_test_id (sd_tests schedule))
         \<and> mset (map xr_node_id (execute_results st')) = mset (map sc_node_id (sd_tests schedule)))"
proof -
  note st = execute_start_inv [OF start]
  have inv: "pool_inv (execution_order schedule) st'" using exec_run_inv [OF run] st by blast
  have len: "length (xe_workers st') = nat (sd_workers schedule)" using exec_run_workers [OF run] st by simp
  have order: "set (execution_order schedule) = set (sd_tests schedule)" "mset (execution_order schedule) = mset (sd_tests schedule)"
    by (simp_all add: execution_order_def)
  have "\<exists>finished rest. lane w (execution_order schedule) = finished @ rest \<and> list_all2 result_of finished (results_by w st')"
    if "w < nat (sd_workers schedule)" for w
  proof -
    have "worker_inv (execution_order schedule) st' w" using pool_invD(2) [OF inv] that len by simp
    then show ?thesis unfolding worker_inv_def worker_ok_def by (elim exE conjE) (rule exI, rule exI, rule conjI)
  qed
  moreover have "xe_notified st' = xe_results st'"
    using notified_run [OF run] start by (auto simp: execute_start_def)
  moreover have "mset (map xr_test_id (execute_results st')) = mset (map sc_test_id (sd_tests schedule))
      \<and> mset (map xr_node_id (execute_results st')) = mset (map sc_node_id (sd_tests schedule))"
    if "list_all (\<lambda>s. s = Returned) (xe_workers st')" "\<not> xe_cancelled st'"
    using executor_complete [OF inv that] st order len by simp
  ultimately show ?thesis by blast
qed

text \<open>C22: termination and liveness. From the start of a schedule of \<open>m\<close> tests on \<open>W\<close> workers every execution
  takes at most \<open>3 m + 4 W\<close> steps, and until all workers returned some worker can take a step: the
  executor neither runs for ever nor deadlocks, with and without cancellation.\<close>

theorem executor_terminates:
  assumes start: "execute_start schedule cancelled = Inr st" and run: "exec_run fail_fast listening st n st'"
  shows "n \<le> 3 * length (sd_tests schedule) + 4 * nat (sd_workers schedule)
    \<and> (list_all (\<lambda>s. s = Returned) (xe_workers st') \<or> (\<exists>st''. exec_step fail_fast listening st' st''))"
proof
  have inv: "pool_inv (execution_order schedule) st" using execute_start_inv [OF start] by blast
  show "n \<le> 3 * length (sd_tests schedule) + 4 * nat (sd_workers schedule)"
    using exec_run_rank [OF run inv] start_rank [OF start] by simp
  show "list_all (\<lambda>s. s = Returned) (xe_workers st') \<or> (\<exists>st''. exec_step fail_fast listening st' st'')"
    using exec_progress [OF exec_run_inv [OF run inv]] by (auto simp: list_all_length)
qed

text \<open>Safety of cancellation. After a cancellation (by the caller or by the first failure with
  \<^verbatim>\<open>fail_fast\<close>) no further test is taken from a queue; exactly the tests that workers already held can
  still produce a result. The flag is never cleared: an executor that was cancelled once executes no
  test of a later schedule.\<close>

lemma cancelled_executor_takes_nothing:
  assumes "xe_cancelled st" and "exec_run fail_fast listening st n st'"
  shows "xe_queues st' = xe_queues st \<and> length (xe_results st') + busy st' = length (xe_results st) + busy st
    \<and> (execute_start schedule True = Inr st \<longrightarrow> execute_results st' = [])"
proof -
  have "busy st = 0" "xe_results st = []" if "execute_start schedule True = Inr st"
    using that by (auto simp: execute_start_def busy_def sum_list_replicate)
  then show ?thesis using cancelled_run [OF assms(2,1)] by (auto simp: execute_results_def)
qed

definition demo_test :: ScheduledTest where
  "demo_test = ScheduledTest_init ''t'' ''f.py::t'' 0 0 1 1 0 []"

definition demo_plan :: Schedule where
  "demo_plan = (Schedule_empty ''s'' ''r'' None 1 RP_BALANCED 42)\<lparr>sd_tests := [demo_test]\<rparr>"

definition demo_config :: PytestConfig where
  "demo_config = \<lparr>pc_executable = ''python'', pc_working_directory = ''/w'', pc_timeout_seconds = 300, pc_extra_args = [],
     pc_environment = [], pc_output_limit_bytes = 1000000\<rparr>"

definition demo_host :: run_host where
  "demo_host = \<lparr>rh_execution_id = ''e'', rh_started_at = 1, rh_ended_at = 2, rh_duration = 1\<rparr>"

definition demo_result :: ExecutionResult where
  "demo_result = fst (run_one (\<lambda>_. []) demo_config demo_host ''r'' demo_test (Ended (Some 0) [] []))"

definition demo_start :: "bool \<Rightarrow> executor_state" where
  "demo_start cancelled = \<lparr>xe_queues = [[Some demo_test, None]], xe_workers = [Idle], xe_results = [], xe_notified = [], xe_cancelled = cancelled\<rparr>"

definition demo_end :: executor_state where
  "demo_end = worker_head (worker_finish False True
     ((worker_head (demo_start False) 0)\<lparr>xe_workers := (xe_workers (worker_head (demo_start False) 0))[0 := Executing demo_test]\<rparr>) 0 demo_result) 0"

lemma demo_execution:
  "execute_start demo_plan cancelled = Inr (demo_start cancelled)" "exec_run False True (demo_start False) 4 demo_end"
proof -
  show "execute_start demo_plan cancelled = Inr (demo_start cancelled)"
    by (simp add: execute_start_def demo_plan_def Schedule_empty_def execution_order_def demo_test_def ScheduledTest_init_def demo_start_def)
  let ?taken = "worker_head (demo_start False) 0"
  let ?run = "?taken\<lparr>xe_workers := (xe_workers ?taken)[0 := Executing demo_test]\<rparr>"
  let ?final = "worker_finish False True ?run 0 demo_result"
  have taken: "?taken = \<lparr>xe_queues = [[None]], xe_workers = [Waiting demo_test], xe_results = [], xe_notified = [], xe_cancelled = False\<rparr>"
    by (simp add: worker_head_def demo_start_def)
  have s1: "exec_step False True (demo_start False) ?taken" by (rule exec_step.head) (simp_all add: demo_start_def)
  have s2: "exec_step False True ?taken ?run" by (rule exec_step.launch) (simp_all add: taken)
  have s3: "exec_step False True ?run ?final"
    by (rule exec_step.finish [of _ _ demo_test]) (simp_all add: taken demo_result_def run_one_result_of)
  have s4: "exec_step False True ?final demo_end"
    unfolding demo_end_def by (rule exec_step.head) (simp_all add: taken worker_finish_def)
  have "exec_run False True (demo_start False) (Suc (Suc (Suc (Suc 0)))) demo_end"
    by (rule exec_run.again [OF exec_run.again [OF exec_run.again [OF exec_run.again [OF exec_run.stop s1] s2] s3] s4])
  then show "exec_run False True (demo_start False) 4 demo_end" by (simp add: eval_nat_numeral)
qed

theorem executor_runs_schedule_witness:
  "mset (map xr_test_id (execute_results demo_end)) = {#''t''#} \<and> \<not> xe_cancelled demo_end"
proof -
  have "list_all (\<lambda>s. s = Returned) (xe_workers demo_end)" "\<not> xe_cancelled demo_end"
    by (simp_all add: demo_end_def demo_start_def worker_head_def worker_finish_def)
  moreover have "map sc_test_id (sd_tests demo_plan) = [''t'']" by (simp add: demo_plan_def demo_test_def ScheduledTest_init_def)
  ultimately show ?thesis using executor_runs_schedule [OF demo_execution] by simp
qed

theorem executor_terminates_witness: "(4 :: nat) \<le> 3 * length (sd_tests demo_plan) + 4 * nat (sd_workers demo_plan)"
  using executor_terminates [OF demo_execution] by blast

text \<open>Interruption from any state of a run: no worker takes another test, and the process of every test that
  was running is killed unless it had ended.\<close>

lemma interrupted_kills_running:
  assumes "execute_cancelled st process = (st', killed)"
  shows "xe_cancelled st' \<and> list_all (\<lambda>s. s = Returned) (xe_workers st')
    \<and> (\<forall>t. Executing t \<in> set (xe_workers st) \<and> process t = Some None \<longrightarrow> (t, [SIGKILL]) \<in> set killed)
    \<and> \<not> exec_step fail_fast listening st' st''"
proof -
  have st': "xe_cancelled st'" "xe_workers st' = map (\<lambda>_. Returned) (xe_workers st)" using assms by (auto simp: execute_cancelled_def)
  then have all: "\<forall>w<length (xe_workers st'). xe_workers st' ! w = Returned" by simp
  have "\<not> exec_step fail_fast listening st' st''"
  proof
    assume "exec_step fail_fast listening st' st''"
    then show False by cases (use all in auto)
  qed
  moreover have "(t, [SIGKILL]) \<in> set killed" if "Executing t \<in> set (xe_workers st)" "process t = Some None" for t
  proof -
    have "t \<in> set (List.map_filter running_test (xe_workers st))"
      using that(1) by (force simp: List.map_filter_def)
    then have "(t, run_one_cancelled (process t)) \<in> set killed" using assms by (auto simp: execute_cancelled_def)
    then show ?thesis using that(2) by (simp add: run_one_cancelled_def)
  qed
  ultimately show ?thesis using st' by (auto simp: list_all_iff)
qed

subsection \<open>Results and statistics\<close>

lemma failure_summary_bounds: "failure_summary out err \<noteq> [] \<and> length (failure_summary out err) \<le> 1000"
proof -
  define lines where "lines = map py_strip (filter (\<lambda>line. py_strip line \<noteq> []) (splitlines (out @ [CHR 0x0A] @ err)))"
  have summary: "failure_summary out err = (case find blames (rev lines) of Some line \<Rightarrow> take 1000 line
      | None \<Rightarrow> (if lines \<noteq> [] then take 1000 (last lines) else ''test process failed without output''))"
    by (simp only: failure_summary_def Let_def lines_def)
  have ne: "line \<noteq> []" if "line \<in> set lines" for line using that by (auto simp: lines_def)
  show ?thesis
  proof (cases "find blames (rev lines)")
    case None
    then show ?thesis using ne last_in_set [of lines] by (auto simp: summary)
  next
    case (Some line)
    then have "line \<in> set (rev lines)" unfolding find_Some_iff using nth_mem by metis
    then show ?thesis using Some ne by (auto simp: summary)
  qed
qed

text \<open>Functional and bounds. A test counts as passed exactly when its process ended with code 0 in time; a test
  that ended or timed out without passing carries a non-empty failure message of at most 1000 characters;
  the process group is sent signals only after a timeout, \<^verbatim>\<open>SIGKILL\<close> only after \<^verbatim>\<open>SIGTERM\<close>; and the
  environment of the process names the run, the execution, the test and the worker whatever the
  inherited and configured variables are.\<close>

lemma run_one_correct:
  "(xr_status (fst (run_one decode config h run_id t outcome)) = XS_PASSED \<longleftrightarrow> (\<exists>out err. outcome = Ended (Some 0) out err))
   \<and> (xr_status (fst (run_one decode config h run_id t outcome)) = XS_PASSED \<longrightarrow> xr_failure_message (fst (run_one decode config h run_id t outcome)) = [])
   \<and> (xr_status (fst (run_one decode config h run_id t outcome)) \<in> {XS_FAILED, XS_TIMED_OUT} \<longrightarrow>
        xr_failure_message (fst (run_one decode config h run_id t outcome)) \<noteq> []
        \<and> length (xr_failure_message (fst (run_one decode config h run_id t outcome))) \<le> 1000)
   \<and> (snd (run_one decode config h run_id t outcome) \<noteq> [] \<longrightarrow>
        xr_timed_out (fst (run_one decode config h run_id t outcome)) \<and> hd (snd (run_one decode config h run_id t outcome)) = SIGTERM)
   \<and> map_of (test_environment environ config run_id execution_id t) ''CONFLICTGRAPH_TEST_ID'' = Some (sc_test_id t)
   \<and> map_of (test_environment environ config run_id execution_id t) ''CONFLICTGRAPH_EXECUTION_ID'' = Some execution_id"
proof -
  have env: "map_of (test_environment environ config run_id execution_id t) ''CONFLICTGRAPH_TEST_ID'' = Some (sc_test_id t)"
      "map_of (test_environment environ config run_id execution_id t) ''CONFLICTGRAPH_EXECUTION_ID'' = Some execution_id"
    by (simp_all add: test_environment_def dict_update_def)
  show ?thesis
  proof (cases outcome)
    case (Ended code out err)
    then show ?thesis using env
      by (cases code) (auto simp: run_one_def process_result_def finished_result_def Let_def failure_summary_bounds)
  next
    case (Over_Time code grace final)
    then show ?thesis using env
      by (auto simp: run_one_def process_result_def finished_result_def Let_def failure_summary_bounds terminate_def)
  next
    case (Os_Error msg late)
    then show ?thesis using env by (auto simp: run_one_def finished_result_def)
  qed
qed

subsection \<open>Statistics\<close>

definition failures_of :: "string \<Rightarrow> ExecutionResult list \<Rightarrow> ExecutionResult list" where
  "failures_of test rs = filter (\<lambda>r. xr_test_id r = test \<and> xr_status r \<noteq> XS_PASSED) rs"

definition runs_of :: "string \<Rightarrow> ExecutionResult list \<Rightarrow> ExecutionResult list" where
  "runs_of test rs = filter (\<lambda>r. xr_test_id r = test) rs"

lemma update_stat_failures:
  assumes "0 \<le> st_executions item"
  shows "st_executions (update_stat alpha item r) = st_executions item + 1"
    "st_failure_rate (update_stat alpha item r) * real_of_int (st_executions (update_stat alpha item r))
       = st_failure_rate item * real_of_int (st_executions item) + (if xr_status r \<noteq> XS_PASSED then 1 else 0)"
  using assms by (simp_all add: update_stat_def Let_def)

lemma update_stat_duration:
  assumes "0 \<le> alpha" "alpha \<le> 1" "lo \<le> st_duration_ema item" "st_duration_ema item \<le> hi"
    "lo \<le> xr_duration_seconds r" "xr_duration_seconds r \<le> hi"
  shows "lo \<le> st_duration_ema (update_stat alpha item r) \<and> st_duration_ema (update_stat alpha item r) \<le> hi"
proof -
  have "alpha * lo \<le> alpha * xr_duration_seconds r" "(1 - alpha) * lo \<le> (1 - alpha) * st_duration_ema item"
      "alpha * xr_duration_seconds r \<le> alpha * hi" "(1 - alpha) * st_duration_ema item \<le> (1 - alpha) * hi"
    using assms by (simp_all add: mult_left_mono)
  then show ?thesis by (simp add: update_stat_def Let_def algebra_simps)
qed

lemma update_stats_fold:
  assumes "map_of stats test = Some item" "0 \<le> st_executions item" "\<forall>r\<in>set rs. map_of stats (xr_test_id r) \<noteq> None"
  shows "\<exists>stats' item'. update_duration_stats stats rs alpha = (stats', None) \<and> map_of stats' test = Some item'
    \<and> st_executions item' = st_executions item + int (length (runs_of test rs))
    \<and> st_failure_rate item' * real_of_int (st_executions item')
        = st_failure_rate item * real_of_int (st_executions item) + real (length (failures_of test rs))"
  using assms
proof (induction rs arbitrary: stats item)
  case (Cons r rs)
  obtain old where old: "map_of stats (xr_test_id r) = Some old" using Cons.prems(3) by auto
  let ?stats = "AList.update (xr_test_id r) (update_stat alpha old r) stats"
  have known: "\<forall>r\<in>set rs. map_of ?stats (xr_test_id r) \<noteq> None" using Cons.prems(3) by simp
  show ?case
  proof (cases "xr_test_id r = test")
    case True
    then have item: "old = item" using old Cons.prems(1) by simp
    have "map_of ?stats test = Some (update_stat alpha item r)" using True item by simp
    from Cons.IH [OF this _ known] obtain stats' item' where
      "update_duration_stats ?stats rs alpha = (stats', None)" "map_of stats' test = Some item'"
      "st_executions item' = st_executions (update_stat alpha item r) + int (length (runs_of test rs))"
      "st_failure_rate item' * real_of_int (st_executions item')
        = st_failure_rate (update_stat alpha item r) * real_of_int (st_executions (update_stat alpha item r)) + real (length (failures_of test rs))"
      using update_stat_failures(1) [OF Cons.prems(2)] Cons.prems(2) by auto
    then show ?thesis
      using True old update_stat_failures [OF Cons.prems(2), of alpha r]
      by (intro exI [of _ stats'] exI [of _ item']) (simp add: runs_of_def failures_of_def)
  next
    case False
    then have "map_of ?stats test = Some item" using Cons.prems(1) by simp
    from Cons.IH [OF this Cons.prems(2) known] show ?thesis using False old by (simp add: runs_of_def failures_of_def)
  qed
qed (simp add: runs_of_def failures_of_def)

text \<open>Functional. For statistics that count \<open>executions\<close> runs, folding in results of known tests adds exactly
  the test's runs to its count and exactly its runs that did not pass to the product of rate and count,
  so starting from no runs the failure rate is the exact share of failed runs.\<close>

lemma duration_stats_count_failures:
  assumes "map_of stats test = Some item" and "0 \<le> st_executions item"
    and "\<forall>r\<in>set rs. map_of stats (xr_test_id r) \<noteq> None"
  shows "\<exists>stats' item'. update_duration_stats stats rs alpha = (stats', None) \<and> map_of stats' test = Some item'
    \<and> st_executions item' = st_executions item + int (length (runs_of test rs))
    \<and> st_failure_rate item' * real_of_int (st_executions item')
        = st_failure_rate item * real_of_int (st_executions item) + real (length (failures_of test rs))"
  using assms by (rule update_stats_fold)

end
