(* ===== verification/Dataset.thy ===== *)
theory Dataset
  imports Graph_Properties Executor Config
begin

section \<open>Training data (\<^verbatim>\<open>dataset.py\<close>)\<close>

text \<open>
  \<^verbatim>\<open>DatasetBuilder\<close> turns a graph and ground-truth labels into examples, \<^verbatim>\<open>Dataset.save\<close> and
  \<^verbatim>\<open>load\<close> keep them with a content hash, and the two split functions divide the indices into
  training, validation and test sets. Random draws are arguments as in the schedulers (for
  \<^verbatim>\<open>random.sample\<close>, the list of drawn positions); JSON text and the clock are arguments. A loaded
  object is its dictionary of attributes, since \<^verbatim>\<open>PairExample(**value)\<close> checks names, not types.
\<close>

subsection \<open>Data\<close>

record ConflictLabel =
  cl_test_a :: string
  cl_test_b :: string
  cl_conflict :: bool
  cl_cause :: ConflictCause
  cl_confidence :: real
  cl_source :: string

definition ConflictLabel_key :: "ConflictLabel \<Rightarrow> string \<times> string" where
  "ConflictLabel_key label = stable_pair (cl_test_a label) (cl_test_b label)"

record PairExample =
  pe_test_a :: string
  pe_test_b :: string
  pe_features :: "real list"
  pe_label :: int
  pe_confidence :: real
  pe_cause :: string
  pe_split_group :: string
  pe_resources :: "string list"

record DatasetMetadata =
  dm_schema_version :: string
  dm_created_at :: string
  dm_seed :: int
  dm_source_runs :: "string list"
  dm_test_count :: nat
  dm_resource_count :: nat
  dm_example_count :: nat
  dm_positive_examples :: nat
  dm_negative_examples :: nat
  dm_feature_names :: "string list"
  dm_trace_quality :: real
  dm_content_hash :: string

record Dataset =
  ds_examples :: "PairExample list"
  ds_metadata :: DatasetMetadata

definition SCHEMA_VERSION :: string where
  "SCHEMA_VERSION = ''pair-features-v1''"

subsection \<open>Arrays\<close>

text \<open>\<^verbatim>\<open>xs[i]\<close> with a Python index, and a two-dimensional array of rows that must have one length.\<close>

definition py_index :: "'a list \<Rightarrow> int \<Rightarrow> 'a result" where
  "py_index xs i =
     (let j = (if i < 0 then int (length xs) + i else i)
      in if 0 \<le> j \<and> j < int (length xs) then Inr (xs ! nat j) else Inl IndexError)"

definition matrix_of :: "real list list \<Rightarrow> real list list result" where
  "matrix_of rows = (if list_all (\<lambda>row. length row = length (hd rows)) rows then Inr rows else Inl ValueError)"

definition arrays :: "Dataset \<Rightarrow> int list option \<Rightarrow> (real list list \<times> real list \<times> real list) result" where
  "arrays self indices =
     bind_result (case indices of None \<Rightarrow> Inr (ds_examples self) | Some is \<Rightarrow> map_result (py_index (ds_examples self)) is) (\<lambda>selected.
     bind_result (matrix_of (map pe_features selected)) (\<lambda>x.
     Inr (x, map (\<lambda>item. real_of_int (pe_label item)) selected, map pe_confidence selected)))"

subsection \<open>Building\<close>

record DatasetBuilder =
  db_seed :: int
  db_negative_ratio :: "real option"

definition DatasetBuilder_init :: "int \<Rightarrow> real option \<Rightarrow> DatasetBuilder result" where
  "DatasetBuilder_init seed negative_ratio =
     (case negative_ratio of
        Some r \<Rightarrow> (if r < 0 then Inl ValueError else Inr \<lparr>db_seed = seed, db_negative_ratio = Some r\<rparr>)
      | None \<Rightarrow> Inr \<lparr>db_seed = seed, db_negative_ratio = None\<rparr>)"

definition label_index :: "ConflictLabel list \<Rightarrow> (string \<times> string, ConflictLabel) dict" where
  "label_index labels = dict_of (map (\<lambda>label. (ConflictLabel_key label, label)) labels)"

definition split_group_of :: "string \<times> string \<Rightarrow> string" where
  "split_group_of pair = take 16 (sha256_hexdigest (fst pair @ [CHR 0x00] @ snd pair))"

definition example_of :: "ConflictLabel option \<Rightarrow> string \<times> string \<Rightarrow> PairFeatures \<Rightarrow> PairExample" where
  "example_of label pair features =
     \<lparr>pe_test_a = fst pair, pe_test_b = snd pair, pe_features = features_vector features,
      pe_label = (case label of Some l \<Rightarrow> if cl_conflict l then 1 else 0 | None \<Rightarrow> 0),
      pe_confidence = (case label of Some l \<Rightarrow> cl_confidence l | None \<Rightarrow> 0.65),
      pe_cause = ConflictCause_value (case label of Some l \<Rightarrow> cl_cause l | None \<Rightarrow> CC_UNKNOWN),
      pe_split_group = split_group_of pair,
      pe_resources = map ee_resource (pf_evidence features)\<rparr>"

text \<open>The loop over the sorted candidates, in order; \<^verbatim>\<open>pair_features\<close> may add default statistics to
  the graph, so the graph is threaded.\<close>

fun build_examples ::
  "(string \<times> string, ConflictLabel) dict \<Rightarrow> TestResourceGraph \<Rightarrow> (string \<times> string) list
     \<Rightarrow> (PairExample list \<times> TestResourceGraph) result" where
  "build_examples idx graph [] = Inr ([], graph)"
| "build_examples idx graph (pair # pairs) =
     bind_result (pair_features graph (fst pair) (snd pair)) (\<lambda>(features, graph).
       bind_result (build_examples idx graph pairs) (\<lambda>(examples, graph).
         Inr (example_of (map_of idx pair) pair features # examples, graph)))"

definition negative_limit :: "real \<Rightarrow> nat \<Rightarrow> nat \<Rightarrow> nat" where
  "negative_limit ratio positives negatives = nat \<lfloor>max (real positives * ratio) (real (min negatives 32))\<rfloor>"

text \<open>\<^verbatim>\<open>random.Random(seed).sample(xs, k)\<close>: \<open>drawn n k\<close> are the positions drawn from \<open>n\<close>.\<close>

definition py_sample :: "(nat \<Rightarrow> nat \<Rightarrow> nat list) \<Rightarrow> 'a list \<Rightarrow> nat \<Rightarrow> 'a list" where
  "py_sample drawn xs k = map ((!) xs) (drawn (length xs) k)"

definition sample_negatives ::
  "(nat \<Rightarrow> nat \<Rightarrow> nat list) \<Rightarrow> real option \<Rightarrow> nat \<Rightarrow> PairExample list \<Rightarrow> PairExample list" where
  "sample_negatives drawn ratio positives negatives =
     (case ratio of
        None \<Rightarrow> negatives
      | Some r \<Rightarrow>
          let limit = negative_limit r positives (length negatives)
          in if length negatives > limit then py_sample drawn negatives limit else negatives)"

definition build_candidates :: "TestResourceGraph \<Rightarrow> (string \<times> string, ConflictLabel) dict \<Rightarrow> (string \<times> string) list result" where
  "build_candidates graph idx =
     bind_result (candidate_pairs graph True) (\<lambda>pairs. Inr (sorted_list_of_set (set pairs \<union> fst ` set idx)))"

definition build ::
  "(int \<Rightarrow> nat \<Rightarrow> nat \<Rightarrow> nat list) \<Rightarrow> string \<Rightarrow> DatasetBuilder \<Rightarrow> TestResourceGraph \<Rightarrow> ConflictLabel list \<Rightarrow> string list
     \<Rightarrow> TraceQuality option \<Rightarrow> (Dataset \<times> TestResourceGraph) result" where
  "build drawn now self graph labels source_runs trace_quality =
     (let idx = label_index labels
      in bind_result (build_candidates graph idx) (\<lambda>candidates.
         bind_result (build_examples idx graph candidates) (\<lambda>(all_examples, graph).
           let positives = filter (\<lambda>e. pe_label e = 1) all_examples;
               negatives = sample_negatives (drawn (db_seed self)) (db_negative_ratio self) (length positives)
                 (filter (\<lambda>e. pe_label e \<noteq> 1) all_examples);
               examples = sort_key (\<lambda>item. (pe_test_a item, pe_test_b item)) (positives @ negatives)
           in Inr (\<lparr>ds_examples = examples,
                    ds_metadata = \<lparr>dm_schema_version = SCHEMA_VERSION, dm_created_at = now, dm_seed = db_seed self,
                      dm_source_runs = source_runs, dm_test_count = length (gr_tests graph),
                      dm_resource_count = length (gr_resources graph), dm_example_count = length examples,
                      dm_positive_examples = length positives, dm_negative_examples = length negatives,
                      dm_feature_names = FEATURE_NAMES,
                      dm_trace_quality = (case trace_quality of Some q \<Rightarrow> quality_score q | None \<Rightarrow> 1),
                      dm_content_hash = []\<rparr>\<rparr>, graph))))"

subsection \<open>Splits\<close>

record DatasetSplit =
  sp_train :: "int list"
  sp_validation :: "int list"
  sp_test :: "int list"
  sp_strategy :: string

definition groups_at :: "Dataset \<Rightarrow> int list \<Rightarrow> string set" where
  "groups_at dataset indices = (\<lambda>i. pe_split_group (ds_examples dataset ! nat i)) ` set indices"

definition split_validate :: "Dataset \<Rightarrow> DatasetSplit \<Rightarrow> unit result" where
  "split_validate dataset self =
     (let s0 = set (sp_train self); s1 = set (sp_validation self); s2 = set (sp_test self)
      in if s0 \<inter> s1 \<noteq> {} \<or> s0 \<inter> s2 \<noteq> {} \<or> s1 \<inter> s2 \<noteq> {} then Inl ValueError
         else if \<exists>i\<in>s0 \<union> s1 \<union> s2. i < 0 \<or> int (length (ds_examples dataset)) \<le> i then Inl ValueError
         else let g0 = groups_at dataset (sp_train self); g1 = groups_at dataset (sp_validation self);
                  g2 = groups_at dataset (sp_test self)
              in if g0 \<inter> g1 \<noteq> {} \<or> g0 \<inter> g2 \<noteq> {} \<or> g1 \<inter> g2 \<noteq> {} then Inl ValueError else Inr ())"

definition default_append :: "'k \<Rightarrow> 'v \<Rightarrow> ('k, 'v list) dict \<Rightarrow> ('k, 'v list) dict" where
  "default_append k v d = AList.update k (dict_get d k [] @ [v]) d"

fun group_indices :: "nat \<Rightarrow> PairExample list \<Rightarrow> (string, nat list) dict \<Rightarrow> (string, nat list) dict" where
  "group_indices i [] d = d"
| "group_indices i (e # es) d = group_indices (i + 1) es (default_append (pe_split_group e) i d)"

text \<open>\<^verbatim>\<open>min(scores)\<close> over the three buckets: the least pressure, the first bucket on a tie.\<close>

definition bucket_pressure :: "real list \<Rightarrow> nat \<Rightarrow> nat \<Rightarrow> nat list list \<Rightarrow> int list \<Rightarrow> nat \<Rightarrow> real" where
  "bucket_pressure ratios n positive_target buckets positives b =
     real (length (buckets ! b)) / max 1 (real n * ratios ! b)
     + real_of_int (positives ! b) / max 1 (real positive_target * ratios ! b)"

definition choose_bucket :: "real list \<Rightarrow> nat \<Rightarrow> nat \<Rightarrow> nat list list \<Rightarrow> int list \<Rightarrow> nat" where
  "choose_bucket ratios n positive_target buckets positives =
     snd (the (min_by id (map (\<lambda>b. (bucket_pressure ratios n positive_target buckets positives b, b)) [0, 1, 2])))"

fun fill_buckets ::
  "Dataset \<Rightarrow> real list \<Rightarrow> (string, nat list) dict \<Rightarrow> string list \<Rightarrow> nat list list \<Rightarrow> int list \<Rightarrow> nat list list" where
  "fill_buckets dataset ratios by_group [] buckets positives = buckets"
| "fill_buckets dataset ratios by_group (grp # groups) buckets positives =
     (let indices = dict_get by_group grp [];
          group_positives = sum_list (map (\<lambda>i. pe_label (ds_examples dataset ! i)) indices);
          b = choose_bucket ratios (length (ds_examples dataset)) (max 1 (dm_positive_examples (ds_metadata dataset))) buckets positives
      in fill_buckets dataset ratios by_group groups (buckets[b := buckets ! b @ indices])
           (positives[b := positives ! b + group_positives]))"

definition sorted_indices :: "nat list \<Rightarrow> int list" where
  "sorted_indices xs = map int (sort xs)"

definition pair_disjoint_split :: "(int \<Rightarrow> nat \<Rightarrow> nat \<Rightarrow> nat) \<Rightarrow> Dataset \<Rightarrow> int \<Rightarrow> real \<times> real \<times> real \<Rightarrow> DatasetSplit result" where
  "pair_disjoint_split below dataset seed ratios =
     (let (r0, r1, r2) = ratios
      in if \<bar>r0 + r1 + r2 - 1\<bar> > 1 / 10 ^ 9 \<or> r0 \<le> 0 \<or> r1 \<le> 0 \<or> r2 \<le> 0 then Inl ValueError
         else let by_group = group_indices 0 (ds_examples dataset) [];
                  groups = py_shuffle (below seed) (sorted_list_of_set (fst ` set by_group));
                  buckets = fill_buckets dataset [r0, r1, r2] by_group groups [[], [], []] [0, 0, 0];
                  split = \<lparr>sp_train = sorted_indices (buckets ! 0), sp_validation = sorted_indices (buckets ! 1),
                           sp_test = sorted_indices (buckets ! 2), sp_strategy = ''pair-disjoint''\<rparr>
              in bind_result (split_validate dataset split) (\<lambda>_. Inr split))"

definition family_holdout_split :: "(int \<Rightarrow> nat \<Rightarrow> nat \<Rightarrow> nat) \<Rightarrow> Dataset \<Rightarrow> string set \<Rightarrow> int \<Rightarrow> DatasetSplit" where
  "family_holdout_split below dataset held_out_causes seed =
     (let n = length (ds_examples dataset);
          test = filter (\<lambda>i. pe_cause (ds_examples dataset ! i) \<in> held_out_causes) [0..<n];
          remaining = py_shuffle (below seed) (filter (\<lambda>i. i \<notin> set test) [0..<n]);
          validation_size = (if remaining \<noteq> [] then max 1 (nat \<lfloor>real (length remaining) * 0.2\<rfloor>) else 0)
      in \<lparr>sp_train = sorted_indices (drop validation_size remaining),
          sp_validation = sorted_indices (take validation_size remaining),
          sp_test = sorted_indices test, sp_strategy = ''conflict-family-holdout''\<rparr>)"

subsection \<open>Saving and loading\<close>

definition example_row :: "PairExample \<Rightarrow> (string \<times> pyval) list" where
  "example_row e =
     [(''test_a'', PStr (pe_test_a e)), (''test_b'', PStr (pe_test_b e)), (''features'', PList (map PFloat (pe_features e))),
      (''label'', PInt (pe_label e)), (''confidence'', PFloat (pe_confidence e)), (''cause'', PStr (pe_cause e)),
      (''split_group'', PStr (pe_split_group e)), (''resources'', PList (map PStr (pe_resources e)))]"

definition metadata_row :: "DatasetMetadata \<Rightarrow> (string \<times> pyval) list" where
  "metadata_row m =
     [(''schema_version'', PStr (dm_schema_version m)), (''created_at'', PStr (dm_created_at m)), (''seed'', PInt (dm_seed m)),
      (''source_runs'', PList (map PStr (dm_source_runs m))), (''test_count'', PInt (int (dm_test_count m))),
      (''resource_count'', PInt (int (dm_resource_count m))), (''example_count'', PInt (int (dm_example_count m))),
      (''positive_examples'', PInt (int (dm_positive_examples m))), (''negative_examples'', PInt (int (dm_negative_examples m))),
      (''feature_names'', PList (map PStr (dm_feature_names m))), (''trace_quality'', PFloat (dm_trace_quality m)),
      (''content_hash'', PStr (dm_content_hash m))]"

text \<open>The two files a saved dataset consists of (the parquet copy is an export for other tools), and
  the text of the rows: one JSON line each, joined by newlines, with a newline at the end.\<close>

record dataset_files =
  df_metadata :: "string option"
  df_examples :: "string option"

definition rows_payload :: "(pyval \<Rightarrow> string) \<Rightarrow> pyval list \<Rightarrow> string" where
  "rows_payload dumps rows = join_with [CHR 0x0A] (map dumps rows) @ [CHR 0x0A]"

definition Dataset_save :: "(pyval \<Rightarrow> string) \<Rightarrow> (pyval \<Rightarrow> string) \<Rightarrow> Dataset \<Rightarrow> dataset_files \<times> Dataset" where
  "Dataset_save dumps dump_json self =
     (let payload = rows_payload dumps (map (\<lambda>e. PDict (example_row e)) (ds_examples self));
          self = self\<lparr>ds_metadata := (ds_metadata self)\<lparr>dm_content_hash := sha256_hexdigest payload\<rparr>\<rparr>
      in (\<lparr>df_metadata = Some (dump_json (PDict (metadata_row (ds_metadata self)))), df_examples = Some payload\<rparr>, self))"

text \<open>\<^verbatim>\<open>C(**value)\<close> for a dataclass with the required and optional fields given.\<close>

definition dataclass_kwargs :: "string list \<Rightarrow> string list \<Rightarrow> pyval \<Rightarrow> (string \<times> pyval) list result" where
  "dataclass_kwargs required optional v =
     (case v of
        PDict d \<Rightarrow>
          (if list_all (\<lambda>k. map_of d k \<noteq> None) required \<and> list_all (\<lambda>(k, _). k \<in> set required \<union> set optional) d
           then Inr d else Inl TypeError)
      | _ \<Rightarrow> Inl TypeError)"

definition EXAMPLE_FIELDS :: "string list" where
  "EXAMPLE_FIELDS = [''test_a'', ''test_b'', ''features'', ''label'', ''confidence'', ''cause'', ''split_group'', ''resources'']"

definition METADATA_FIELDS :: "string list" where
  "METADATA_FIELDS = [''schema_version'', ''created_at'', ''seed'', ''source_runs'', ''test_count'', ''resource_count'',
     ''example_count'', ''positive_examples'', ''negative_examples'', ''feature_names'', ''trace_quality'']"

text \<open>A missing or unreadable file and text that is not JSON (\<open>loads\<close> fails with \<^verbatim>\<open>ValueError\<close>) raise
  \<^verbatim>\<open>ArtifactError\<close>; metadata that is not an object fails at \<^verbatim>\<open>.get\<close>.\<close>

definition load_text :: "(string \<Rightarrow> pyval result) \<Rightarrow> dataset_files \<Rightarrow> (pyval \<times> pyval list) result" where
  "load_text loads files =
     (case (df_metadata files, df_examples files) of
        (Some metadata_text, Some examples_text) \<Rightarrow>
          (case bind_result (loads metadata_text) (\<lambda>metadata_raw.
                bind_result (map_result loads (filter (\<lambda>line. line \<noteq> []) (splitlines examples_text))) (\<lambda>examples_raw.
                Inr (metadata_raw, examples_raw))) of
             Inl err \<Rightarrow> Inl (if err = ValueError then ArtifactError else err)
           | Inr raw \<Rightarrow> Inr raw)
      | _ \<Rightarrow> Inl ArtifactError)"

definition hash_matches :: "(pyval \<Rightarrow> string) \<Rightarrow> (string \<times> pyval) list \<Rightarrow> pyval list \<Rightarrow> bool" where
  "hash_matches dumps metadata examples_raw =
     (let content_hash = dict_get metadata ''content_hash'' (PStr [])
      in \<not> truthy content_hash \<or> content_hash = PStr (sha256_hexdigest (rows_payload dumps examples_raw)))"

definition Dataset_load ::
  "(string \<Rightarrow> pyval result) \<Rightarrow> (pyval \<Rightarrow> string) \<Rightarrow> dataset_files \<Rightarrow> ((string \<times> pyval) list list \<times> (string \<times> pyval) list) result" where
  "Dataset_load loads dumps files =
     bind_result (load_text loads files) (\<lambda>(metadata_raw, examples_raw).
       case metadata_raw of
         PDict d \<Rightarrow>
           if dict_get d ''schema_version'' PNone \<noteq> PStr SCHEMA_VERSION then Inl ArtifactError
           else bind_result (dataclass_kwargs METADATA_FIELDS [''content_hash''] metadata_raw) (\<lambda>metadata.
             if \<not> hash_matches dumps metadata examples_raw then Inl ArtifactError
             else (case map_result (dataclass_kwargs EXAMPLE_FIELDS []) examples_raw of
                     Inl err \<Rightarrow> Inl (if err = TypeError then ArtifactError else err)
                   | Inr examples \<Rightarrow> Inr (examples, metadata)))
       | _ \<Rightarrow> Inl AttributeError)"

end
