(* ===== verification/Dataset_Properties.thy ===== *)
theory Dataset_Properties
  imports Dataset Recording
begin

section \<open>Properties of the training data\<close>

text \<open>
  Splits partition the indices and never divide a pair group; the built dataset holds one labelled
  example per pair; saving and loading is the identity up to the attribute dictionaries.
\<close>

subsection \<open>Grouping\<close>

abbreviation group_at :: "PairExample list \<Rightarrow> nat \<Rightarrow> string" where
  "group_at es i \<equiv> pe_split_group (es ! i)"

lemma dict_get_append: "dict_get (default_append k v d) g [] = dict_get d g [] @ (if g = k then [v] else [])"
  by (simp add: dict_get_def default_append_def)

lemma group_indices_keys:
  "fst ` set (group_indices i es d) = fst ` set d \<union> pe_split_group ` set es"
  by (induction es arbitrary: i d) (auto simp: default_append_def)

lemma group_indices_get:
  "dict_get (group_indices i es d) g [] = dict_get d g [] @ map ((+) i) (filter (\<lambda>j. group_at es j = g) [0..<length es])"
proof (induction es arbitrary: i d)
  case (Cons e es)
  have "filter (\<lambda>j. group_at (e # es) j = g) [0..<length (e # es)]
      = (if pe_split_group e = g then [0] else []) @ map Suc (filter (\<lambda>j. group_at es j = g) [0..<length es])"
    by (simp add: upt_conv_Cons map_Suc_upt [symmetric] filter_map comp_def del: upt_Suc)
  then show ?case using Cons.IH [of "i + 1" "default_append (pe_split_group e) i d"] by (auto simp: dict_get_append)
qed simp

definition members :: "PairExample list \<Rightarrow> string \<Rightarrow> nat list" where
  "members es g = filter (\<lambda>j. group_at es j = g) [0..<length es]"

lemma by_group_get: "dict_get (group_indices 0 es []) g [] = members es g"
  using group_indices_get [of 0 es "[]" g] by (simp add: dict_get_def members_def map_idI)

lemma mset_groups:
  assumes "finite G" "f ` set xs \<subseteq> G"
  shows "mset xs = (\<Sum>g\<in>G. mset (filter (\<lambda>x. f x = g) xs))"
  using assms
proof (induction xs)
  case (Cons x xs)
  have "(\<Sum>g\<in>G. if f x = g then {#x#} else {#}) = (\<Sum>g\<in>{f x}. {#x#})"
    by (rule sum.mono_neutral_cong_right) (use Cons.prems in auto)
  moreover have "(\<Sum>g\<in>G. mset (filter (\<lambda>y. f y = g) (x # xs)))
      = (\<Sum>g\<in>G. (if f x = g then {#x#} else {#}) + mset (filter (\<lambda>y. f y = g) xs))"
    by (rule sum.cong) auto
  ultimately show ?case using Cons by (simp add: sum.distrib del: mset_filter)
qed simp

subsection \<open>Filling the buckets\<close>

lemma choose_bucket_less: "choose_bucket ratios n t buckets positives < 3"
proof -
  let ?scores = "map (\<lambda>b. (bucket_pressure ratios n t buckets positives b, b)) [0, 1, 2 :: nat]"
  obtain m where m: "min_by id ?scores = Some m" by (simp add: min_by_def)
  then have "m \<in> set ?scores" by (rule min_by_in)
  then show ?thesis using m by (auto simp: choose_bucket_def)
qed

lemma mset_concat_extend: "b < length bs \<Longrightarrow> mset (concat (bs[b := bs ! b @ xs])) = mset (concat bs) + mset xs"
proof (induction bs arbitrary: b)
  case (Cons y ys)
  then show ?case by (cases b) (auto simp: ac_simps)
qed simp

text \<open>The state after one group: its indices go to one of the three buckets.\<close>

lemma fill_buckets_step:
  assumes "length buckets = 3"
  obtains b pos where "b < 3"
    "fill_buckets dataset ratios by_group (grp # groups) buckets positives
       = fill_buckets dataset ratios by_group groups (buckets[b := buckets ! b @ dict_get by_group grp []]) pos"
  using choose_bucket_less by (metis fill_buckets.simps(2))

lemma fill_buckets_mset:
  "length buckets = 3 \<Longrightarrow> length (fill_buckets dataset ratios by_group groups buckets positives) = 3
     \<and> mset (concat (fill_buckets dataset ratios by_group groups buckets positives))
       = mset (concat buckets) + mset (concat (map (\<lambda>g. dict_get by_group g []) groups))"
proof (induction groups arbitrary: buckets positives)
  case (Cons grp groups)
  obtain b pos where b: "b < 3" "fill_buckets dataset ratios by_group (grp # groups) buckets positives
      = fill_buckets dataset ratios by_group groups (buckets[b := buckets ! b @ dict_get by_group grp []]) pos"
    using fill_buckets_step [OF Cons.prems] by blast
  have "length (buckets[b := buckets ! b @ dict_get by_group grp []]) = 3" using Cons.prems by simp
  from Cons.IH [OF this, of pos] show ?case
    using mset_concat_extend [of b buckets] b(1) Cons.prems unfolding b(2) by (simp add: ac_simps)
qed simp

lemma fill_buckets_groups:
  "length buckets = 3 \<Longrightarrow> distinct groups \<Longrightarrow>
     \<exists>f. \<forall>b<3. set (fill_buckets dataset ratios by_group groups buckets positives ! b)
       = set (buckets ! b) \<union> (\<Union>g\<in>{g \<in> set groups. f g = b}. set (dict_get by_group g []))"
proof (induction groups arbitrary: buckets positives)
  case (Cons grp groups)
  obtain c pos where c: "c < 3" "fill_buckets dataset ratios by_group (grp # groups) buckets positives
      = fill_buckets dataset ratios by_group groups (buckets[c := buckets ! c @ dict_get by_group grp []]) pos"
    using fill_buckets_step [OF Cons.prems(1)] by blast
  let ?new = "buckets[c := buckets ! c @ dict_get by_group grp []]"
  have "length ?new = 3" "distinct groups" using Cons.prems by simp_all
  from Cons.IH [OF this, of pos] obtain f where f: "\<And>b. b < 3 \<Longrightarrow> set (fill_buckets dataset ratios by_group groups ?new pos ! b)
      = set (?new ! b) \<union> (\<Union>g\<in>{g \<in> set groups. f g = b}. set (dict_get by_group g []))" by blast
  have "set (fill_buckets dataset ratios by_group (grp # groups) buckets positives ! b)
      = set (buckets ! b) \<union> (\<Union>g\<in>{g \<in> set (grp # groups). (f(grp := c)) g = b}. set (dict_get by_group g []))" if b: "b < 3" for b
  proof -
    have "{g \<in> set (grp # groups). (f(grp := c)) g = b} = (if c = b then {grp} else {}) \<union> {g \<in> set groups. f g = b}"
      using Cons.prems(2) by auto
    moreover have "set (?new ! b) = set (buckets ! b) \<union> (if c = b then set (dict_get by_group grp []) else {})"
      using b Cons.prems(1) by (auto simp: nth_list_update)
    ultimately show ?thesis unfolding c(2) using f [OF b] by (simp add: Un_assoc)
  qed
  then show ?case by blast
qed simp

subsection \<open>Splits\<close>

lemma set_members: "set (members es g) = {i. i < length es \<and> group_at es i = g}"
  by (auto simp: members_def)

lemma mset_members:
  assumes "distinct groups" "set groups = pe_split_group ` set es"
  shows "mset (concat (map (members es) groups)) = mset [0..<length es]"
proof -
  have sub: "group_at es ` set [0..<length es] \<subseteq> set groups" using assms(2) by auto
  have "mset [0..<length es] = (\<Sum>g\<in>set groups. mset (members es g))"
    unfolding members_def by (rule mset_groups [OF finite_set sub])
  also have "\<dots> = (\<Sum>g\<leftarrow>groups. mset (members es g))" by (simp add: sum_list_distinct_conv_sum_set assms(1))
  also have "\<dots> = mset (concat (map (members es) groups))" by (induction groups) simp_all
  finally show ?thesis ..
qed

lemma three_nth: "length xs = 3 \<Longrightarrow> xs = [xs ! 0, xs ! 1, xs ! 2]"
  by (auto simp: list_eq_iff_nth_eq less_Suc_eq numeral_3_eq_3 numeral_2_eq_2 nth_Cons split: nat.splits)

lemma groups_at_sorted: "groups_at dataset (sorted_indices xs) = group_at (ds_examples dataset) ` set xs"
  by (simp add: groups_at_def sorted_indices_def image_image)

lemma groups_apart: "groups_at dataset xs \<inter> groups_at dataset ys = {} \<Longrightarrow> set xs \<inter> set ys = {}"
  unfolding groups_at_def by blast

lemma split_validate_ok:
  assumes "groups_at dataset (sp_train split) \<inter> groups_at dataset (sp_validation split) = {}"
    "groups_at dataset (sp_train split) \<inter> groups_at dataset (sp_test split) = {}"
    "groups_at dataset (sp_validation split) \<inter> groups_at dataset (sp_test split) = {}"
    "\<And>i. i \<in> set (sp_train split) \<union> set (sp_validation split) \<union> set (sp_test split) \<Longrightarrow> 0 \<le> i \<and> i < int (length (ds_examples dataset))"
  shows "split_validate dataset split = Inr ()"
proof -
  have "\<not> (\<exists>i\<in>set (sp_train split) \<union> set (sp_validation split) \<union> set (sp_test split). i < 0 \<or> int (length (ds_examples dataset)) \<le> i)"
    using assms(4) by fastforce
  then show ?thesis
    unfolding split_validate_def Let_def using assms(1-3) assms(1-3) [THEN groups_apart] by simp
qed

lemma pair_disjoint_buckets:
  assumes "distinct groups" "set groups = pe_split_group ` set es" and es: "es = ds_examples dataset"
  shows "\<exists>b0 b1 b2. fill_buckets dataset ratios (group_indices 0 es []) groups [[], [], []] [0, 0, 0] = [b0, b1, b2]
    \<and> mset (b0 @ b1 @ b2) = mset [0..<length es]
    \<and> (\<forall>x\<in>set b0. \<forall>y\<in>set b1. group_at es x \<noteq> group_at es y)
    \<and> (\<forall>x\<in>set b0. \<forall>y\<in>set b2. group_at es x \<noteq> group_at es y)
    \<and> (\<forall>x\<in>set b1. \<forall>y\<in>set b2. group_at es x \<noteq> group_at es y)"
proof -
  define start where "start = [[], [], [] :: nat list]"
  define fill where "fill = fill_buckets dataset ratios (group_indices 0 es []) groups start [0, 0, 0]"
  have three: "length start = 3" and none: "concat start = []" "\<And>b. b < 3 \<Longrightarrow> start ! b = []"
    by (auto simp: start_def less_Suc_eq numeral_3_eq_3)
  have length3: "length fill = 3" and all: "mset (concat fill) = mset [0..<length es]"
    using fill_buckets_mset [OF three, of dataset ratios "group_indices 0 es []" groups "[0, 0, 0]"]
      mset_members [OF assms(1,2)] unfolding fill_def none by_group_get by simp_all
  obtain f where f: "\<forall>b<3. set (fill ! b) = set (start ! b) \<union> (\<Union>g\<in>{g \<in> set groups. f g = b}. set (members es g))"
    using fill_buckets_groups [OF three assms(1), of dataset ratios "group_indices 0 es []" "[0, 0, 0]"]
    unfolding fill_def by_group_get by blast
  have in_bucket: "f (group_at es x) = b" if "b < 3" "x \<in> set (fill ! b)" for b x
  proof -
    have "x \<in> (\<Union>g\<in>{g \<in> set groups. f g = b}. set (members es g))" using f that none(2) by simp
    then show ?thesis by (auto simp: set_members)
  qed
  have apart: "group_at es x \<noteq> group_at es y" if "b < 3" "c < 3" "b \<noteq> c" "x \<in> set (fill ! b)" "y \<in> set (fill ! c)" for b c x y
    using in_bucket [OF that(1,4)] in_bucket [OF that(2,5)] that(3) by auto
  have nth: "fill = [fill ! 0, fill ! 1, fill ! 2]" by (rule three_nth [OF length3])
  then have "concat fill = fill ! 0 @ fill ! 1 @ fill ! 2" by (metis append_Nil2 concat.simps)
  then show ?thesis
    unfolding start_def [symmetric] fill_def [symmetric]
    using nth all apart [of 0 1] apart [of 0 2] apart [of 1 2]
    by (intro exI [of _ "fill ! 0"] exI [of _ "fill ! 1"] exI [of _ "fill ! 2"]) simp
qed

lemma shuffled_groups:
  assumes "draws_below below"
  shows "distinct (py_shuffle below (sorted_list_of_set (fst ` set (group_indices 0 es []))))"
    "set (py_shuffle below (sorted_list_of_set (fst ` set (group_indices 0 es [])))) = pe_split_group ` set es"
proof -
  have keys: "mset (py_shuffle below (sorted_list_of_set (fst ` set (group_indices 0 es []))))
      = mset (sorted_list_of_set (pe_split_group ` set es))"
    using mset_py_shuffle [OF assms] group_indices_keys [of 0 es "[]"] by simp
  show "distinct (py_shuffle below (sorted_list_of_set (fst ` set (group_indices 0 es []))))"
    using keys by (metis distinct_sorted_list_of_set mset_eq_imp_distinct_iff)
  show "set (py_shuffle below (sorted_list_of_set (fst ` set (group_indices 0 es [])))) = pe_split_group ` set es"
    using mset_eq_setD [OF keys] by simp
qed

lemma pair_disjoint_split_returns:
  assumes "draws_below (below seed)" and ratios: "\<bar>r0 + r1 + r2 - 1\<bar> \<le> 1 / 10 ^ 9" "0 < r0" "0 < r1" "0 < r2"
  obtains split where "pair_disjoint_split below dataset seed (r0, r1, r2) = Inr split"
    and "mset (sp_train split @ sp_validation split @ sp_test split) = mset (map int [0..<length (ds_examples dataset)])"
    and "sorted (sp_train split)" and "sorted (sp_validation split)" and "sorted (sp_test split)"
    and "groups_at dataset (sp_train split) \<inter> groups_at dataset (sp_validation split) = {}"
    and "groups_at dataset (sp_train split) \<inter> groups_at dataset (sp_test split) = {}"
    and "groups_at dataset (sp_validation split) \<inter> groups_at dataset (sp_test split) = {}"
proof -
  let ?n = "length (ds_examples dataset)"
  obtain b0 b1 b2 where fill: "fill_buckets dataset [r0, r1, r2] (group_indices 0 (ds_examples dataset) [])
        (py_shuffle (below seed) (sorted_list_of_set (fst ` set (group_indices 0 (ds_examples dataset) []))))
        [[], [], []] [0, 0, 0] = [b0, b1, b2]"
      and all: "mset (b0 @ b1 @ b2) = mset [0..<?n]"
      and apart: "\<forall>x\<in>set b0. \<forall>y\<in>set b1. group_at (ds_examples dataset) x \<noteq> group_at (ds_examples dataset) y"
        "\<forall>x\<in>set b0. \<forall>y\<in>set b2. group_at (ds_examples dataset) x \<noteq> group_at (ds_examples dataset) y"
        "\<forall>x\<in>set b1. \<forall>y\<in>set b2. group_at (ds_examples dataset) x \<noteq> group_at (ds_examples dataset) y"
    using pair_disjoint_buckets [OF shuffled_groups [OF assms(1)] refl, of dataset "[r0, r1, r2]"] by blast
  let ?split = "\<lparr>sp_train = sorted_indices b0, sp_validation = sorted_indices b1, sp_test = sorted_indices b2, sp_strategy = ''pair-disjoint''\<rparr>"
  have disjoint: "groups_at dataset (sorted_indices b0) \<inter> groups_at dataset (sorted_indices b1) = {}"
      "groups_at dataset (sorted_indices b0) \<inter> groups_at dataset (sorted_indices b2) = {}"
      "groups_at dataset (sorted_indices b1) \<inter> groups_at dataset (sorted_indices b2) = {}"
    using apart by (auto simp: groups_at_sorted)
  have range: "set (b0 @ b1 @ b2) = set [0..<?n]" by (rule mset_eq_setD [OF all])
  have "split_validate dataset ?split = Inr ()"
  proof (rule split_validate_ok)
    fix i assume "i \<in> set (sp_train ?split) \<union> set (sp_validation ?split) \<union> set (sp_test ?split)"
    then have "i \<in> int ` set (b0 @ b1 @ b2)" by (auto simp: sorted_indices_def)
    then show "0 \<le> i \<and> i < int ?n" unfolding range by auto
  qed (use disjoint in simp_all)
  then have split: "pair_disjoint_split below dataset seed (r0, r1, r2) = Inr ?split"
    using ratios fill by (simp add: pair_disjoint_split_def Let_def)
  have all: "mset (sorted_indices b0 @ sorted_indices b1 @ sorted_indices b2) = mset (map int [0..<?n])"
    using arg_cong [OF all, of "image_mset int"] by (simp add: sorted_indices_def)
  have "sorted (sorted_indices b)" for b by (simp add: sorted_indices_def sorted_map)
  then show thesis using that [OF split] all disjoint by simp
qed

text \<open>C29: functional and safety. With positive ratios that sum to one, \<^verbatim>\<open>pair_disjoint_split\<close> always
  returns: its three sorted index lists partition the examples, and no pair group has examples in
  two of them, so its own validation never fails; with any other ratios it raises \<^verbatim>\<open>ValueError\<close>.\<close>

theorem pair_disjoint_split_partitions:
  assumes "draws_below (below seed)"
  shows "(if \<bar>r0 + r1 + r2 - 1\<bar> \<le> 1 / 10 ^ 9 \<and> 0 < r0 \<and> 0 < r1 \<and> 0 < r2
     then \<exists>split. pair_disjoint_split below dataset seed (r0, r1, r2) = Inr split
       \<and> mset (sp_train split @ sp_validation split @ sp_test split) = mset (map int [0..<length (ds_examples dataset)])
       \<and> sorted (sp_train split) \<and> sorted (sp_validation split) \<and> sorted (sp_test split)
       \<and> groups_at dataset (sp_train split) \<inter> groups_at dataset (sp_validation split) = {}
       \<and> groups_at dataset (sp_train split) \<inter> groups_at dataset (sp_test split) = {}
       \<and> groups_at dataset (sp_validation split) \<inter> groups_at dataset (sp_test split) = {}
     else pair_disjoint_split below dataset seed (r0, r1, r2) = Inl ValueError)"
proof (cases "\<bar>r0 + r1 + r2 - 1\<bar> \<le> 1 / 10 ^ 9 \<and> 0 < r0 \<and> 0 < r1 \<and> 0 < r2")
  case True
  then have r: "\<bar>r0 + r1 + r2 - 1\<bar> \<le> 1 / 10 ^ 9" "0 < r0" "0 < r1" "0 < r2" by simp_all
  show ?thesis unfolding if_P [OF True]
    by (rule pair_disjoint_split_returns [where dataset = dataset and below = below and seed = seed, OF assms r]) blast
next
  case False
  then show ?thesis by (auto simp: pair_disjoint_split_def)
qed

definition demo_example :: "string \<Rightarrow> PairExample" where
  "demo_example b = \<lparr>pe_test_a = ''a'', pe_test_b = b, pe_features = [], pe_label = 1, pe_confidence = 1, pe_cause = ''UNKNOWN'',
     pe_split_group = b, pe_resources = []\<rparr>"

definition demo_dataset :: Dataset where
  "demo_dataset = \<lparr>ds_examples = [demo_example ''b'', demo_example ''c''],
     ds_metadata = \<lparr>dm_schema_version = SCHEMA_VERSION, dm_created_at = ''now'', dm_seed = 42, dm_source_runs = [], dm_test_count = 3,
       dm_resource_count = 1, dm_example_count = 2, dm_positive_examples = 2, dm_negative_examples = 0,
       dm_feature_names = FEATURE_NAMES, dm_trace_quality = 1, dm_content_hash = []\<rparr>\<rparr>"

theorem pair_disjoint_split_partitions_witness:
  "\<exists>split. pair_disjoint_split (\<lambda>_ _ _. 0) demo_dataset 42 (0.7, 0.15, 0.15) = Inr split
     \<and> mset (sp_train split @ sp_validation split @ sp_test split) = {#0, 1#}"
proof -
  have draws: "draws_below (\<lambda>_ _. 0)" by (simp add: draws_below_def)
  have ratios: "\<bar>(0.7 :: real) + 0.15 + 0.15 - 1\<bar> \<le> 1 / 10 ^ 9 \<and> 0 < (0.7 :: real) \<and> 0 < (0.15 :: real) \<and> 0 < (0.15 :: real)" by simp
  obtain split where
    "pair_disjoint_split (\<lambda>_ _ _. 0) demo_dataset 42 (0.7, 0.15, 0.15) = Inr split"
    "mset (sp_train split @ sp_validation split @ sp_test split) = mset (map int [0..<length (ds_examples demo_dataset)])"
    using pair_disjoint_split_partitions [of "\<lambda>_ _ _. 0" 42 "0.7" "0.15" "0.15" demo_dataset, OF draws]
    unfolding if_P [OF ratios] by blast
  moreover have "map int [0..<length (ds_examples demo_dataset)] = [0, 1]" by (simp add: demo_dataset_def upt_rec)
  ultimately show ?thesis by auto
qed

text \<open>The family holdout is a partition too: exactly the examples of the held-out causes are tested on, and
  the others are divided with at least one example for validation.\<close>

lemma family_holdout_partitions:
  assumes "draws_below (below seed)"
  shows "mset (sp_train (family_holdout_split below dataset causes seed) @ sp_validation (family_holdout_split below dataset causes seed)
        @ sp_test (family_holdout_split below dataset causes seed)) = mset (map int [0..<length (ds_examples dataset)])"
proof -
  let ?n = "length (ds_examples dataset)"
  let ?held = "\<lambda>i. pe_cause (ds_examples dataset ! i) \<in> causes"
  have rest: "filter (\<lambda>i. i \<notin> set (filter ?held [0..<?n])) [0..<?n] = filter (\<lambda>i. \<not> ?held i) [0..<?n]"
    by (rule filter_cong) auto
  have part: "mset (sorted_indices (drop k xs) @ sorted_indices (take k xs) @ sorted_indices ys) = image_mset int (mset xs + mset ys)" for k xs ys
  proof -
    have "mset (drop k xs) + mset (take k xs) = mset xs" by (metis append_take_drop_id mset_append union_commute)
    then show ?thesis by (simp add: sorted_indices_def) (metis image_mset_union union_assoc)
  qed
  have "mset (filter (\<lambda>i. \<not> ?held i) [0..<?n]) + mset (filter ?held [0..<?n]) = mset [0..<?n]"
    using multiset_partition [of "mset [0..<?n]" ?held] by (simp del: mset_upt add: union_commute mset_filter)
  then show ?thesis
    unfolding family_holdout_split_def Let_def rest DatasetSplit.simps part mset_py_shuffle [OF assms] mset_map by (rule arg_cong)
qed

subsection \<open>Saving and loading\<close>

lemma splitlines_break: "\<not> list_ex line_break l \<Longrightarrow> splitlines_from cur (l @ CHR 0x0A # s) = (cur @ l) # splitlines_from [] s"
  by (induction l arbitrary: cur) (auto simp: line_break_def)

lemma splitlines_join:
  "list_all (\<lambda>l. l \<noteq> [] \<and> \<not> list_ex line_break l) ls \<Longrightarrow>
     filter (\<lambda>l. l \<noteq> []) (splitlines (join_with [CHR 0x0A] ls @ [CHR 0x0A])) = ls"
proof (induction ls)
  case Nil
  show ?case by (simp add: splitlines_def line_break_def)
next
  case (Cons l ls)
  show ?case
  proof (cases ls)
    case Nil
    then show ?thesis using Cons.prems splitlines_break [of l "[]" "[]"] by (simp add: splitlines_def)
  next
    case (Cons k ks)
    then have "join_with [CHR 0x0A] (l # ls) @ [CHR 0x0A] = l @ CHR 0x0A # (join_with [CHR 0x0A] ls @ [CHR 0x0A])" by simp
    then show ?thesis
      using Cons.prems \<open>list_all (\<lambda>l. l \<noteq> [] \<and> \<not> list_ex line_break l) (l # ls)\<close> Cons.IH splitlines_break [of l "[]"]
      by (simp add: splitlines_def)
  qed
qed

lemma json_sort_row: "map_of (attributes (json_sort (PDict (example_row e)))) = map_of (example_row e)"
proof -
  have "map (\<lambda>(k, v). (k, json_sort v)) (example_row e) = example_row e" by (simp add: example_row_def comp_def)
  moreover have "distinct (map fst (example_row e))" by (simp add: example_row_def)
  ultimately show ?thesis by (simp add: attributes_def map_of_sorted)
qed

lemma json_sort_metadata: "map_of (attributes (json_sort (PDict (metadata_row m)))) = map_of (metadata_row m)"
proof -
  have "map (\<lambda>(k, v). (k, json_sort v)) (metadata_row m) = metadata_row m" by (simp add: metadata_row_def comp_def)
  moreover have "distinct (map fst (metadata_row m))" by (simp add: metadata_row_def)
  ultimately show ?thesis by (simp add: attributes_def map_of_sorted)
qed

lemma list_all_keys: "list_all (\<lambda>(k, _). P k) d \<longleftrightarrow> (\<forall>k\<in>fst ` set d. P k)"
  by (induction d) auto

lemma kwargs_ok:
  assumes "map_of d = map_of d'" "dataclass_kwargs required optional (PDict d') = Inr d'"
  shows "dataclass_kwargs required optional (PDict d) = Inr d"
proof -
  have keys: "fst ` set d = fst ` set d'" using arg_cong [OF assms(1), of dom] by (simp add: dom_map_of_conv_image_fst)
  have "list_all (\<lambda>k. map_of d' k \<noteq> None) required \<and> (\<forall>k\<in>fst ` set d'. k \<in> set required \<union> set optional)"
    using assms(2) by (simp add: dataclass_kwargs_def list_all_keys split: if_splits)
  then show ?thesis unfolding dataclass_kwargs_def list_all_keys pyval.case assms(1) keys by simp
qed

lemma row_kwargs: "dataclass_kwargs EXAMPLE_FIELDS [] (PDict (example_row e)) = Inr (example_row e)"
    "dataclass_kwargs METADATA_FIELDS [''content_hash''] (PDict (metadata_row m)) = Inr (metadata_row m)"
  by (simp_all add: dataclass_kwargs_def EXAMPLE_FIELDS_def METADATA_FIELDS_def example_row_def metadata_row_def)

text \<open>The JSON of a dataset is written and read back as \<^verbatim>\<open>json\<close> documents it: sorted keys, one line
  per row, the same text for the same value.\<close>

definition json_faithful :: "(string \<Rightarrow> pyval result) \<Rightarrow> (pyval \<Rightarrow> string) \<Rightarrow> pyval \<Rightarrow> bool" where
  "json_faithful loads dumps v \<longleftrightarrow> loads (dumps v) = Inr (json_sort v) \<and> dumps (json_sort v) = dumps v
     \<and> dumps v \<noteq> [] \<and> \<not> list_ex line_break (dumps v)"

lemma rows_payload_read:
  assumes "\<forall>e\<in>set es. json_faithful loads dumps (PDict (example_row e))"
  shows "map_result loads (filter (\<lambda>l. l \<noteq> []) (splitlines (rows_payload dumps (map (\<lambda>e. PDict (example_row e)) es))))
      = Inr (map (\<lambda>e. json_sort (PDict (example_row e))) es)"
    "rows_payload dumps (map (\<lambda>e. json_sort (PDict (example_row e))) es) = rows_payload dumps (map (\<lambda>e. PDict (example_row e)) es)"
proof -
  let ?lines = "map (\<lambda>e. dumps (PDict (example_row e))) es"
  have "list_all (\<lambda>l. l \<noteq> [] \<and> \<not> list_ex line_break l) ?lines"
    using assms unfolding list_all_iff json_faithful_def by auto
  then have "filter (\<lambda>l. l \<noteq> []) (splitlines (rows_payload dumps (map (\<lambda>e. PDict (example_row e)) es))) = ?lines"
    unfolding rows_payload_def map_map comp_def by (rule splitlines_join)
  moreover have "map_result loads ?lines = Inr (map (\<lambda>e. json_sort (PDict (example_row e))) es)"
    using assms by (induction es) (simp_all add: json_faithful_def)
  ultimately show "map_result loads (filter (\<lambda>l. l \<noteq> []) (splitlines (rows_payload dumps (map (\<lambda>e. PDict (example_row e)) es))))
      = Inr (map (\<lambda>e. json_sort (PDict (example_row e))) es)" by simp
  have "map dumps (map (\<lambda>e. json_sort (PDict (example_row e))) es) = map dumps (map (\<lambda>e. PDict (example_row e)) es)"
    using assms unfolding json_faithful_def by simp
  then show "rows_payload dumps (map (\<lambda>e. json_sort (PDict (example_row e))) es) = rows_payload dumps (map (\<lambda>e. PDict (example_row e)) es)"
    unfolding rows_payload_def by (rule arg_cong)
qed

text \<open>C31: round trip. Loading the files a save has written gives every example and the metadata back with exactly
  the saved attributes, and the content hash recorded by the save passes the check of the load.\<close>

theorem saved_dataset_loads:
  assumes "\<forall>e\<in>set (ds_examples ds). json_faithful loads dumps (PDict (example_row e))"
    and "loads (dump_json (PDict (metadata_row (ds_metadata (snd (Dataset_save dumps dump_json ds))))))
      = Inr (json_sort (PDict (metadata_row (ds_metadata (snd (Dataset_save dumps dump_json ds))))))"
    and "dm_schema_version (ds_metadata ds) = SCHEMA_VERSION"
  shows "\<exists>rows meta. Dataset_load loads dumps (fst (Dataset_save dumps dump_json ds)) = Inr (rows, meta)
    \<and> map map_of rows = map (\<lambda>e. map_of (example_row e)) (ds_examples ds)
    \<and> map_of meta = map_of (metadata_row (ds_metadata (snd (Dataset_save dumps dump_json ds))))"
proof -
  let ?es = "ds_examples ds"
  let ?payload = "rows_payload dumps (map (\<lambda>e. PDict (example_row e)) ?es)"
  let ?m = "(ds_metadata ds)\<lparr>dm_content_hash := sha256_hexdigest ?payload\<rparr>"
  have save: "Dataset_save dumps dump_json ds = (\<lparr>df_metadata = Some (dump_json (PDict (metadata_row ?m))), df_examples = Some ?payload\<rparr>,
      ds\<lparr>ds_metadata := ?m\<rparr>)" by (simp add: Dataset_save_def Let_def)
  define meta where "meta = attributes (json_sort (PDict (metadata_row ?m)))"
  define row where "row = (\<lambda>e. attributes (json_sort (PDict (example_row e))))"
  have sorted: "json_sort (PDict (metadata_row ?m)) = PDict meta" "json_sort (PDict (example_row e)) = PDict (row e)" for e
    unfolding meta_def row_def by (rule json_sort_dict)+
  have meta: "map_of meta = map_of (metadata_row ?m)" and row: "map_of (row e) = map_of (example_row e)" for e
    unfolding meta_def row_def by (rule json_sort_metadata, rule json_sort_row)
  have "loads (dump_json (PDict (metadata_row ?m))) = Inr (PDict meta)"
    using assms(2) unfolding save by (simp del: json_sort.simps add: sorted)
  moreover note read = rows_payload_read [OF assms(1), unfolded sorted]
  ultimately have texts: "load_text loads (fst (Dataset_save dumps dump_json ds)) = Inr (PDict meta, map (\<lambda>e. PDict (row e)) ?es)"
    unfolding save load_text_def by simp
  have look: "dict_get meta ''schema_version'' PNone = PStr SCHEMA_VERSION" "dict_get meta ''content_hash'' (PStr []) = PStr (sha256_hexdigest ?payload)"
    using assms(3) by (simp_all add: dict_get_def meta metadata_row_def)
  have hash: "hash_matches dumps meta (map (\<lambda>e. PDict (row e)) ?es)"
    by (simp only: hash_matches_def Let_def look read(2)) simp
  have kwargs: "dataclass_kwargs METADATA_FIELDS [''content_hash''] (PDict meta) = Inr meta"
    by (rule kwargs_ok [OF meta row_kwargs(2)])
  have rows: "map_result (dataclass_kwargs EXAMPLE_FIELDS []) (map (\<lambda>e. PDict (row e)) es) = Inr (map row es)" for es
    by (induction es) (simp_all add: kwargs_ok [OF row row_kwargs(1)])
  have "Dataset_load loads dumps (fst (Dataset_save dumps dump_json ds)) = Inr (map row ?es, meta)"
    unfolding Dataset_load_def texts by (simp add: look(1) kwargs hash rows)
  then show ?thesis using meta row by (intro exI [of _ "map row ?es"] exI [of _ meta]) (simp add: save)
qed

theorem saved_dataset_loads_witness:
  "\<exists>loads meta rows. Dataset_load loads (\<lambda>_. ''r'') (fst (Dataset_save (\<lambda>_. ''r'') (\<lambda>_. ''m'') (demo_dataset\<lparr>ds_examples := [demo_example ''b'']\<rparr>))) = Inr (rows, meta)
    \<and> map map_of rows = [map_of (example_row (demo_example ''b''))]"
proof -
  let ?ds = "demo_dataset\<lparr>ds_examples := [demo_example ''b'']\<rparr>"
  let ?meta = "PDict (metadata_row (ds_metadata (snd (Dataset_save (\<lambda>_. ''r'') (\<lambda>_. ''m'') ?ds))))"
  define loads :: "string \<Rightarrow> pyval result" where
    "loads = (\<lambda>text. if text = ''m'' then Inr (json_sort ?meta) else Inr (json_sort (PDict (example_row (demo_example ''b'')))))"
  have faithful: "\<forall>e\<in>set (ds_examples ?ds). json_faithful loads (\<lambda>_. ''r'') (PDict (example_row e))"
    by (simp add: json_faithful_def loads_def line_break_def)
  have m: "loads ''m'' = Inr (json_sort ?meta)" by (simp only: loads_def if_True refl)
  have v: "dm_schema_version (ds_metadata ?ds) = SCHEMA_VERSION" by (simp add: demo_dataset_def)
  obtain rows meta where "Dataset_load loads (\<lambda>_. ''r'') (fst (Dataset_save (\<lambda>_. ''r'') (\<lambda>_. ''m'') ?ds)) = Inr (rows, meta)"
      "map map_of rows = map (\<lambda>e. map_of (example_row e)) (ds_examples ?ds)"
    using saved_dataset_loads [OF faithful m v] by blast
  then show ?thesis by (intro exI [of _ loads] exI [of _ meta] exI [of _ rows]) simp
qed

text \<open>Errors: metadata that is not an object, or with a missing or unknown field, escapes the handler and
  raises \<^verbatim>\<open>AttributeError\<close> or \<^verbatim>\<open>TypeError\<close>; everything else that is wrong with the files is an
  \<^verbatim>\<open>ArtifactError\<close>.\<close>

lemma dataset_load_errors:
  assumes "\<And>text err. loads text = Inl err \<Longrightarrow> err = ValueError" "Dataset_load loads dumps files = Inl err"
  shows "err = ArtifactError
    \<or> (err = AttributeError \<and> (\<exists>text v. df_metadata files = Some text \<and> loads text = Inr v \<and> (\<forall>d. v \<noteq> PDict d)))
    \<or> (err = TypeError \<and> (\<exists>text d. df_metadata files = Some text \<and> loads text = Inr (PDict d)
          \<and> dataclass_kwargs METADATA_FIELDS [''content_hash''] (PDict d) = Inl TypeError))"
proof -
  have kwargs: "dataclass_kwargs r opt v = Inl e \<Longrightarrow> e = TypeError" for r opt v e
    by (auto simp: dataclass_kwargs_def split: pyval.splits if_splits)
  have rows: "map_result (dataclass_kwargs r opt) vs = Inl e \<Longrightarrow> e = TypeError" for r opt vs e
    by (induction vs) (auto simp: bind_result_eq_Inl dest: kwargs)
  have lines: "map_result loads ts = Inl e \<Longrightarrow> e = ValueError" for ts e
    by (induction ts) (auto simp: bind_result_eq_Inl dest: assms(1))
  have raw: "e = ArtifactError" if "load_text loads files = Inl e" for e
    using that by (auto simp: load_text_def bind_result_eq_Inl split: option.splits sum.splits dest: assms(1) lines)
  show ?thesis
  proof (cases "load_text loads files")
    case (Inr mr)
    obtain v rs where mr: "mr = (v, rs)" by (cases mr)
    have meta: "\<exists>text. df_metadata files = Some text \<and> loads text = Inr v"
      using Inr by (auto simp: load_text_def mr split: option.splits sum.splits)
    show ?thesis
    proof (cases "\<exists>d. v = PDict d")
      case True
      then obtain d where "v = PDict d" by blast
      then show ?thesis using assms(2) meta
        by (auto simp: Dataset_load_def Inr mr bind_result_eq_Inl split: if_splits sum.splits dest: kwargs rows)
    next
      case False
      then have "err = AttributeError" using assms(2) by (cases v) (simp_all add: Dataset_load_def Inr mr)
      then show ?thesis using meta False by blast
    qed
  qed (use assms(2) raw in \<open>simp add: Dataset_load_def\<close>)
qed

subsection \<open>Building\<close>

abbreviation example_pair :: "PairExample \<Rightarrow> string \<times> string" where
  "example_pair e \<equiv> (pe_test_a e, pe_test_b e)"

definition labelled :: "(string \<times> string, ConflictLabel) dict \<Rightarrow> PairExample \<Rightarrow> bool" where
  "labelled idx e \<longleftrightarrow> pe_label e = (case map_of idx (example_pair e) of Some l \<Rightarrow> if cl_conflict l then 1 else 0 | None \<Rightarrow> 0)
     \<and> pe_split_group e = split_group_of (example_pair e)"

lemma build_examples_built:
  assumes "graph_built evs g"
  shows "\<exists>es g'. build_examples idx g pairs = Inr (es, g') \<and> map example_pair es = pairs \<and> list_all (labelled idx) es"
  using assms
proof (induction pairs arbitrary: g)
  case (Cons pair pairs)
  obtain f where f: "pair_features g (fst pair) (snd pair)
      = Inr (f, snd (stats_for (snd (stats_for g (fst (stable_pair (fst pair) (snd pair))))) (snd (stable_pair (fst pair) (snd pair)))))"
    using pair_features_built [OF Cons.prems] by blast
  obtain es g' where es: "build_examples idx (snd (stats_for (snd (stats_for g (fst (stable_pair (fst pair) (snd pair))))) (snd (stable_pair (fst pair) (snd pair))))) pairs = Inr (es, g')"
      "map example_pair es = pairs" "list_all (labelled idx) es"
    using Cons.IH [OF stats_for_built [OF stats_for_built [OF Cons.prems]]] by blast
  let ?e = "example_of (map_of idx pair) pair f"
  have "example_pair ?e = pair" by (simp add: example_of_def)
  moreover have "labelled idx ?e" by (simp add: labelled_def example_of_def)
  ultimately show ?case using f es by (intro exI [of _ "?e # es"] exI [of _ g']) simp
qed simp

lemma build_returns:
  assumes "graph_built evs g" and "gr_pair_history g = []"
  obtains ds g' where "build drawn now self g labels runs quality = Inr (ds, g')"
proof -
  obtain pairs where pairs: "candidate_pairs g True = Inr pairs" using candidate_pairs_built [OF assms(1), of True] assms(2) by auto
  show thesis
    using build_examples_built [OF assms(1), of "label_index labels" "sorted_list_of_set (set pairs \<union> fst ` set (label_index labels))"] that pairs
    by (auto simp: build_def build_candidates_def Let_def)
qed

definition draws_distinct :: "(nat \<Rightarrow> nat \<Rightarrow> nat list) \<Rightarrow> bool" where
  "draws_distinct drawn \<longleftrightarrow> (\<forall>n k. k \<le> n \<longrightarrow> distinct (drawn n k) \<and> set (drawn n k) \<subseteq> {..<n} \<and> length (drawn n k) = k)"

lemma negative_limit_le: "real (negative_limit r p n) \<le> max (real p * r) 32"
proof -
  let ?x = "max (real p * r) (real (min n 32))"
  have "0 \<le> ?x" by (simp add: le_max_iff_disj)
  then have "real (negative_limit r p n) \<le> ?x" by (simp add: negative_limit_def)
  also have "\<dots> \<le> max (real p * r) 32" by (intro max.mono) simp_all
  finally show ?thesis .
qed

lemma sample_negatives_sub:
  assumes "draws_distinct drawn" "distinct (map f xs)"
  shows "set (sample_negatives drawn ratio p xs) \<subseteq> set xs" "distinct (map f (sample_negatives drawn ratio p xs))"
    "ratio = Some r \<Longrightarrow> length (sample_negatives drawn ratio p xs) \<le> negative_limit r p (length xs)"
    "ratio = None \<Longrightarrow> sample_negatives drawn ratio p xs = xs"
proof -
  have draw: "distinct (drawn n k)" "set (drawn n k) \<subseteq> {..<n}" "length (drawn n k) = k" if "k \<le> n" for n k
    using assms(1) that by (auto simp: draws_distinct_def)
  have sub: "set (py_sample drawn xs k) \<subseteq> set xs" "distinct (map f (py_sample drawn xs k))" "length (py_sample drawn xs k) = k"
    if k: "k \<le> length xs" for k
  proof -
    show "set (py_sample drawn xs k) \<subseteq> set xs" using draw(2) [OF k] by (auto simp: py_sample_def)
    have "inj_on ((!) (map f xs)) {..<length xs}" using inj_on_nth [OF assms(2)] by simp
    then have "distinct (map ((!) (map f xs)) (drawn (length xs) k))"
      using draw [OF k] by (auto simp: distinct_map intro: inj_on_subset)
    moreover have "map ((!) (map f xs)) (drawn (length xs) k) = map f (py_sample drawn xs k)"
      using draw(2) [OF k] by (auto simp: py_sample_def)
    ultimately show "distinct (map f (py_sample drawn xs k))" by simp
    show "length (py_sample drawn xs k) = k" using draw(3) [OF k] by (simp add: py_sample_def)
  qed
  show "set (sample_negatives drawn ratio p xs) \<subseteq> set xs" "distinct (map f (sample_negatives drawn ratio p xs))"
    using sub assms(2) by (auto simp: sample_negatives_def Let_def split: option.splits)
  show "length (sample_negatives drawn ratio p xs) \<le> negative_limit r p (length xs)" if "ratio = Some r"
    using sub(3) that by (auto simp: sample_negatives_def Let_def)
  show "sample_negatives drawn ratio p xs = xs" if "ratio = None" using that by (simp add: sample_negatives_def)
qed


lemma add_event_history: "gr_pair_history (add_event g e) = gr_pair_history g"
  by (simp add: add_event_def Let_def add_test_def split: option.splits)


end
