(* ===== verification/Metrics.thy ===== *)
theory Metrics
  imports Prelude
begin

section \<open>Metrics (\<^verbatim>\<open>metrics.py\<close>)\<close>

text \<open>
  Arrays are lists of exact reals. The scores of scikit-learn are arguments when it is installed;
  without it the module's own average precision and area under the curve are used. The order
  \<^verbatim>\<open>np.argsort\<close> gives ties and the positions the bootstrap draws are the host's and are arguments.
\<close>

subsection \<open>Definitions\<close>

record ClassificationMetrics =
  cm_pr_auc :: real
  cm_roc_auc :: real
  cm_precision :: real
  cm_recall :: real
  cm_f1 :: real
  cm_brier_score :: real
  cm_expected_calibration_error :: real
  cm_threshold :: real
  cm_confusion_matrix :: "nat list list"

definition mean :: "real list \<Rightarrow> real" where
  "mean xs = sum_list xs / real (length xs)"

definition in_bin :: "nat \<Rightarrow> nat \<Rightarrow> real \<Rightarrow> bool" where
  "in_bin bins index p \<longleftrightarrow>
     real index / real bins \<le> p
     \<and> (if index < bins - 1 then p < real (index + 1) / real bins else p \<le> real (index + 1) / real bins)"

definition bin_error :: "nat \<Rightarrow> (real \<times> real) list \<Rightarrow> real" where
  "bin_error n members =
     (if members = [] then 0
      else real (length members) / real n * \<bar>mean (map fst members) - mean (map snd members)\<bar>)"

definition expected_calibration_error :: "real list \<Rightarrow> real list \<Rightarrow> int \<Rightarrow> real result" where
  "expected_calibration_error labels probabilities bins =
     (if bins \<le> 0 then Inl ValueError
      else if length labels \<noteq> length probabilities then Inl ValueError
      else if labels = [] then Inr 0
      else Inr (sum_list (map (\<lambda>index. bin_error (length labels)
                  (filter (\<lambda>(y, p). in_bin (nat bins) index p) (zip labels probabilities))) [0..<nat bins])))"

fun precision_sum :: "real list \<Rightarrow> nat \<Rightarrow> nat \<Rightarrow> nat list \<Rightarrow> real" where
  "precision_sum labels rank hits [] = 0"
| "precision_sum labels rank hits (index # order) =
     (if labels ! index \<noteq> 0 then real (hits + 1) / real rank + precision_sum labels (rank + 1) (hits + 1) order
      else precision_sum labels (rank + 1) hits order)"

definition average_precision :: "(real list \<Rightarrow> nat list) \<Rightarrow> real list \<Rightarrow> real list \<Rightarrow> real" where
  "average_precision argsort labels probabilities =
     (let positive = \<lfloor>sum_list labels\<rfloor>
      in if positive = 0 then 0
         else precision_sum labels 1 0 (argsort (map uminus probabilities)) / real_of_int positive)"

definition roc_auc :: "real list \<Rightarrow> real list \<Rightarrow> real" where
  "roc_auc labels probabilities =
     (let positive = map snd (filter (\<lambda>(y, p). y = 1) (zip labels probabilities));
          negative = map snd (filter (\<lambda>(y, p). y = 0) (zip labels probabilities))
      in if positive = [] \<or> negative = [] then 0.5
         else sum_list (concat (map (\<lambda>left. map (\<lambda>right. (if left > right then 1 else 0) + 0.5 * (if left = right then 1 else 0)) negative) positive))
              / real (length positive * length negative))"

text \<open>\<open>sklearn\<close> is the pair of \<^verbatim>\<open>average_precision_score\<close> and \<^verbatim>\<open>roc_auc_score\<close>, if installed.\<close>

definition tally :: "real \<Rightarrow> real \<Rightarrow> bool \<Rightarrow> (real \<times> real) list \<Rightarrow> nat" where
  "tally threshold label predicted yp = length (filter (\<lambda>(y, p). y = label \<and> (p \<ge> threshold) = predicted) yp)"

definition ratio_or_zero :: "real \<Rightarrow> real \<Rightarrow> real" where
  "ratio_or_zero a b = (if b \<noteq> 0 then a / b else 0)"

definition classification_metrics ::
  "((real list \<Rightarrow> real list \<Rightarrow> real) \<times> (real list \<Rightarrow> real list \<Rightarrow> real)) option \<Rightarrow> (real list \<Rightarrow> nat list)
     \<Rightarrow> real list \<Rightarrow> real list \<Rightarrow> real \<Rightarrow> ClassificationMetrics result" where
  "classification_metrics sklearn argsort y probabilities threshold =
     (let p = map (\<lambda>x. min 1 (max 0 x)) probabilities
      in if length y \<noteq> length p then Inl ValueError
         else
           let yp = zip y p;
               tp = tally threshold 1 True yp; fp = tally threshold 0 True yp;
               tn = tally threshold 0 False yp; fn = tally threshold 1 False yp;
               precision = ratio_or_zero (real tp) (real (tp + fp));
               recall = ratio_or_zero (real tp) (real (tp + fn));
               f1 = ratio_or_zero (2 * precision * recall) (precision + recall);
               (pr, roc) = (case sklearn of
                   Some (average_precision_score, roc_auc_score) \<Rightarrow>
                     (if y \<noteq> [] then average_precision_score y p else 0, if card (set y) > 1 then roc_auc_score y p else 0.5)
                 | None \<Rightarrow> (average_precision argsort y p, roc_auc y p))
           in bind_result (expected_calibration_error y p 10) (\<lambda>ece.
                Inr \<lparr>cm_pr_auc = pr, cm_roc_auc = roc, cm_precision = precision, cm_recall = recall, cm_f1 = f1,
                     cm_brier_score = (if y \<noteq> [] then mean (map (\<lambda>(y, p). (p - y) ^ 2) yp) else 0),
                     cm_expected_calibration_error = ece, cm_threshold = threshold,
                     cm_confusion_matrix = [[tn, fp], [fn, tp]]\<rparr>))"

text \<open>\<^verbatim>\<open>np.quantile\<close> with its default linear interpolation, and the bootstrap over the drawn rows of
  positions.\<close>

definition quantile :: "real list \<Rightarrow> real \<Rightarrow> real" where
  "quantile xs q =
     (let s = sort xs; pos = q * real (length xs - 1); low = nat \<lfloor>pos\<rfloor>; high = min (low + 1) (length xs - 1);
          frac = pos - real low
      in s ! low + frac * (s ! high - s ! low))"

definition bootstrap_interval ::
  "(int \<Rightarrow> nat \<Rightarrow> nat \<Rightarrow> nat list list) \<Rightarrow> real list \<Rightarrow> int \<Rightarrow> real \<Rightarrow> int \<Rightarrow> (real \<times> real) result" where
  "bootstrap_interval choice values seed confidence samples =
     (if \<not> (0 < confidence \<and> confidence < 1) then Inl ValueError
      else if samples \<le> 0 then Inl ValueError
      else if values = [] then Inr (0, 0)
      else let means = map (\<lambda>row. mean (map ((!) values) row)) (choice seed (nat samples) (length values));
               tail = (1 - confidence) / 2
           in Inr (quantile means tail, quantile means (1 - tail)))"

subsection \<open>Calibration error\<close>

lemma in_bin_unique:
  assumes "in_bin bins i p" "in_bin bins j p" "i < bins" "j < bins"
  shows "i = j"
proof -
  have "\<not> i < j" if "in_bin bins i p" "in_bin bins j p" "j < bins" for i j
  proof
    assume ij: "i < j"
    then have "p < real (i + 1) / real bins" using that by (auto simp: in_bin_def split: if_splits)
    also have "\<dots> \<le> real j / real bins" using ij by (intro divide_right_mono) auto
    also have "\<dots> \<le> p" using that(2) by (simp add: in_bin_def)
    finally show False by simp
  qed
  then show ?thesis using assms by (metis linorder_neqE_nat)
qed

lemma bins_count:
  "(\<Sum>i<bins. length (filter (\<lambda>(y, p). in_bin bins i p) yp)) \<le> length yp"
proof (induction yp)
  case (Cons x yp)
  obtain y p where x: "x = (y, p)" by (cases x)
  have "(\<Sum>i<bins. if in_bin bins i p then 1 else 0 :: nat) = card {i. i < bins \<and> in_bin bins i p}"
    by (simp add: sum.If_cases Int_def)
  also have "\<dots> \<le> 1" using card_le_Suc0_iff_eq [of "{i. i < bins \<and> in_bin bins i p}"] in_bin_unique by auto
  finally have one: "(\<Sum>i<bins. if in_bin bins i p then 1 else 0 :: nat) \<le> 1" .
  have "(\<Sum>i<bins. length (filter (\<lambda>(y, p). in_bin bins i p) (x # yp)))
      = (\<Sum>i<bins. (if in_bin bins i p then 1 else 0) + length (filter (\<lambda>(y, p). in_bin bins i p) yp))"
    by (rule sum.cong) (auto simp: x)
  also have "\<dots> \<le> 1 + length yp" using one Cons by (simp add: sum.distrib)
  finally show ?case by simp
qed simp

lemma mean_bounds: "xs \<noteq> [] \<Longrightarrow> (\<And>x. x \<in> set xs \<Longrightarrow> lo \<le> x \<and> x \<le> hi) \<Longrightarrow> lo \<le> mean xs \<and> mean xs \<le> hi"
proof -
  assume xs: "xs \<noteq> []" "\<And>x. x \<in> set xs \<Longrightarrow> lo \<le> x \<and> x \<le> hi"
  have "real (length xs) * lo \<le> sum_list xs \<and> sum_list xs \<le> real (length xs) * hi"
    using xs(2)
  proof (induction xs)
    case (Cons a xs)
    have "real (length xs) * lo \<le> sum_list xs \<and> sum_list xs \<le> real (length xs) * hi" using Cons by simp
    moreover have "lo \<le> a" "a \<le> hi" using Cons.prems by simp_all
    ultimately show ?case by (simp add: algebra_simps)
  qed simp
  moreover have "0 < real (length xs)" using xs(1) by simp
  ultimately show ?thesis by (simp add: mean_def pos_le_divide_eq pos_divide_le_eq mult.commute)
qed

lemma bin_error_bounds:
  assumes "\<And>y p. (y, p) \<in> set ms \<Longrightarrow> 0 \<le> y \<and> y \<le> 1 \<and> 0 \<le> p \<and> p \<le> 1"
  shows "0 \<le> bin_error n ms \<and> bin_error n ms \<le> real (length ms) / real n"
proof (cases "ms = []")
  case False
  have "0 \<le> mean (map fst ms) \<and> mean (map fst ms) \<le> 1" "0 \<le> mean (map snd ms) \<and> mean (map snd ms) \<le> 1"
    using assms False by (auto intro!: mean_bounds)
  then have "\<bar>mean (map fst ms) - mean (map snd ms)\<bar> \<le> 1" by auto
  then have "real (length ms) / real n * \<bar>mean (map fst ms) - mean (map snd ms)\<bar> \<le> real (length ms) / real n * 1"
    by (intro mult_left_mono) simp_all
  then show ?thesis using False by (simp add: bin_error_def)
qed (simp add: bin_error_def)

lemma calibration_bounds:
  assumes "length ys = length ps" "0 < bins" "\<And>y. y \<in> set ys \<Longrightarrow> 0 \<le> y \<and> y \<le> 1" "\<And>p. p \<in> set ps \<Longrightarrow> 0 \<le> p \<and> p \<le> 1"
  shows "\<exists>e. expected_calibration_error ys ps bins = Inr e \<and> 0 \<le> e \<and> e \<le> 1"
proof (cases "ys = []")
  case False
  let ?n = "length ys" and ?b = "nat bins"
  let ?ms = "\<lambda>i. filter (\<lambda>(y, p). in_bin ?b i p) (zip ys ps)"
  have b: "0 \<le> bin_error ?n (?ms i) \<and> bin_error ?n (?ms i) \<le> real (length (?ms i)) / real ?n" for i
    using assms(3,4) by (intro bin_error_bounds) (auto dest: set_zip_leftD set_zip_rightD)
  have "(\<Sum>i<?b. bin_error ?n (?ms i)) \<le> (\<Sum>i<?b. real (length (?ms i)) / real ?n)" using b by (intro sum_mono) auto
  also have "\<dots> = real (\<Sum>i<?b. length (?ms i)) / real ?n" by (simp add: sum_divide_distrib)
  also have "\<dots> \<le> real ?n / real ?n"
    using bins_count [of ?b "zip ys ps"] assms(1) by (intro divide_right_mono of_nat_mono) simp_all
  finally have "(\<Sum>i<?b. bin_error ?n (?ms i)) \<le> 1" using False by simp
  moreover have "0 \<le> (\<Sum>i<?b. bin_error ?n (?ms i))" using b by (intro sum_nonneg) auto
  moreover have "expected_calibration_error ys ps bins = Inr (\<Sum>i<?b. bin_error ?n (?ms i))"
    using False assms(1,2) by (simp add: expected_calibration_error_def interv_sum_list_conv_sum_set_nat atLeast0LessThan)
  ultimately show ?thesis by blast
qed (use assms in \<open>simp add: expected_calibration_error_def\<close>)

subsection \<open>Ratios and ranks\<close>

lemma ratio_unit: "0 \<le> a \<Longrightarrow> a \<le> b \<Longrightarrow> 0 \<le> ratio_or_zero a b \<and> ratio_or_zero a b \<le> 1"
  by (auto simp: ratio_or_zero_def)

lemma f1_unit:
  assumes "0 \<le> p" "p \<le> 1" "0 \<le> r" "r \<le> 1"
  shows "0 \<le> ratio_or_zero (2 * p * r) (p + r) \<and> ratio_or_zero (2 * p * r) (p + r) \<le> 1"
proof (rule ratio_unit)
  have "p * r \<le> p" "p * r \<le> r" using assms by (simp_all add: mult_left_le mult_left_le_one_le)
  then show "2 * p * r \<le> p + r" by simp
  show "0 \<le> 2 * p * r" using assms by simp
qed

lemma sum_list_bounds:
  "(\<And>x. x \<in> set xs \<Longrightarrow> 0 \<le> x \<and> x \<le> (1 :: real)) \<Longrightarrow> 0 \<le> sum_list xs \<and> sum_list xs \<le> real (length xs)"
proof (induction xs)
  case (Cons a xs)
  have "0 \<le> a \<and> a \<le> 1" "0 \<le> sum_list xs \<and> sum_list xs \<le> real (length xs)" using Cons by simp_all
  then show ?case by simp
qed simp

lemma wins_bounds:
  assumes "\<And>l r. 0 \<le> score l r \<and> score l r \<le> (1 :: real)"
  shows "0 \<le> sum_list (concat (map (\<lambda>l. map (score l) neg) pos))
    \<and> sum_list (concat (map (\<lambda>l. map (score l) neg) pos)) \<le> real (length pos * length neg)"
proof (induction pos)
  case (Cons l pos)
  have "0 \<le> sum_list (map (score l) neg) \<and> sum_list (map (score l) neg) \<le> real (length (map (score l) neg))"
    using assms by (intro sum_list_bounds) auto
  then show ?case using Cons by simp
qed simp

lemma roc_auc_unit: "0 \<le> roc_auc ys ps \<and> roc_auc ys ps \<le> 1"
proof -
  define score :: "real \<Rightarrow> real \<Rightarrow> real" where
    "score = (\<lambda>left right. (if left > right then 1 else 0) + 0.5 * (if left = right then 1 else 0))"
  define pos where "pos = map snd (filter (\<lambda>(y, p). y = 1) (zip ys ps))"
  define neg where "neg = map snd (filter (\<lambda>(y, p). y = 0) (zip ys ps))"
  let ?wins = "sum_list (concat (map (\<lambda>l. map (score l) neg) pos))"
  have roc: "roc_auc ys ps = (if pos = [] \<or> neg = [] then 0.5 else ?wins / real (length pos * length neg))"
    by (simp only: roc_auc_def Let_def score_def pos_def neg_def)
  have "0 \<le> ?wins \<and> ?wins \<le> real (length pos * length neg)" by (rule wins_bounds) (simp add: score_def)
  then have "0 \<le> ?wins / real (length pos * length neg) \<and> ?wins / real (length pos * length neg) \<le> 1"
    by (auto simp: divide_le_eq_1 zero_less_mult_iff)
  then show ?thesis by (simp add: roc)
qed

lemma tally_total:
  "list_all (\<lambda>(y, p). y = 0 \<or> y = 1) yp \<Longrightarrow>
     tally t 1 True yp + tally t 0 True yp + tally t 0 False yp + tally t 1 False yp = length yp"
  by (induction yp) (auto simp: tally_def)

subsection \<open>Quantiles\<close>

lemma quantile_bounds:
  assumes "xs \<noteq> []" "0 \<le> q" "q \<le> 1" "\<And>x. x \<in> set xs \<Longrightarrow> lo \<le> x \<and> x \<le> hi"
  shows "lo \<le> quantile xs q \<and> quantile xs q \<le> hi"
proof -
  define n where "n = length xs - 1"
  define pos where "pos = q * real n"
  define low where "low = nat \<lfloor>pos\<rfloor>"
  define f where "f = pos - real low"
  have "0 \<le> pos" "pos \<le> real n" using assms(2,3) by (auto simp: pos_def mult_left_le_one_le)
  then have f: "0 \<le> f" "f \<le> 1" and low: "low \<le> n" unfolding f_def low_def by linarith+
  have in_range: "lo \<le> sort xs ! i \<and> sort xs ! i \<le> hi" if "i \<le> n" for i
  proof -
    have "i < length (sort xs)" using that assms(1) by (cases xs) (simp_all add: n_def)
    then have "sort xs ! i \<in> set (sort xs)" by (rule nth_mem)
    then show ?thesis using assms(4) by simp
  qed
  let ?a = "sort xs ! low" and ?b = "sort xs ! min (low + 1) n"
  have ab: "lo \<le> ?a \<and> ?a \<le> hi" "lo \<le> ?b \<and> ?b \<le> hi" using in_range low by simp_all
  have "(1 - f) * lo + f * lo \<le> (1 - f) * ?a + f * ?b" "(1 - f) * ?a + f * ?b \<le> (1 - f) * hi + f * hi"
    using ab f by (auto intro!: add_mono mult_left_mono)
  then have "lo \<le> ?a + f * (?b - ?a) \<and> ?a + f * (?b - ?a) \<le> hi" by (simp add: algebra_simps)
  then show ?thesis unfolding quantile_def Let_def n_def [symmetric] pos_def [symmetric] low_def [symmetric] f_def [symmetric] .
qed

lemma bootstrap_bounds:
  assumes "bootstrap_interval choice values seed confidence samples = Inr (lower, upper)" and "values \<noteq> []"
    and "choice seed (nat samples) (length values) \<noteq> []"
    and "\<And>row i. row \<in> set (choice seed (nat samples) (length values)) \<Longrightarrow> row \<noteq> [] \<and> (i \<in> set row \<longrightarrow> i < length values)"
    and "\<And>x. x \<in> set values \<Longrightarrow> lo \<le> x \<and> x \<le> hi"
  shows "lo \<le> lower \<and> lower \<le> hi \<and> lo \<le> upper \<and> upper \<le> hi"
proof -
  let ?means = "map (\<lambda>row. mean (map ((!) values) row)) (choice seed (nat samples) (length values))"
  have c: "0 < confidence" "confidence < 1" and lower: "lower = quantile ?means ((1 - confidence) / 2)"
      and upper: "upper = quantile ?means (1 - (1 - confidence) / 2)"
    using assms(1,2) by (auto simp: bootstrap_interval_def Let_def split: if_splits)
  have "lo \<le> m \<and> m \<le> hi" if m: "m \<in> set ?means" for m
  proof -
    obtain row where row: "row \<in> set (choice seed (nat samples) (length values))" "m = mean (map ((!) values) row)" using m by auto
    then show ?thesis using assms(4,5) by (auto intro!: mean_bounds)
  qed
  note bounds = quantile_bounds [of ?means, OF _ _ _ this]
  have "?means \<noteq> []" using assms(3) by simp
  then show ?thesis
    unfolding lower upper using bounds [of "(1 - confidence) / 2"] bounds [of "1 - (1 - confidence) / 2"] c by auto
qed

subsection \<open>Properties\<close>



end
