(* ===== verification/Storage.thy ===== *)
theory Storage
  imports Recording
begin

section \<open>The artifact store (\<^verbatim>\<open>ArtifactStore\<close> of \<^verbatim>\<open>storage.py\<close>)\<close>

text \<open>
  The files below the root of the store, by category directory and file name, each with its text and
  modification time. A save writes a temporary file and renames it over the target; it holds the
  lock, so it is one operation. JSON text and the clock are arguments. The interface the rest of
  the system relies on is the locale \<open>document_store\<close>.
\<close>

subsection \<open>Operations\<close>

record ArtifactStore =
  as_files :: "(string \<times> string, string \<times> int) dict"
  as_directories :: "string set"

definition ArtifactStore_init :: ArtifactStore where
  "ArtifactStore_init = \<lparr>as_files = [], as_directories = {}\<rparr>"

definition safe_segment :: "string \<Rightarrow> string result" where
  "safe_segment value =
     (let safe = filter (\<lambda>character. is_alnum character \<or> character \<in> set ''-_'') value
      in if safe = [] \<or> safe \<noteq> value then Inl StorageError else Inr safe)"

text \<open>\<^verbatim>\<open>with_suffix\<close> replaces the text from the last dot; \<^verbatim>\<open>Path.replace\<close> moves a file over another.\<close>

definition with_suffix :: "string \<Rightarrow> string \<Rightarrow> string" where
  "with_suffix name ext =
     (case rpartition_char (CHR ''.'') name of (stem, found, _) \<Rightarrow> (if found \<and> stem \<noteq> [] then stem else name) @ ext)"

definition write_file :: "ArtifactStore \<Rightarrow> string \<times> string \<Rightarrow> string \<Rightarrow> int \<Rightarrow> ArtifactStore" where
  "write_file self path content now = self\<lparr>as_files := AList.update path (content, now) (as_files self)\<rparr>"

definition move_file :: "ArtifactStore \<Rightarrow> string \<times> string \<Rightarrow> string \<times> string \<Rightarrow> ArtifactStore" where
  "move_file self source target =
     (case map_of (as_files self) source of
        None \<Rightarrow> self
      | Some f \<Rightarrow> self\<lparr>as_files := AList.update target f (AList.delete source (as_files self))\<rparr>)"

definition save :: "(pyval \<Rightarrow> string) \<Rightarrow> int \<Rightarrow> ArtifactStore \<Rightarrow> string \<Rightarrow> string \<Rightarrow> pyval \<Rightarrow> (ArtifactStore \<times> (string \<times> string)) result" where
  "save dumps now self category identifier value =
     bind_result (safe_segment category) (\<lambda>category.
     bind_result (safe_segment identifier) (\<lambda>identifier.
       let path = (category, identifier @ ''.json'');
           temporary = (category, with_suffix (identifier @ ''.json'') ''.tmp'');
           self = self\<lparr>as_directories := insert category (as_directories self)\<rparr>;
           self = write_file self temporary (dumps value @ [CHR 0x0A]) now
       in Inr (move_file self temporary path, path)))"

text \<open>Reading a document: text that is not JSON, or JSON that is not an object, is a corrupt artifact.\<close>

definition read_document :: "(string \<Rightarrow> pyval result) \<Rightarrow> string \<Rightarrow> (string \<times> pyval) list result" where
  "read_document loads content =
     (case loads content of
        Inl err \<Rightarrow> Inl (if err = ValueError then StorageError else err)
      | Inr (PDict d) \<Rightarrow> Inr d
      | Inr _ \<Rightarrow> Inl StorageError)"

definition load :: "(string \<Rightarrow> pyval result) \<Rightarrow> ArtifactStore \<Rightarrow> string \<Rightarrow> string \<Rightarrow> (string \<times> pyval) list option result" where
  "load loads self category identifier =
     bind_result (safe_segment category) (\<lambda>category.
     bind_result (safe_segment identifier) (\<lambda>identifier.
       case map_of (as_files self) (category, identifier @ ''.json'') of
         None \<Rightarrow> Inr None
       | Some (content, _) \<Rightarrow> bind_result (read_document loads content) (\<lambda>d. Inr (Some d))))"

definition sort_reverse :: "('a \<Rightarrow> 'b :: linorder) \<Rightarrow> 'a list \<Rightarrow> 'a list" where
  "sort_reverse k xs = rev (sort_key k (rev xs))"

definition list_documents :: "(string \<Rightarrow> pyval result) \<Rightarrow> ArtifactStore \<Rightarrow> string \<Rightarrow> int \<Rightarrow> (string \<times> pyval) list list result" where
  "list_documents loads self category limit =
     bind_result (safe_segment category) (\<lambda>category.
       if limit \<le> 0 then Inr []
       else if category \<notin> as_directories self then Inr []
       else let paths = take (nat (min limit 500)) (sort_reverse (\<lambda>(_, _, mtime). mtime)
                  (filter (\<lambda>((directory, name), _). directory = category \<and> endswith name ''.json'') (as_files self)))
            in map_result (\<lambda>(_, content, _). read_document loads content) paths)"

subsection \<open>The interface\<close>

locale document_store =
  fixes valid :: "'k \<Rightarrow> bool" and put :: "'s \<Rightarrow> 'k \<Rightarrow> 'v \<Rightarrow> 's" and get :: "'s \<Rightarrow> 'k \<Rightarrow> 'w option"
    and stored :: "'v \<Rightarrow> 'w"
  assumes get_put: "valid k \<Longrightarrow> get (put s k v) k = Some (stored v)"
    and get_put_other: "k' \<noteq> k \<Longrightarrow> get (put s k v) k' = get s k'"
begin

lemma last_write_wins:
  "valid k \<Longrightarrow> get (foldl (\<lambda>s (k, v). put s k v) s kvs) k
     = (case map_of (rev kvs) k of Some v \<Rightarrow> Some (stored v) | None \<Rightarrow> get s k)"
proof (induction kvs arbitrary: s)
  case (Cons kv kvs)
  obtain k' v where kv: "kv = (k', v)" by (cases kv)
  have "get (put s k' v) k = (if k = k' then Some (stored v) else get s k)" using Cons.prems get_put get_put_other by auto
  then show ?case using Cons by (simp add: kv map_of_append map_add_def split: option.splits)
qed simp

end

subsection \<open>The store implements it\<close>

definition safe_key :: "string \<times> string \<Rightarrow> bool" where
  "safe_key k \<longleftrightarrow> safe_segment (fst k) = Inr (fst k) \<and> safe_segment (snd k) = Inr (snd k)"

definition store_put :: "(pyval \<Rightarrow> string) \<Rightarrow> int \<Rightarrow> ArtifactStore \<Rightarrow> string \<times> string \<Rightarrow> pyval \<Rightarrow> ArtifactStore" where
  "store_put dumps now self k v = (case save dumps now self (fst k) (snd k) v of Inr (self', _) \<Rightarrow> self' | Inl _ \<Rightarrow> self)"

definition json_file :: "string \<times> string \<Rightarrow> string \<times> string" where
  "json_file k = (fst k, snd k @ ''.json'')"

text \<open>The file stored for a key, as \<open>load\<close> finds it.\<close>

definition store_file :: "ArtifactStore \<Rightarrow> string \<times> string \<Rightarrow> (string \<times> int) option" where
  "store_file self k = (if safe_key k then map_of (as_files self) (json_file k) else None)"

definition stored_file :: "(pyval \<Rightarrow> string) \<Rightarrow> int \<times> pyval \<Rightarrow> string \<times> int" where
  "stored_file dumps f = (dumps (snd f) @ [CHR 0x0A], fst f)"

lemma safe_segment_iff: "safe_segment v = Inr w \<longleftrightarrow> v \<noteq> [] \<and> w = v \<and> list_all (\<lambda>c. is_alnum c \<or> c \<in> set ''-_'') v"
  by (auto simp: safe_segment_def Let_def list_all_iff filter_id_conv)

lemma safe_no_dot: "safe_segment v = Inr v \<Longrightarrow> CHR ''.'' \<notin> set v"
proof
  assume v: "safe_segment v = Inr v" and dot: "CHR ''.'' \<in> set v"
  have "\<not> is_alnum (CHR ''.'')" by code_simp
  then show False using v dot by (auto simp: safe_segment_iff list_all_iff)
qed

lemma with_suffix_json: "safe_segment v = Inr v \<Longrightarrow> with_suffix (v @ ''.json'') ''.tmp'' = v @ ''.tmp''"
proof -
  assume v: "safe_segment v = Inr v"
  have "rpartition_char (CHR ''.'') (v @ CHR ''.'' # ''json'') = (v, True, ''json'')"
    by (rule rpartition_char_append) simp
  then show ?thesis using v by (simp add: with_suffix_def safe_segment_iff)
qed

lemma json_not_tmp: "a @ ''.json'' \<noteq> b @ ''.tmp''"
proof
  assume "a @ ''.json'' = b @ ''.tmp''"
  then have "last (a @ ''.json'') = last (b @ ''.tmp'')" by simp
  then show False by simp
qed

lemma save_files:
  assumes "safe_key k"
  shows "save dumps now self (fst k) (snd k) v = Inr (store_put dumps now self k v, (fst k, snd k @ ''.json''))"
    "map_of (as_files (store_put dumps now self k v)) (c, n)
       = (if (c, n) = (fst k, snd k @ ''.json'') then Some (dumps v @ [CHR 0x0A], now)
          else if (c, n) = (fst k, snd k @ ''.tmp'') then None else map_of (as_files self) (c, n))"
proof -
  have k: "safe_segment (fst k) = Inr (fst k)" "safe_segment (snd k) = Inr (snd k)" using assms by (simp_all add: safe_key_def)
  show "save dumps now self (fst k) (snd k) v = Inr (store_put dumps now self k v, (fst k, snd k @ ''.json''))"
    by (simp add: store_put_def save_def k Let_def)
  show "map_of (as_files (store_put dumps now self k v)) (c, n)
      = (if (c, n) = (fst k, snd k @ ''.json'') then Some (dumps v @ [CHR 0x0A], now)
         else if (c, n) = (fst k, snd k @ ''.tmp'') then None else map_of (as_files self) (c, n))"
    by (auto simp: store_put_def save_def k Let_def write_file_def move_file_def with_suffix_json [OF k(2)] AList.delete_conv')
qed

lemma store_put_unsafe: "\<not> safe_key k \<Longrightarrow> store_put dumps now self k v = self"
  by (auto simp: safe_key_def store_put_def save_def safe_segment_def Let_def split: if_splits)

lemma json_file_simps [simp]: "json_file k = json_file k' \<longleftrightarrow> k = k'" "json_file k \<noteq> (c, n @ ''.tmp'')"
  using json_not_tmp by (auto simp: json_file_def prod_eq_iff)

interpretation artifacts: document_store safe_key "\<lambda>self k f. store_put dumps (fst f) self k (snd f)" store_file "stored_file dumps"
  for dumps
proof unfold_locales
  fix k k' :: "string \<times> string" and s f
  show "store_file (store_put dumps (fst f) s k (snd f)) k = Some (stored_file dumps f)" if "safe_key k"
    using that by (simp add: store_file_def stored_file_def save_files(2) json_file_def)
  show "store_file (store_put dumps (fst f) s k (snd f)) k' = store_file s k'" if "k' \<noteq> k"
  proof (cases "safe_key k")
    case True
    have "json_file k' \<noteq> json_file k" "json_file k' \<noteq> (fst k, snd k @ ''.tmp'')" using that by simp_all
    then show ?thesis using True by (auto simp: store_file_def save_files(2) json_file_def)
  qed (simp add: store_put_unsafe)
qed

subsection \<open>After any sequence of saves\<close>

definition save_all :: "(pyval \<Rightarrow> string) \<Rightarrow> ((string \<times> string) \<times> int \<times> pyval) list \<Rightarrow> ArtifactStore" where
  "save_all dumps saves = foldl (\<lambda>self (k, now, v). store_put dumps now self k v) ArtifactStore_init saves"

definition saved_keys :: "((string \<times> string) \<times> int \<times> pyval) list \<Rightarrow> (string \<times> string) set" where
  "saved_keys saves = {k \<in> fst ` set saves. safe_key k}"

lemma inj_json_file: "inj_on json_file A"
  by (simp add: inj_on_def)

lemma save_all_Nil [simp]: "save_all dumps [] = ArtifactStore_init"
  by (simp add: save_all_def)

lemma save_all_snoc [simp]: "save_all dumps (saves @ [(k, now, v)]) = store_put dumps now (save_all dumps saves) k v"
  by (simp add: save_all_def)

lemma store_put_keys:
  assumes "distinct (map fst (as_files self))" "safe_key k"
  shows "distinct (map fst (as_files (store_put dumps now self k v)))"
    "as_directories (store_put dumps now self k v) = insert (fst k) (as_directories self)"
    "fst ` set (as_files (store_put dumps now self k v)) = insert (json_file k) (fst ` set (as_files self) - {(fst k, snd k @ ''.tmp'')})"
proof -
  have k: "safe_segment (fst k) = Inr (fst k)" "safe_segment (snd k) = Inr (snd k)" using assms(2) by (simp_all add: safe_key_def)
  note defs = store_put_def save_def k Let_def write_file_def move_file_def with_suffix_json [OF k(2)]
  show "distinct (map fst (as_files (store_put dumps now self k v)))"
    using assms(1) by (simp add: defs distinct_update distinct_delete)
  show "as_directories (store_put dumps now self k v) = insert (fst k) (as_directories self)" by (simp add: defs)
  have "dom (map_of (as_files (store_put dumps now self k v))) = insert (json_file k) (dom (map_of (as_files self)) - {(fst k, snd k @ ''.tmp'')})"
    by (auto simp: dom_def save_files(2) [OF assms(2)] json_file_def split: if_splits)
  then show "fst ` set (as_files (store_put dumps now self k v)) = insert (json_file k) (fst ` set (as_files self) - {(fst k, snd k @ ''.tmp'')})"
    by (simp add: dom_map_of_conv_image_fst)
qed

text \<open>Every file is the document of a saved key, once; no temporary file is left behind.\<close>

lemma save_all_files:
  "distinct (map fst (as_files (save_all dumps saves))) \<and> as_directories (save_all dumps saves) = fst ` saved_keys saves
   \<and> fst ` set (as_files (save_all dumps saves)) = json_file ` saved_keys saves"
proof (induction saves rule: rev_induct)
  case (snoc save saves)
  obtain k now v where save: "save = (k, now, v)" by (cases save)
  show ?case
  proof (cases "safe_key k")
    case True
    have keys: "saved_keys (saves @ [save]) = insert k (saved_keys saves)" using True by (auto simp: saved_keys_def save)
    have "(fst k, snd k @ ''.tmp'') \<notin> json_file ` saved_keys saves" using json_file_simps(2) by (metis (no_types, lifting) imageE)
    then show ?thesis using snoc store_put_keys [OF _ True, of "save_all dumps saves" dumps now v] by (simp add: keys [unfolded save] save)
  next
    case False
    then have "saved_keys (saves @ [save]) = saved_keys saves" by (auto simp: saved_keys_def save)
    then show ?thesis using snoc False by (simp add: save store_put_unsafe)
  qed
qed (simp add: ArtifactStore_init_def saved_keys_def)

lemma store_file_save_all:
  "safe_key k \<Longrightarrow> store_file (save_all dumps saves) k = map_option (stored_file dumps) (map_of (rev saves) k)"
  using artifacts.last_write_wins [of k dumps ArtifactStore_init saves]
  by (simp add: save_all_def case_prod_unfold store_file_def ArtifactStore_init_def split: option.splits)

lemma load_store_file:
  "safe_key (category, identifier) \<Longrightarrow> load loads self category identifier =
    (case store_file self (category, identifier) of None \<Rightarrow> Inr None
     | Some (content, _) \<Rightarrow> bind_result (read_document loads content) (\<lambda>d. Inr (Some d)))"
  by (simp add: load_def store_file_def json_file_def) (simp add: safe_key_def)

subsection \<open>Listings\<close>

lemma sort_reverse_sorted: "sorted_wrt (\<lambda>x y. k y \<le> k x) (sort_reverse k xs)" "mset (sort_reverse k xs) = mset xs"
  "set (sort_reverse k xs) = set xs" "length (sort_reverse k xs) = length xs"
  using sorted_sort_key [of k "rev xs"] by (simp_all add: sort_reverse_def sorted_wrt_rev sorted_map)

definition document_key :: "string \<times> string \<Rightarrow> string \<times> string" where
  "document_key path = (fst path, take (length (snd path) - 5) (snd path))"

lemma document_key_json [simp]: "document_key (json_file k) = k"
  by (simp add: document_key_def json_file_def)

definition last_saved :: "((string \<times> string) \<times> int \<times> pyval) list \<Rightarrow> string \<times> string \<Rightarrow> int \<times> pyval" where
  "last_saved saves k = the (map_of (rev saves) k)"

definition category_files :: "ArtifactStore \<Rightarrow> string \<Rightarrow> ((string \<times> string) \<times> string \<times> int) list" where
  "category_files self category = filter (\<lambda>((directory, name), _). directory = category \<and> endswith name ''.json'') (as_files self)"

lemma category_files_saved:
  assumes "f \<in> set (category_files (save_all dumps saves) category)"
  shows "\<exists>k. k \<in> saved_keys saves \<and> fst k = category \<and> k \<in> fst ` set saves \<and> f = (json_file k, stored_file dumps (last_saved saves k))"
proof -
  have f: "f \<in> set (as_files (save_all dumps saves))" "fst (fst f) = category" using assms by (auto simp: category_files_def)
  have "fst f \<in> json_file ` saved_keys saves" using f(1) save_all_files [of dumps saves] by blast
  then obtain k where k: "k \<in> saved_keys saves" "fst f = json_file k" by blast
  then have "map_of (as_files (save_all dumps saves)) (json_file k) = Some (snd f)"
    using f(1) save_all_files [of dumps saves] by (intro map_of_is_SomeI) (simp_all add: k(2) [symmetric])
  moreover have "safe_key k" "k \<in> fst ` set saves" using k(1) by (auto simp: saved_keys_def)
  ultimately have "map_option (stored_file dumps) (map_of (rev saves) k) = Some (snd f)"
    using store_file_save_all [of k dumps saves] by (simp add: store_file_def)
  then have "snd f = stored_file dumps (last_saved saves k)" by (auto simp: last_saved_def)
  moreover have "fst k = category" using f(2) k(2) by (simp add: json_file_def)
  ultimately show ?thesis using k \<open>k \<in> fst ` set saves\<close> by (intro exI [of _ k]) (simp add: prod_eq_iff)
qed

lemma category_files_keys:
  defines "files \<equiv> \<lambda>dumps saves category. category_files (save_all dumps saves) category"
  shows "distinct (map (document_key \<circ> fst) (files dumps saves category))"
    "(document_key \<circ> fst) ` set (files dumps saves category) = {k \<in> saved_keys saves. fst k = category}"
proof -
  let ?S = "save_all dumps saves"
  have inj: "inj_on document_key (fst ` set (files dumps saves category))"
    unfolding files_def by (rule inj_on_inverseI [where g = json_file]) (auto dest!: category_files_saved)
  have "distinct (map fst (as_files ?S))" using save_all_files by blast
  then have d: "distinct (map fst (files dumps saves category))" unfolding files_def category_files_def by (rule distinct_map_filter)
  show "distinct (map (document_key \<circ> fst) (files dumps saves category))"
    using d inj by (simp add: distinct_map comp_inj_on)
  show "(document_key \<circ> fst) ` set (files dumps saves category) = {k \<in> saved_keys saves. fst k = category}"
  proof (intro equalityI subsetI)
    fix k assume "k \<in> (document_key \<circ> fst) ` set (files dumps saves category)"
    then show "k \<in> {k \<in> saved_keys saves. fst k = category}" unfolding files_def by (auto dest!: category_files_saved)
  next
    fix k assume k: "k \<in> {k \<in> saved_keys saves. fst k = category}"
    then have "json_file k \<in> fst ` set (as_files ?S)" using save_all_files [of dumps saves] by auto
    then obtain f where "f \<in> set (as_files ?S)" "fst f = json_file k" by force
    moreover from this k have "f \<in> set (files dumps saves category)"
      unfolding files_def category_files_def by (cases f) (auto simp: json_file_def)
    ultimately show "k \<in> (document_key \<circ> fst) ` set (files dumps saves category)" by force
  qed
qed

definition readable_saves :: "(string \<Rightarrow> pyval result) \<Rightarrow> (pyval \<Rightarrow> string) \<Rightarrow> ((string \<times> string) \<times> int \<times> pyval) list \<Rightarrow> bool" where
  "readable_saves loads dumps saves \<longleftrightarrow>
     list_all (\<lambda>(k, now, v). loads (dumps v @ [CHR 0x0A]) = Inr (json_sort v) \<and> (case v of PDict _ \<Rightarrow> True | _ \<Rightarrow> False)) saves"

lemma read_last_saved:
  assumes "readable_saves loads dumps saves" "k \<in> fst ` set saves"
  shows "read_document loads (dumps (snd (last_saved saves k)) @ [CHR 0x0A]) = Inr (attributes (json_sort (snd (last_saved saves k))))"
proof -
  obtain now v where v: "map_of (rev saves) k = Some (now, v)"
    using assms(2) by (metis domIff dom_map_of_conv_image_fst not_Some_eq set_rev surj_pair)
  then have "(k, now, v) \<in> set saves" by (metis map_of_SomeD set_rev)
  then have "loads (dumps v @ [CHR 0x0A]) = Inr (json_sort v)" "case v of PDict _ \<Rightarrow> True | _ \<Rightarrow> False"
    using assms(1) unfolding readable_saves_def list_all_iff by fast+
  then have "loads (dumps v @ [CHR 0x0A]) = Inr (json_sort v) \<and> (\<exists>d. v = PDict d)" by (cases v) simp_all
  then show ?thesis using v by (auto simp: last_saved_def read_document_def attributes_def)
qed

lemma sorted_wrt_take_rest:
  assumes "sorted_wrt P xs" "x \<in> set xs - set (take n xs)" "y \<in> set (take n xs)"
  shows "P y x"
proof -
  have "set (take n xs) \<union> set (drop n xs) = set xs" by (metis append_take_drop_id set_append)
  then have "x \<in> set (drop n xs)" using assms(2) by blast
  then show ?thesis
    using assms(1,3) sorted_wrt_append [of P "take n xs" "drop n xs"] by (simp only: append_take_drop_id) blast
qed

text \<open>The files of a category, newest first, and the keys they belong to.\<close>

definition newest_files :: "ArtifactStore \<Rightarrow> string \<Rightarrow> ((string \<times> string) \<times> string \<times> int) list" where
  "newest_files self category = sort_reverse (\<lambda>(_, _, mtime). mtime) (category_files self category)"

definition newest_keys :: "ArtifactStore \<Rightarrow> string \<Rightarrow> (string \<times> string) list" where
  "newest_keys self category = map (document_key \<circ> fst) (newest_files self category)"

lemma newest_files_saved:
  "f \<in> set (newest_files (save_all dumps saves) category) \<Longrightarrow>
   \<exists>k. k \<in> saved_keys saves \<and> fst k = category \<and> k \<in> fst ` set saves \<and> f = (json_file k, stored_file dumps (last_saved saves k))"
  by (rule category_files_saved) (simp add: newest_files_def sort_reverse_sorted(3))

lemma newest_keys_saved:
  defines "keys \<equiv> \<lambda>dumps saves category. newest_keys (save_all dumps saves) category"
  shows "distinct (keys dumps saves category)" "set (keys dumps saves category) = {k \<in> saved_keys saves. fst k = category}"
    "sorted_wrt (\<lambda>k k'. fst (last_saved saves k') \<le> fst (last_saved saves k)) (keys dumps saves category)"
proof -
  let ?files = "newest_files (save_all dumps saves) category"
  have "mset (keys dumps saves category) = mset (map (document_key \<circ> fst) (category_files (save_all dumps saves) category))"
    by (simp add: keys_def newest_keys_def newest_files_def sort_reverse_sorted(2))
  then show "distinct (keys dumps saves category)" "set (keys dumps saves category) = {k \<in> saved_keys saves. fst k = category}"
    using category_files_keys [where dumps = dumps and saves = saves and category = category]
    by (metis mset_eq_imp_distinct_iff, metis list.set_map mset_eq_setD)
  have time: "fst (last_saved saves (document_key (fst f))) = snd (snd f)" if "f \<in> set ?files" for f
    using newest_files_saved [OF that] by (auto simp: stored_file_def)
  have "sorted_wrt (\<lambda>f f'. snd (snd f') \<le> snd (snd f)) ?files"
    using sort_reverse_sorted(1) [of "\<lambda>(_, _, mtime). mtime" "category_files (save_all dumps saves) category"]
    by (simp add: newest_files_def case_prod_unfold)
  then show "sorted_wrt (\<lambda>k k'. fst (last_saved saves k') \<le> fst (last_saved saves k)) (keys dumps saves category)"
    unfolding keys_def newest_keys_def sorted_wrt_map by (rule sorted_wrt_mono_rel [rotated]) (simp add: time)
qed

lemma list_documents_newest:
  assumes "readable_saves loads dumps saves" "safe_segment category = Inr category" "0 < limit"
  shows "list_documents loads (save_all dumps saves) category limit
    = Inr (map (\<lambda>k. attributes (json_sort (snd (last_saved saves k)))) (take (nat (min limit 500)) (newest_keys (save_all dumps saves) category)))"
proof -
  define n where "n = nat (min limit 500)"
  let ?S = "save_all dumps saves"
  have docs: "map_result (\<lambda>(_, content, _). read_document loads content) (take n (newest_files ?S category))
      = Inr (map (\<lambda>f. attributes (json_sort (snd (last_saved saves (document_key (fst f)))))) (take n (newest_files ?S category)))"
  proof (rule map_result_Inr)
    fix f assume "f \<in> set (take n (newest_files ?S category))"
    then obtain k where k: "k \<in> fst ` set saves" "f = (json_file k, stored_file dumps (last_saved saves k))"
      using newest_files_saved in_set_takeD by metis
    then show "(case f of (_, content, _) \<Rightarrow> read_document loads content)
        = Inr (attributes (json_sort (snd (last_saved saves (document_key (fst f))))))"
      using read_last_saved [OF assms(1) k(1)] by (simp add: stored_file_def)
  qed
  have "category_files ?S category = [] \<or> category \<in> as_directories ?S"
    using category_files_saved [of "hd (category_files ?S category)" dumps saves category] save_all_files [of dumps saves]
    by (metis (no_types, lifting) hd_in_set image_eqI)
  then have "list_documents loads ?S category limit = map_result (\<lambda>(_, content, _). read_document loads content) (take n (newest_files ?S category))"
    using assms(2,3) by (auto simp: list_documents_def n_def newest_files_def category_files_def sort_reverse_def)
  then show ?thesis using docs by (simp add: n_def newest_keys_def take_map comp_def)
qed

text \<open>What a listing promises: the documents of the newest names of the category, newest first, each once.\<close>

definition lists_newest :: "((string \<times> string) \<times> int \<times> pyval) list \<Rightarrow> string \<Rightarrow> int \<Rightarrow> (string \<times> pyval) list list \<Rightarrow> bool" where
  "lists_newest saves category limit docs \<longleftrightarrow>
     (\<exists>keys. docs = map (\<lambda>k. attributes (json_sort (snd (last_saved saves k)))) keys
       \<and> distinct keys \<and> set keys \<subseteq> {k \<in> saved_keys saves. fst k = category}
       \<and> length keys = min (nat (min limit 500)) (card {k \<in> saved_keys saves. fst k = category})
       \<and> sorted_wrt (\<lambda>k k'. fst (last_saved saves k') \<le> fst (last_saved saves k)) keys
       \<and> (\<forall>k\<in>{k \<in> saved_keys saves. fst k = category} - set keys. \<forall>k'\<in>set keys. fst (last_saved saves k) \<le> fst (last_saved saves k')))"

lemma list_documents_lists_newest:
  assumes "readable_saves loads dumps saves" "safe_segment category = Inr category" "0 < limit"
  shows "\<exists>docs. list_documents loads (save_all dumps saves) category limit = Inr docs \<and> lists_newest saves category limit docs"
proof -
  define keys where "keys = newest_keys (save_all dumps saves) category"
  note keys = newest_keys_saved [where dumps = dumps and saves = saves and category = category, folded keys_def]
  have card: "card {k \<in> saved_keys saves. fst k = category} = length keys" using keys distinct_card by metis
  have "lists_newest saves category limit (map (\<lambda>k. attributes (json_sort (snd (last_saved saves k)))) (take (nat (min limit 500)) keys))"
    unfolding lists_newest_def card unfolding keys(2) [symmetric]
    using keys(1,3) sorted_wrt_take_rest [OF keys(3)]
    by (intro exI [of _ "take (nat (min limit 500)) keys"] conjI ballI) (simp_all add: set_take_subset sorted_wrt_take min.commute)
  then show ?thesis using list_documents_newest [OF assms] by (simp add: keys_def)
qed

lemma load_last_saved:
  assumes "readable_saves loads dumps saves" "safe_key (category, identifier)"
  shows "load loads (save_all dumps saves) category identifier
    = Inr (map_option (\<lambda>(_, v). attributes (json_sort v)) (map_of (rev saves) (category, identifier)))"
proof (cases "map_of (rev saves) (category, identifier)")
  case (Some f)
  then have "(category, identifier) \<in> fst ` set saves" by (metis fst_conv image_eqI map_of_SomeD set_rev)
  from read_last_saved [OF assms(1) this] Some show ?thesis
    by (simp add: load_store_file [OF assms(2)] store_file_save_all [OF assms(2)] stored_file_def last_saved_def case_prod_unfold)
qed (simp add: load_store_file [OF assms(2)] store_file_save_all [OF assms(2)])

lemma unsafe_rejected:
  "\<not> safe_key (category, identifier) \<Longrightarrow>
   save dumps now self category identifier v = Inl StorageError \<and> load loads self category identifier = Inl StorageError"
  by (auto simp: safe_key_def save_def load_def safe_segment_def Let_def split: if_splits)

text \<open>C32: the artifact store. After any sequence of saves (with unsafe names, repeated names, any times),
  reading a safe name returns the document saved last under it and nothing else; a name with any other
  character than letters, digits, dash and underscore is rejected by save and load, so no path leaves the
  category's directory; a listing returns, newest first and each once, the documents of the newest
  min(limit, 500) names of the category.\<close>

theorem artifact_store_correct:
  assumes "readable_saves loads dumps saves"
  shows "(if safe_key (category, identifier)
      then load loads (save_all dumps saves) category identifier
          = Inr (map_option (\<lambda>(_, v). attributes (json_sort v)) (map_of (rev saves) (category, identifier)))
        \<and> save dumps now self category identifier v = Inr (store_put dumps now self (category, identifier) v, (category, identifier @ ''.json''))
      else save dumps now self category identifier v = Inl StorageError \<and> load loads self category identifier = Inl StorageError)
    \<and> (safe_segment category = Inr category \<and> 0 < limit \<longrightarrow>
        (\<exists>docs. list_documents loads (save_all dumps saves) category limit = Inr docs \<and> lists_newest saves category limit docs))"
  using load_last_saved [OF assms] unsafe_rejected save_files(1) [of "(category, identifier)"] list_documents_lists_newest [OF assms]
  by simp

text \<open>Two saves of one name and one of another; the second name is listed first.\<close>

theorem artifact_store_correct_witness:
  "let dumps = (\<lambda>v. case v of PDict [] \<Rightarrow> ''e'' | _ \<Rightarrow> ''k'');
       loads = (\<lambda>t. if t = ''e'' @ [CHR 0x0A] then Inr (PDict []) else Inr (PDict [(''k'', PNone)]));
       store = save_all dumps [((''runs'', ''r1''), 1, PDict []), ((''runs'', ''r1''), 2, PDict [(''k'', PNone)]), ((''runs'', ''r2''), 3, PDict [])]
   in load loads store ''runs'' ''r1'' = Inr (Some [(''k'', PNone)]) \<and> load loads store ''runs'' ''..'' = Inl StorageError"
proof -
  define dumps loads saves where "dumps = (\<lambda>v. case v of PDict [] \<Rightarrow> ''e'' | _ \<Rightarrow> ''k'')"
    and "loads = (\<lambda>t. if t = ''e'' @ [CHR 0x0A] then Inr (PDict []) else (Inr (PDict [(''k'', PNone)]) :: pyval result))"
    and "saves = [((''runs'', ''r1''), 1 :: int, PDict []), ((''runs'', ''r1''), 2, PDict [(''k'', PNone)]), ((''runs'', ''r2''), 3, PDict [])]"
  have readable: "readable_saves loads dumps saves" by (simp add: readable_saves_def dumps_def loads_def saves_def)
  have keys: "safe_key (''runs'', ''r1'')" "\<not> safe_key (''runs'', ''..'')" by code_simp+
  have "load loads (save_all dumps saves) ''runs'' ''r1'' = Inr (Some [(''k'', PNone)])"
    using artifact_store_correct [OF readable, of "''runs''" "''r1''"] keys by (simp add: saves_def attributes_def)
  moreover have "load loads (save_all dumps saves) ''runs'' ''..'' = Inl StorageError"
    using artifact_store_correct [OF readable, of "''runs''" "''..''"] keys by simp
  ultimately show ?thesis by (simp add: dumps_def loads_def saves_def)
qed

end
