(* ===== verification/Graph_Tensors.thy ===== *)
theory Graph_Tensors
  imports Graph_Properties
begin

section \<open>The graph as tensors (\<^verbatim>\<open>graph_tensors\<close> of \<^verbatim>\<open>model.py\<close>)\<close>

text \<open>
  The input of the neural network: one row of statistics per test, one row per resource, and the
  edges of the bipartite graph in both directions as two rows of node numbers, the resources numbered
  after the tests. Tensors are lists of exact reals. Reading a missing entry of a
  \<^verbatim>\<open>defaultdict\<close> inserts the default, so the graph is threaded.
\<close>

subsection \<open>Definitions\<close>

record GraphTensors =
  gt_test_x :: "real list list"
  gt_resource_x :: "real list list"
  gt_edge_index :: "nat list \<times> nat list"
  gt_test_index :: "(string, nat) dict"

definition log1p :: "real \<Rightarrow> real result" where
  "log1p x = (if x \<le> - 1 then Inl ValueError else Inr (ln (1 + x)))"

definition enumerate_index :: "string list \<Rightarrow> (string, nat) dict" where
  "enumerate_index xs = dict_of (zip xs [0..<length xs])"

definition test_row :: "TestStats \<Rightarrow> real list result" where
  "test_row stats =
     bind_result (log1p (st_duration_ema stats)) (\<lambda>duration.
     bind_result (log1p (real_of_int (st_resource_count stats))) (\<lambda>resources.
     bind_result (log1p (real_of_int (st_process_count stats))) (\<lambda>processes.
     Inr [duration, st_failure_rate stats, resources, processes, st_write_ratio stats])))"

fun test_rows :: "TestResourceGraph \<Rightarrow> string list \<Rightarrow> (real list list \<times> TestResourceGraph) result" where
  "test_rows graph [] = Inr ([], graph)"
| "test_rows graph (test_id # tests) =
     (let (stats, graph) = stats_for graph test_id
      in bind_result (test_row stats) (\<lambda>row.
         bind_result (test_rows graph tests) (\<lambda>(rows, graph). Inr (row # rows, graph))))"

definition tests_for :: "TestResourceGraph \<Rightarrow> string \<Rightarrow> string set \<times> TestResourceGraph" where
  "tests_for self rid =
     (case map_of (gr_resource_tests self) rid of
        Some s \<Rightarrow> (s, self)
      | None \<Rightarrow> ({}, self\<lparr>gr_resource_tests := AList.update rid {} (gr_resource_tests self)\<rparr>))"

definition resource_row :: "TestResourceGraph \<Rightarrow> ResourceIdentity \<Rightarrow> string set \<Rightarrow> string \<Rightarrow> real list result" where
  "resource_row graph resource test_ids rid =
     (let type_one_hot = map (\<lambda>candidate. if ri_type resource = candidate then 1 else 0) ResourceType_members;
          degree = real (card test_ids)
      in bind_result (map_result (\<lambda>test_id. dict_index (gr_edges graph) (test_id, rid)) (sorted_list_of_set test_ids)) (\<lambda>edges.
           let mutating = real (length (filter ag_mutating edges))
           in Inr (type_one_hot @ [ln (1 + degree), mutating / max 1 degree, 1 / max 1 degree])))"

fun resource_rows :: "TestResourceGraph \<Rightarrow> string list \<Rightarrow> (real list list \<times> TestResourceGraph) result" where
  "resource_rows graph [] = Inr ([], graph)"
| "resource_rows graph (rid # resources) =
     bind_result (dict_index (gr_resources graph) rid) (\<lambda>resource.
       let (test_ids, graph) = tests_for graph rid
       in bind_result (resource_row graph resource test_ids rid) (\<lambda>row.
          bind_result (resource_rows graph resources) (\<lambda>(rows, graph). Inr (row # rows, graph))))"

fun edge_columns :: "(string, nat) dict \<Rightarrow> nat \<Rightarrow> (string, nat) dict \<Rightarrow> (string \<times> string) list \<Rightarrow> (nat list \<times> nat list) result" where
  "edge_columns test_index offset resource_index [] = Inr ([], [])"
| "edge_columns test_index offset resource_index ((test_id, rid) # edges) =
     bind_result (dict_index test_index test_id) (\<lambda>left.
     bind_result (dict_index resource_index rid) (\<lambda>right.
     bind_result (edge_columns test_index offset resource_index edges) (\<lambda>(sources, targets).
       Inr (left # (offset + right) # sources, (offset + right) # left # targets))))"

definition graph_tensors :: "bool \<Rightarrow> TestResourceGraph \<Rightarrow> (GraphTensors \<times> TestResourceGraph) result" where
  "graph_tensors torch_installed graph =
     (if \<not> torch_installed then Inl ArtifactError
      else
        let tests = sort (dict_keys (gr_tests graph));
            resources = sort (dict_keys (gr_resources graph));
            test_index = enumerate_index tests;
            resource_index = enumerate_index resources
        in bind_result (test_rows graph tests) (\<lambda>(test_features, graph).
           bind_result (resource_rows graph resources) (\<lambda>(resource_features, graph).
           bind_result (edge_columns test_index (length tests) resource_index (dict_keys (gr_edges graph))) (\<lambda>edges.
             Inr (\<lparr>gt_test_x = test_features, gt_resource_x = resource_features, gt_edge_index = edges,
                   gt_test_index = test_index\<rparr>, graph)))))"

subsection \<open>Rows\<close>

text \<open>A graph built from events has the statistics, resources and edges the rows read; only a
  statistic of \<open>-1\<close> or less (which no operation of the graph writes) makes \<^verbatim>\<open>log1p\<close> fail.\<close>

definition stats_loggable :: "TestStats \<Rightarrow> bool" where
  "stats_loggable s \<longleftrightarrow> - 1 < st_duration_ema s \<and> 0 \<le> st_resource_count s \<and> 0 \<le> st_process_count s"

lemma test_row_total: "stats_loggable s \<Longrightarrow> \<exists>row. test_row s = Inr row \<and> length row = 5"
  by (auto simp: test_row_def log1p_def stats_loggable_def)

definition all_loggable :: "TestResourceGraph \<Rightarrow> bool" where
  "all_loggable g \<longleftrightarrow> (\<forall>t. stats_loggable (fst (stats_for g t)))"

lemma all_loggable_stats_for: "all_loggable g \<Longrightarrow> all_loggable (snd (stats_for g t))"
  by (simp add: all_loggable_def stats_for_stable)

lemma test_rows_total:
  "all_loggable g \<Longrightarrow> graph_built evs g \<Longrightarrow>
   \<exists>rows g'. test_rows g ts = Inr (rows, g') \<and> length rows = length ts \<and> (\<forall>row\<in>set rows. length row = 5)
     \<and> graph_built evs g' \<and> gr_edges g' = gr_edges g"
proof (induction ts arbitrary: g)
  case (Cons t ts)
  obtain row where row: "test_row (fst (stats_for g t)) = Inr row" "length row = 5"
    using test_row_total Cons.prems(1) unfolding all_loggable_def by blast
  have same: "gr_edges (snd (stats_for g t)) = gr_edges g" by (simp add: stats_for_def split: option.splits)
  obtain rows g' where "test_rows (snd (stats_for g t)) ts = Inr (rows, g')" "length rows = length ts"
      "\<forall>row\<in>set rows. length row = 5" "graph_built evs g'" "gr_edges g' = gr_edges g"
    using Cons.IH [OF all_loggable_stats_for [OF Cons.prems(1)] stats_for_built [OF Cons.prems(2)], of t] same by auto
  then show ?case using row by (simp add: case_prod_unfold)
qed simp

lemma tests_for_built:
  "graph_built evs g \<Longrightarrow> r \<in> event_rid ` set evs \<Longrightarrow> tests_for g r = (tests_of r evs, g)"
  using graph_builtD(9) [of evs g r] by (auto simp: tests_for_def tests_of_def)

lemma resource_row_total:
  assumes "graph_built evs g"
  shows "\<exists>row. resource_row g resource (tests_of r evs) r = Inr row \<and> length row = length ResourceType_members + 3"
proof -
  have "map_result (\<lambda>t. dict_index (gr_edges g) (t, r)) (sorted_list_of_set (tests_of r evs))
      = Inr (map (\<lambda>t. aggregate_of t (touches t r evs)) (sorted_list_of_set (tests_of r evs)))"
    by (rule map_result_Inr) (simp add: dict_index_def graph_builtD(7) [OF assms] touches_Nil_iff tests_of_iff)
  then show ?thesis by (simp add: resource_row_def Let_def)
qed

lemma resource_rows_total:
  assumes "graph_built evs g" "set rs \<subseteq> event_rid ` set evs"
  shows "\<exists>rows. resource_rows g rs = Inr (rows, g) \<and> length rows = length rs
    \<and> (\<forall>row\<in>set rows. length row = length ResourceType_members + 3)"
  using assms(2)
proof (induction rs)
  case (Cons r rs)
  then have r: "r \<in> event_rid ` set evs" by simp
  then have "find (\<lambda>e. event_rid e = r) (rev evs) \<noteq> None" by (auto simp: find_None_iff)
  then obtain resource where "dict_index (gr_resources g) r = Inr resource"
    by (auto simp: dict_index_def graph_builtD(10) [OF assms(1)])
  moreover obtain row where "resource_row g resource (tests_of r evs) r = Inr row" "length row = length ResourceType_members + 3"
    using resource_row_total [OF assms(1)] by blast
  moreover obtain rows where "resource_rows g rs = Inr (rows, g)" "length rows = length rs"
      "\<forall>row\<in>set rows. length row = length ResourceType_members + 3"
    using Cons by auto
  ultimately show ?case by (simp add: tests_for_built [OF assms(1) r])
qed simp

subsection \<open>Edges\<close>

lemma enumerate_index_nth:
  assumes "distinct xs" "i < length xs"
  shows "dict_index (enumerate_index xs) (xs ! i) = Inr i"
proof -
  let ?kvs = "zip xs [0..<length xs]"
  have "distinct (map fst ?kvs)" "distinct (map fst (rev ?kvs))" using assms(1) by (simp_all add: rev_map [symmetric])
  then have "map_of (rev ?kvs) = map_of ?kvs" using map_of_inject_set [of "rev ?kvs" ?kvs] by simp
  then show ?thesis using assms by (simp add: enumerate_index_def dict_index_def map_of_dict_of map_of_zip_nth)
qed

lemma enumerate_index_in:
  "distinct xs \<Longrightarrow> x \<in> set xs \<Longrightarrow> \<exists>i<length xs. xs ! i = x \<and> dict_index (enumerate_index xs) x = Inr i"
  using enumerate_index_nth by (metis in_set_conv_nth)

text \<open>Every edge contributes the step from its test to its resource and the step back.\<close>

definition edge_steps :: "string list \<Rightarrow> string list \<Rightarrow> (string \<times> string) list \<Rightarrow> (nat \<times> nat) set" where
  "edge_steps tests resources edges =
     {(i, length tests + j) |i j. i < length tests \<and> j < length resources \<and> (tests ! i, resources ! j) \<in> set edges}"

lemma edge_columns_total:
  assumes "distinct tests" "distinct resources" "set edges \<subseteq> set tests \<times> set resources"
  shows "\<exists>sources targets. edge_columns (enumerate_index tests) (length tests) (enumerate_index resources) edges = Inr (sources, targets)
    \<and> length sources = 2 * length edges \<and> length targets = 2 * length edges
    \<and> set (zip sources targets) = edge_steps tests resources edges \<union> (edge_steps tests resources edges)\<inverse>"
  using assms(3)
proof (induction edges)
  case (Cons edge edges)
  obtain t r where e: "edge = (t, r)" by (cases edge)
  obtain i where i: "i < length tests" "tests ! i = t" "dict_index (enumerate_index tests) t = Inr i"
    using enumerate_index_in [OF assms(1), of t] Cons.prems e by auto
  obtain j where j: "j < length resources" "resources ! j = r" "dict_index (enumerate_index resources) r = Inr j"
    using enumerate_index_in [OF assms(2), of r] Cons.prems e by auto
  obtain sources targets where rest: "edge_columns (enumerate_index tests) (length tests) (enumerate_index resources) edges = Inr (sources, targets)"
      "length sources = 2 * length edges" "length targets = 2 * length edges"
      "set (zip sources targets) = edge_steps tests resources edges \<union> (edge_steps tests resources edges)\<inverse>"
    using Cons by auto
  have "edge_steps tests resources (edge # edges) = insert (i, length tests + j) (edge_steps tests resources edges)"
    using i j assms(1,2) by (auto simp: edge_steps_def e nth_eq_iff_index_eq)
  then show ?case using rest by (auto simp: e i(3) j(3))
qed (simp add: edge_steps_def)

lemma sorted_keys: "dict_wf d \<Longrightarrow> sort (dict_keys d) = sorted_list_of_set (fst ` set d)"
  using sorted_list_of_set_sort_remdups [of "map fst d"] by (simp add: dict_keys_def distinct_remdups_id)

lemma built_resource_keys: "graph_built evs g \<Longrightarrow> fst ` set (gr_resources g) = event_rid ` set evs"
proof -
  assume g: "graph_built evs g"
  have "r \<in> dom (map_of (gr_resources g)) \<longleftrightarrow> r \<in> event_rid ` set evs" for r
    unfolding domIff graph_builtD(10) [OF g] by (auto simp: find_None_iff)
  then show ?thesis unfolding dom_map_of_conv_image_fst by blast
qed

lemma built_edge_keys: "graph_built evs g \<Longrightarrow> fst ` set (gr_edges g) = {(t, r). touches t r evs \<noteq> []}"
proof -
  assume g: "graph_built evs g"
  have "(t, r) \<in> dom (map_of (gr_edges g)) \<longleftrightarrow> touches t r evs \<noteq> []" for t r
    unfolding domIff graph_builtD(7) [OF g] by simp
  then show ?thesis unfolding dom_map_of_conv_image_fst by auto
qed

definition test_names :: "TraceEvent list \<Rightarrow> TestIdentity list \<Rightarrow> string list" where
  "test_names evs tests = sorted_list_of_set (ti_id ` set tests \<union> ev_test_id ` set evs)"

definition resource_names :: "TraceEvent list \<Rightarrow> string list" where
  "resource_names evs = sorted_list_of_set (event_rid ` set evs)"

lemma graph_tensors_ready:
  assumes g: "graph_built evs g" "all_loggable g" "ev_test_id ` set evs \<subseteq> fst ` set (gr_tests g)"
  defines "names \<equiv> sorted_list_of_set (fst ` set (gr_tests g))" and "rids \<equiv> resource_names evs"
  shows "\<exists>rows rrows g' sources targets.
    graph_tensors True g = Inr (\<lparr>gt_test_x = rows, gt_resource_x = rrows, gt_edge_index = (sources, targets),
      gt_test_index = enumerate_index names\<rparr>, g')
    \<and> length rows = length names \<and> (\<forall>row\<in>set rows. length row = 5)
    \<and> length rrows = length rids \<and> (\<forall>row\<in>set rrows. length row = length ResourceType_members + 3)
    \<and> length sources = 2 * card {(t, r). touches t r evs \<noteq> []} \<and> length targets = length sources
    \<and> set (zip sources targets) =
        (let forth = {(i, length names + j) |i j. i < length names \<and> j < length rids \<and> touches (names ! i) (rids ! j) evs \<noteq> []}
         in forth \<union> forth\<inverse>)"
proof -
  note defs = names_def rids_def resource_names_def
  obtain rows g' where rows: "test_rows g names = Inr (rows, g')" "length rows = length names" "\<forall>row\<in>set rows. length row = 5"
      "graph_built evs g'" "gr_edges g' = gr_edges g"
    using test_rows_total [OF g(2,1)] by blast
  have "set rids \<subseteq> event_rid ` set evs" by (simp add: defs)
  then obtain rrows where rrows: "resource_rows g' rids = Inr (rrows, g')" "length rrows = length rids"
      "\<forall>row\<in>set rrows. length row = length ResourceType_members + 3"
    using resource_rows_total [OF rows(4)] by blast
  have sorted: "sort (dict_keys (gr_tests g)) = names" "sort (dict_keys (gr_resources g)) = rids"
    using graph_builtD(1,2) [OF g(1)] by (simp_all add: sorted_keys defs built_resource_keys [OF g(1)])
  have dist: "distinct names" "distinct rids" by (simp_all add: defs)
  have edges: "set (dict_keys (gr_edges g)) = {(t, r). touches t r evs \<noteq> []}" "length (dict_keys (gr_edges g)) = card {(t, r). touches t r evs \<noteq> []}"
    using built_edge_keys [OF g(1)] graph_builtD(3) [OF g(1)] distinct_card [of "dict_keys (gr_edges g)"] by simp_all
  have "set (dict_keys (gr_edges g)) \<subseteq> set names \<times> set rids"
    unfolding edges(1) using g(3) by (auto simp: defs touches_def filter_empty_conv)
  from edge_columns_total [OF dist this] obtain sources targets where cols:
      "edge_columns (enumerate_index names) (length names) (enumerate_index rids) (dict_keys (gr_edges g)) = Inr (sources, targets)"
      "length sources = 2 * length (dict_keys (gr_edges g))" "length targets = 2 * length (dict_keys (gr_edges g))"
      "set (zip sources targets) = edge_steps names rids (dict_keys (gr_edges g)) \<union> (edge_steps names rids (dict_keys (gr_edges g)))\<inverse>"
    by blast
  have T: "graph_tensors True g = Inr (\<lparr>gt_test_x = rows, gt_resource_x = rrows, gt_edge_index = (sources, targets),
      gt_test_index = enumerate_index names\<rparr>, g')"
    by (simp add: graph_tensors_def Let_def sorted rows(1,5) rrows(1) cols(1))
  show ?thesis
    using T rows(2,3) rrows(2,3) cols(2-4) edges
    by (intro exI [of _ rows] exI [of _ rrows] exI [of _ g'] exI [of _ sources] exI [of _ targets]) (simp add: edge_steps_def Let_def)
qed

lemma graph_tensors_of_events:
  assumes g: "from_events evs tests = Inr g"
  defines "names \<equiv> test_names evs tests" and "rids \<equiv> resource_names evs"
  shows "\<exists>rows rrows g' sources targets.
    graph_tensors True g = Inr (\<lparr>gt_test_x = rows, gt_resource_x = rrows, gt_edge_index = (sources, targets),
      gt_test_index = enumerate_index names\<rparr>, g')
    \<and> length rows = length names \<and> (\<forall>row\<in>set rows. length row = 5)
    \<and> length rrows = length rids \<and> (\<forall>row\<in>set rrows. length row = length ResourceType_members + 3)
    \<and> length sources = 2 * card {(t, r). touches t r evs \<noteq> []} \<and> length targets = length sources
    \<and> set (zip sources targets) =
        (let forth = {(i, length names + j) |i j. i < length names \<and> j < length rids \<and> touches (names ! i) (rids ! j) evs \<noteq> []}
         in forth \<union> forth\<inverse>)"
proof -
  have g: "graph_built evs g" "fst ` set (gr_tests g) = ti_id ` set tests \<union> ev_test_id ` set evs"
      "\<forall>t. map_of (gr_test_stats g) t = (if t \<in> ev_test_id ` set evs then Some (event_stats t evs TestStats_init) else None)"
    using from_events_built [of evs tests] assms(1) by auto
  have "stats_loggable (fst (stats_for g t))" for t
    using g(3) by (simp add: stats_for_def stats_loggable_def event_stats_def TestStats_init_def Let_def)
  then have "all_loggable g" by (simp add: all_loggable_def)
  moreover have "sorted_list_of_set (fst ` set (gr_tests g)) = names" by (simp add: g(2) names_def test_names_def)
  ultimately show ?thesis using graph_tensors_ready [OF g(1)] unfolding rids_def by (simp add: g(2))
qed

text \<open>C25: the tensors of a traced run. They are built for every log (without PyTorch: \<^verbatim>\<open>ArtifactError\<close>),
  with one row of five numbers per test and one row per resource, and the edge index holds, for every
  test and resource some event of the log connects and for no others, the step from the test's row to
  the resource's row behind the tests and the step back, so every number is a row.\<close>

theorem graph_tensors_correct:
  "let names = test_names evs tests; rids = resource_names evs
   in \<exists>g T g' sources targets. from_events evs tests = Inr g \<and> graph_tensors False g = Inl ArtifactError
    \<and> graph_tensors True g = Inr (T, g')
    \<and> length (gt_test_x T) = length names \<and> (\<forall>row\<in>set (gt_test_x T). length row = 5)
    \<and> length (gt_resource_x T) = length rids \<and> (\<forall>row\<in>set (gt_resource_x T). length row = length ResourceType_members + 3)
    \<and> (\<forall>i<length names. dict_index (gt_test_index T) (names ! i) = Inr i)
    \<and> gt_edge_index T = (sources, targets)
    \<and> length sources = 2 * card {(t, r). touches t r evs \<noteq> []} \<and> length targets = length sources
    \<and> set (zip sources targets) =
        (let forth = {(i, length names + j) |i j. i < length names \<and> j < length rids \<and> touches (names ! i) (rids ! j) evs \<noteq> []}
         in forth \<union> forth\<inverse>)"
proof -
  obtain g where g: "from_events evs tests = Inr g" using from_events_built by blast
  have "\<forall>i<length (test_names evs tests). dict_index (enumerate_index (test_names evs tests)) (test_names evs tests ! i) = Inr i"
    by (simp add: enumerate_index_nth test_names_def)
  moreover have "graph_tensors False g = Inl ArtifactError" by (simp add: graph_tensors_def)
  ultimately show ?thesis using g graph_tensors_of_events [OF g] unfolding Let_def
    by (elim exE conjE) (rule exI [of _ g], intro exI conjI, assumption+, simp_all)
qed

theorem graph_tensors_correct_witness:
  "\<exists>g T g'. from_events [demo_event ''a'' OP_BIND, demo_event ''b'' OP_BIND] [] = Inr g \<and> graph_tensors True g = Inr (T, g')
     \<and> length (gt_test_x T) = 2 \<and> length (gt_resource_x T) = 1 \<and> (0, 2) \<in> set (zip (fst (gt_edge_index T)) (snd (gt_edge_index T)))"
proof -
  let ?evs = "[demo_event ''a'' OP_BIND, demo_event ''b'' OP_BIND]"
  have same: "event_rid (demo_event t OP_BIND) = event_rid (demo_event ''a'' OP_BIND)" for t by (simp add: demo_event_def)
  have tid: "ev_test_id (demo_event t OP_BIND) = t" for t by (simp add: demo_event_def)
  have "set (test_names ?evs []) = {''a'', ''b''}" "distinct (test_names ?evs [])" "sorted (test_names ?evs [])"
    by (simp_all add: test_names_def tid)
  then have names: "test_names ?evs [] = [''a'', ''b'']"
    by (intro sorted_distinct_set_unique) simp_all
  have rids: "resource_names ?evs = [event_rid (demo_event ''a'' OP_BIND)]" by (simp add: resource_names_def same [of "''b''"])
  have touch: "touches ''a'' (event_rid (demo_event ''a'' OP_BIND)) ?evs \<noteq> []" by (simp add: touches_def tid)
  define forth where "forth = {(i, length [''a'', ''b''] + j) |i j. i < length [''a'', ''b''] \<and> j < length [event_rid (demo_event ''a'' OP_BIND)]
      \<and> touches ([''a'', ''b''] ! i) ([event_rid (demo_event ''a'' OP_BIND)] ! j) ?evs \<noteq> []}"
  have "(0, 2 + 0) \<in> forth" unfolding forth_def by (rule CollectI, intro exI [of _ 0]) (use touch in simp)
  then have "(0, 2) \<in> forth \<union> forth\<inverse>" by simp
  then show ?thesis
    using graph_tensors_correct [of ?evs "[]"] unfolding names rids Let_def forth_def [symmetric]
    by (elim exE conjE) (intro exI conjI, assumption+, simp_all)
qed

end
