(* ===== verification/Calibration.thy ===== *)
theory Calibration
  imports Metrics
begin

section \<open>Temperature calibration (\<^verbatim>\<open>TemperatureScaler\<close> of \<^verbatim>\<open>model.py\<close>)\<close>

text \<open>
  Arrays are lists of exact reals, so the checks for more than one dimension and for infinite values
  have no counterpart. The infinite start value of \<^verbatim>\<open>best_loss\<close> is \<open>None\<close>.
\<close>

subsection \<open>Definitions\<close>

definition clip :: "real \<Rightarrow> real \<Rightarrow> real \<Rightarrow> real" where
  "clip lo hi x = min hi (max lo x)"

definition logit :: "real \<Rightarrow> real" where
  "logit p = ln (p / (1 - p))"

definition sigmoid :: "real \<Rightarrow> real" where
  "sigmoid x = 1 / (1 + exp (- x))"

record TemperatureScaler =
  ts_temperature :: real

definition TemperatureScaler_init :: "real \<Rightarrow> TemperatureScaler" where
  "TemperatureScaler_init temperature = \<lparr>ts_temperature = max 0.05 temperature\<rparr>"

definition geomspace :: "real \<Rightarrow> real \<Rightarrow> nat \<Rightarrow> real list" where
  "geomspace start stop num = map (\<lambda>i. start * (stop / start) powr (real i / real (num - 1))) [0..<num]"

definition calibration_loss :: "real list \<Rightarrow> real list \<Rightarrow> real \<Rightarrow> real" where
  "calibration_loss logits y temperature =
     - mean (map2 (\<lambda>l y. let scaled = 1 / (1 + exp (- l / temperature))
                         in y * ln (scaled + 1 / 10 ^ 12) + (1 - y) * ln (1 - scaled + 1 / 10 ^ 12)) logits y)"

fun best_temperature :: "(real \<Rightarrow> real) \<Rightarrow> real \<times> real option \<Rightarrow> real list \<Rightarrow> real \<times> real option" where
  "best_temperature loss best [] = best"
| "best_temperature loss (best, best_loss) (temperature # temperatures) =
     best_temperature loss
       (if case best_loss of None \<Rightarrow> True | Some b \<Rightarrow> loss temperature < b
        then (temperature, Some (loss temperature)) else (best, best_loss)) temperatures"

definition scaler_fit :: "TemperatureScaler \<Rightarrow> real list \<Rightarrow> real list \<Rightarrow> TemperatureScaler result" where
  "scaler_fit self probabilities labels =
     (if probabilities = [] \<or> length probabilities \<noteq> length labels then Inl ValueError
      else let p = map (clip (1 / 10 ^ 6) (1 - 1 / 10 ^ 6)) probabilities;
               logits = map logit p
           in Inr (self\<lparr>ts_temperature := fst (best_temperature (calibration_loss logits labels) (1, None) (geomspace 0.1 10 200))\<rparr>))"

definition scaler_transform :: "TemperatureScaler \<Rightarrow> real list \<Rightarrow> real list" where
  "scaler_transform self probabilities =
     (let p = map (clip (1 / 10 ^ 6) (1 - 1 / 10 ^ 6)) probabilities;
          logits = map (\<lambda>x. logit x / ts_temperature self) p
      in map (\<lambda>l. clip (1 / 10 ^ 9) (1 - 1 / 10 ^ 9) (sigmoid l)) logits)"

subsection \<open>The grid search\<close>

lemma best_temperature_minimal:
  "case best of (t, None) \<Rightarrow> ts \<noteq> [] | (t, Some b) \<Rightarrow> b = loss t \<Longrightarrow>
   \<exists>t. best_temperature loss best ts = (t, Some (loss t))
     \<and> (t \<in> set ts \<or> (snd best \<noteq> None \<and> t = fst best))
     \<and> (\<forall>t'\<in>set ts. loss t \<le> loss t') \<and> (snd best \<noteq> None \<longrightarrow> loss t \<le> loss (fst best))"
proof (induction loss best ts rule: best_temperature.induct)
  case (2 loss best best_loss t ts)
  let ?next = "if case best_loss of None \<Rightarrow> True | Some b \<Rightarrow> loss t < b then (t, Some (loss t)) else (best, best_loss)"
  have n: "snd ?next = Some (loss (fst ?next))" "loss (fst ?next) \<le> loss t" "fst ?next = t \<or> (best_loss \<noteq> None \<and> fst ?next = best)"
      "best_loss \<noteq> None \<longrightarrow> loss (fst ?next) \<le> loss best"
    using 2(2) by (auto split: option.splits if_splits)
  have "case ?next of (t, None) \<Rightarrow> ts \<noteq> [] | (t, Some b) \<Rightarrow> b = loss t"
    using n(1) by (simp add: case_prod_unfold)
  from 2(1) [OF this] obtain u where u: "best_temperature loss ?next ts = (u, Some (loss u))"
      "u \<in> set ts \<or> u = fst ?next" "\<forall>t'\<in>set ts. loss u \<le> loss t'" "loss u \<le> loss (fst ?next)"
    using n(1) by auto
  have "u \<in> set (t # ts) \<or> (best_loss \<noteq> None \<and> u = best)" using u(2) n(3) by auto
  moreover have "loss u \<le> loss t" "best_loss \<noteq> None \<longrightarrow> loss u \<le> loss best" using u(4) n(2,4) by auto
  ultimately show ?case using u(1,3) by (intro exI [of _ u]) simp
qed (auto split: option.splits)

lemma scaler_fit_minimal:
  assumes "scaler_fit self ps ys = Inr s"
  shows "ts_temperature s \<in> set (geomspace 0.1 10 200)"
    "\<forall>t\<in>set (geomspace 0.1 10 200).
       calibration_loss (map (logit \<circ> clip (1 / 10 ^ 6) (1 - 1 / 10 ^ 6)) ps) ys (ts_temperature s)
         \<le> calibration_loss (map (logit \<circ> clip (1 / 10 ^ 6) (1 - 1 / 10 ^ 6)) ps) ys t"
proof -
  define loss where "loss = calibration_loss (map (logit \<circ> clip (1 / 10 ^ 6) (1 - 1 / 10 ^ 6)) ps) ys"
  define grid where "grid = geomspace 0.1 10 200"
  have T: "ts_temperature s = fst (best_temperature loss (1, None) grid)"
    using assms by (auto simp: scaler_fit_def Let_def loss_def grid_def split: if_splits)
  have "grid \<noteq> []" by (simp add: grid_def geomspace_def)
  then obtain t where t: "best_temperature loss (1, None) grid = (t, Some (loss t))" "t \<in> set grid" "\<forall>t'\<in>set grid. loss t \<le> loss t'"
    using best_temperature_minimal [where best = "(1, None)" and ts = grid and loss = loss] by auto
  then show "ts_temperature s \<in> set (geomspace 0.1 10 200)"
    "\<forall>t\<in>set (geomspace 0.1 10 200).
       calibration_loss (map (logit \<circ> clip (1 / 10 ^ 6) (1 - 1 / 10 ^ 6)) ps) ys (ts_temperature s)
         \<le> calibration_loss (map (logit \<circ> clip (1 / 10 ^ 6) (1 - 1 / 10 ^ 6)) ps) ys t"
    unfolding loss_def [symmetric] grid_def [symmetric] T by simp_all
qed

lemma geomspace_bounds:
  assumes "t \<in> set (geomspace 0.1 10 200)"
  shows "0.1 \<le> t" "t \<le> 10"
proof -
  obtain i where i: "i < 200" "t = 0.1 * 100 powr (real i / 199)" using assms by (auto simp: geomspace_def)
  have "(100 :: real) powr 0 \<le> 100 powr (real i / 199)" by (rule powr_mono) auto
  moreover have "(100 :: real) powr (real i / 199) \<le> 100 powr 1" using i(1) by (intro powr_mono) auto
  ultimately show "0.1 \<le> t" "t \<le> 10" by (simp_all add: i(2))
qed

subsection \<open>The transformation\<close>

lemma clip_mono: "x \<le> y \<Longrightarrow> clip lo hi x \<le> clip lo hi y"
  by (auto simp: clip_def)

lemma clip_bounds: "lo \<le> hi \<Longrightarrow> lo \<le> clip lo hi x \<and> clip lo hi x \<le> hi"
  by (auto simp: clip_def)

lemma logit_mono: "0 < p \<Longrightarrow> p \<le> q \<Longrightarrow> q < 1 \<Longrightarrow> logit p \<le> logit q"
  unfolding logit_def by (subst ln_le_cancel_iff) (auto simp: field_simps)

lemma logit_nonneg_iff: "0 < p \<Longrightarrow> p < 1 \<Longrightarrow> 0 \<le> logit p \<longleftrightarrow> 0.5 \<le> p"
  unfolding logit_def by (subst ln_ge_zero_iff) (auto simp: field_simps)

lemma sigmoid_mono: "x \<le> y \<Longrightarrow> sigmoid x \<le> sigmoid y"
  unfolding sigmoid_def by (intro divide_left_mono mult_pos_pos add_pos_pos) auto

lemma sigmoid_half_iff: "0.5 \<le> sigmoid x \<longleftrightarrow> 0 \<le> x"
proof -
  have "0 < 1 + exp (- x)" by (simp add: add_pos_pos)
  then show ?thesis unfolding sigmoid_def by (simp add: field_simps)
qed

lemma clip_half_iff: "lo < 0.5 \<Longrightarrow> 0.5 < hi \<Longrightarrow> 0.5 \<le> clip lo hi x \<longleftrightarrow> 0.5 \<le> x"
  by (auto simp: clip_def)

definition calibrated :: "real \<Rightarrow> real \<Rightarrow> real" where
  "calibrated temperature x =
     clip (1 / 10 ^ 9) (1 - 1 / 10 ^ 9) (sigmoid (logit (clip (1 / 10 ^ 6) (1 - 1 / 10 ^ 6) x) / temperature))"

lemma scaler_transform_calibrated: "scaler_transform self ps = map (calibrated (ts_temperature self)) ps"
  by (simp add: scaler_transform_def calibrated_def)

lemma clipped_open: "0 < clip (1 / 10 ^ 6) (1 - 1 / 10 ^ 6) x \<and> clip (1 / 10 ^ 6) (1 - 1 / 10 ^ 6) x < 1"
  by (auto simp: clip_def)

lemma calibrated_bounds: "1 / 10 ^ 9 \<le> calibrated t x \<and> calibrated t x \<le> 1 - 1 / 10 ^ 9"
  unfolding calibrated_def by (rule clip_bounds) simp

lemma calibrated_mono: "0 < t \<Longrightarrow> x \<le> y \<Longrightarrow> calibrated t x \<le> calibrated t y"
  unfolding calibrated_def
  by (intro clip_mono sigmoid_mono divide_right_mono logit_mono) (use clipped_open in auto)

lemma calibrated_half_iff: "0 < t \<Longrightarrow> 0.5 \<le> calibrated t x \<longleftrightarrow> 0.5 \<le> x"
  unfolding calibrated_def
  by (subst clip_half_iff, simp, simp)
    (simp only: sigmoid_half_iff zero_le_divide_iff, use logit_nonneg_iff clipped_open clip_half_iff in auto)

subsection \<open>Decisions at one half\<close>

lemma tally_calibrated:
  assumes "0 < t" "length ys = length qs"
  shows "tally 0.5 y pr (zip ys (map (\<lambda>x. min 1 (max 0 x)) (map (calibrated t) qs)))
    = tally 0.5 y pr (zip ys (map (\<lambda>x. min 1 (max 0 x)) qs))"
proof -
  have half: "0.5 \<le> min 1 (max 0 x) \<longleftrightarrow> 0.5 \<le> x" for x :: real by auto
  have "map (\<lambda>(y', p). y' = y \<and> (0.5 \<le> p) = pr) (zip ys (map (\<lambda>x. min 1 (max 0 x)) (map (calibrated t) qs)))
      = map (\<lambda>(y', p). y' = y \<and> (0.5 \<le> p) = pr) (zip ys (map (\<lambda>x. min 1 (max 0 x)) qs))"
    using assms(2) by (intro nth_equalityI) (simp_all only: length_map length_zip nth_map nth_zip prod.case half calibrated_half_iff [OF assms(1)] min_less_iff_conj)
  moreover have "length (filter P xs) = length (filter id (map P xs))" for P :: "real \<times> real \<Rightarrow> bool" and xs
    by (simp add: filter_map comp_def)
  ultimately show ?thesis unfolding tally_def by metis
qed

lemma metrics_total:
  assumes "length ys = length ps"
  shows "\<exists>m. classification_metrics sklearn argsort ys ps threshold = Inr m"
proof -
  have "\<exists>e. expected_calibration_error ys (map (\<lambda>x. min 1 (max 0 x)) ps) 10 = Inr e"
    using assms by (auto simp: expected_calibration_error_def)
  then show ?thesis using assms by (auto simp: classification_metrics_def Let_def split: option.splits prod.splits)
qed

lemma metrics_fields:
  assumes "classification_metrics sklearn argsort ys ps threshold = Inr m"
  defines "cell \<equiv> \<lambda>y pr. tally threshold y pr (zip ys (map (\<lambda>x. min 1 (max 0 x)) ps))"
  defines "precision \<equiv> ratio_or_zero (real (cell 1 True)) (real (cell 1 True + cell 0 True))"
  defines "recall \<equiv> ratio_or_zero (real (cell 1 True)) (real (cell 1 True + cell 1 False))"
  shows "cm_confusion_matrix m = [[cell 0 False, cell 0 True], [cell 1 False, cell 1 True]]"
    "cm_precision m = precision" "cm_recall m = recall" "cm_f1 m = ratio_or_zero (2 * precision * recall) (precision + recall)"
  using assms(1) unfolding precision_def recall_def cell_def classification_metrics_def Let_def
  by (cases "length ys = length ps"; clarsimp split: prod.splits)+

lemma metrics_calibrated:
  assumes "0 < t" "classification_metrics sklearn argsort zs qs 0.5 = Inr m"
  shows "\<exists>m'. classification_metrics sklearn argsort zs (map (calibrated t) qs) 0.5 = Inr m'
    \<and> cm_confusion_matrix m' = cm_confusion_matrix m \<and> cm_precision m' = cm_precision m
    \<and> cm_recall m' = cm_recall m \<and> cm_f1 m' = cm_f1 m"
proof -
  have len: "length zs = length qs" using assms(2) by (auto simp: classification_metrics_def Let_def split: if_splits)
  then obtain m' where m': "classification_metrics sklearn argsort zs (map (calibrated t) qs) 0.5 = Inr m'"
    using metrics_total [of zs "map (calibrated t) qs" sklearn argsort "0.5"] by auto
  show ?thesis
    by (intro exI [of _ m'] conjI m') (simp_all only: metrics_fields [OF assms(2)] metrics_fields [OF m'] tally_calibrated [OF assms(1) len])
qed

text \<open>C24: calibration. A fit fails exactly on empty or unequal inputs; otherwise its temperature minimises the
  loss over the 200 points of the grid and lies between 0.1 and 10. Transformed probabilities lie
  strictly between 0 and 1 and keep their order, and since they stay on their side of one half,
  calibration changes neither the confusion matrix nor precision, recall and F1 of any labels.\<close>

theorem temperature_calibration_correct:
  shows "(scaler_fit self ps ys = Inl ValueError \<longleftrightarrow> ps = [] \<or> length ps \<noteq> length ys)
    \<and> (\<forall>s. scaler_fit self ps ys = Inr s \<longrightarrow>
        0.1 \<le> ts_temperature s \<and> ts_temperature s \<le> 10
        \<and> (\<forall>t\<in>set (geomspace 0.1 10 200).
             calibration_loss (map (logit \<circ> clip (1 / 10 ^ 6) (1 - 1 / 10 ^ 6)) ps) ys (ts_temperature s)
               \<le> calibration_loss (map (logit \<circ> clip (1 / 10 ^ 6) (1 - 1 / 10 ^ 6)) ps) ys t)
        \<and> length (scaler_transform s qs) = length qs
        \<and> (\<forall>x\<in>set (scaler_transform s qs). 0 < x \<and> x < 1)
        \<and> (\<forall>i<length qs. \<forall>j<length qs. qs ! i \<le> qs ! j \<longrightarrow> scaler_transform s qs ! i \<le> scaler_transform s qs ! j)
        \<and> (\<forall>sklearn argsort zs m. classification_metrics sklearn argsort zs qs 0.5 = Inr m \<longrightarrow>
             (\<exists>m'. classification_metrics sklearn argsort zs (scaler_transform s qs) 0.5 = Inr m'
                \<and> cm_confusion_matrix m' = cm_confusion_matrix m \<and> cm_precision m' = cm_precision m
                \<and> cm_recall m' = cm_recall m \<and> cm_f1 m' = cm_f1 m)))"
proof (intro conjI allI impI)
  show "scaler_fit self ps ys = Inl ValueError \<longleftrightarrow> ps = [] \<or> length ps \<noteq> length ys"
    by (simp add: scaler_fit_def Let_def)
next
  fix s assume s: "scaler_fit self ps ys = Inr s"
  let ?loss = "calibration_loss (map (logit \<circ> clip (1 / 10 ^ 6) (1 - 1 / 10 ^ 6)) ps) ys"
  note t = scaler_fit_minimal [OF s]
  show bounds: "0.1 \<le> ts_temperature s" "ts_temperature s \<le> 10" using geomspace_bounds [OF t(1)] by auto
  have pos: "0 < ts_temperature s" using bounds by simp
  show "\<forall>t\<in>set (geomspace 0.1 10 200). ?loss (ts_temperature s) \<le> ?loss t" by (rule t(2))
  show "length (scaler_transform s qs) = length qs" by (simp add: scaler_transform_calibrated)
  show "\<forall>x\<in>set (scaler_transform s qs). 0 < x \<and> x < 1"
  proof
    fix x assume "x \<in> set (scaler_transform s qs)"
    then obtain q where "x = calibrated (ts_temperature s) q" by (auto simp: scaler_transform_calibrated)
    then have "1 / 10 ^ 9 \<le> x" "x \<le> 1 - 1 / 10 ^ 9" using calibrated_bounds by blast+
    then show "0 < x \<and> x < 1" by simp
  qed
  show "scaler_transform s qs ! i \<le> scaler_transform s qs ! j" if "i < length qs" "j < length qs" "qs ! i \<le> qs ! j" for i j
    using that calibrated_mono [OF pos] by (simp add: scaler_transform_calibrated)
  show "\<exists>m'. classification_metrics sklearn argsort zs (scaler_transform s qs) 0.5 = Inr m'
      \<and> cm_confusion_matrix m' = cm_confusion_matrix m \<and> cm_precision m' = cm_precision m
      \<and> cm_recall m' = cm_recall m \<and> cm_f1 m' = cm_f1 m"
    if "classification_metrics sklearn argsort zs qs 0.5 = Inr m" for sklearn argsort zs m
    using metrics_calibrated [OF pos that] by (simp add: scaler_transform_calibrated)
qed

text \<open>Two validation pairs fit a scaler; it keeps the decisions on two other probabilities.\<close>

theorem temperature_calibration_correct_witness:
  "\<exists>s m m'. scaler_fit (TemperatureScaler_init 1) [0.9, 0.2] [1, 0] = Inr s \<and> ts_temperature s \<le> 10
     \<and> classification_metrics None (\<lambda>_. [0, 1]) [1, 0] [0.7, 0.6] 0.5 = Inr m
     \<and> classification_metrics None (\<lambda>_. [0, 1]) [1, 0] (scaler_transform s [0.7, 0.6]) 0.5 = Inr m'
     \<and> cm_confusion_matrix m' = cm_confusion_matrix m"
proof -
  define dumb :: "real list \<Rightarrow> nat list" where "dumb = (\<lambda>_. [0, 1])"
  obtain s where s: "scaler_fit (TemperatureScaler_init 1) [0.9, 0.2] [1, 0] = Inr s" by (simp add: scaler_fit_def Let_def)
  obtain m where m: "classification_metrics None dumb [1, 0] [0.7, 0.6] 0.5 = Inr m"
    using metrics_total [of "[1, 0]" "[0.7, 0.6]" None dumb "0.5"] by auto
  show ?thesis
    using temperature_calibration_correct [of "TemperatureScaler_init 1" "[0.9, 0.2]" "[1, 0]" "[0.7, 0.6]"] s m
    unfolding dumb_def by (elim conjE allE [where x = s]) blast
qed

end
