(* ===== verification/Model.thy ===== *)
theory Model
  imports Graph_Tensors Dataset Calibration
begin

section \<open>Models (\<^verbatim>\<open>model.py\<close>)\<close>

text \<open>
  Everything of the model code but the numerical libraries: the batches, the training loop with its
  checkpoint and early stopping, the artifact with its checks, the tabular baseline and the merge of
  model probabilities into predictions. PyTorch and scikit-learn are arguments: \<open>'w\<close> are the weights
  of the network, \<open>forward\<close> its evaluation on a batch, \<open>train_epoch\<close> one pass of the optimiser over the
  batches, \<open>start\<close> the initial network after the warm-up of the explicit head. The means of no rows
  (not a number in numpy) are 0 here, and division by a scale of 0 gives 0.
\<close>

subsection \<open>Configuration and predictions\<close>

record TrainingConfig =
  tr_seed :: int
  tr_hidden_dim :: int
  tr_embedding_dim :: int
  tr_gnn_layers :: int
  tr_learning_rate :: real
  tr_weight_decay :: real
  tr_dropout :: real
  tr_epochs :: int
  tr_patience :: int
  tr_batch_size :: int
  tr_class_weight :: "real option"
  tr_calibration :: string

definition TrainingConfig_init :: TrainingConfig where
  "TrainingConfig_init =
     \<lparr>tr_seed = 42, tr_hidden_dim = 64, tr_embedding_dim = 48, tr_gnn_layers = 2, tr_learning_rate = 0.01,
      tr_weight_decay = 0.0001, tr_dropout = 0.2, tr_epochs = 100, tr_patience = 15, tr_batch_size = 256,
      tr_class_weight = None, tr_calibration = ''temperature''\<rparr>"

definition select_non_regressing_model ::
  "ClassificationMetrics \<Rightarrow> ClassificationMetrics \<Rightarrow> real \<Rightarrow> real \<Rightarrow> bool" where
  "select_non_regressing_model candidate active pr_tolerance brier_tolerance \<longleftrightarrow>
     cm_pr_auc candidate \<ge> cm_pr_auc active - pr_tolerance
     \<and> cm_brier_score candidate \<le> cm_brier_score active + brier_tolerance
     \<and> cm_f1 candidate \<ge> cm_f1 active - 0.02"

text \<open>The loop over the examples and their probabilities, updating the dictionary by pair.\<close>

definition model_prediction ::
  "(string \<times> string, PairPrediction) dict \<Rightarrow> string \<Rightarrow> int \<Rightarrow> PairExample \<Rightarrow> real \<Rightarrow> PairPrediction" where
  "model_prediction by_pair model_version now example probability =
     (let base = map_of by_pair (pe_test_a example, pe_test_b example)
      in PairPrediction_init (pe_test_a example) (pe_test_b example) probability
           (case base of Some b \<Rightarrow> pp_cause b | None \<Rightarrow> CC_UNKNOWN) model_version
           (case base of Some b \<Rightarrow> pp_shared_resources b | None \<Rightarrow> pe_resources example)
           (case base of Some b \<Rightarrow> pp_explanation b | None \<Rightarrow> ''model prediction from pair features'') now)"

fun merge_predictions ::
  "string \<Rightarrow> (nat \<Rightarrow> int) \<Rightarrow> nat \<Rightarrow> (string \<times> string, PairPrediction) dict \<Rightarrow> (PairExample \<times> real) list
     \<Rightarrow> (string \<times> string, PairPrediction) dict" where
  "merge_predictions model_version now k by_pair [] = by_pair"
| "merge_predictions model_version now k by_pair ((example, probability) # rows) =
     merge_predictions model_version now (k + 1)
       (AList.update (pe_test_a example, pe_test_b example)
          (model_prediction by_pair model_version (now k) example probability) by_pair) rows"

definition pair_predictions ::
  "(nat \<Rightarrow> int) \<Rightarrow> Dataset \<Rightarrow> real list \<Rightarrow> PairPrediction list \<Rightarrow> string \<Rightarrow> PairPrediction list result" where
  "pair_predictions now dataset probabilities heuristic_predictions model_version =
     (let by_pair = dict_of (map (\<lambda>prediction. (PairPrediction_key prediction, prediction)) heuristic_predictions)
      in if length (ds_examples dataset) \<noteq> length probabilities then Inl ArtifactError
         else Inr (map snd (merge_predictions model_version now 0 by_pair (zip (ds_examples dataset) probabilities))))"

subsection \<open>Batches\<close>

function slices :: "nat \<Rightarrow> 'a list \<Rightarrow> 'a list list" where
  "slices n [] = []"
| "slices n (x # xs) = (if n = 0 then [] else take n (x # xs) # slices n (drop n (x # xs)))"
  by pat_completeness auto

termination slices
  by (relation "measure (\<lambda>(_, xs). length xs)") auto

text \<open>\<^verbatim>\<open>[values[i : i + size] for i in range(0, len(values), size)]\<close>: a step of 0 is an error, a negative
  step an empty range.\<close>

definition batches_of :: "int \<Rightarrow> 'a list \<Rightarrow> 'a list list result" where
  "batches_of step values = (if step = 0 then Inl ValueError else if step < 0 then Inr [] else Inr (slices (nat step) values))"

definition train_batches :: "(int \<Rightarrow> nat \<Rightarrow> nat \<Rightarrow> nat) \<Rightarrow> int list \<Rightarrow> int \<Rightarrow> int \<Rightarrow> int list list result" where
  "train_batches below indices step seed = batches_of step (py_shuffle (below seed) indices)"

text \<open>The rows normalised by column; numpy refuses rows of another length (it would stretch a single
  column).\<close>

definition normalize_rows :: "real list \<Rightarrow> real list \<Rightarrow> real list list \<Rightarrow> real list list result" where
  "normalize_rows mean_row scale rows =
     (if rows \<noteq> [] \<and> length mean_row = length scale \<and> list_all (\<lambda>row. length row = length mean_row) rows
      then Inr (map (\<lambda>row. map2 (/) (map2 (-) row mean_row) scale) rows) else Inl ValueError)"

record batch =
  bt_pairs :: "(nat \<times> nat) list"
  bt_explicit :: "real list list"
  bt_labels :: "real list"
  bt_weights :: "real list"

definition pair_index :: "(string, nat) dict \<Rightarrow> PairExample \<Rightarrow> (nat \<times> nat) result" where
  "pair_index test_index item =
     bind_result (dict_index test_index (pe_test_a item)) (\<lambda>a.
     bind_result (dict_index test_index (pe_test_b item)) (\<lambda>b. Inr (a, b)))"

definition gnn_batch :: "Dataset \<Rightarrow> real list \<Rightarrow> real list \<Rightarrow> (string, nat) dict \<Rightarrow> int list \<Rightarrow> batch result" where
  "gnn_batch dataset mean_row scale test_index indices =
     bind_result (map_result (py_index (ds_examples dataset)) indices) (\<lambda>examples.
     bind_result (map_result (pair_index test_index) examples) (\<lambda>pairs.
     bind_result (matrix_of (map pe_features examples)) (\<lambda>explicit_values.
     bind_result (normalize_rows mean_row scale explicit_values) (\<lambda>explicit.
     Inr \<lparr>bt_pairs = pairs, bt_explicit = explicit, bt_labels = map (\<lambda>item. real_of_int (pe_label item)) examples,
          bt_weights = map pe_confidence examples\<rparr>))))"

definition predict_batch ::
  "(GraphTensors \<Rightarrow> (nat \<times> nat) list \<Rightarrow> real list list \<Rightarrow> real list) \<Rightarrow> Dataset \<Rightarrow> real list \<Rightarrow> real list \<Rightarrow> GraphTensors
     \<Rightarrow> int list \<Rightarrow> real list result" where
  "predict_batch network dataset mean_row scale tensors indices =
     bind_result (gnn_batch dataset mean_row scale (gt_test_index tensors) indices) (\<lambda>b.
       Inr (map sigmoid (network tensors (bt_pairs b) (bt_explicit b))))"

definition predict_indices ::
  "(GraphTensors \<Rightarrow> (nat \<times> nat) list \<Rightarrow> real list list \<Rightarrow> real list) \<Rightarrow> int \<Rightarrow> Dataset \<Rightarrow> real list \<Rightarrow> real list
     \<Rightarrow> GraphTensors \<Rightarrow> int list \<Rightarrow> real list result" where
  "predict_indices network batch_size dataset mean_row scale tensors indices =
     bind_result (batches_of batch_size indices) (\<lambda>batches.
     bind_result (map_result (predict_batch network dataset mean_row scale tensors) batches) (\<lambda>output.
     Inr (concat output)))"

subsection \<open>Training\<close>

record 'w torch_library =
  to_installed :: bool
  to_start :: "TrainingConfig \<Rightarrow> GraphTensors \<Rightarrow> real \<Rightarrow> real list list \<Rightarrow> real list \<Rightarrow> real list \<Rightarrow> 'w"
  to_step :: "TrainingConfig \<Rightarrow> GraphTensors \<Rightarrow> 'w \<Rightarrow> batch \<Rightarrow> 'w \<times> real"
  to_forward :: "'w \<Rightarrow> GraphTensors \<Rightarrow> (nat \<times> nat) list \<Rightarrow> real list list \<Rightarrow> real list"
  to_save :: "'w \<Rightarrow> string"
  to_load :: "(string \<times> pyval) list \<Rightarrow> nat \<Rightarrow> nat \<Rightarrow> string \<Rightarrow> 'w option"

text \<open>The scores of scikit-learn, if installed, and the order of \<^verbatim>\<open>argsort\<close>, for \<open>classification_metrics\<close>.\<close>

type_synonym scorer = "((real list \<Rightarrow> real list \<Rightarrow> real) \<times> (real list \<Rightarrow> real list \<Rightarrow> real)) option \<times> (real list \<Rightarrow> nat list)"

definition metrics_by :: "scorer \<Rightarrow> real list \<Rightarrow> real list \<Rightarrow> ClassificationMetrics result" where
  "metrics_by scorer labels probabilities = classification_metrics (fst scorer) (snd scorer) labels probabilities 0.5"

record 'w GNNTrainer =
  gn_config :: TrainingConfig
  gn_model :: "'w option"
  gn_calibrator :: TemperatureScaler
  gn_history :: "(nat \<times> real \<times> real \<times> real) list"
  gn_mean :: "real list"
  gn_scale :: "real list"

definition GNNTrainer_init :: "TrainingConfig option \<Rightarrow> 'w GNNTrainer" where
  "GNNTrainer_init config =
     \<lparr>gn_config = (case config of Some c \<Rightarrow> c | None \<Rightarrow> TrainingConfig_init), gn_model = None,
      gn_calibrator = TemperatureScaler_init 1, gn_history = [], gn_mean = replicate (length FEATURE_NAMES) 0,
      gn_scale = replicate (length FEATURE_NAMES) 1\<rparr>"

definition column :: "nat \<Rightarrow> real list list \<Rightarrow> real list" where
  "column j rows = map (\<lambda>row. row ! j) rows"

definition column_means :: "nat \<Rightarrow> real list list \<Rightarrow> real list" where
  "column_means width rows = map (\<lambda>j. mean (column j rows)) [0..<width]"

definition column_scales :: "nat \<Rightarrow> real list list \<Rightarrow> real list" where
  "column_scales width rows =
     map (\<lambda>j. let m = mean (column j rows); deviation = sqrt (mean (map (\<lambda>x. (x - m) ^ 2) (column j rows)))
              in if deviation < 1 / 10 ^ 6 then 1 else deviation) [0..<width]"

text \<open>The checkpoint kept by the loop: the weights of the best epoch, their score, and the epochs since.\<close>

record 'w checkpoint =
  cp_state :: "'w option"
  cp_score :: real
  cp_stale :: int

definition validation_score :: "ClassificationMetrics \<Rightarrow> real" where
  "validation_score m = cm_pr_auc m - 0.15 * cm_brier_score m"

fun run_batches :: "('w \<Rightarrow> batch \<Rightarrow> 'w \<times> real) \<Rightarrow> (int list \<Rightarrow> batch result) \<Rightarrow> 'w \<Rightarrow> int list list \<Rightarrow> ('w \<times> real list) result" where
  "run_batches step assemble w [] = Inr (w, [])"
| "run_batches step assemble w (indices # batches) =
     bind_result (assemble indices) (\<lambda>b.
       let (w, loss) = step w b
       in bind_result (run_batches step assemble w batches) (\<lambda>(w, losses). Inr (w, loss # losses)))"

fun train_loop ::
  "('w \<Rightarrow> ('w \<times> real) result) \<Rightarrow> ('w \<Rightarrow> ClassificationMetrics result) \<Rightarrow> int \<Rightarrow> nat list \<Rightarrow> 'w \<Rightarrow> 'w checkpoint
     \<Rightarrow> (nat \<times> real \<times> real \<times> real) list \<Rightarrow> ('w checkpoint \<times> (nat \<times> real \<times> real \<times> real) list) result" where
  "train_loop train evaluate patience [] w best history = Inr (best, history)"
| "train_loop train evaluate patience (epoch # epochs) w best history =
     bind_result (train w) (\<lambda>(w, loss).
     bind_result (evaluate w) (\<lambda>m.
       let history = history @ [(epoch, loss, cm_pr_auc m, cm_brier_score m)];
           score = validation_score m
       in if score > cp_score best + 1 / 10 ^ 5
          then train_loop train evaluate patience epochs w \<lparr>cp_state = Some w, cp_score = score, cp_stale = 0\<rparr> history
          else let best = best\<lparr>cp_stale := cp_stale best + 1\<rparr>
               in if epoch \<ge> 80 \<and> cp_stale best \<ge> patience then Inr (best, history)
                  else train_loop train evaluate patience epochs w best history))"

definition labels_at :: "Dataset \<Rightarrow> int list \<Rightarrow> real list result" where
  "labels_at dataset indices =
     bind_result (map_result (py_index (ds_examples dataset)) indices) (\<lambda>examples.
       Inr (map (\<lambda>item. real_of_int (pe_label item)) examples))"

definition positive_weight :: "TrainingConfig \<Rightarrow> DatasetMetadata \<Rightarrow> real" where
  "positive_weight config metadata =
     (case tr_class_weight config of
        Some w \<Rightarrow> (if w \<noteq> 0 then w else real (max 1 (dm_negative_examples metadata)) / real (max 1 (dm_positive_examples metadata)))
      | None \<Rightarrow> real (max 1 (dm_negative_examples metadata)) / real (max 1 (dm_positive_examples metadata)))"

definition trainer_predict :: "'w torch_library \<Rightarrow> 'w GNNTrainer \<Rightarrow> 'w \<Rightarrow> GraphTensors \<Rightarrow> Dataset \<Rightarrow> int list \<Rightarrow> real list result" where
  "trainer_predict torch self w tensors dataset indices =
     predict_indices (to_forward torch w) (tr_batch_size (gn_config self)) dataset (gn_mean self) (gn_scale self) tensors indices"

text \<open>The column statistics of the training rows, one epoch over the batches, and its validation.\<close>

definition fit_normalization :: "'w GNNTrainer \<Rightarrow> Dataset \<Rightarrow> real list list \<Rightarrow> 'w GNNTrainer" where
  "fit_normalization self dataset train_features =
     (let width = (if train_features = [] then length (dm_feature_names (ds_metadata dataset)) else length (hd train_features))
      in self\<lparr>gn_mean := column_means width train_features, gn_scale := column_scales width train_features\<rparr>)"

definition train_epoch ::
  "'w torch_library \<Rightarrow> 'w GNNTrainer \<Rightarrow> GraphTensors \<Rightarrow> Dataset \<Rightarrow> int list list \<Rightarrow> 'w \<Rightarrow> ('w \<times> real) result" where
  "train_epoch torch self tensors dataset batches w =
     bind_result (run_batches (to_step torch (gn_config self) tensors)
         (gnn_batch dataset (gn_mean self) (gn_scale self) (gt_test_index tensors)) w batches)
       (\<lambda>(w, losses). Inr (w, mean losses))"

definition validate_epoch ::
  "'w torch_library \<Rightarrow> scorer \<Rightarrow> 'w GNNTrainer \<Rightarrow> GraphTensors \<Rightarrow> Dataset \<Rightarrow> int list \<Rightarrow> 'w \<Rightarrow> ClassificationMetrics result" where
  "validate_epoch torch scorer self tensors dataset indices w =
     bind_result (trainer_predict torch self w tensors dataset indices) (\<lambda>probabilities.
     bind_result (labels_at dataset indices) (\<lambda>labels. metrics_by scorer labels probabilities))"

definition warm_start ::
  "'w torch_library \<Rightarrow> 'w GNNTrainer \<Rightarrow> GraphTensors \<Rightarrow> Dataset \<Rightarrow> real list list \<Rightarrow> real list \<Rightarrow> real list \<Rightarrow> 'w" where
  "warm_start torch self tensors dataset train_features labels weights =
     to_start torch (gn_config self) tensors (positive_weight (gn_config self) (ds_metadata dataset))
       (map (\<lambda>row. map2 (/) (map2 (-) row (gn_mean self)) (gn_scale self)) train_features) labels weights"

text \<open>The part of \<^verbatim>\<open>fit\<close> after the tensors: normalisation, warm-up, the loop over the epochs.\<close>

definition train_model ::
  "'w torch_library \<Rightarrow> scorer \<Rightarrow> (int \<Rightarrow> nat \<Rightarrow> nat \<Rightarrow> nat) \<Rightarrow> 'w GNNTrainer \<Rightarrow> GraphTensors \<Rightarrow> Dataset \<Rightarrow> DatasetSplit \<Rightarrow> 'w GNNTrainer result" where
  "train_model torch scorer below self tensors dataset split =
     bind_result (arrays dataset (Some (sp_train split))) (\<lambda>(train_features, train_labels, train_weights).
       let self = fit_normalization self dataset train_features;
           config = gn_config self
       in bind_result (train_batches below (sp_train split) (tr_batch_size config) (tr_seed config)) (\<lambda>batches.
          bind_result (train_loop (train_epoch torch self tensors dataset batches)
              (validate_epoch torch scorer self tensors dataset (sp_validation split)) (tr_patience config) [0..<nat (tr_epochs config)]
              (warm_start torch self tensors dataset train_features train_labels train_weights)
              \<lparr>cp_state = None, cp_score = - 1, cp_stale = 0\<rparr> (gn_history self))
            (\<lambda>(best, history).
              case cp_state best of
                None \<Rightarrow> Inl ArtifactError
              | Some w \<Rightarrow> Inr (self\<lparr>gn_model := Some w, gn_history := history\<rparr>))))"

text \<open>The calibration and the two reports at the end of \<^verbatim>\<open>fit\<close>.\<close>

definition calibrate_model ::
  "'w torch_library \<Rightarrow> scorer \<Rightarrow> 'w GNNTrainer \<Rightarrow> 'w \<Rightarrow> GraphTensors \<Rightarrow> Dataset \<Rightarrow> DatasetSplit
     \<Rightarrow> ('w GNNTrainer \<times> ClassificationMetrics \<times> ClassificationMetrics) result" where
  "calibrate_model torch scorer self w tensors dataset split =
     bind_result (trainer_predict torch self w tensors dataset (sp_validation split)) (\<lambda>validation_raw.
     bind_result (labels_at dataset (sp_validation split)) (\<lambda>validation_labels.
     bind_result (if tr_calibration (gn_config self) = ''temperature'' \<and> card (set validation_labels) > 1
                  then scaler_fit (gn_calibrator self) validation_raw validation_labels else Inr (gn_calibrator self)) (\<lambda>calibrator.
     bind_result (trainer_predict torch self w tensors dataset (sp_test split)) (\<lambda>test_raw.
     bind_result (metrics_by scorer validation_labels (scaler_transform calibrator validation_raw)) (\<lambda>validation.
     bind_result (labels_at dataset (sp_test split)) (\<lambda>test_labels.
     bind_result (metrics_by scorer test_labels (scaler_transform calibrator test_raw)) (\<lambda>test.
       Inr (self\<lparr>gn_calibrator := calibrator\<rparr>, validation, test))))))))"

definition GNNTrainer_fit ::
  "'w torch_library \<Rightarrow> scorer \<Rightarrow> (int \<Rightarrow> nat \<Rightarrow> nat \<Rightarrow> nat) \<Rightarrow> 'w GNNTrainer \<Rightarrow> TestResourceGraph \<Rightarrow> Dataset \<Rightarrow> DatasetSplit
     \<Rightarrow> ('w GNNTrainer \<times> ClassificationMetrics \<times> ClassificationMetrics) result" where
  "GNNTrainer_fit torch scorer below self graph dataset split =
     bind_result (graph_tensors (to_installed torch) graph) (\<lambda>(tensors, graph).
       if gt_resource_x tensors = [] then Inl ArtifactError
       else bind_result (train_model torch scorer below self tensors dataset split) (\<lambda>self.
              case gn_model self of
                None \<Rightarrow> Inl ArtifactError
              | Some w \<Rightarrow> calibrate_model torch scorer self w tensors dataset split))"

subsection \<open>Artifacts\<close>

definition MODEL_SCHEMA_VERSION :: string where
  "MODEL_SCHEMA_VERSION = ''conflict-model-v1''"

definition CONFIG_FIELDS :: "string list" where
  "CONFIG_FIELDS = [''seed'', ''hidden_dim'', ''embedding_dim'', ''gnn_layers'', ''learning_rate'', ''weight_decay'', ''dropout'',
     ''epochs'', ''patience'', ''batch_size'', ''class_weight'', ''calibration'']"

definition config_row :: "TrainingConfig \<Rightarrow> (string \<times> pyval) list" where
  "config_row c =
     [(''seed'', PInt (tr_seed c)), (''hidden_dim'', PInt (tr_hidden_dim c)), (''embedding_dim'', PInt (tr_embedding_dim c)),
      (''gnn_layers'', PInt (tr_gnn_layers c)), (''learning_rate'', PFloat (tr_learning_rate c)),
      (''weight_decay'', PFloat (tr_weight_decay c)), (''dropout'', PFloat (tr_dropout c)), (''epochs'', PInt (tr_epochs c)),
      (''patience'', PInt (tr_patience c)), (''batch_size'', PInt (tr_batch_size c)),
      (''class_weight'', (case tr_class_weight c of None \<Rightarrow> PNone | Some w \<Rightarrow> PFloat w)), (''calibration'', PStr (tr_calibration c))]"

definition metrics_row :: "ClassificationMetrics \<Rightarrow> (string \<times> pyval) list" where
  "metrics_row m =
     [(''pr_auc'', PFloat (cm_pr_auc m)), (''roc_auc'', PFloat (cm_roc_auc m)), (''precision'', PFloat (cm_precision m)),
      (''recall'', PFloat (cm_recall m)), (''f1'', PFloat (cm_f1 m)), (''brier_score'', PFloat (cm_brier_score m)),
      (''expected_calibration_error'', PFloat (cm_expected_calibration_error m)), (''threshold'', PFloat (cm_threshold m)),
      (''confusion_matrix'', PList (map (\<lambda>row. PList (map (\<lambda>n. PInt (int n)) row)) (cm_confusion_matrix m)))]"

definition ARTIFACT_FIELDS :: "string list" where
  "ARTIFACT_FIELDS = [''schema_version'', ''model_type'', ''version'', ''created_at'', ''feature_schema'', ''dataset_hash'', ''seed'',
     ''code_revision'', ''training_config'', ''validation_metrics'', ''test_metrics'', ''calibration'', ''feature_normalization'', ''environment'']"

record artifact_files =
  af_metadata :: "string option"
  af_weights :: "string option"

text \<open>What \<^verbatim>\<open>save\<close> reads from the host: the time twice, the revision \<^verbatim>\<open>git\<close> prints (if it runs), and the platform.\<close>

record save_host =
  sh_stamp :: string
  sh_created_at :: string
  sh_revision :: "string option"
  sh_environment :: "(string \<times> pyval) list"

definition artifact_row ::
  "save_host \<Rightarrow> 'w GNNTrainer \<Rightarrow> Dataset \<Rightarrow> ClassificationMetrics \<Rightarrow> ClassificationMetrics \<Rightarrow> string \<Rightarrow> (string \<times> pyval) list" where
  "artifact_row host self dataset validation test digest =
     [(''schema_version'', PStr MODEL_SCHEMA_VERSION), (''model_type'', PStr ''hybrid-graphsage''),
      (''version'', PStr (sh_stamp host @ ''-'' @ take 8 digest)), (''created_at'', PStr (sh_created_at host)),
      (''feature_schema'', PList (map PStr FEATURE_NAMES)), (''dataset_hash'', PStr (dm_content_hash (ds_metadata dataset))),
      (''seed'', PInt (tr_seed (gn_config self))),
      (''code_revision'', PStr (case sh_revision host of Some r \<Rightarrow> r | None \<Rightarrow> ''unknown'')),
      (''training_config'', PDict (config_row (gn_config self))), (''validation_metrics'', PDict (metrics_row validation)),
      (''test_metrics'', PDict (metrics_row test)),
      (''calibration'', PDict [(''method'', PStr ''temperature''), (''temperature'', PFloat (ts_temperature (gn_calibrator self)))]),
      (''feature_normalization'', PDict [(''mean'', PList (map PFloat (gn_mean self))), (''scale'', PList (map PFloat (gn_scale self)))]),
      (''environment'', PDict (sh_environment host)), (''checksum'', PStr digest)]"

definition GNNTrainer_save ::
  "'w torch_library \<Rightarrow> (pyval \<Rightarrow> string) \<Rightarrow> save_host \<Rightarrow> 'w GNNTrainer \<Rightarrow> Dataset \<Rightarrow> ClassificationMetrics \<Rightarrow> ClassificationMetrics
     \<Rightarrow> (artifact_files \<times> (string \<times> pyval) list) result" where
  "GNNTrainer_save torch dump_json host self dataset validation test =
     (case gn_model self of
        None \<Rightarrow> Inl ArtifactError
      | Some w \<Rightarrow>
          if \<not> to_installed torch then Inl ArtifactError
          else let bytes = to_save torch w;
                   metadata = artifact_row host self dataset validation test (sha256_hexdigest bytes)
               in Inr (\<lparr>af_metadata = Some (dump_json (PDict metadata)), af_weights = Some bytes\<rparr>, metadata))"

text \<open>\<^verbatim>\<open>float(v)\<close> and \<^verbatim>\<open>np.asarray(v)\<close> for a list of numbers; text that reads as a number and infinite
  values are not modelled and count as errors.\<close>

definition float_of_pyval :: "pyval \<Rightarrow> real result" where
  "float_of_pyval v =
     (case v of
        PFloat x \<Rightarrow> Inr x
      | PInt n \<Rightarrow> Inr (real_of_int n)
      | PBool b \<Rightarrow> Inr (if b then 1 else 0)
      | PStr _ \<Rightarrow> Inl ValueError
      | PInf _ \<Rightarrow> Inl ValueError
      | PNaN \<Rightarrow> Inl ValueError
      | _ \<Rightarrow> Inl TypeError)"

definition float_array :: "pyval \<Rightarrow> real list result" where
  "float_array v = (case v of PList vs \<Rightarrow> map_result float_of_pyval vs | _ \<Rightarrow> Inl TypeError)"

definition step_of_pyval :: "pyval \<Rightarrow> int result" where
  "step_of_pyval v = (case v of PInt n \<Rightarrow> Inr n | PBool b \<Rightarrow> Inr (if b then 1 else 0) | _ \<Rightarrow> Inl TypeError)"

definition row_width :: "real list list \<Rightarrow> nat result" where
  "row_width rows = (if rows = [] then Inl IndexError else Inr (length (hd rows)))"

text \<open>The metadata and the weights with their digest; every way they cannot be read is an \<^verbatim>\<open>ArtifactError\<close>.\<close>

definition read_artifact :: "(string \<Rightarrow> pyval result) \<Rightarrow> artifact_files \<Rightarrow> ((string \<times> pyval) list \<times> string) result" where
  "read_artifact loads files =
     (case bind_result (case af_metadata files of None \<Rightarrow> Inl OSError | Some content \<Rightarrow> loads content) (\<lambda>raw.
           bind_result (dataclass_kwargs ARTIFACT_FIELDS [''checksum''] raw) (\<lambda>metadata.
           case af_weights files of None \<Rightarrow> Inl OSError | Some bytes \<Rightarrow> Inr (metadata, bytes))) of
        Inl err \<Rightarrow> Inl (if err \<in> {OSError, ValueError, TypeError} then ArtifactError else err)
      | Inr r \<Rightarrow> Inr r)"

definition check_artifact :: "(string \<times> pyval) list \<Rightarrow> string \<Rightarrow> unit result" where
  "check_artifact metadata bytes =
     (if dict_get metadata ''schema_version'' PNone \<noteq> PStr MODEL_SCHEMA_VERSION then Inl ArtifactError
      else if PStr (sha256_hexdigest bytes) \<noteq> dict_get metadata ''checksum'' (PStr []) then Inl ArtifactError
      else if dict_get metadata ''feature_schema'' PNone \<noteq> PList (map PStr FEATURE_NAMES) then Inl ArtifactError
      else Inr ())"

definition predict_artifact ::
  "'w torch_library \<Rightarrow> (string \<Rightarrow> pyval result) \<Rightarrow> artifact_files \<Rightarrow> TestResourceGraph \<Rightarrow> Dataset
     \<Rightarrow> (real list \<times> (string \<times> pyval) list) result" where
  "predict_artifact torch loads files graph dataset =
     bind_result (read_artifact loads files) (\<lambda>(metadata, bytes).
     bind_result (check_artifact metadata bytes) (\<lambda>_.
     bind_result (if to_installed torch then Inr () else Inl ArtifactError) (\<lambda>_.
     bind_result (dataclass_kwargs [] CONFIG_FIELDS (dict_get metadata ''training_config'' PNone)) (\<lambda>config.
     bind_result (graph_tensors True graph) (\<lambda>(tensors, graph).
     bind_result (row_width (gt_test_x tensors)) (\<lambda>test_dim.
     bind_result (row_width (gt_resource_x tensors)) (\<lambda>resource_dim.
     bind_result (case to_load torch config test_dim resource_dim bytes of None \<Rightarrow> Inl ArtifactError | Some w \<Rightarrow> Inr w) (\<lambda>w.
     bind_result (getitem (dict_get metadata ''feature_normalization'' PNone) ''mean'') (\<lambda>m. bind_result (float_array m) (\<lambda>mean_row.
     bind_result (getitem (dict_get metadata ''feature_normalization'' PNone) ''scale'') (\<lambda>s. bind_result (float_array s) (\<lambda>scale.
     bind_result (step_of_pyval (dict_get config ''batch_size'' (PInt 256))) (\<lambda>batch_size.
     bind_result (predict_indices (to_forward torch w) batch_size dataset mean_row scale tensors
         (map int [0..<length (ds_examples dataset)])) (\<lambda>raw.
     bind_result (getitem (dict_get metadata ''calibration'' PNone) ''temperature'') (\<lambda>t. bind_result (float_of_pyval t) (\<lambda>temperature.
       Inr (scaler_transform (TemperatureScaler_init temperature) raw, metadata)))))))))))))))))"

subsection \<open>The tabular baseline\<close>

record sklearn_library =
  sk_scaler :: "real list list \<Rightarrow> real list list \<Rightarrow> real list list"
  sk_fit :: "string \<Rightarrow> int \<Rightarrow> real list list \<Rightarrow> real list \<Rightarrow> real list \<Rightarrow> (real list list \<Rightarrow> real list) result"

record TabularBaseline =
  tb_kind :: string
  tb_seed :: int
  tb_estimator :: "(real list list \<Rightarrow> real list) option"
  tb_scaler :: "(real list list \<Rightarrow> real list list) option"
  tb_calibrator :: TemperatureScaler

definition TabularBaseline_init :: "string \<Rightarrow> int \<Rightarrow> TabularBaseline" where
  "TabularBaseline_init kind seed =
     \<lparr>tb_kind = kind, tb_seed = seed, tb_estimator = None, tb_scaler = None, tb_calibrator = TemperatureScaler_init 1\<rparr>"

definition TabularBaseline_predict :: "TabularBaseline \<Rightarrow> real list list \<Rightarrow> real list result" where
  "TabularBaseline_predict self features =
     (case tb_estimator self of
        None \<Rightarrow> Inl ArtifactError
      | Some estimator \<Rightarrow>
          let transformed = (case tb_scaler self of Some scale \<Rightarrow> scale features | None \<Rightarrow> features)
          in Inr (scaler_transform (tb_calibrator self) (estimator transformed)))"

definition TabularBaseline_fit ::
  "sklearn_library option \<Rightarrow> scorer \<Rightarrow> TabularBaseline \<Rightarrow> Dataset \<Rightarrow> DatasetSplit
     \<Rightarrow> (TabularBaseline \<times> ClassificationMetrics \<times> ClassificationMetrics) result" where
  "TabularBaseline_fit sklearn scorer self dataset split =
     (case sklearn of
        None \<Rightarrow> Inl ArtifactError
      | Some sk \<Rightarrow>
          bind_result (arrays dataset (Some (sp_train split))) (\<lambda>(x_train, y_train, weights).
          bind_result (arrays dataset (Some (sp_validation split))) (\<lambda>(x_validation, y_validation, _).
          bind_result (arrays dataset (Some (sp_test split))) (\<lambda>(x_test, y_test, _).
          if tb_kind self \<notin> {''logistic_regression'', ''gradient_boosting''} then Inl ValueError
          else
            let scale = (if tb_kind self = ''logistic_regression'' then Some (sk_scaler sk x_train) else None);
                scaled = (\<lambda>x. case scale of Some s \<Rightarrow> s x | None \<Rightarrow> x)
            in bind_result (sk_fit sk (tb_kind self) (tb_seed self) (scaled x_train) y_train weights) (\<lambda>estimator.
               let validation_probabilities = estimator (scaled x_validation)
               in bind_result (if card (set y_validation) > 1 then scaler_fit (tb_calibrator self) validation_probabilities y_validation
                               else Inr (tb_calibrator self)) (\<lambda>calibrator.
                  bind_result (metrics_by scorer y_validation (scaler_transform calibrator validation_probabilities)) (\<lambda>validation.
                  bind_result (metrics_by scorer y_test (scaler_transform calibrator (estimator (scaled x_test)))) (\<lambda>test.
                    Inr (self\<lparr>tb_estimator := Some estimator, tb_scaler := scale, tb_calibrator := calibrator\<rparr>, validation, test)))))))))"

end
