(* ===== verification/Model_Properties.thy ===== *)
theory Model_Properties
  imports Model Dataset_Properties
begin

section \<open>Properties of the models\<close>

text \<open>
  Batches partition the indices in order, the training loop returns a checkpoint that no later epoch
  beats by more than the tolerance, a saved artifact predicts what its trainer predicts, and merging
  model probabilities into the heuristic's predictions keeps one prediction per pair.
\<close>

subsection \<open>Batches\<close>

lemma concat_slices: "0 < n \<Longrightarrow> concat (slices n xs) = xs"
  by (induction n xs rule: slices.induct) (simp_all add: append_take_drop_id del: take_Cons drop_Cons)

lemma slices_sizes: "b \<in> set (slices n xs) \<Longrightarrow> b \<noteq> [] \<and> length b \<le> n \<and> set b \<subseteq> set xs"
proof (induction n xs rule: slices.induct)
  case (2 n x xs)
  show ?case
  proof (cases "b = take n (x # xs)")
    case True
    then show ?thesis using 2(2) by (auto split: if_splits dest: in_set_takeD)
  next
    case False
    then have "n \<noteq> 0" "b \<in> set (slices n (drop n (x # xs)))" using 2(2) by (auto split: if_splits simp del: drop_Cons)
    then show ?thesis using 2(1) set_drop_subset [of n "x # xs"] by blast
  qed
qed simp

lemma batches_of_correct:
  assumes "0 < k"
  shows "\<exists>bs. batches_of k xs = Inr bs \<and> concat bs = xs \<and> (\<forall>b\<in>set bs. b \<noteq> [] \<and> int (length b) \<le> k \<and> set b \<subseteq> set xs)"
proof -
  have "int (length b) \<le> k" if "b \<in> set (slices (nat k) xs)" for b
    using slices_sizes [OF that] assms by linarith
  then show ?thesis using assms concat_slices [of "nat k" xs] slices_sizes [of _ "nat k" xs]
    by (auto simp: batches_of_def)
qed

subsection \<open>Evaluation of a batch\<close>

definition in_range :: "Dataset \<Rightarrow> int list \<Rightarrow> bool" where
  "in_range dataset indices \<longleftrightarrow> list_all (\<lambda>i. 0 \<le> i \<and> i < int (length (ds_examples dataset))) indices"

text \<open>Examples the network can be trained on: rows of one width, tests with a number, binary labels.\<close>

definition trainable :: "(string, nat) dict \<Rightarrow> Dataset \<Rightarrow> bool" where
  "trainable test_index dataset \<longleftrightarrow>
     list_all (\<lambda>e. length (pe_features e) = length (dm_feature_names (ds_metadata dataset))
       \<and> pe_test_a e \<in> fst ` set test_index \<and> pe_test_b e \<in> fst ` set test_index \<and> (pe_label e = 0 \<or> pe_label e = 1))
       (ds_examples dataset)"

lemma py_index_range:
  "in_range dataset indices \<Longrightarrow> map_result (py_index (ds_examples dataset)) indices = Inr (map (\<lambda>i. ds_examples dataset ! nat i) indices)"
  by (rule map_result_Inr) (auto simp: in_range_def py_index_def list_all_iff)

lemma range_in_examples: "in_range dataset indices \<Longrightarrow> i \<in> set indices \<Longrightarrow> ds_examples dataset ! nat i \<in> set (ds_examples dataset)"
  by (auto simp: in_range_def list_all_iff intro!: nth_mem)

lemma in_range_subset: "in_range dataset xs \<Longrightarrow> set ys \<subseteq> set xs \<Longrightarrow> in_range dataset ys"
  by (auto simp: in_range_def list_all_iff)

lemma pair_index_total:
  "pe_test_a e \<in> fst ` set idx \<Longrightarrow> pe_test_b e \<in> fst ` set idx \<Longrightarrow> \<exists>p. pair_index idx e = Inr p"
  using map_of_eq_None_iff [of idx] by (auto simp: pair_index_def dict_index_def split: option.splits)

lemma gnn_batch_total:
  assumes "trainable idx dataset" "in_range dataset indices" "indices \<noteq> []"
    and width: "length mean_row = length (dm_feature_names (ds_metadata dataset))" "length scale = length mean_row"
  shows "\<exists>b. gnn_batch dataset mean_row scale idx indices = Inr b \<and> length (bt_pairs b) = length indices"
proof -
  define es where "es = map (\<lambda>i. ds_examples dataset ! nat i) indices"
  have es: "set es \<subseteq> set (ds_examples dataset)" using range_in_examples [OF assms(2)] by (auto simp: es_def)
  have ok: "length (pe_features e) = length mean_row \<and> pe_test_a e \<in> fst ` set idx \<and> pe_test_b e \<in> fst ` set idx" if "e \<in> set es" for e
    using assms(1) that es width(1) by (auto simp: trainable_def list_all_iff)
  then have "\<exists>ps. map_result (pair_index idx) es = Inr ps \<and> list_all2 (\<lambda>_ _. True) es ps"
    by (intro map_result_total) (simp add: pair_index_total del: split_paired_Ex)
  then obtain ps where ps: "map_result (pair_index idx) es = Inr ps" "length ps = length es" by (auto dest: list_all2_lengthD)
  have rows: "list_all (\<lambda>row. length row = length mean_row) (map pe_features es)" using ok by (auto simp: list_all_iff)
  have "es \<noteq> []" using assms(3) by (simp add: es_def)
  then have "length (hd (map pe_features es)) = length mean_row" using ok by (cases es) auto
  then have "matrix_of (map pe_features es) = Inr (map pe_features es)" using rows by (simp add: matrix_of_def)
  moreover have "\<exists>explicit. normalize_rows mean_row scale (map pe_features es) = Inr explicit"
    using rows width \<open>es \<noteq> []\<close> by (simp add: normalize_rows_def)
  ultimately show ?thesis using ps py_index_range [OF assms(2)] by (auto simp: gnn_batch_def es_def)
qed

text \<open>A network gives one number per pair.\<close>

definition one_per_pair :: "(GraphTensors \<Rightarrow> (nat \<times> nat) list \<Rightarrow> real list list \<Rightarrow> real list) \<Rightarrow> bool" where
  "one_per_pair network \<longleftrightarrow> (\<forall>tensors pairs rows. length (network tensors pairs rows) = length pairs)"

lemma predict_indices_total:
  assumes "trainable (gt_test_index tensors) dataset" "in_range dataset indices" "0 < k" "one_per_pair network"
    and "length mean_row = length (dm_feature_names (ds_metadata dataset))" "length scale = length mean_row"
  shows "\<exists>ps. predict_indices network k dataset mean_row scale tensors indices = Inr ps \<and> length ps = length indices"
proof -
  obtain bs where bs: "batches_of k indices = Inr bs" "concat bs = indices" "\<forall>b\<in>set bs. b \<noteq> [] \<and> set b \<subseteq> set indices"
    using batches_of_correct [OF assms(3)] by blast
  have "\<exists>ps. predict_batch network dataset mean_row scale tensors b = Inr ps \<and> length ps = length b" if "b \<in> set bs" for b
    using gnn_batch_total [OF assms(1) in_range_subset [OF assms(2)] _ assms(5,6), of b] bs(3) that assms(4)
    by (auto simp: predict_batch_def one_per_pair_def)
  then obtain out where out: "map_result (predict_batch network dataset mean_row scale tensors) bs = Inr out"
      "list_all2 (\<lambda>b ps. length ps = length b) bs out"
    using map_result_total [of bs "predict_batch network dataset mean_row scale tensors" "\<lambda>b ps. length ps = length b"] by blast
  have "map length out = map length bs" using out(2) by (induction rule: list_all2_induct) auto
  then have "length (concat out) = length indices" by (simp add: bs(2) [symmetric] length_concat)
  then show ?thesis by (simp add: predict_indices_def bs(1) out(1))
qed

subsection \<open>The training loop\<close>

text \<open>The kept checkpoint is the state of an evaluated epoch, and no epoch of the history scores better by
  more than the tolerance.\<close>

definition kept_best :: "('w \<Rightarrow> ClassificationMetrics result) \<Rightarrow> 'w checkpoint \<Rightarrow> (nat \<times> real \<times> real \<times> real) list \<Rightarrow> bool" where
  "kept_best evaluate best entries \<longleftrightarrow>
     (\<exists>w m. cp_state best = Some w \<and> evaluate w = Inr m \<and> cp_score best = validation_score m
        \<and> list_all (\<lambda>(_, _, pr, br). pr - 0.15 * br \<le> cp_score best + 1 / 10 ^ 5) entries)"

definition loop_inv :: "('w \<Rightarrow> ClassificationMetrics result) \<Rightarrow> 'w checkpoint \<Rightarrow> (nat \<times> real \<times> real \<times> real) list \<Rightarrow> bool" where
  "loop_inv evaluate best entries \<longleftrightarrow>
     (if entries = [] then cp_state best = None \<and> cp_score best = - 1 else kept_best evaluate best entries)"

lemma kept_best_keep:
  assumes "loop_inv evaluate best entries" "- 0.15 \<le> validation_score m" "\<not> validation_score m > cp_score best + 1 / 10 ^ 5"
  shows "loop_inv evaluate (best\<lparr>cp_stale := n\<rparr>) (entries @ [(e, l, cm_pr_auc m, cm_brier_score m)])"
proof -
  have "entries \<noteq> []" using assms by (auto simp: loop_inv_def)
  then show ?thesis using assms by (auto simp: loop_inv_def kept_best_def validation_score_def)
qed

lemma kept_best_improve:
  assumes "loop_inv evaluate best entries" "evaluate w = Inr m" "validation_score m > cp_score best + 1 / 10 ^ 5"
  shows "loop_inv evaluate \<lparr>cp_state = Some w, cp_score = validation_score m, cp_stale = 0\<rparr> (entries @ [(e, l, cm_pr_auc m, cm_brier_score m)])"
proof -
  have "list_all (\<lambda>(_, _, pr, br). pr - 0.15 * br \<le> validation_score m + 1 / 10 ^ 5) entries"
    using assms(1,3) by (cases "entries = []") (auto simp: loop_inv_def kept_best_def list_all_iff dest!: bspec)
  then show ?thesis using assms(2) by (simp add: loop_inv_def kept_best_def validation_score_def)
qed

lemma train_loop_total:
  assumes train: "\<And>w. \<exists>w' l. train w = Inr (w', l)"
    and evaluate: "\<And>w. \<exists>m. evaluate w = Inr m \<and> - 0.15 \<le> validation_score m"
  shows "loop_inv evaluate best entries \<Longrightarrow>
    \<exists>best' more. train_loop train evaluate patience epochs w best (h @ entries) = Inr (best', h @ entries @ more)
      \<and> loop_inv evaluate best' (entries @ more) \<and> map fst more = take (length more) epochs
      \<and> (epochs \<noteq> [] \<longrightarrow> more \<noteq> []) \<and> (length more = length epochs \<or> (more \<noteq> [] \<and> 80 \<le> fst (last more)))"
proof (induction epochs arbitrary: w best entries)
  case Nil
  then show ?case by (intro exI [of _ best] exI [of _ "[]"]) simp
next
  case (Cons e es)
  obtain w' l where w': "train w = Inr (w', l)" using train by blast
  obtain m where m: "evaluate w' = Inr m" "- 0.15 \<le> validation_score m" using evaluate by blast
  define entry where "entry = (e, l, cm_pr_auc m, cm_brier_score m)"
  have continue_loop: ?case
    if inv: "loop_inv evaluate b (entries @ [entry])"
      and eq: "train_loop train evaluate patience (e # es) w best (h @ entries) = train_loop train evaluate patience es w' b (h @ entries @ [entry])" for b
  proof -
    obtain best' more where "train_loop train evaluate patience es w' b (h @ entries @ [entry]) = Inr (best', h @ entries @ entry # more)"
        "loop_inv evaluate best' (entries @ entry # more)" "map fst more = take (length more) es"
        "length more = length es \<or> (more \<noteq> [] \<and> 80 \<le> fst (last more))"
      using Cons.IH [OF inv, of w'] by auto
    then show ?thesis using eq by (intro exI [of _ best'] exI [of _ "entry # more"]) (auto simp: entry_def)
  qed
  show ?case
  proof (cases "validation_score m > cp_score best + 1 / 10 ^ 5")
    case True
    show ?thesis
      by (rule continue_loop [OF kept_best_improve [OF Cons.prems m(1) True, of e l, folded entry_def]]) (use True in \<open>simp add: w' m(1) entry_def Let_def\<close>)
  next
    case False
    let ?b = "best\<lparr>cp_stale := cp_stale best + 1\<rparr>"
    have inv: "loop_inv evaluate ?b (entries @ [entry])" using kept_best_keep [OF Cons.prems m(2) False] by (simp add: entry_def)
    show ?thesis
    proof (cases "80 \<le> e \<and> patience \<le> cp_stale best + 1")
      case True
      then show ?thesis using inv False
        by (intro exI [of _ ?b] exI [of _ "[entry]"]) (simp add: w' m(1) entry_def Let_def)
    next
      case stop: False
      show ?thesis by (rule continue_loop [OF inv]) (use False stop in \<open>auto simp: w' m(1) entry_def Let_def\<close>)
    qed
  qed
qed

subsection \<open>Training\<close>

lemma run_batches_total:
  "(\<And>b. b \<in> set batches \<Longrightarrow> \<exists>x. assemble b = Inr x) \<Longrightarrow> \<exists>w' ls. run_batches step assemble w batches = Inr (w', ls)"
proof (induction batches arbitrary: w)
  case (Cons b bs)
  obtain x where x: "assemble b = Inr x" using Cons.prems by auto
  obtain w' l where s: "step w x = (w', l)" by (cases "step w x")
  obtain w'' ls where "run_batches step assemble w' bs = Inr (w'', ls)" using Cons by (metis list.set_intros(2))
  then show ?case using x s by simp
qed simp

text \<open>The scores come from the module itself or from scikit-learn, whose average precision is not negative.\<close>

definition scorer_ok :: "scorer \<Rightarrow> bool" where
  "scorer_ok scorer \<longleftrightarrow> (case fst scorer of None \<Rightarrow> True | Some (precision, _) \<Rightarrow> \<forall>ys ps. 0 \<le> precision ys ps)"

lemma precision_sum_nonneg: "0 \<le> precision_sum labels rank hits order"
  by (induction labels rank hits order rule: precision_sum.induct) simp_all

lemma validation_score_ge:
  assumes "metrics_by scorer ys ps = Inr m" "list_all (\<lambda>y. y = 0 \<or> y = 1) ys" "scorer_ok scorer"
  shows "- 0.15 \<le> validation_score m"
proof -
  define p where "p = map (\<lambda>x. min 1 (max 0 x)) ps"
  have len: "length ys = length p" using assms(1) by (auto simp: p_def metrics_by_def classification_metrics_def Let_def split: if_splits)
  have unit: "0 \<le> y \<and> y \<le> 1" if "y \<in> set ys" for y using assms(2) that by (auto simp: list_all_iff)
  have punit: "0 \<le> x \<and> x \<le> 1" if "x \<in> set p" for x using that by (auto simp: p_def)
  have "(x - y) ^ 2 \<le> 1" if "(y, x) \<in> set (zip ys p)" for x y
  proof -
    have "\<bar>x - y\<bar> \<le> 1" using unit [OF set_zip_leftD [OF that]] punit [OF set_zip_rightD [OF that]] by (simp add: abs_le_iff)
    then show ?thesis by (simp add: abs_square_le_1)
  qed
  then have brier: "mean (map (\<lambda>(y, p). (p - y) ^ 2) (zip ys p)) \<le> 1" if "ys \<noteq> []"
    using that len by (intro mean_bounds [THEN conjunct2, of _ 0]) (auto simp: zip_eq_Nil_iff)
  have "0 \<le> sum_list ys" using assms(2) by (intro sum_list_nonneg) (auto simp: list_all_iff)
  then have "0 \<le> average_precision (snd scorer) ys p"
    unfolding average_precision_def Let_def using precision_sum_nonneg by (simp add: divide_nonneg_nonneg)
  then have "0 \<le> cm_pr_auc m" "cm_brier_score m \<le> 1"
    using assms(1,3) brier len
    by (auto simp: metrics_by_def classification_metrics_def Let_def p_def [symmetric] scorer_ok_def split: if_splits option.splits prod.splits)
  then show ?thesis by (simp add: validation_score_def)
qed

lemma labels_at_total:
  assumes "in_range dataset indices" "trainable idx dataset"
  shows "\<exists>ys. labels_at dataset indices = Inr ys \<and> length ys = length indices \<and> list_all (\<lambda>y. y = 0 \<or> y = 1) ys"
  using assms range_in_examples [OF assms(1)] py_index_range [OF assms(1)]
  by (force simp: labels_at_def trainable_def list_all_iff)

definition split_in_range :: "Dataset \<Rightarrow> DatasetSplit \<Rightarrow> bool" where
  "split_in_range dataset split \<longleftrightarrow> in_range dataset (sp_train split) \<and> in_range dataset (sp_validation split) \<and> in_range dataset (sp_test split)"

lemma arrays_total:
  assumes "trainable idx dataset" "in_range dataset indices"
  shows "\<exists>x y ws. arrays dataset (Some indices) = Inr (x, y, ws)
    \<and> (x = [] \<or> length (hd x) = length (dm_feature_names (ds_metadata dataset)))"
proof -
  define es where "es = map (\<lambda>i. ds_examples dataset ! nat i) indices"
  have "length (pe_features e) = length (dm_feature_names (ds_metadata dataset))" if "e \<in> set es" for e
    using assms(1) that range_in_examples [OF assms(2)] by (auto simp: es_def trainable_def list_all_iff)
  then have "list_all (\<lambda>row. length row = length (hd (map pe_features es))) (map pe_features es)"
      "es = [] \<or> length (hd (map pe_features es)) = length (dm_feature_names (ds_metadata dataset))"
    by (cases es; auto simp: list_all_iff)+
  then show ?thesis by (auto simp: arrays_def matrix_of_def py_index_range [OF assms(2)] es_def)
qed

text \<open>What training needs of its inputs: examples the network accepts, a split within them, a positive
  number of epochs and rows per batch, a network with one number per pair.\<close>

definition training_ready :: "'w torch_library \<Rightarrow> scorer \<Rightarrow> (int \<Rightarrow> nat \<Rightarrow> nat \<Rightarrow> nat) \<Rightarrow> TrainingConfig \<Rightarrow> (string, nat) dict \<Rightarrow> Dataset \<Rightarrow> DatasetSplit \<Rightarrow> bool" where
  "training_ready torch scorer below config test_index dataset split \<longleftrightarrow>
     to_installed torch \<and> (\<forall>w. one_per_pair (to_forward torch w)) \<and> scorer_ok scorer \<and> draws_below (below (tr_seed config))
     \<and> 0 < tr_epochs config \<and> 0 < tr_batch_size config
     \<and> trainable test_index dataset \<and> split_in_range dataset split"

text \<open>The checkpoint a trainer holds after training, with the history of the run.\<close>

definition best_checkpoint :: "'w torch_library \<Rightarrow> scorer \<Rightarrow> 'w GNNTrainer \<Rightarrow> 'w GNNTrainer \<Rightarrow> GraphTensors \<Rightarrow> Dataset \<Rightarrow> DatasetSplit \<Rightarrow> bool" where
  "best_checkpoint torch scorer self self' tensors dataset split \<longleftrightarrow>
     (\<exists>w entries m.
        gn_model self' = Some w \<and> gn_history self' = gn_history self @ entries \<and> entries \<noteq> []
        \<and> map fst entries = [0..<length entries] \<and> length entries \<le> nat (tr_epochs (gn_config self))
        \<and> (length entries = nat (tr_epochs (gn_config self)) \<or> 80 < length entries)
        \<and> validate_epoch torch scorer self' tensors dataset (sp_validation split) w = Inr m
        \<and> list_all (\<lambda>(_, _, pr, br). pr - 0.15 * br \<le> validation_score m + 1 / 10 ^ 5) entries)"

definition normalization_fits :: "'w GNNTrainer \<Rightarrow> Dataset \<Rightarrow> bool" where
  "normalization_fits self dataset \<longleftrightarrow>
     length (gn_mean self) = length (dm_feature_names (ds_metadata dataset)) \<and> length (gn_scale self) = length (gn_mean self)"

lemma train_epoch_total:
  assumes "trainable (gt_test_index tensors) dataset" "normalization_fits self dataset"
    "\<forall>b\<in>set batches. b \<noteq> [] \<and> in_range dataset b"
  shows "\<exists>w' l. train_epoch torch self tensors dataset batches w = Inr (w', l)"
proof -
  let ?assemble = "gnn_batch dataset (gn_mean self) (gn_scale self) (gt_test_index tensors)"
  have "\<exists>x. ?assemble b = Inr x \<and> length (bt_pairs x) = length b" if "b \<in> set batches" for b
    by (rule gnn_batch_total [OF assms(1)]) (use assms(2,3) that in \<open>auto simp: normalization_fits_def\<close>)
  then have "\<exists>w' ls. run_batches (to_step torch (gn_config self) tensors) ?assemble w batches = Inr (w', ls)"
    by (intro run_batches_total) blast
  then obtain w' ls where "run_batches (to_step torch (gn_config self) tensors) ?assemble w batches = Inr (w', ls)" by blast
  then show ?thesis by (simp add: train_epoch_def)
qed

lemma trainer_predict_total:
  assumes "trainable (gt_test_index tensors) dataset" "normalization_fits self dataset" "in_range dataset indices"
    "0 < tr_batch_size (gn_config self)" "one_per_pair (to_forward torch w)"
  shows "\<exists>ps. trainer_predict torch self w tensors dataset indices = Inr ps \<and> length ps = length indices"
  using predict_indices_total [OF assms(1,3-5)] assms(2) unfolding trainer_predict_def normalization_fits_def by blast

lemma validate_epoch_total:
  assumes "trainable (gt_test_index tensors) dataset" "normalization_fits self dataset" "in_range dataset indices"
    "0 < tr_batch_size (gn_config self)" "one_per_pair (to_forward torch w)" "scorer_ok scorer"
  shows "\<exists>m. validate_epoch torch scorer self tensors dataset indices w = Inr m \<and> - 0.15 \<le> validation_score m"
proof -
  obtain labels where labels: "labels_at dataset indices = Inr labels" "length labels = length indices" "list_all (\<lambda>y. y = 0 \<or> y = 1) labels"
    using labels_at_total [OF assms(3,1)] by blast
  obtain ps where ps: "trainer_predict torch self w tensors dataset indices = Inr ps" "length ps = length labels"
    using trainer_predict_total [OF assms(1-5)] labels(2) by auto
  obtain m where m: "metrics_by scorer labels ps = Inr m" using metrics_total [OF ps(2) [symmetric]] unfolding metrics_by_def by blast
  then show ?thesis using validation_score_ge [OF m labels(3) assms(6)] by (simp add: validate_epoch_def labels(1) ps(1))
qed

lemma train_batches_total:
  assumes "draws_below (below seed)" "0 < k" "in_range dataset indices"
  shows "\<exists>bs. train_batches below indices k seed = Inr bs \<and> (\<forall>b\<in>set bs. b \<noteq> [] \<and> in_range dataset b)"
proof -
  obtain bs where bs: "batches_of k (py_shuffle (below seed) indices) = Inr bs" "\<forall>b\<in>set bs. b \<noteq> [] \<and> set b \<subseteq> set (py_shuffle (below seed) indices)"
    using batches_of_correct [OF assms(2)] by blast
  have "set (py_shuffle (below seed) indices) = set indices" by (rule mset_eq_setD [OF mset_py_shuffle [OF assms(1)]])
  then show ?thesis using bs in_range_subset [OF assms(3)] by (auto simp: train_batches_def)
qed

lemma fit_normalization_fits:
  assumes "x = [] \<or> length (hd x) = length (dm_feature_names (ds_metadata dataset))"
  shows "normalization_fits (fit_normalization self dataset x) dataset"
  using assms by (auto simp: normalization_fits_def fit_normalization_def column_means_def column_scales_def Let_def)

lemma fit_normalization_simps [simp]:
  "gn_config (fit_normalization self dataset x) = gn_config self" "gn_history (fit_normalization self dataset x) = gn_history self"
  "gn_calibrator (fit_normalization self dataset x) = gn_calibrator self"
  by (simp_all add: fit_normalization_def Let_def)

lemma validate_epoch_cong [simp]:
  "validate_epoch torch scorer (self\<lparr>gn_model := a, gn_history := b\<rparr>) tensors dataset indices w = validate_epoch torch scorer self tensors dataset indices w"
  by (simp add: validate_epoch_def trainer_predict_def)

text \<open>The loop on total epochs and validations ends with the best checkpoint.\<close>

lemma train_loop_best:
  assumes "\<And>w. \<exists>w' l. train w = Inr (w', l)" "\<And>w. \<exists>m. evaluate w = Inr m \<and> - 0.15 \<le> validation_score m" "0 < n"
  shows "\<exists>best entries w m. train_loop train evaluate patience [0..<n] w0 \<lparr>cp_state = None, cp_score = - 1, cp_stale = 0\<rparr> h
      = Inr (best, h @ entries) \<and> cp_state best = Some w \<and> entries \<noteq> [] \<and> evaluate w = Inr m
    \<and> map fst entries = [0..<length entries] \<and> length entries \<le> n \<and> (length entries = n \<or> 80 < length entries)
    \<and> list_all (\<lambda>(_, _, pr, br). pr - 0.15 * br \<le> validation_score m + 1 / 10 ^ 5) entries"
proof -
  have "loop_inv evaluate \<lparr>cp_state = None, cp_score = - 1, cp_stale = 0\<rparr> []" by (simp add: loop_inv_def)
  from train_loop_total [where train = train and evaluate = evaluate, OF assms(1,2) this, where h = h and epochs = "[0..<n]" and w = w0 and patience = patience]
  obtain best entries where loop: "train_loop train evaluate patience [0..<n] w0 \<lparr>cp_state = None, cp_score = - 1, cp_stale = 0\<rparr> h = Inr (best, h @ entries)"
      "loop_inv evaluate best entries" "map fst entries = take (length entries) [0..<n]" "entries \<noteq> []"
      "length entries = n \<or> 80 \<le> fst (last entries)"
    using assms(3) by auto
  obtain w m where kept: "cp_state best = Some w" "evaluate w = Inr m" "cp_score best = validation_score m"
      "list_all (\<lambda>(_, _, pr, br). pr - 0.15 * br \<le> cp_score best + 1 / 10 ^ 5) entries"
    using loop(2,4) by (auto simp: loop_inv_def kept_best_def)
  have len: "length entries \<le> n" using arg_cong [OF loop(3), of length] by simp
  then have idx: "map fst entries = [0..<length entries]" using loop(3) by simp
  then have "fst (last entries) = length entries - 1" using loop(4) by (metis last_map last_upt length_greater_0_conv)
  then have "length entries = n \<or> 80 < length entries" using loop(4,5) by (cases entries) auto
  then show ?thesis using loop(1,4) kept len idx by (intro exI [of _ best] exI [of _ entries] exI [of _ w] exI [of _ m]) simp
qed

lemma train_model_total:
  assumes ready: "training_ready torch scorer below (gn_config self) (gt_test_index tensors) dataset split"
  shows "\<exists>self'. train_model torch scorer below self tensors dataset split = Inr self'
    \<and> best_checkpoint torch scorer self self' tensors dataset split
    \<and> gn_config self' = gn_config self \<and> gn_calibrator self' = gn_calibrator self \<and> normalization_fits self' dataset"
proof -
  note r = ready [unfolded training_ready_def split_in_range_def]
  obtain x y ws where arrays: "arrays dataset (Some (sp_train split)) = Inr (x, y, ws)"
      "x = [] \<or> length (hd x) = length (dm_feature_names (ds_metadata dataset))"
    using arrays_total r by blast
  define self1 where "self1 = fit_normalization self dataset x"
  have fits: "normalization_fits self1 dataset" unfolding self1_def by (rule fit_normalization_fits [OF arrays(2)])
  have config: "gn_config self1 = gn_config self" "gn_history self1 = gn_history self" "gn_calibrator self1 = gn_calibrator self"
    by (simp_all add: self1_def)
  obtain bs where bs: "train_batches below (sp_train split) (tr_batch_size (gn_config self)) (tr_seed (gn_config self)) = Inr bs"
      "\<forall>b\<in>set bs. b \<noteq> [] \<and> in_range dataset b"
    using train_batches_total r by blast
  have train: "\<exists>w' l. train_epoch torch self1 tensors dataset bs w = Inr (w', l)" for w
    by (rule train_epoch_total [OF _ fits bs(2)]) (use r in blast)
  have evaluate: "\<exists>m. validate_epoch torch scorer self1 tensors dataset (sp_validation split) w = Inr m \<and> - 0.15 \<le> validation_score m" for w
    by (rule validate_epoch_total [OF _ fits]) (use r config in auto)
  have pos: "0 < nat (tr_epochs (gn_config self))" using r by simp
  obtain best entries w m where loop: "train_loop (train_epoch torch self1 tensors dataset bs)
        (validate_epoch torch scorer self1 tensors dataset (sp_validation split)) (tr_patience (gn_config self)) [0..<nat (tr_epochs (gn_config self))]
        (warm_start torch self1 tensors dataset x y ws) \<lparr>cp_state = None, cp_score = - 1, cp_stale = 0\<rparr> (gn_history self) = Inr (best, gn_history self @ entries)"
      "cp_state best = Some w" "entries \<noteq> []" "validate_epoch torch scorer self1 tensors dataset (sp_validation split) w = Inr m"
      "map fst entries = [0..<length entries]" "length entries \<le> nat (tr_epochs (gn_config self))"
      "length entries = nat (tr_epochs (gn_config self)) \<or> 80 < length entries"
      "list_all (\<lambda>(_, _, pr, br). pr - 0.15 * br \<le> validation_score m + 1 / 10 ^ 5) entries"
    by (rule train_loop_best [OF train evaluate pos, elim_format], elim exE conjE, rule that)
  let ?self = "self1\<lparr>gn_model := Some w, gn_history := gn_history self @ entries\<rparr>"
  have "train_model torch scorer below self tensors dataset split = Inr ?self"
    unfolding train_model_def arrays(1) bind_result.simps prod.case Let_def self1_def [symmetric] config bs(1) loop(1)
    by (simp add: loop(2))
  moreover have "best_checkpoint torch scorer self ?self tensors dataset split"
    unfolding best_checkpoint_def using loop(3-8) by (intro exI [of _ w] exI [of _ entries] exI [of _ m]) simp
  ultimately show ?thesis using fits config by (intro exI [of _ ?self]) (simp add: normalization_fits_def)
qed

lemma metrics_by_total: "length ys = length ps \<Longrightarrow> \<exists>m. metrics_by scorer ys ps = Inr m"
  unfolding metrics_by_def by (rule metrics_total)

lemma calibrate_model_total:
  assumes "gn_config self = config" "training_ready torch scorer below config (gt_test_index tensors) dataset split" "normalization_fits self dataset"
  shows "\<exists>calibrator v t. calibrate_model torch scorer self w tensors dataset split = Inr (self\<lparr>gn_calibrator := calibrator\<rparr>, v, t)"
proof -
  note r = assms(2) [unfolded training_ready_def split_in_range_def]
  obtain raw where raw: "trainer_predict torch self w tensors dataset (sp_validation split) = Inr raw" "length raw = length (sp_validation split)"
    using trainer_predict_total [OF _ assms(3), of tensors "sp_validation split" torch w] r assms(1) by auto
  obtain test_raw where test_raw: "trainer_predict torch self w tensors dataset (sp_test split) = Inr test_raw" "length test_raw = length (sp_test split)"
    using trainer_predict_total [OF _ assms(3), of tensors "sp_test split" torch w] r assms(1) by auto
  obtain labels where labels: "labels_at dataset (sp_validation split) = Inr labels" "length labels = length raw"
    using labels_at_total [of dataset "sp_validation split"] r raw(2) by auto
  obtain test_labels where test_labels: "labels_at dataset (sp_test split) = Inr test_labels" "length test_labels = length test_raw"
    using labels_at_total [of dataset "sp_test split"] r test_raw(2) by auto
  have "\<exists>c. (if tr_calibration (gn_config self) = ''temperature'' \<and> card (set labels) > 1
      then scaler_fit (gn_calibrator self) raw labels else Inr (gn_calibrator self)) = Inr c"
    using labels(2) by (cases raw) (auto simp: scaler_fit_def Let_def)
  then obtain c where c: "(if tr_calibration (gn_config self) = ''temperature'' \<and> card (set labels) > 1
      then scaler_fit (gn_calibrator self) raw labels else Inr (gn_calibrator self)) = Inr c" by blast
  obtain v where v: "metrics_by scorer labels (scaler_transform c raw) = Inr v"
    using metrics_by_total [of labels "scaler_transform c raw" scorer] labels(2) by (auto simp: scaler_transform_calibrated)
  obtain t where t: "metrics_by scorer test_labels (scaler_transform c test_raw) = Inr t"
    using metrics_by_total [of test_labels "scaler_transform c test_raw" scorer] test_labels(2) by (auto simp: scaler_transform_calibrated)
  show ?thesis
    unfolding calibrate_model_def raw(1) labels(1) bind_result.simps c test_raw(1) v test_labels(1) t by blast
qed

lemma best_checkpoint_calibrator [simp]:
  "best_checkpoint torch scorer self (self'\<lparr>gn_calibrator := c\<rparr>) tensors dataset split = best_checkpoint torch scorer self self' tensors dataset split"
  by (simp add: best_checkpoint_def validate_epoch_def trainer_predict_def)

lemma training_on_tensors:
  assumes "graph_tensors True g = Inr (tensors, g')" "gt_resource_x tensors \<noteq> []"
    and ready: "training_ready torch scorer below (gn_config self) (gt_test_index tensors) dataset split"
  obtains self' v t where "GNNTrainer_fit torch scorer below self g dataset split = Inr (self', v, t)"
    and "best_checkpoint torch scorer self self' tensors dataset split"
proof -
  obtain self' where self': "train_model torch scorer below self tensors dataset split = Inr self'"
      "best_checkpoint torch scorer self self' tensors dataset split" "gn_config self' = gn_config self" "normalization_fits self' dataset"
    using train_model_total [OF ready] by blast
  obtain w where w: "gn_model self' = Some w" using self'(2) by (auto simp: best_checkpoint_def)
  obtain c v t where c: "calibrate_model torch scorer self' w tensors dataset split = Inr (self'\<lparr>gn_calibrator := c\<rparr>, v, t)"
    using calibrate_model_total [OF self'(3) ready self'(4)] by blast
  have "to_installed torch" using ready by (simp add: training_ready_def)
  then have "GNNTrainer_fit torch scorer below self g dataset split = Inr (self'\<lparr>gn_calibrator := c\<rparr>, v, t)"
    using assms(2) by (simp add: GNNTrainer_fit_def assms(1) self'(1) w c)
  then show thesis using that self'(2) by simp
qed

text \<open>Training. On the tensors of any nonempty log, with a dataset whose rows have one width, binary labels
  and known tests, a split within it, at least one epoch and a positive batch size, training always returns
  a model. Its checkpoint is the state of an epoch of the history, and no epoch's validation objective
  (average precision less 0.15 times the Brier score) exceeds the checkpoint's by more than 0.00001; at
  least one epoch runs, at most the configured number, and an early stop comes only after 80 epochs.\<close>

lemma training_returns_best:
  assumes "from_events evs tests = Inr g" "evs \<noteq> []"
    "training_ready torch scorer below (gn_config self) (enumerate_index (test_names evs tests)) dataset split"
  shows "\<exists>self' v t tensors g'. graph_tensors True g = Inr (tensors, g')
    \<and> GNNTrainer_fit torch scorer below self g dataset split = Inr (self', v, t)
    \<and> best_checkpoint torch scorer self self' tensors dataset split"
proof -
  obtain tensors g' where T: "graph_tensors True g = Inr (tensors, g')" "gt_test_index tensors = enumerate_index (test_names evs tests)"
      "length (gt_resource_x tensors) = length (resource_names evs)"
    using graph_tensors_of_events [OF assms(1)] by auto
  have "gt_resource_x tensors \<noteq> []" using T(3) assms(2) by (auto simp: resource_names_def)
  then obtain self' v t where "GNNTrainer_fit torch scorer below self g dataset split = Inr (self', v, t)"
      "best_checkpoint torch scorer self self' tensors dataset split"
    using training_on_tensors [OF T(1) _ assms(3) [folded T(2)]] by blast
  then show ?thesis using T(1) by blast
qed

text \<open>A library with one state, whose network answers 0 for every pair.\<close>

definition constant_torch :: "unit torch_library" where
  "constant_torch = \<lparr>to_installed = True, to_start = \<lambda>_ _ _ _ _ _. (), to_step = \<lambda>_ _ _ _. ((), 0),
     to_forward = \<lambda>_ _ pairs _. map (\<lambda>_. 0) pairs, to_save = \<lambda>_. ''bytes'', to_load = \<lambda>_ _ _ _. Some ()\<rparr>"

definition model_dataset :: Dataset where
  "model_dataset = demo_dataset\<lparr>ds_metadata := (ds_metadata demo_dataset)\<lparr>dm_feature_names := []\<rparr>\<rparr>"

definition model_events :: "TraceEvent list" where
  "model_events = map (\<lambda>t. demo_event t OP_BIND) [''a'', ''b'', ''c'']"

definition demo_trainer :: "unit GNNTrainer" where
  "demo_trainer = GNNTrainer_init (Some (TrainingConfig_init\<lparr>tr_epochs := 2\<rparr>))"

definition demo_split :: DatasetSplit where
  "demo_split = \<lparr>sp_train = [0], sp_validation = [1], sp_test = [], sp_strategy = []\<rparr>"

lemma set_enumerate_index [simp]: "fst ` set (enumerate_index xs) = set xs"
proof -
  have "fst ` set (zip xs [0..<length xs]) = set xs" by (metis list.set_map map_fst_zip length_upt diff_zero)
  then show ?thesis by (simp add: enumerate_index_def set_keys_dict_of)
qed

lemma demo_training_ready:
  "training_ready constant_torch (None, \<lambda>_. [0]) (\<lambda>_ _ _. 0) (gn_config demo_trainer) (enumerate_index (test_names model_events [])) model_dataset demo_split"
proof -
  have "set (test_names model_events []) = {''a'', ''b'', ''c''}" by (simp add: test_names_def model_events_def demo_event_def)
  then show ?thesis
    by (simp add: training_ready_def constant_torch_def one_per_pair_def scorer_ok_def draws_below_def demo_trainer_def GNNTrainer_init_def
        TrainingConfig_init_def trainable_def model_dataset_def demo_dataset_def demo_example_def split_in_range_def in_range_def demo_split_def)
qed

subsection \<open>Artifacts\<close>

lemma json_sort_lookup:
  assumes "distinct (map fst kvs)"
  shows "map_of (attributes (json_sort (PDict kvs))) k = map_option json_sort (map_of kvs k)"
proof -
  let ?kvs = "map (\<lambda>(k, v). (k, json_sort v)) kvs"
  have "map fst ?kvs = map fst kvs" by (simp add: case_prod_unfold comp_def)
  then have "distinct (map fst ?kvs)" using assms by (simp only:)
  then have "map_of (sort_key fst ?kvs) = map_of ?kvs" by (rule map_of_sorted)
  then show ?thesis by (simp add: attributes_def map_of_map)
qed

lemma json_sort_kwargs:
  assumes "dataclass_kwargs required optional (PDict kvs) = Inr d" "distinct (map fst kvs)"
  shows "dataclass_kwargs required optional (json_sort (PDict kvs)) = Inr (attributes (json_sort (PDict kvs)))"
proof -
  define d' where "d' = attributes (json_sort (PDict kvs))"
  have sorted: "json_sort (PDict kvs) = PDict d'" unfolding d'_def by (rule json_sort_dict)
  have keys: "fst ` set d' = fst ` set kvs" by (simp add: d'_def attributes_def image_image case_prod_unfold)
  have required: "\<forall>k\<in>set required. map_of kvs k \<noteq> None" "fst ` set kvs \<subseteq> set required \<union> set optional"
    using assms(1) by (auto simp: dataclass_kwargs_def list_all_iff split: if_splits)
  have "list_all (\<lambda>k. map_of d' k \<noteq> None) required"
    using required(1) by (simp add: list_all_iff d'_def json_sort_lookup [OF assms(2)] del: json_sort.simps)
  moreover have "list_all (\<lambda>(k, _). k \<in> set required \<union> set optional) d'"
    using required(2) unfolding keys [symmetric] by (auto simp: list_all_iff)
  ultimately show ?thesis unfolding sorted d'_def [symmetric] by (simp add: dataclass_kwargs_def attributes_def)
qed

lemma float_array_floats [simp]: "float_array (json_sort (PList (map PFloat xs))) = Inr xs"
proof -
  have "map_result float_of_pyval (map PFloat xs) = Inr xs" by (induction xs) (simp_all add: float_of_pyval_def)
  then show ?thesis by (simp add: float_array_def comp_def)
qed

lemma artifact_row_distinct: "distinct (map fst (artifact_row host self dataset v t digest))"
  by (simp add: artifact_row_def)

text \<open>The metadata as it is read back.\<close>

abbreviation stored_metadata :: "save_host \<Rightarrow> 'w GNNTrainer \<Rightarrow> Dataset \<Rightarrow> ClassificationMetrics \<Rightarrow> ClassificationMetrics \<Rightarrow> string \<Rightarrow> (string \<times> pyval) list" where
  "stored_metadata host self dataset v t bytes \<equiv> attributes (json_sort (PDict (artifact_row host self dataset v t (sha256_hexdigest bytes))))"

lemma stored_metadata_get:
  "dict_get (stored_metadata host self dataset v t bytes) k d =
     (case map_of (artifact_row host self dataset v t (sha256_hexdigest bytes)) k of None \<Rightarrow> d | Some x \<Rightarrow> json_sort x)"
  unfolding dict_get_def json_sort_lookup [OF artifact_row_distinct] by (simp split: option.split)

lemma stored_config:
  "dataclass_kwargs [] CONFIG_FIELDS (json_sort (PDict (config_row c))) = Inr (attributes (json_sort (PDict (config_row c))))"
  "dict_get (attributes (json_sort (PDict (config_row c)))) ''batch_size'' d = PInt (tr_batch_size c)"
proof -
  have d: "distinct (map fst (config_row c))" by (simp add: config_row_def)
  have "dataclass_kwargs [] CONFIG_FIELDS (PDict (config_row c)) = Inr (config_row c)"
    by (simp add: dataclass_kwargs_def config_row_def CONFIG_FIELDS_def)
  then show "dataclass_kwargs [] CONFIG_FIELDS (json_sort (PDict (config_row c))) = Inr (attributes (json_sort (PDict (config_row c))))"
    by (rule json_sort_kwargs [OF _ d])
  show "dict_get (attributes (json_sort (PDict (config_row c)))) ''batch_size'' d = PInt (tr_batch_size c)"
    unfolding dict_get_def json_sort_lookup [OF d] by (simp add: config_row_def)
qed

lemma getitem_json_sort:
  "distinct (map fst kvs) \<Longrightarrow> getitem (json_sort (PDict kvs)) k = (case map_of kvs k of None \<Rightarrow> Inl KeyError | Some v \<Rightarrow> Inr (json_sort v))"
  using json_sort_lookup [of kvs k] by (subst json_sort_dict) (simp add: getitem_def dict_index_def split: option.split)

lemma read_saved:
  assumes "gn_model self = Some w" "to_installed torch"
    and "loads (dump_json (PDict metadata)) = Inr (json_sort (PDict metadata))"
    and "metadata = artifact_row host self dataset v t (sha256_hexdigest (to_save torch w))"
  shows "GNNTrainer_save torch dump_json host self dataset v t
      = Inr (\<lparr>af_metadata = Some (dump_json (PDict metadata)), af_weights = Some (to_save torch w)\<rparr>, metadata)"
    "read_artifact loads \<lparr>af_metadata = Some (dump_json (PDict metadata)), af_weights = Some bytes\<rparr> = Inr (attributes (json_sort (PDict metadata)), bytes)"
proof -
  show "GNNTrainer_save torch dump_json host self dataset v t
      = Inr (\<lparr>af_metadata = Some (dump_json (PDict metadata)), af_weights = Some (to_save torch w)\<rparr>, metadata)"
    using assms by (simp add: GNNTrainer_save_def Let_def)
  have "dataclass_kwargs ARTIFACT_FIELDS [''checksum''] (PDict metadata) = Inr metadata"
    unfolding assms(4) by (simp add: dataclass_kwargs_def ARTIFACT_FIELDS_def artifact_row_def)
  moreover have "distinct (map fst metadata)" unfolding assms(4) by (rule artifact_row_distinct)
  ultimately have kwargs: "dataclass_kwargs ARTIFACT_FIELDS [''checksum''] (json_sort (PDict metadata)) = Inr (attributes (json_sort (PDict metadata)))"
    by (rule json_sort_kwargs)
  show "read_artifact loads \<lparr>af_metadata = Some (dump_json (PDict metadata)), af_weights = Some bytes\<rparr>
      = Inr (attributes (json_sort (PDict metadata)), bytes)"
    unfolding read_artifact_def artifact_files.simps option.case assms(3) bind_result.simps kwargs by simp
qed

lemma artifact_row_get:
  "map_of (artifact_row host self dataset v t digest) ''training_config'' = Some (PDict (config_row (gn_config self)))"
  "map_of (artifact_row host self dataset v t digest) ''calibration'' =
     Some (PDict [(''method'', PStr ''temperature''), (''temperature'', PFloat (ts_temperature (gn_calibrator self)))])"
  "map_of (artifact_row host self dataset v t digest) ''feature_normalization'' =
     Some (PDict [(''mean'', PList (map PFloat (gn_mean self))), (''scale'', PList (map PFloat (gn_scale self)))])"
  by (simp_all add: artifact_row_def)

lemma check_saved:
  "check_artifact (stored_metadata host self dataset v t bytes) bytes'
     = (if sha256_hexdigest bytes' = sha256_hexdigest bytes then Inr () else Inl ArtifactError)"
  unfolding check_artifact_def stored_metadata_get by (simp add: artifact_row_def comp_def)

lemma predict_saved:
  assumes "to_installed torch" "\<And>config m n. to_load torch config m n (to_save torch w) = Some w"
    and metadata: "metadata = stored_metadata host self dataset v t (to_save torch w)"
    and read: "read_artifact loads files = Inr (metadata, to_save torch w)"
    and g: "graph_tensors True g = Inr (tensors, g')" "gt_test_x tensors \<noteq> []" "gt_resource_x tensors \<noteq> []"
    and raw: "trainer_predict torch self w tensors ds (map int [0..<length (ds_examples ds)]) = Inr raw"
    and temperature: "0.05 \<le> ts_temperature (gn_calibrator self)"
  shows "predict_artifact torch loads files g ds = Inr (scaler_transform (gn_calibrator self) raw, metadata)"
proof -
  have get: "dict_get metadata ''training_config'' PNone = json_sort (PDict (config_row (gn_config self)))"
      "getitem (dict_get metadata ''feature_normalization'' PNone) ''mean'' = Inr (json_sort (PList (map PFloat (gn_mean self))))"
      "getitem (dict_get metadata ''feature_normalization'' PNone) ''scale'' = Inr (json_sort (PList (map PFloat (gn_scale self))))"
      "getitem (dict_get metadata ''calibration'' PNone) ''temperature'' = Inr (PFloat (ts_temperature (gn_calibrator self)))"
    unfolding metadata stored_metadata_get
    unfolding artifact_row_get option.case by (simp_all add: getitem_json_sort del: json_sort.simps(1,2))
  have checked: "check_artifact metadata (to_save torch w) = Inr ()" unfolding metadata check_saved by simp
  have "TemperatureScaler_init (ts_temperature (gn_calibrator self)) = gn_calibrator self"
    using temperature by (simp add: TemperatureScaler_init_def)
  then show ?thesis using raw assms(1,2) g
    unfolding predict_artifact_def read bind_result.simps prod.case checked get
      stored_config g(1) row_width_def float_array_floats trainer_predict_def
    by (simp add: step_of_pyval_def float_of_pyval_def)
qed



subsection \<open>Predictions\<close>

lemma model_prediction_simps:
  assumes "pe_test_a e \<le> pe_test_b e"
  shows "PairPrediction_key (model_prediction d version n e p) = example_pair e"
    "pp_probability (model_prediction d version n e p) = max 0 (min 1 p)"
    "pp_model_version (model_prediction d version n e p) = version"
    "pp_cause (model_prediction d version n e p) = (case map_of d (example_pair e) of Some h \<Rightarrow> pp_cause h | None \<Rightarrow> CC_UNKNOWN)"
  using assms by (auto simp: model_prediction_def PairPrediction_init_def PairPrediction_key_def Let_def)

abbreviation row_pair :: "PairExample \<times> real \<Rightarrow> string \<times> string" where
  "row_pair r \<equiv> example_pair (fst r)"

lemma merge_predictions_keys:
  "dict_wf d \<Longrightarrow> dict_wf (merge_predictions version now k d rows)
    \<and> fst ` set (merge_predictions version now k d rows) = fst ` set d \<union> row_pair ` set rows"
proof (induction version now k d rows rule: merge_predictions.induct)
  case (2 version now k d e p rows)
  then show ?case by (auto simp: dom_update)
qed simp

lemma merge_predictions_other:
  "key \<notin> row_pair ` set rows \<Longrightarrow> map_of (merge_predictions version now k d rows) key = map_of d key"
  by (induction version now k d rows rule: merge_predictions.induct) (simp_all add: update_conv')

lemma merge_predictions_lookup:
  "distinct (map row_pair rows) \<Longrightarrow> i < length rows \<Longrightarrow>
   map_of (merge_predictions version now k d rows) (row_pair (rows ! i))
     = Some (model_prediction d version (now (k + i)) (fst (rows ! i)) (snd (rows ! i)))"
proof (induction version now k d rows arbitrary: i rule: merge_predictions.induct)
  case (2 version now k d e p rows)
  show ?case
  proof (cases i)
    case 0
    have "example_pair e \<notin> row_pair ` set rows" using 2(2) by auto
    then show ?thesis using 0 by (simp add: merge_predictions_other update_conv')
  next
    case (Suc j)
    then have j: "j < length rows" "distinct (map row_pair rows)" using 2(2,3) by simp_all
    have "row_pair (rows ! j) \<in> row_pair ` set rows" "example_pair e \<notin> row_pair ` set rows" using j(1) 2(2) by simp_all
    then have "row_pair (rows ! j) \<noteq> example_pair e" by metis
    then have "model_prediction (AList.update (example_pair e) x d) version n (fst (rows ! j)) q = model_prediction d version n (fst (rows ! j)) q" for x n q
      by (simp add: model_prediction_def update_conv' Let_def del: prod.inject)
    then show ?thesis using Suc 2(1) [OF j(2,1)] by simp
  qed
qed simp

text \<open>A dictionary of predictions by their own key keeps that shape, so its values have distinct keys.\<close>

definition keyed :: "(string \<times> string, PairPrediction) dict \<Rightarrow> bool" where
  "keyed d \<longleftrightarrow> dict_wf d \<and> list_all (\<lambda>(k, p). PairPrediction_key p = k) d"

lemma keyed_iff: "keyed d \<longleftrightarrow> dict_wf d \<and> (\<forall>k p. map_of d k = Some p \<longrightarrow> PairPrediction_key p = k)"
  by (auto simp: keyed_def list_all_iff map_of_eq_Some_iff)

lemma keyed_lookup: "keyed d \<Longrightarrow> p \<in> snd ` set d \<Longrightarrow> map_of d (PairPrediction_key p) = Some p"
  by (auto simp: keyed_def list_all_iff map_of_eq_Some_iff)

lemma keyed_values: "keyed d \<Longrightarrow> map PairPrediction_key (map snd d) = map fst d"
  by (auto simp: keyed_def list_all_iff)

lemma keyed_update: "keyed d \<Longrightarrow> PairPrediction_key p = k \<Longrightarrow> keyed (AList.update k p d)"
  by (simp add: keyed_iff update_conv' distinct_update)

lemma keyed_merge:
  "keyed d \<Longrightarrow> \<forall>r\<in>set rows. pe_test_a (fst r) \<le> pe_test_b (fst r) \<Longrightarrow> keyed (merge_predictions version now k d rows)"
proof (induction version now k d rows rule: merge_predictions.induct)
  case (2 version now k d e p rows)
  have "PairPrediction_key (model_prediction d version (now k) e p) = example_pair e"
    using 2(3) by (intro model_prediction_simps(1)) simp
  then show ?case using 2 keyed_update [OF 2(2)] by simp
qed simp

lemma keyed_predictions:
  "keyed (dict_of (map (\<lambda>h. (PairPrediction_key h, h)) hs))"
  "snd ` set (dict_of (map (\<lambda>h. (PairPrediction_key h, h)) hs)) \<subseteq> set hs"
  "distinct (map PairPrediction_key hs) \<Longrightarrow> h \<in> set hs \<Longrightarrow>
     map_of (dict_of (map (\<lambda>h. (PairPrediction_key h, h)) hs)) (PairPrediction_key h) = Some h"
proof -
  let ?d = "dict_of (map (\<lambda>h. (PairPrediction_key h, h)) hs)"
  have d: "h \<in> set hs \<and> PairPrediction_key h = k" if "(k, h) \<in> set ?d" for k h
  proof -
    have "map_of ?d k = Some h" using that by (intro map_of_is_SomeI) simp_all
    then show ?thesis by (auto simp: map_of_dict_of rev_map dest!: map_of_SomeD)
  qed
  then show "keyed ?d" "snd ` set ?d \<subseteq> set hs" by (auto simp: keyed_def list_all_iff)
  show "map_of ?d (PairPrediction_key h) = Some h" if "distinct (map PairPrediction_key hs)" "h \<in> set hs"
    using that by (auto simp: map_of_dict_of rev_map distinct_map inj_on_def comp_def intro!: map_of_is_SomeI)
qed

text \<open>C28: predictions of a model. With one probability per example (otherwise \<^verbatim>\<open>ArtifactError\<close>) the merged
  predictions hold each pair of the heuristic and of the dataset once; a pair of the dataset has the
  model's probability (clamped to the unit interval) and version and the heuristic's cause, and every
  other prediction is the heuristic's own.\<close>

theorem pair_predictions_correct:
  assumes "distinct (map example_pair (ds_examples ds))" "\<forall>e\<in>set (ds_examples ds). pe_test_a e \<le> pe_test_b e"
  shows "(length (ds_examples ds) \<noteq> length ps \<longrightarrow> pair_predictions now ds ps hs version = Inl ArtifactError)
    \<and> (length (ds_examples ds) = length ps \<longrightarrow>
        (\<exists>out. pair_predictions now ds ps hs version = Inr out \<and> distinct (map PairPrediction_key out)
          \<and> PairPrediction_key ` set out = PairPrediction_key ` set hs \<union> example_pair ` set (ds_examples ds)
          \<and> (\<forall>i<length ps. \<exists>p\<in>set out. PairPrediction_key p = example_pair (ds_examples ds ! i)
               \<and> pp_probability p = max 0 (min 1 (ps ! i)) \<and> pp_model_version p = version
               \<and> (\<forall>h\<in>set hs. distinct (map PairPrediction_key hs) \<and> PairPrediction_key h = PairPrediction_key p \<longrightarrow> pp_cause p = pp_cause h))
          \<and> (\<forall>p\<in>set out. PairPrediction_key p \<notin> example_pair ` set (ds_examples ds) \<longrightarrow> p \<in> set hs)))"
proof (intro conjI impI)
  assume len: "length (ds_examples ds) = length ps"
  define d where "d = dict_of (map (\<lambda>h. (PairPrediction_key h, h)) hs)"
  define rows where "rows = zip (ds_examples ds) ps"
  define m where "m = merge_predictions version now 0 d rows"
  have pairs: "map row_pair rows = map example_pair (ds_examples ds)"
    using len by (intro nth_equalityI) (simp_all add: rows_def)
  have rowset: "row_pair ` set rows = example_pair ` set (ds_examples ds)" using arg_cong [OF pairs, of set] by simp
  have le: "\<forall>r\<in>set rows. pe_test_a (fst r) \<le> pe_test_b (fst r)" using assms(2) by (auto simp: rows_def dest: set_zip_leftD)
  have keyed: "keyed m" unfolding m_def d_def by (rule keyed_merge [OF keyed_predictions(1) le])
  have keys: "fst ` set m = PairPrediction_key ` set hs \<union> example_pair ` set (ds_examples ds)"
    unfolding m_def rowset [symmetric] d_def using merge_predictions_keys [of "dict_of (map (\<lambda>h. (PairPrediction_key h, h)) hs)"]
    by (simp add: set_keys_dict_of image_image)
  have row: "\<exists>p\<in>set (map snd m). PairPrediction_key p = example_pair (ds_examples ds ! i)
      \<and> pp_probability p = max 0 (min 1 (ps ! i)) \<and> pp_model_version p = version
      \<and> (\<forall>h\<in>set hs. distinct (map PairPrediction_key hs) \<and> PairPrediction_key h = PairPrediction_key p \<longrightarrow> pp_cause p = pp_cause h)"
    if i: "i < length ps" for i
  proof -
    define p where "p = model_prediction d version (now i) (ds_examples ds ! i) (ps ! i)"
    have "rows ! i = (ds_examples ds ! i, ps ! i)" using i len by (simp add: rows_def)
    moreover have "distinct (map row_pair rows)" "i < length rows" using assms(1) i len by (simp_all add: pairs) (simp add: rows_def)
    ultimately have "map_of m (example_pair (ds_examples ds ! i)) = Some p"
      using merge_predictions_lookup [of rows i version now 0 d] by (simp add: m_def p_def)
    then have "p \<in> set (map snd m)" by (auto dest: map_of_SomeD intro: rev_image_eqI)
    moreover have "pe_test_a (ds_examples ds ! i) \<le> pe_test_b (ds_examples ds ! i)" using assms(2) i len by simp
    note simps = model_prediction_simps [OF this, of d version "now i" "ps ! i", folded p_def]
    moreover have "pp_cause p = pp_cause h"
      if "h \<in> set hs" "distinct (map PairPrediction_key hs)" "PairPrediction_key h = PairPrediction_key p" for h
      using keyed_predictions(3) [OF that(2,1)] that(3) simps(1,4) by (simp add: d_def)
    ultimately show ?thesis by (intro bexI [of _ p] conjI ballI) blast+
  qed
  have other: "p \<in> set hs" if "p \<in> set (map snd m)" "PairPrediction_key p \<notin> example_pair ` set (ds_examples ds)" for p
  proof -
    have "map_of m (PairPrediction_key p) = Some p" using that(1) keyed_lookup [OF keyed, of p] by simp
    then have "map_of d (PairPrediction_key p) = Some p"
      using merge_predictions_other [of "PairPrediction_key p" rows version now 0 d] that(2) by (simp add: m_def rowset)
    then show ?thesis using keyed_predictions(2) [of hs] map_of_SomeD [of d] unfolding d_def by force
  qed
  have "pair_predictions now ds ps hs version = Inr (map snd m)"
    using len by (simp add: pair_predictions_def m_def d_def rows_def Let_def)
  moreover have "distinct (map PairPrediction_key (map snd m))" unfolding keyed_values [OF keyed] using keyed by (simp add: keyed_def)
  moreover have "PairPrediction_key ` set (map snd m) = PairPrediction_key ` set hs \<union> example_pair ` set (ds_examples ds)"
    using arg_cong [OF keyed_values [OF keyed], of set] keys by (simp add: image_image)
  ultimately show "\<exists>out. pair_predictions now ds ps hs version = Inr out \<and> distinct (map PairPrediction_key out)
      \<and> PairPrediction_key ` set out = PairPrediction_key ` set hs \<union> example_pair ` set (ds_examples ds)
      \<and> (\<forall>i<length ps. \<exists>p\<in>set out. PairPrediction_key p = example_pair (ds_examples ds ! i)
           \<and> pp_probability p = max 0 (min 1 (ps ! i)) \<and> pp_model_version p = version
           \<and> (\<forall>h\<in>set hs. distinct (map PairPrediction_key hs) \<and> PairPrediction_key h = PairPrediction_key p \<longrightarrow> pp_cause p = pp_cause h))
      \<and> (\<forall>p\<in>set out. PairPrediction_key p \<notin> example_pair ` set (ds_examples ds) \<longrightarrow> p \<in> set hs)"
    using row other by (intro exI [of _ "map snd m"] conjI allI impI ballI) (assumption | blast)+
qed (simp add: pair_predictions_def Let_def)

theorem pair_predictions_correct_witness:
  "\<exists>out. pair_predictions (\<lambda>_. 0) demo_dataset [0.25, 2] [] ''v1'' = Inr out \<and> distinct (map PairPrediction_key out)
     \<and> PairPrediction_key ` set out = {(''a'', ''b''), (''a'', ''c'')}"
proof -
  have e: "ds_examples demo_dataset = [demo_example ''b'', demo_example ''c'']" "pe_test_a (demo_example x) = ''a''" "pe_test_b (demo_example x) = x" for x
    by (simp_all add: demo_dataset_def demo_example_def)
  have "distinct (map example_pair (ds_examples demo_dataset))" "\<forall>e\<in>set (ds_examples demo_dataset). pe_test_a e \<le> pe_test_b e"
    by (simp_all add: e)
  from pair_predictions_correct [OF this, of "[0.25, 2]" "\<lambda>_. 0" "[]" "''v1''"] show ?thesis by (auto simp: e)
qed

end
