(* ===== verification/Benchmark.thy ===== *)
theory Benchmark
  imports Model Baselines
begin

section \<open>The replay benchmark (\<^verbatim>\<open>benchmark.py\<close>)\<close>

text \<open>
  A synthetic world of tests, a trace with known conflicts and their failure probabilities; the
  simulation of a schedule in that world; the aggregation of trials; and the benchmark that compares
  the schedulers. The random draws (\<^verbatim>\<open>uniform\<close>, \<^verbatim>\<open>random\<close>, the bootstrap), the clock and the
  uuids are arguments, as are the libraries of the two machine-learning models. The summary and the
  report are built as text, with the decimal forms of the numbers written out.
\<close>

subsection \<open>Conflict families\<close>

record ConflictFamily =
  cy_name :: string
  cy_cause :: ConflictCause
  cy_resource_type :: ResourceType
  cy_operation :: Operation
  cy_resource_prefix :: string
  cy_pair_count :: nat
  cy_failure_probability :: real
  cy_base_duration :: real

definition ConflictFamily_init ::
  "string \<Rightarrow> ConflictCause \<Rightarrow> ResourceType \<Rightarrow> Operation \<Rightarrow> string \<Rightarrow> nat \<Rightarrow> real \<Rightarrow> real \<Rightarrow> ConflictFamily" where
  "ConflictFamily_init n c t op p k f d =
     \<lparr>cy_name = n, cy_cause = c, cy_resource_type = t, cy_operation = op, cy_resource_prefix = p, cy_pair_count = k,
      cy_failure_probability = f, cy_base_duration = d\<rparr>"

definition FAMILIES :: "ConflictFamily list" where
  "FAMILIES =
     [ConflictFamily_init ''tcp-port'' CC_PORT_COLLISION RT_TCP_ENDPOINT OP_BIND ''TCP:127.0.0.1:'' 8 0.88 0.09,
      ConflictFamily_init ''shared-file'' CC_FILE_COLLISION RT_FILE OP_WRITE ''/tmp/conflictgraph/files/'' 12 0.70 0.07,
      ConflictFamily_init ''sqlite'' CC_DATABASE_LOCK RT_DATABASE_RESOURCE OP_LOCK ''/tmp/conflictgraph/sqlite/'' 10 0.64 0.12,
      ConflictFamily_init ''unix-socket'' CC_UNIX_SOCKET_COLLISION RT_UNIX_SOCKET OP_BIND ''/tmp/conflictgraph/sockets/'' 6 0.82 0.08,
      ConflictFamily_init ''directory'' CC_FILE_COLLISION RT_DIRECTORY OP_DELETE ''/tmp/conflictgraph/directories/'' 8 0.68 0.06,
      ConflictFamily_init ''redis-key'' CC_SHARED_STATE RT_REDIS_KEY OP_WRITE ''0:benchmark:'' 10 0.72 0.05,
      ConflictFamily_init ''contention'' CC_RESOURCE_CONTENTION RT_OTHER_LOGICAL_RESOURCE OP_WRITE ''CPU_POOL:'' 4 0.40 0.20]"

definition PROFILE_TESTS :: "(string, nat) dict" where
  "PROFILE_TESTS = [(''quick'', 80), (''standard'', 220), (''full'', 320)]"

definition PROFILE_TRIALS :: "(string, nat) dict" where
  "PROFILE_TRIALS = [(''quick'', 3), (''standard'', 12), (''full'', 32)]"

subsection \<open>The synthetic world\<close>

record SyntheticWorld =
  sw_tests :: "TestIdentity list"
  sw_graph :: TestResourceGraph
  sw_labels :: "ConflictLabel list"
  sw_probabilities :: "(string \<times> string, real) dict"
  sw_stats :: "(string, TestStats) dict"

text \<open>The format \<^verbatim>\<open>f"{n:0width}"\<close>.\<close>

definition zero_padded :: "nat \<Rightarrow> nat \<Rightarrow> string" where
  "zero_padded width n = replicate (width - length (str_nat n)) (CHR ''0'') @ str_nat n"

definition world_tests :: "nat \<Rightarrow> TestIdentity list" where
  "world_tests total_tests =
     map (\<lambda>index. from_pytest_nodeid (''benchmark/suite/test_generated.py::test_case_'' @ zero_padded 3 index) ''benchmark'' ''unknown'') [0..<total_tests]"

fun add_world_tests ::
  "(nat \<Rightarrow> real) \<Rightarrow> nat \<Rightarrow> TestIdentity list \<Rightarrow> TestResourceGraph \<times> (string, TestStats) dict \<Rightarrow> TestResourceGraph \<times> (string, TestStats) dict" where
  "add_world_tests uniform k [] (graph, stats) = (graph, stats)"
| "add_world_tests uniform k (test # tests) (graph, stats) =
     (let duration = uniform k;
          s = TestStats_init\<lparr>st_duration_ema := duration, st_duration_median := duration\<rparr>
      in add_world_tests uniform (k + 1) tests (add_test graph test (Some s), AList.update (ti_id test) s stats))"

definition world_event ::
  "string \<Rightarrow> string \<Rightarrow> int \<Rightarrow> int \<Rightarrow> int \<Rightarrow> ResourceType \<Rightarrow> string \<Rightarrow> Operation \<Rightarrow> AccessMode \<Rightarrow> pyval \<Rightarrow> int \<Rightarrow> TraceEvent" where
  "world_event execution test_id timestamp pid cgroup kind identifier operation mode metadata sequence =
     \<lparr>ev_execution_id = execution, ev_test_id = test_id, ev_timestamp_ns = timestamp, ev_pid = pid, ev_tid = pid,
      ev_cgroup_id = cgroup, ev_resource_type = kind, ev_resource_identifier = identifier, ev_operation = operation,
      ev_access_mode = mode, ev_source = ES_REPLAY, ev_metadata = metadata, ev_sequence = sequence\<rparr>"

definition family_mode :: "Operation \<Rightarrow> AccessMode" where
  "family_mode operation = (if operation \<in> {OP_BIND, OP_LOCK, OP_DELETE} then AM_EXCLUSIVE else AM_WRITE)"

definition family_event :: "ConflictFamily \<Rightarrow> string \<Rightarrow> nat \<Rightarrow> TestIdentity \<Rightarrow> nat \<Rightarrow> TraceEvent" where
  "family_event family resource offset test sequence =
     world_event (''history-'' @ cy_name family @ ''-'' @ str_nat offset) (ti_id test) (1000000000 + int sequence * 1000)
       (1000 + int sequence) (10 + int sequence) (cy_resource_type family) resource (cy_operation family)
       (family_mode (cy_operation family)) (PDict [(''family'', PStr (cy_name family))]) (int sequence)"

record world_state =
  ws_graph :: TestResourceGraph
  ws_labels :: "ConflictLabel list"
  ws_probabilities :: "(string \<times> string, real) dict"
  ws_cursor :: nat
  ws_sequence :: nat

definition family_pair :: "TestIdentity list \<Rightarrow> ConflictFamily \<Rightarrow> world_state \<Rightarrow> nat \<Rightarrow> world_state" where
  "family_pair tests family st index =
     (let left = tests ! (ws_cursor st mod length tests);
          right = tests ! ((ws_cursor st + 1) mod length tests);
          resource = cy_resource_prefix family @ str_nat index;
          graph = add_event (ws_graph st) (family_event family resource 0 left (ws_sequence st));
          graph = add_event graph (family_event family resource 1 right (ws_sequence st + 1));
          pair = stable_pair (ti_id left) (ti_id right)
      in st\<lparr>ws_graph := graph,
            ws_labels := ws_labels st @ [\<lparr>cl_test_a = fst pair, cl_test_b = snd pair, cl_conflict = True, cl_cause = cy_cause family,
              cl_confidence = 1, cl_source = ''synthetic-ground-truth''\<rparr>],
            ws_probabilities := AList.update pair (cy_failure_probability family) (ws_probabilities st),
            ws_cursor := ws_cursor st + 2, ws_sequence := ws_sequence st + 2\<rparr>)"

definition add_family :: "TestIdentity list \<Rightarrow> world_state \<Rightarrow> ConflictFamily \<Rightarrow> world_state" where
  "add_family tests st family = foldl (family_pair tests family) st [0..<cy_pair_count family]"

definition shared_read :: "nat \<Rightarrow> nat \<Rightarrow> TestIdentity \<Rightarrow> TraceEvent" where
  "shared_read sequence index test =
     world_event (''history-safe-'' @ str_nat index) (ti_id test) (2000000000 + int index) (2000 + int index) (200 + int index)
       RT_FILE (''/opt/benchmark/fixtures/shared_'' @ str_nat (index mod 5) @ ''.json'') OP_READ AM_READ (PDict []) (int (sequence + index))"

definition isolated_write :: "nat \<Rightarrow> nat \<Rightarrow> nat \<Rightarrow> TestIdentity \<Rightarrow> TraceEvent" where
  "isolated_write total_tests sequence index test =
     world_event (''history-isolated-'' @ str_nat index) (ti_id test) (2100000000 + int index) (3000 + int index) (300 + int index)
       RT_FILE (''/tmp/conflictgraph/isolated/'' @ ti_id test @ ''.db'') OP_WRITE AM_WRITE (PDict []) (int (sequence + total_tests + index))"

fun add_controls :: "nat \<Rightarrow> nat \<Rightarrow> nat \<Rightarrow> TestIdentity list \<Rightarrow> TestResourceGraph \<Rightarrow> TestResourceGraph" where
  "add_controls total_tests sequence index [] graph = graph"
| "add_controls total_tests sequence index (test # tests) graph =
     add_controls total_tests sequence (index + 1) tests
       (add_event (add_event graph (shared_read sequence index test)) (isolated_write total_tests sequence index test))"

text \<open>The world's statistics are the objects the graph holds, which \<^verbatim>\<open>_refresh_stats\<close> updates in place.\<close>

definition build_synthetic_world :: "(int \<Rightarrow> nat \<Rightarrow> real) \<Rightarrow> string \<Rightarrow> int \<Rightarrow> SyntheticWorld result" where
  "build_synthetic_world uniform profile seed =
     (case map_of PROFILE_TESTS profile of
        None \<Rightarrow> Inl ValueError
      | Some total_tests \<Rightarrow>
          let tests = world_tests total_tests;
              (graph, stats) = add_world_tests (uniform seed) 0 tests (TestResourceGraph_init, []);
              st = foldl (add_family tests) \<lparr>ws_graph = graph, ws_labels = [], ws_probabilities = [], ws_cursor = 0, ws_sequence = 0\<rparr> FAMILIES
          in bind_result (refresh_stats (add_controls total_tests (ws_sequence st) 0 tests (ws_graph st))) (\<lambda>graph.
               Inr \<lparr>sw_tests = tests, sw_graph = graph, sw_labels = ws_labels st, sw_probabilities = ws_probabilities st,
                    sw_stats = map (\<lambda>(t, s). (t, dict_get (gr_test_stats graph) t s)) stats\<rparr>))"

subsection \<open>Simulating a schedule\<close>

record TrialResult =
  tl_scheduler :: string
  tl_trial :: nat
  tl_seed :: int
  tl_workers :: int
  tl_tests :: nat
  tl_failures :: nat
  tl_conflict_failures :: nat
  tl_flake_rate :: real
  tl_makespan_seconds :: real
  tl_worker_utilization :: real
  tl_average_active_workers :: real
  tl_expected_risk_exposure :: real
  tl_conflicting_overlaps :: nat
  tl_unnecessary_serialization_rate :: real
  tl_scheduler_overhead_ms :: real

record sim_state =
  si_failures :: "string set"
  si_conflict_failures :: nat
  si_overlaps :: nat
  si_exposure :: real
  si_draws :: nat

definition overlap_seconds :: "ScheduledTest \<Rightarrow> ScheduledTest \<Rightarrow> real" where
  "overlap_seconds left right = max 0 (min (sc_end left) (sc_end right) - max (sc_start left) (sc_start right))"

definition conflict_probability :: "(string \<times> string, real) dict \<Rightarrow> ScheduledTest \<Rightarrow> ScheduledTest \<Rightarrow> real" where
  "conflict_probability probabilities left right = dict_get probabilities (stable_pair (sc_test_id left) (sc_test_id right)) 0"

definition pair_share :: "ScheduledTest \<Rightarrow> ScheduledTest \<Rightarrow> real" where
  "pair_share left right = min 1 (overlap_seconds left right / max 0.001 (min (sc_duration left) (sc_duration right)))"

definition conflicting :: "(string \<times> string, real) dict \<Rightarrow> ScheduledTest \<Rightarrow> ScheduledTest \<Rightarrow> bool" where
  "conflicting probabilities left right \<longleftrightarrow>
     sc_worker left \<noteq> sc_worker right \<and> overlap_seconds left right > 0 \<and> conflict_probability probabilities left right \<noteq> 0"

text \<open>One pair of the nested loops: the first draw decides whether it fails, the second which test.\<close>

definition simulate_pair ::
  "(nat \<Rightarrow> real) \<Rightarrow> (string \<times> string, real) dict \<Rightarrow> ScheduledTest \<Rightarrow> sim_state \<Rightarrow> ScheduledTest \<Rightarrow> sim_state" where
  "simulate_pair random probabilities left st right =
     (if \<not> conflicting probabilities left right then st
      else
        let chance = conflict_probability probabilities left right * pair_share left right;
            k = si_draws st;
            st = st\<lparr>si_overlaps := si_overlaps st + 1, si_exposure := si_exposure st + chance, si_draws := k + 1\<rparr>
        in if random k < chance
           then let victim = (if random (k + 1) < 0.5 then sc_test_id left else sc_test_id right)
                in st\<lparr>si_conflict_failures := si_conflict_failures st + (if victim \<notin> si_failures st then 1 else 0),
                      si_failures := insert victim (si_failures st), si_draws := k + 2\<rparr>
           else st)"

fun simulate_pairs ::
  "(nat \<Rightarrow> real) \<Rightarrow> (string \<times> string, real) dict \<Rightarrow> sim_state \<Rightarrow> ScheduledTest list \<Rightarrow> sim_state" where
  "simulate_pairs random probabilities st [] = st"
| "simulate_pairs random probabilities st (left # rest) =
     simulate_pairs random probabilities (foldl (simulate_pair random probabilities left) st rest) rest"

definition sim_init :: sim_state where
  "sim_init = \<lparr>si_failures = {}, si_conflict_failures = 0, si_overlaps = 0, si_exposure = 0, si_draws = 0\<rparr>"

definition simulate_schedule ::
  "(int \<Rightarrow> nat \<Rightarrow> real) \<Rightarrow> Schedule \<Rightarrow> SyntheticWorld \<Rightarrow> nat \<Rightarrow> int \<Rightarrow> string \<Rightarrow> TrialResult" where
  "simulate_schedule random schedule world trial seed scheduler_name =
     (let tests = sd_tests schedule;
          st = simulate_pairs (random seed) (sw_probabilities world) sim_init tests;
          failures = card (si_failures st);
          makespan = makespan_of tests;
          work = (\<Sum>item\<leftarrow>tests. sc_duration item);
          workers = real_of_int (sd_workers schedule);
          ideal = (if workers \<noteq> 0 then work / workers else work)
      in \<lparr>tl_scheduler = scheduler_name, tl_trial = trial, tl_seed = seed, tl_workers = sd_workers schedule,
          tl_tests = length tests, tl_failures = failures, tl_conflict_failures = si_conflict_failures st,
          tl_flake_rate = (if tests \<noteq> [] then real failures / real (length tests) else 0),
          tl_makespan_seconds = makespan,
          tl_worker_utilization = (if makespan \<noteq> 0 then work / (makespan * workers) else 0),
          tl_average_active_workers = (if makespan \<noteq> 0 then work / makespan else 0),
          tl_expected_risk_exposure = si_exposure st, tl_conflicting_overlaps = si_overlaps st,
          tl_unnecessary_serialization_rate = (if makespan \<noteq> 0 then max 0 (makespan - ideal) / makespan else 0),
          tl_scheduler_overhead_ms = sd_scheduler_latency_ms schedule\<rparr>)"

subsection \<open>Aggregation\<close>

record AggregateResult =
  ar_scheduler :: string
  ar_trials :: nat
  ar_executions :: nat
  ar_failures :: nat
  ar_conflict_failures :: nat
  ar_flake_rate :: real
  ar_flake_rate_ci95 :: "real \<times> real"
  ar_mean_makespan_seconds :: real
  ar_makespan_ci95 :: "real \<times> real"
  ar_worker_utilization :: real
  ar_average_active_workers :: real
  ar_mean_risk_exposure :: real
  ar_mean_scheduler_overhead_ms :: real

definition aggregate_trials :: "(int \<Rightarrow> nat \<Rightarrow> nat \<Rightarrow> nat list list) \<Rightarrow> TrialResult list \<Rightarrow> int \<Rightarrow> AggregateResult result" where
  "aggregate_trials choice trials seed =
     (if trials = [] then Inl ValueError
      else
        let rates = map tl_flake_rate trials; makespans = map tl_makespan_seconds trials
        in bind_result (bootstrap_interval choice rates seed 0.95 2000) (\<lambda>flake_ci.
           bind_result (bootstrap_interval choice makespans seed 0.95 2000) (\<lambda>makespan_ci.
             Inr \<lparr>ar_scheduler = tl_scheduler (hd trials), ar_trials = length trials,
                  ar_executions = sum_list (map tl_tests trials), ar_failures = sum_list (map tl_failures trials),
                  ar_conflict_failures = sum_list (map tl_conflict_failures trials),
                  ar_flake_rate = mean rates, ar_flake_rate_ci95 = flake_ci,
                  ar_mean_makespan_seconds = mean makespans, ar_makespan_ci95 = makespan_ci,
                  ar_worker_utilization = mean (map tl_worker_utilization trials),
                  ar_average_active_workers = mean (map tl_average_active_workers trials),
                  ar_mean_risk_exposure = mean (map tl_expected_risk_exposure trials),
                  ar_mean_scheduler_overhead_ms = mean (map tl_scheduler_overhead_ms trials)\<rparr>)))"

subsection \<open>The benchmark\<close>

definition oracle_prediction ::
  "(string \<times> string, ConflictLabel) dict \<Rightarrow> (string \<times> string, real) dict \<Rightarrow> int \<Rightarrow> PairPrediction \<Rightarrow> PairPrediction" where
  "oracle_prediction label_by_pair probabilities now prediction =
     (let key = PairPrediction_key prediction
      in PairPrediction_init (pp_test_a prediction) (pp_test_b prediction)
           (dict_get probabilities key (pp_probability prediction * 0.75))
           (case map_of label_by_pair key of Some l \<Rightarrow> cl_cause l | None \<Rightarrow> pp_cause prediction) ''synthetic-oracle''
           (pp_shared_resources prediction) (pp_explanation prediction) now)"

definition heuristic_probabilities :: "PairPrediction list \<Rightarrow> PairExample list \<Rightarrow> real list" where
  "heuristic_probabilities predictions examples =
     (let heuristic_map = dict_of (map (\<lambda>item. (PairPrediction_key item, pp_probability item)) predictions)
      in map (\<lambda>item. dict_get heuristic_map (stable_pair (pe_test_a item) (pe_test_b item)) 0.001) examples)"

text \<open>What the run finds on its host: the draws of \<^verbatim>\<open>random.Random\<close> for each seed, the clock of the
  predictions of a model, the uuids and times of each schedule, the machine-learning libraries, and
  whether \<^verbatim>\<open>conflictgraph.model\<close> can be imported.\<close>

record 'w benchmark_host =
  bh_uniform :: "int \<Rightarrow> nat \<Rightarrow> real"
  bh_random :: "int \<Rightarrow> nat \<Rightarrow> real"
  bh_below :: "int \<Rightarrow> nat \<Rightarrow> nat \<Rightarrow> nat"
  bh_drawn :: "int \<Rightarrow> nat \<Rightarrow> nat \<Rightarrow> nat list"
  bh_choice :: "int \<Rightarrow> nat \<Rightarrow> nat \<Rightarrow> nat list list"
  bh_env :: "string \<Rightarrow> nat \<Rightarrow> sched_env"
  bh_now :: "string \<Rightarrow> nat \<Rightarrow> int"
  bh_created_at :: string
  bh_scorer :: scorer
  bh_importable :: bool
  bh_sklearn :: "sklearn_library option"
  bh_torch :: "'w torch_library"
  bh_loads :: "string \<Rightarrow> pyval result"

type_synonym strategy = "nat \<Rightarrow> Schedule result"

definition serial_strategy :: "'w benchmark_host \<Rightarrow> SyntheticWorld \<Rightarrow> strategy" where
  "serial_strategy host world run =
     Inr (serial_schedule (bh_env host ''serial'' run) (sw_tests world) (map_of (sw_stats world))
       (if run = 0 then None else Some (str_nat run)))"

definition random_strategy :: "'w benchmark_host \<Rightarrow> SyntheticWorld \<Rightarrow> int \<Rightarrow> int \<Rightarrow> strategy" where
  "random_strategy host world workers seed run =
     random_schedule workers (seed + int run) (bh_below host) (bh_env host ''random'' run) (sw_tests world)
       (map_of (sw_stats world)) (Some (str_nat run))"

definition conflict_strategy ::
  "'w benchmark_host \<Rightarrow> SyntheticWorld \<Rightarrow> string \<Rightarrow> int \<Rightarrow> RiskPolicy \<Rightarrow> int \<Rightarrow> real option \<Rightarrow> PairPrediction list \<Rightarrow> strategy" where
  "conflict_strategy host world name workers policy seed hard_threshold predictions run =
     bind_result (ConflictScheduler_init workers policy (seed + int run) None hard_threshold 4) (\<lambda>scheduler.
       static_schedule scheduler (bh_env host name run) (sw_tests world) (map_of (sw_stats world)) predictions (Some (str_nat run)))"

definition base_strategies ::
  "'w benchmark_host \<Rightarrow> SyntheticWorld \<Rightarrow> int \<Rightarrow> int \<Rightarrow> PairPrediction list \<Rightarrow> PairPrediction list \<Rightarrow> (string, strategy) dict" where
  "base_strategies host world workers seed heuristic_predictions oracle_predictions =
     [(''serial'', serial_strategy host world),
      (''random'', random_strategy host world workers seed),
      (''heuristic'', conflict_strategy host world ''heuristic'' workers RP_BALANCED seed None heuristic_predictions),
      (''conservative-locking'',
        conflict_strategy host world ''conservative-locking'' workers RP_SAFE seed (Some 0.05) heuristic_predictions),
      (''oracle-upper-bound'',
        conflict_strategy host world ''oracle-upper-bound'' workers RP_BALANCED seed None oracle_predictions)]"

datatype gnn_metrics = GNN_Unavailable | GNN_Metrics string pyval pyval

record model_metrics =
  mm_heuristic :: ClassificationMetrics
  mm_tabular :: "(ClassificationMetrics \<times> ClassificationMetrics) option"
  mm_gnn :: "gnn_metrics option"
  mm_unavailable :: bool

text \<open>The body of the \<^verbatim>\<open>try\<close>: the strategies and metrics it has added when it ends, and the exception
  that ended it, if any. A version that is not a string is not modelled and counts as an error.\<close>

definition version_of :: "(string \<times> pyval) list \<Rightarrow> string result" where
  "version_of metadata = (case dict_get metadata ''version'' PNone of PStr v \<Rightarrow> Inr v | _ \<Rightarrow> Inl TypeError)"

definition tabular_predictions ::
  "'w benchmark_host \<Rightarrow> int \<Rightarrow> Dataset \<Rightarrow> DatasetSplit \<Rightarrow> PairPrediction list
     \<Rightarrow> (PairPrediction list \<times> ClassificationMetrics \<times> ClassificationMetrics) result" where
  "tabular_predictions host seed dataset split heuristic_predictions =
     (if \<not> bh_importable host then Inl ImportError
      else bind_result (TabularBaseline_fit (bh_sklearn host) (bh_scorer host)
               (TabularBaseline_init ''gradient_boosting'' seed) dataset split) (\<lambda>(tabular, tabular_metrics).
           bind_result (arrays dataset None) (\<lambda>(features, _, _).
           bind_result (TabularBaseline_predict tabular features) (\<lambda>probabilities.
           bind_result (pair_predictions (bh_now host ''tabular-ml'') dataset probabilities heuristic_predictions
               ''tabular-gradient-boosting'') (\<lambda>predictions. Inr (predictions, tabular_metrics))))))"

definition gnn_predictions ::
  "'w benchmark_host \<Rightarrow> TestResourceGraph \<Rightarrow> Dataset \<Rightarrow> PairPrediction list \<Rightarrow> artifact_files
     \<Rightarrow> (PairPrediction list \<times> gnn_metrics) result" where
  "gnn_predictions host graph dataset heuristic_predictions artifact =
     bind_result (predict_artifact (bh_torch host) (bh_loads host) artifact graph dataset) (\<lambda>(probabilities, metadata).
     bind_result (version_of metadata) (\<lambda>version.
     bind_result (pair_predictions (bh_now host ''gnn'') dataset probabilities heuristic_predictions version) (\<lambda>predictions.
       Inr (predictions, GNN_Metrics version (dict_get metadata ''validation_metrics'' PNone)
              (dict_get metadata ''test_metrics'' PNone)))))"

definition has_metadata :: "artifact_files option \<Rightarrow> bool" where
  "has_metadata model_artifact = (case model_artifact of Some files \<Rightarrow> af_metadata files \<noteq> None | None \<Rightarrow> False)"

definition ml_strategies ::
  "'w benchmark_host \<Rightarrow> SyntheticWorld \<Rightarrow> TestResourceGraph \<Rightarrow> int \<Rightarrow> int \<Rightarrow> artifact_files option \<Rightarrow> Dataset \<Rightarrow> DatasetSplit
     \<Rightarrow> PairPrediction list \<Rightarrow> (string, strategy) dict \<Rightarrow> model_metrics
     \<Rightarrow> ((string, strategy) dict \<times> model_metrics) \<times> py_error option" where
  "ml_strategies host world graph workers seed model_artifact dataset split heuristic_predictions strategies metrics =
     (case tabular_predictions host seed dataset split heuristic_predictions of
        Inl err \<Rightarrow> ((strategies, metrics), Some err)
      | Inr (predictions, tabular_metrics) \<Rightarrow>
          let strategies = AList.update ''tabular-ml''
                (conflict_strategy host world ''tabular-ml'' workers RP_BALANCED seed None predictions) strategies;
              metrics = metrics\<lparr>mm_tabular := Some tabular_metrics\<rparr>
          in if has_metadata model_artifact
             then (case gnn_predictions host graph dataset heuristic_predictions (the model_artifact) of
                     Inl err \<Rightarrow> ((strategies, metrics), Some err)
                   | Inr (predictions, gnn) \<Rightarrow>
                       ((AList.update ''gnn'' (conflict_strategy host world ''gnn'' workers RP_BALANCED seed None predictions) strategies,
                         metrics\<lparr>mm_gnn := Some gnn\<rparr>), None))
             else ((strategies, metrics\<lparr>mm_gnn := Some GNN_Unavailable\<rparr>), None))"

definition all_strategies ::
  "'w benchmark_host \<Rightarrow> SyntheticWorld \<Rightarrow> TestResourceGraph \<Rightarrow> int \<Rightarrow> int \<Rightarrow> artifact_files option \<Rightarrow> Dataset \<Rightarrow> DatasetSplit
     \<Rightarrow> PairPrediction list \<Rightarrow> (string, strategy) dict \<Rightarrow> model_metrics \<Rightarrow> ((string, strategy) dict \<times> model_metrics) result" where
  "all_strategies host world graph workers seed model_artifact dataset split heuristic_predictions strategies metrics =
     (case ml_strategies host world graph workers seed model_artifact dataset split heuristic_predictions strategies metrics of
        (r, None) \<Rightarrow> Inr r
      | ((strategies, metrics), Some err) \<Rightarrow>
          if err \<in> {ImportError, ArtifactError} then Inr (strategies, metrics\<lparr>mm_unavailable := True\<rparr>) else Inl err)"

subsection \<open>Text\<close>

text \<open>The formats \<^verbatim>\<open>f"{x:.df}"\<close> and \<^verbatim>\<open>f"{x:.d%}"\<close>, ties to even, and \<^verbatim>\<open>f"{n:,}"\<close>.\<close>

definition fmt_fixed :: "nat \<Rightarrow> real \<Rightarrow> string" where
  "fmt_fixed digits x =
     (let m = nat \<bar>round_half_even (10 ^ digits * x)\<bar>
      in (if x < 0 then ''-'' else []) @ str_nat (m div 10 ^ digits) @ ''.'' @ zero_padded digits (m mod 10 ^ digits))"

definition fmt_percent :: "nat \<Rightarrow> real \<Rightarrow> string" where
  "fmt_percent digits x = fmt_fixed digits (100 * x) @ ''%''"

fun fmt_thousands :: "nat \<Rightarrow> string" where
  "fmt_thousands n = (if n < 1000 then str_nat n else fmt_thousands (n div 1000) @ '','' @ zero_padded 3 (n mod 1000))"

declare fmt_thousands.simps [simp del]

definition impact_summary :: "real \<Rightarrow> real \<Rightarrow> nat \<Rightarrow> string" where
  "impact_summary reduction throughput executions =
     ''Heuristic ConflictGraph replay reduced conflict-induced failures by '' @ fmt_fixed 1 reduction @ ''% ''
     @ ''while retaining '' @ fmt_fixed 1 throughput @ ''% of random-parallel throughput across ''
     @ fmt_thousands executions @ '' simulated ''
     @ ''test executions. This is an offline replay result, not an eBPF runtime measurement.''"

subsection \<open>The run\<close>

record BenchmarkReport =
  br_version :: string
  br_created_at :: string
  br_profile :: string
  br_seed :: int
  br_workers :: int
  br_trial_count :: int
  br_total_test_executions :: nat
  br_results :: "AggregateResult list"
  br_model_metrics :: model_metrics
  br_impact_summary :: string
  br_environment :: "(string \<times> pyval) list"
  br_replayed :: bool

definition run_trials ::
  "'w benchmark_host \<Rightarrow> SyntheticWorld \<Rightarrow> int \<Rightarrow> int \<Rightarrow> string \<times> strategy \<Rightarrow> (string \<times> TrialResult list) result" where
  "run_trials host world seed trial_count entry =
     (let (name, create_schedule) = entry
      in bind_result (map_result (\<lambda>trial. bind_result (create_schedule trial) (\<lambda>schedule.
             Inr (simulate_schedule (bh_random host) schedule world trial (seed + int trial * 104729) name)))
           [0..<nat trial_count]) (\<lambda>trials. Inr (name, trials)))"

definition failure_reduction :: "AggregateResult \<Rightarrow> AggregateResult \<Rightarrow> real" where
  "failure_reduction random_result intelligent =
     (if ar_flake_rate random_result \<noteq> 0 then 100 * (1 - ar_flake_rate intelligent / ar_flake_rate random_result) else 0)"

definition throughput_retained :: "AggregateResult \<Rightarrow> AggregateResult \<Rightarrow> real" where
  "throughput_retained random_result intelligent =
     (if ar_mean_makespan_seconds intelligent \<noteq> 0
      then 100 * ar_mean_makespan_seconds random_result / ar_mean_makespan_seconds intelligent else 100)"

definition trial_count_of :: "int option \<Rightarrow> string \<Rightarrow> int result" where
  "trial_count_of trials profile =
     (case trials of
        Some n \<Rightarrow> if n \<noteq> 0 then Inr n else bind_result (dict_index PROFILE_TRIALS profile) (\<lambda>n. Inr (int n))
      | None \<Rightarrow> bind_result (dict_index PROFILE_TRIALS profile) (\<lambda>n. Inr (int n)))"

definition report_of ::
  "'w benchmark_host \<Rightarrow> SyntheticWorld \<Rightarrow> string \<Rightarrow> int \<Rightarrow> int \<Rightarrow> int \<Rightarrow> model_metrics \<Rightarrow> AggregateResult list \<Rightarrow> BenchmarkReport result" where
  "report_of host world profile workers seed trial_count metrics aggregates =
     (let by_name = dict_of (map (\<lambda>item. (ar_scheduler item, item)) aggregates)
      in bind_result (dict_index by_name ''random'') (\<lambda>random_result.
         bind_result (dict_index by_name ''heuristic'') (\<lambda>intelligent.
           let executions = sum_list (map ar_executions aggregates)
           in Inr \<lparr>br_version = ''benchmark-v1'', br_created_at = bh_created_at host, br_profile = profile, br_seed = seed,
                   br_workers = workers, br_trial_count = trial_count, br_total_test_executions = executions,
                   br_results = aggregates, br_model_metrics = metrics,
                   br_impact_summary = impact_summary (failure_reduction random_result intelligent)
                     (throughput_retained random_result intelligent) executions,
                   br_environment = [(''mode'', PStr ''synthetic-replay''), (''tests'', PInt (int (length (sw_tests world)))),
                     (''conflict_pairs'', PInt (int (length (sw_labels world))))], br_replayed = True\<rparr>)))"

definition run_replay_benchmark ::
  "'w benchmark_host \<Rightarrow> string \<Rightarrow> int \<Rightarrow> int \<Rightarrow> int option \<Rightarrow> artifact_files option \<Rightarrow> BenchmarkReport result" where
  "run_replay_benchmark host profile workers seed trials model_artifact =
     bind_result (build_synthetic_world (bh_uniform host) profile seed) (\<lambda>world.
     bind_result (trial_count_of trials profile) (\<lambda>trial_count.
     bind_result (predict_graph 0.001 (bh_now host ''heuristic'') (sw_graph world) True) (\<lambda>(heuristic_predictions, graph).
     let label_by_pair = label_index (sw_labels world);
         oracle_predictions = map (\<lambda>(k, p). oracle_prediction label_by_pair (sw_probabilities world) (bh_now host ''oracle'' k) p)
           (enumerate 0 heuristic_predictions)
     in bind_result (DatasetBuilder_init seed (Some 4)) (\<lambda>builder.
     bind_result (build (bh_drawn host) (bh_created_at host) builder graph (sw_labels world) [] None) (\<lambda>(dataset, graph).
     bind_result (pair_disjoint_split (bh_below host) dataset seed (0.7, 0.15, 0.15)) (\<lambda>split.
     bind_result (metrics_by (bh_scorer host) (map (\<lambda>e. real_of_int (pe_label e)) (ds_examples dataset))
         (heuristic_probabilities heuristic_predictions (ds_examples dataset))) (\<lambda>heuristic_metrics.
     bind_result (all_strategies host world graph workers seed model_artifact dataset split heuristic_predictions
         (base_strategies host world workers seed heuristic_predictions oracle_predictions)
         \<lparr>mm_heuristic = heuristic_metrics, mm_tabular = None, mm_gnn = None, mm_unavailable = False\<rparr>) (\<lambda>(strategies, metrics).
     bind_result (map_result (run_trials host world seed trial_count) strategies) (\<lambda>grouped.
     bind_result (map_result (\<lambda>(name, results). aggregate_trials (bh_choice host) results seed) grouped) (\<lambda>aggregates.
       report_of host world profile workers seed trial_count metrics aggregates))))))))))"

subsection \<open>The report\<close>

definition report_row :: "AggregateResult \<Rightarrow> string" where
  "report_row r =
     ''| '' @ ar_scheduler r @ '' | '' @ fmt_percent 2 (ar_flake_rate r)
     @ '' ['' @ fmt_percent 2 (fst (ar_flake_rate_ci95 r)) @ '', '' @ fmt_percent 2 (snd (ar_flake_rate_ci95 r)) @ ''] ''
     @ ''| '' @ fmt_fixed 3 (ar_mean_makespan_seconds r) @ ''s | '' @ fmt_percent 1 (ar_worker_utilization r)
     @ '' | '' @ str_nat (ar_conflict_failures r) @ '' ''
     @ ''| '' @ fmt_fixed 2 (ar_mean_scheduler_overhead_ms r) @ ''ms |''"

definition report_lines :: "BenchmarkReport \<Rightarrow> string list" where
  "report_lines report =
     [''# ConflictGraph benchmark report'', [], ''Generated: '' @ br_created_at report, [],
      ''> '' @ br_impact_summary report, [],
      ''| Scheduler | Flake rate | Makespan | Utilization | Conflict failures | Scheduler overhead |'',
      ''|---|---:|---:|---:|---:|---:|'']
     @ map report_row (br_results report)
     @ [[], ''## Provenance'', [], ''- Profile: `'' @ br_profile report @ ''`'', ''- Seed: `'' @ str_int (br_seed report) @ ''`'',
        ''- Workers: `'' @ str_int (br_workers report) @ ''`'',
        ''- Trials per scheduler: `'' @ str_int (br_trial_count report) @ ''`'',
        ''- Total simulated executions: `'' @ str_nat (br_total_test_executions report) @ ''`'',
        ''- Replay results estimate schedule behavior from recorded durations and known conflict probabilities.'',
        ''- They are intentionally not presented as measured test-process or tracing overhead.'', []]"

text \<open>The two files of the report; \<open>dump_json\<close> is the text of the JSON copy.\<close>

definition write_report :: "(BenchmarkReport \<Rightarrow> string) \<Rightarrow> BenchmarkReport \<Rightarrow> (string \<times> string) list" where
  "write_report dump_json report =
     [(''benchmark.json'', dump_json report), (''benchmark.md'', join_with [CHR 0x0A] (report_lines report))]"

end
