(* ===== verification/Benchmark_Properties.thy ===== *)
theory Benchmark_Properties
  imports Benchmark Graph_Properties Dataset_Properties Metrics
begin

section \<open>Properties of the replay benchmark\<close>

text \<open>
  The world is built by the graph's own operations, so \<open>graph_built\<close> holds of its graph for the log of
  its events; the simulation is a fold over the pairs of the schedule with an invariant; and the run
  composes the graph, the heuristic, the dataset builder, the splitter, the metrics and the
  schedulers, each of which returns.
\<close>

subsection \<open>The synthetic world\<close>

definition planted :: "TraceEvent list \<Rightarrow> ConflictLabel \<Rightarrow> bool" where
  "planted evs l \<longleftrightarrow> cl_conflict l \<and> (\<exists>r. mutates evs (cl_test_a l) r \<and> mutates evs (cl_test_b l) r)"

definition neighbours :: "TestIdentity list \<Rightarrow> nat \<Rightarrow> string \<times> string" where
  "neighbours tests i =
     stable_pair (ti_id (tests ! (2 * i mod length tests))) (ti_id (tests ! ((2 * i + 1) mod length tests)))"

definition world_inv :: "TestIdentity list \<Rightarrow> TraceEvent list \<Rightarrow> world_state \<Rightarrow> bool" where
  "world_inv tests evs st \<longleftrightarrow>
     graph_built evs (ws_graph st) \<and> gr_pair_history (ws_graph st) = [] \<and> list_all (planted evs) (ws_labels st)
     \<and> ws_cursor st = 2 * length (ws_labels st)
     \<and> map ConflictLabel_key (ws_labels st) = map (neighbours tests) [0..<length (ws_labels st)]
     \<and> dict_wf (ws_probabilities st) \<and> fst ` set (ws_probabilities st) = ConflictLabel_key ` set (ws_labels st)
     \<and> snd ` set (ws_probabilities st) \<subseteq> cy_failure_probability ` set FAMILIES"

lemma mutates_mono: "set evs \<subseteq> set evs' \<Longrightarrow> mutates evs t r \<Longrightarrow> mutates evs' t r"
  by (auto simp: mutates_def)

lemma planted_mono: "set evs \<subseteq> set evs' \<Longrightarrow> list_all (planted evs) ls \<Longrightarrow> list_all (planted evs') ls"
  unfolding list_all_iff planted_def using mutates_mono by blast

lemma mutates_member:
  "e \<in> set evs \<Longrightarrow> is_mutating (ev_operation e) (ev_access_mode e) \<Longrightarrow> mutates evs (ev_test_id e) (event_rid e)"
  by (auto simp: mutates_def)

lemma add_test_history [simp]: "gr_pair_history (add_test g t s) = gr_pair_history g"
  by (simp add: add_test_def Let_def split: option.split)

lemma add_world_tests_built:
  "graph_built evs g \<Longrightarrow> gr_pair_history g = [] \<Longrightarrow>
     graph_built evs (fst (add_world_tests uniform k tests (g, stats)))
     \<and> gr_pair_history (fst (add_world_tests uniform k tests (g, stats))) = []"
proof (induction tests arbitrary: k g stats)
  case (Cons test tests)
  show ?case
    using Cons.IH [OF add_test_built [OF Cons.prems(1)]] Cons.prems(2) by (simp add: Let_def)
qed simp

lemma family_event_simps [simp]:
  "ev_test_id (family_event f r o' t s) = ti_id t"
  "event_rid (family_event f r o' t s) = ri_id (ResourceIdentity_create (cy_resource_type f) r False)"
  "is_mutating (ev_operation (family_event f r o' t s)) (ev_access_mode (family_event f r o' t s))"
  by (simp_all add: family_event_def world_event_def family_mode_def is_mutating_def)

lemma snd_set_update: "snd ` set (AList.update k v d) \<subseteq> insert v (snd ` set d)"
  by (induction d) auto

lemma family_pair_inv:
  assumes "world_inv tests evs st" and f: "f \<in> set FAMILIES"
  shows "\<exists>evs'. world_inv tests evs' (family_pair tests f st i)"
proof -
  let ?left = "tests ! (ws_cursor st mod length tests)" and ?right = "tests ! ((ws_cursor st + 1) mod length tests)"
  let ?r = "cy_resource_prefix f @ str_nat i"
  let ?e1 = "family_event f ?r 0 ?left (ws_sequence st)" and ?e2 = "family_event f ?r 1 ?right (ws_sequence st + 1)"
  let ?evs = "(evs @ [?e1]) @ [?e2]" and ?st = "family_pair tests f st i"
  let ?pair = "stable_pair (ti_id ?left) (ti_id ?right)"
  have inv: "graph_built evs (ws_graph st)" "gr_pair_history (ws_graph st) = []" "list_all (planted evs) (ws_labels st)"
      "ws_cursor st = 2 * length (ws_labels st)"
      "map ConflictLabel_key (ws_labels st) = map (neighbours tests) [0..<length (ws_labels st)]"
      "dict_wf (ws_probabilities st)" "fst ` set (ws_probabilities st) = ConflictLabel_key ` set (ws_labels st)"
      "snd ` set (ws_probabilities st) \<subseteq> cy_failure_probability ` set FAMILIES"
    using assms(1) by (simp_all add: world_inv_def)
  obtain l where l: "ws_labels ?st = ws_labels st @ [l]" "ConflictLabel_key l = ?pair" "cl_conflict l"
      "(cl_test_a l, cl_test_b l) = ?pair"
    by (auto simp: family_pair_def Let_def ConflictLabel_key_def stable_pair_def)
  have st: "ws_graph ?st = add_event (add_event (ws_graph st) ?e1) ?e2" "ws_cursor ?st = ws_cursor st + 2"
      "ws_probabilities ?st = AList.update ?pair (cy_failure_probability f) (ws_probabilities st)"
    by (simp_all add: family_pair_def Let_def)
  let ?rid = "ri_id (ResourceIdentity_create (cy_resource_type f) ?r False)"
  have both: "mutates ?evs (ti_id ?left) ?rid" "mutates ?evs (ti_id ?right) ?rid"
    using mutates_member [of ?e1 ?evs] mutates_member [of ?e2 ?evs] by simp_all
  then have "planted ?evs l" using l(3,4) by (auto simp: planted_def stable_pair_def split: if_splits)
  moreover have "list_all (planted ?evs) (ws_labels st)" by (rule planted_mono [OF _ inv(3)]) auto
  moreover have "?pair = neighbours tests (length (ws_labels st))" by (simp add: neighbours_def inv(4))
  moreover have "graph_built ?evs (ws_graph ?st)"
    unfolding st(1) by (rule add_event_built [OF add_event_built [OF inv(1)]])
  moreover have "snd ` set (ws_probabilities ?st) \<subseteq> cy_failure_probability ` set FAMILIES"
    unfolding st(3) using snd_set_update [of ?pair "cy_failure_probability f" "ws_probabilities st"] inv(8) f by blast
  ultimately have "world_inv tests ?evs ?st"
    unfolding world_inv_def using inv(2,4-7) l(1,2) st
    by (simp add: add_event_history)
  then show ?thesis by blast
qed

lemma add_family_labels: "length (ws_labels (add_family tests st f)) = length (ws_labels st) + cy_pair_count f"
proof -
  have "length (ws_labels (foldl (family_pair tests f) st is)) = length (ws_labels st) + length is" for "is"
    by (induction "is" arbitrary: st) (auto simp: family_pair_def Let_def)
  then show ?thesis by (simp add: add_family_def)
qed

lemma add_families_labels:
  "length (ws_labels (foldl (add_family tests) st fs)) = length (ws_labels st) + sum_list (map cy_pair_count fs)"
  by (induction fs arbitrary: st) (auto simp: add_family_labels)

lemma add_families_inv:
  assumes "world_inv tests evs st"
  obtains evs' where "world_inv tests evs' (foldl (add_family tests) st FAMILIES)"
proof -
  have step: "\<exists>evs'. world_inv tests evs' (family_pair tests f x i)" if "\<exists>evs'. world_inv tests evs' x" "f \<in> set FAMILIES" for f x i
    using family_pair_inv that by blast
  have "\<exists>evs'. world_inv tests evs' (add_family tests x f)" if "\<exists>evs'. world_inv tests evs' x" "f \<in> set FAMILIES" for f x
    unfolding add_family_def using that by (intro foldl_invariant [where J = "\<lambda>x. \<exists>evs'. world_inv tests evs' x"]) (auto intro: step)
  then have "\<exists>evs'. world_inv tests evs' (foldl (add_family tests) st FAMILIES)"
    using assms by (intro foldl_invariant [where J = "\<lambda>x. \<exists>evs'. world_inv tests evs' x"]) blast+
  then show thesis using that by blast
qed

lemma add_controls_built:
  "graph_built evs g \<Longrightarrow> \<exists>evs'. set evs \<subseteq> set evs' \<and> graph_built evs' (add_controls n s i tests g)
     \<and> gr_pair_history (add_controls n s i tests g) = gr_pair_history g"
proof (induction tests arbitrary: evs g i)
  case (Cons test tests)
  let ?r = "shared_read s i test" and ?w = "isolated_write n s i test"
  obtain evs' where "set ((evs @ [?r]) @ [?w]) \<subseteq> set evs'"
      "graph_built evs' (add_controls n s (i + 1) tests (add_event (add_event g ?r) ?w))"
      "gr_pair_history (add_controls n s (i + 1) tests (add_event (add_event g ?r) ?w)) = gr_pair_history g"
    using Cons.IH [OF add_event_built [OF add_event_built [OF Cons.prems, of ?r], of ?w], of "i + 1"]
    by (auto simp: add_event_history)
  then show ?case by (intro exI [of _ evs']) simp
qed auto

lemma refresh_built:
  assumes g: "graph_built evs g"
  obtains stats where "refresh_stats g = Inr (g\<lparr>gr_test_stats := stats\<rparr>)" and "graph_built evs (g\<lparr>gr_test_stats := stats\<rparr>)"
proof -
  have "\<forall>(t, rids)\<in>set (gr_test_resources g). rids = resources_of t evs \<and> rids \<noteq> {}"
    using built_test_item [OF g] by blast
  then obtain stats where "refresh_all g (gr_test_resources g) = Inr (g\<lparr>gr_test_stats := stats\<rparr>)" "dict_wf stats"
    using refresh_all_built [OF g _ graph_builtD(4) [OF g]] by blast
  then show thesis using that stats_update_built [OF g] by (simp add: refresh_stats_def)
qed

lemma family_pairs: "sum_list (map cy_pair_count FAMILIES) = 58"
  by (simp add: FAMILIES_def ConflictFamily_init_def)

lemma family_probabilities: "cy_failure_probability ` set FAMILIES \<subseteq> {0.4..0.88}"
  by (simp add: FAMILIES_def ConflictFamily_init_def)

lemma world_built:
  assumes "map_of PROFILE_TESTS profile = Some n"
  obtains w evs where "build_synthetic_world uniform profile seed = Inr w" and "graph_built evs (sw_graph w)"
    and "gr_pair_history (sw_graph w) = []" and "sw_tests w = world_tests n" and "length (sw_labels w) = 58"
    and "list_all (planted evs) (sw_labels w)"
    and "map ConflictLabel_key (sw_labels w) = map (neighbours (world_tests n)) [0..<58]"
    and "fst ` set (sw_probabilities w) = ConflictLabel_key ` set (sw_labels w)" and "dict_wf (sw_probabilities w)"
    and "snd ` set (sw_probabilities w) \<subseteq> cy_failure_probability ` set FAMILIES"
proof -
  let ?tests = "world_tests n"
  obtain g0 stats0 where g0: "add_world_tests (uniform seed) 0 ?tests (TestResourceGraph_init, []) = (g0, stats0)"
    by fastforce
  then have "graph_built [] g0" "gr_pair_history g0 = []"
    using add_world_tests_built [OF init_built, of "uniform seed" 0 ?tests "[]"] by (simp_all add: TestResourceGraph_init_def)
  then have init: "world_inv ?tests [] \<lparr>ws_graph = g0, ws_labels = [], ws_probabilities = [], ws_cursor = 0, ws_sequence = 0\<rparr>"
    (is "world_inv _ _ ?st0") by (simp add: world_inv_def)
  define st where "st = foldl (add_family ?tests) ?st0 FAMILIES"
  obtain evs where "world_inv ?tests evs st" unfolding st_def by (rule add_families_inv [OF init])
  moreover have n58: "length (ws_labels st) = 58" by (simp add: st_def add_families_labels family_pairs)
  ultimately have st: "graph_built evs (ws_graph st)" "gr_pair_history (ws_graph st) = []" "list_all (planted evs) (ws_labels st)"
      "map ConflictLabel_key (ws_labels st) = map (neighbours ?tests) [0..<58]"
      "dict_wf (ws_probabilities st)" "fst ` set (ws_probabilities st) = ConflictLabel_key ` set (ws_labels st)"
      "snd ` set (ws_probabilities st) \<subseteq> cy_failure_probability ` set FAMILIES"
    by (simp_all only: world_inv_def)
  define g where "g = add_controls n (ws_sequence st) 0 ?tests (ws_graph st)"
  obtain evs' where evs': "set evs \<subseteq> set evs'" "graph_built evs' g" "gr_pair_history g = []"
    using add_controls_built [OF st(1), of n "ws_sequence st" 0 ?tests] st(2) unfolding g_def by auto
  obtain stats where r: "refresh_stats g = Inr (g\<lparr>gr_test_stats := stats\<rparr>)" "graph_built evs' (g\<lparr>gr_test_stats := stats\<rparr>)"
    by (rule refresh_built [OF evs'(2)])
  have b: "build_synthetic_world uniform profile seed =
    Inr \<lparr>sw_tests = ?tests, sw_graph = g\<lparr>gr_test_stats := stats\<rparr>, sw_labels = ws_labels st, sw_probabilities = ws_probabilities st,
          sw_stats = map (\<lambda>(t, s). (t, dict_get stats t s)) stats0\<rparr>"
    using assms g0 r(1) by (simp add: build_synthetic_world_def Let_def flip: st_def) (simp flip: g_def)
  show thesis
    by (rule that [OF b, of evs']) (simp_all add: st(4-7) r(2) evs'(3) n58 planted_mono [OF evs'(1) st(3)])
qed

lemma neighbours_mod:
  assumes "length tests = 2 * m"
  shows "neighbours tests i = neighbours tests (i mod m)"
proof -
  have "2 * i mod (2 * m) = 2 * (i mod m) mod (2 * m)" by (metis mult_mod_right mod_mod_trivial)
  moreover have "(2 * i + 1) mod (2 * m) = (2 * (i mod m) + 1) mod (2 * m)"
    using mod_add_left_eq [of "2 * i" "2 * m" 1] mod_add_left_eq [of "2 * (i mod m)" "2 * m" 1] calculation by simp
  ultimately show ?thesis by (simp add: neighbours_def assms)
qed

lemma neighbours_card:
  assumes "length tests = 2 * m" and "0 < m"
  shows "card (neighbours tests ` {..<k}) \<le> min k m"
proof -
  have "neighbours tests ` {..<k} \<subseteq> neighbours tests ` {..<m}"
    using neighbours_mod [OF assms(1)] assms(2) by (metis image_subsetI imageI lessThan_iff mod_less_divisor)
  then have "card (neighbours tests ` {..<k}) \<le> card (neighbours tests ` {..<m})" by (intro card_mono) auto
  also have "\<dots> \<le> m" using card_image_le [of "{..<m}" "neighbours tests"] by simp
  finally show ?thesis using card_image_le [of "{..<k}" "neighbours tests"] by simp
qed

text \<open>Functional. For each of the three profiles the synthetic world is built, for any draws: it has the profile's
  tests, 58 conflict labels, and a failure probability between 0.4 and 0.88 for exactly the labelled
  pairs; the heuristic predicts its graph and gives every labelled pair (of tests with different ids) a
  probability of at least 0.82, so every planted conflict is visible to the schedulers. The labels
  name at most half as many pairs as there are tests, so 40 with the quick profile. Any other
  profile is a \<^verbatim>\<open>ValueError\<close>.\<close>

lemma synthetic_world_correct:
  "case map_of PROFILE_TESTS profile of
     None \<Rightarrow> build_synthetic_world uniform profile seed = Inl ValueError
   | Some n \<Rightarrow> \<exists>w ps g. build_synthetic_world uniform profile seed = Inr w
       \<and> predict_graph 0.001 now (sw_graph w) incl = Inr (ps, g)
       \<and> length (sw_tests w) = n \<and> length (sw_labels w) = 58
       \<and> card (ConflictLabel_key ` set (sw_labels w)) \<le> min 58 (n div 2)
       \<and> list_all (\<lambda>l. cl_conflict l \<and> (cl_test_a l = cl_test_b l
            \<or> 0.82 \<le> risk_probability (RiskIndex_init ps) (cl_test_a l) (cl_test_b l))) (sw_labels w)
       \<and> fst ` set (sw_probabilities w) = ConflictLabel_key ` set (sw_labels w)
       \<and> snd ` set (sw_probabilities w) \<subseteq> {0.4..0.88}"
proof (cases "map_of PROFILE_TESTS profile")
  case None
  then show ?thesis by (simp add: build_synthetic_world_def)
next
  case (Some n)
  then have n: "length (world_tests n) = 2 * (n div 2)" "0 < n div 2"
    by (auto simp: PROFILE_TESTS_def world_tests_def split: if_splits)
  obtain w evs where w: "build_synthetic_world uniform profile seed = Inr w" "graph_built evs (sw_graph w)"
      "gr_pair_history (sw_graph w) = []" "sw_tests w = world_tests n" "length (sw_labels w) = 58"
      "list_all (planted evs) (sw_labels w)"
      "map ConflictLabel_key (sw_labels w) = map (neighbours (world_tests n)) [0..<58]"
      "fst ` set (sw_probabilities w) = ConflictLabel_key ` set (sw_labels w)"
      "snd ` set (sw_probabilities w) \<subseteq> cy_failure_probability ` set FAMILIES"
    by (rule world_built [OF Some])
  obtain ps g' where ps: "predict_graph 0.001 now (sw_graph w) incl = Inr (ps, g')" "distinct (map PairPrediction_key ps)"
      "set (map PairPrediction_key ps) =
        {(a, b). a < b \<and> (\<exists>r. a \<in> tests_of r evs \<and> b \<in> tests_of r evs \<and> wanted evs incl r (a, b))}"
      "\<forall>p\<in>set ps. predicted evs (sw_graph w) 0.001 (PairPrediction_key p) p"
    using predict_graph_built [OF w(2,3)] by blast
  have base: "0 \<le> (0.001 :: real)" "(0.001 :: real) \<le> 1" by simp_all
  have writes: "0.82 \<le> risk_probability (RiskIndex_init ps) a b" if "a \<noteq> b" "mutates evs a r" "mutates evs b r" for a b r
    by (rule risk_ge_weight [OF base w(3) ps(2-4) that(1) mutates_resources [OF that(2)] mutates_resources [OF that(3)] disjI1 [OF that(2)]])
      (rule write_signal [OF _ _ mutates_resources [OF that(2)] mutates_resources [OF that(3)] that(2,3)])
  have seen: "list_all (\<lambda>l. cl_conflict l \<and> (cl_test_a l = cl_test_b l
      \<or> 0.82 \<le> risk_probability (RiskIndex_init ps) (cl_test_a l) (cl_test_b l))) (sw_labels w)"
    using w(6) writes unfolding list_all_iff planted_def by blast
  have "ConflictLabel_key ` set (sw_labels w) = neighbours (world_tests n) ` {..<58}"
    using arg_cong [OF w(7), of set] by (simp add: atLeast0LessThan)
  then have "card (ConflictLabel_key ` set (sw_labels w)) \<le> min 58 (n div 2)" using neighbours_card [OF n] by simp
  moreover have "length (sw_tests w) = n" by (simp add: w(4) world_tests_def)
  moreover have "snd ` set (sw_probabilities w) \<subseteq> {0.4..0.88}" using w(9) family_probabilities by blast
  ultimately show ?thesis unfolding Some option.case using w(1,5,8) ps(1) seen by blast
qed

subsection \<open>The simulation\<close>

definition conflicts_of :: "(string \<times> string, real) dict \<Rightarrow> ScheduledTest list \<Rightarrow> (ScheduledTest \<times> ScheduledTest) list" where
  "conflicts_of probabilities items = filter (\<lambda>(left, right). conflicting probabilities left right) (combinations2 items)"

definition chance_of :: "(string \<times> string, real) dict \<Rightarrow> ScheduledTest \<times> ScheduledTest \<Rightarrow> real" where
  "chance_of probabilities p = conflict_probability probabilities (fst p) (snd p) * pair_share (fst p) (snd p)"

text \<open>What the simulation keeps: the conflicts it has counted are those of the schedule, whatever the
  draws; the draws only decide which tests fail.\<close>

definition sim_inv :: "(string \<times> string, real) dict \<Rightarrow> string set \<Rightarrow> (ScheduledTest \<times> ScheduledTest) list \<Rightarrow> sim_state \<Rightarrow> bool" where
  "sim_inv probabilities ids seen st \<longleftrightarrow>
     si_overlaps st = length seen \<and> si_exposure st = (\<Sum>p\<leftarrow>seen. chance_of probabilities p)
     \<and> si_failures st \<subseteq> ids \<and> finite (si_failures st) \<and> si_conflict_failures st = card (si_failures st)
     \<and> card (si_failures st) \<le> length seen"

lemma simulate_pair_inv:
  assumes "sim_inv probabilities ids seen st" and "sc_test_id left \<in> ids" and "sc_test_id right \<in> ids"
  shows "sim_inv probabilities ids (seen @ (if conflicting probabilities left right then [(left, right)] else []))
    (simulate_pair random probabilities left st right)"
proof (cases "conflicting probabilities left right")
  case True
  then show ?thesis
    using assms
    by (auto simp: simulate_pair_def Let_def sim_inv_def chance_of_def card_insert_if insert_absorb)
next
  case False
  then show ?thesis using assms(1) by (simp add: simulate_pair_def)
qed

lemma simulate_row_inv:
  "sim_inv probabilities ids seen st \<Longrightarrow> sc_test_id left \<in> ids \<Longrightarrow> sc_test_id ` set rest \<subseteq> ids \<Longrightarrow>
     sim_inv probabilities ids (seen @ filter (\<lambda>(l, r). conflicting probabilities l r) (map (Pair left) rest))
       (foldl (simulate_pair random probabilities left) st rest)"
proof (induction rest arbitrary: seen st)
  case (Cons right rest)
  have "sc_test_id right \<in> ids" using Cons.prems(3) by simp
  from Cons.IH [OF simulate_pair_inv [OF Cons.prems(1,2) this] Cons.prems(2)] Cons.prems(3)
  show ?case by (cases "conflicting probabilities left right") simp_all
qed simp

lemma simulate_pairs_inv:
  "sim_inv probabilities ids seen st \<Longrightarrow> sc_test_id ` set items \<subseteq> ids \<Longrightarrow>
     sim_inv probabilities ids (seen @ conflicts_of probabilities items) (simulate_pairs random probabilities st items)"
proof (induction items arbitrary: seen st)
  case (Cons left rest)
  have l: "sc_test_id left \<in> ids" and r: "sc_test_id ` set rest \<subseteq> ids" using Cons.prems(2) by auto
  have "map (\<lambda>y. (left, y)) rest = map (Pair left) rest" by simp
  then show ?case
    using Cons.IH [OF simulate_row_inv [OF Cons.prems(1) l r, of random] r]
    by (simp add: conflicts_of_def del: map_eq_conv)
qed (simp add: conflicts_of_def)

lemma simulated:
  "sim_inv probabilities (sc_test_id ` set items) (conflicts_of probabilities items)
     (simulate_pairs random probabilities sim_init items)"
  using simulate_pairs_inv [of probabilities "sc_test_id ` set items" "[]" sim_init items random]
  by (simp add: sim_inv_def sim_init_def)

lemma dict_get_range: "snd ` set d \<subseteq> A \<Longrightarrow> x \<in> A \<Longrightarrow> dict_get d k x \<in> A"
  by (force simp: dict_get_def split: option.splits dest: map_of_SomeD)

lemma chance_unit:
  assumes "snd ` set probabilities \<subseteq> {0..1}"
  shows "0 \<le> chance_of probabilities p \<and> chance_of probabilities p \<le> 1"
proof -
  have c: "conflict_probability probabilities (fst p) (snd p) \<in> {0..1}"
    unfolding conflict_probability_def using assms by (rule dict_get_range) simp
  have "0 \<le> pair_share (fst p) (snd p)" "pair_share (fst p) (snd p) \<le> 1"
    by (auto simp: pair_share_def overlap_seconds_def le_max_iff_disj intro!: divide_nonneg_nonneg)
  then show ?thesis using c by (auto simp: chance_of_def mult_le_one)
qed

lemma sum_chance:
  assumes "snd ` set probabilities \<subseteq> {0..1}"
  shows "0 \<le> (\<Sum>p\<leftarrow>ps. chance_of probabilities p) \<and> (\<Sum>p\<leftarrow>ps. chance_of probabilities p) \<le> real (length ps)"
proof (induction ps)
  case (Cons p ps)
  then show ?case using chance_unit [OF assms, of p] by simp
qed simp

lemma timeline_rates:
  assumes v: "timeline_valid (nat w) items" and m: "makespan_of items \<noteq> 0"
  shows "0 < makespan_of items" and "0 < w" and "0 \<le> work_of items" and "work_of items \<le> makespan_of items * real_of_int w"
proof -
  show "0 < makespan_of items" using timeline_makespan_nonneg [OF v] m by simp
  have "items \<noteq> []" using m by (auto simp: makespan_of_def)
  then obtain x where "x \<in> set items" by (cases items) auto
  then have "sc_worker x < nat w" using v by (auto simp: timeline_valid_def)
  then show w: "0 < w" by simp
  show "0 \<le> work_of items"
    using timeline_item [OF v] unfolding work_of_def by (intro sum_list_nonneg) (auto intro: less_imp_le)
  show "work_of items \<le> makespan_of items * real_of_int w"
    using timeline_total_work [OF v] w by (simp add: mult.commute)
qed

lemma serialization_unit: "0 < m \<Longrightarrow> 0 \<le> ideal \<Longrightarrow> 0 \<le> max 0 (m - ideal) / m \<and> max 0 (m - ideal) / m \<le> 1" for m :: real
  by (simp add: divide_le_eq le_max_iff_disj)

lemma trial_totals:
  "tl_tests (simulate_schedule random s world trial seed name) = length (sd_tests s)"
  "tl_scheduler (simulate_schedule random s world trial seed name) = name"
  "tl_conflicting_overlaps (simulate_schedule random s world trial seed name)
     = length (conflicts_of (sw_probabilities world) (sd_tests s))"
  "tl_expected_risk_exposure (simulate_schedule random s world trial seed name)
     = (\<Sum>p\<leftarrow>conflicts_of (sw_probabilities world) (sd_tests s). chance_of (sw_probabilities world) p)"
  "tl_conflict_failures (simulate_schedule random s world trial seed name)
     = tl_failures (simulate_schedule random s world trial seed name)"
  "tl_failures (simulate_schedule random s world trial seed name)
     \<le> min (length (conflicts_of (sw_probabilities world) (sd_tests s))) (length (sd_tests s))"
proof -
  define st where "st = simulate_pairs (random seed) (sw_probabilities world) sim_init (sd_tests s)"
  have inv: "sim_inv (sw_probabilities world) (sc_test_id ` set (sd_tests s)) (conflicts_of (sw_probabilities world) (sd_tests s)) st"
    unfolding st_def by (rule simulated)
  then have "card (si_failures st) \<le> card (sc_test_id ` set (sd_tests s))" by (intro card_mono) (auto simp: sim_inv_def)
  also have "\<dots> \<le> length (sd_tests s)" by (metis card_length length_map list.set_map)
  finally show "tl_failures (simulate_schedule random s world trial seed name)
      \<le> min (length (conflicts_of (sw_probabilities world) (sd_tests s))) (length (sd_tests s))"
    using inv by (simp add: simulate_schedule_def Let_def sim_inv_def flip: st_def)
qed (use simulated [of "sw_probabilities world" "sd_tests s" "random seed"] in
    \<open>simp_all add: simulate_schedule_def Let_def sim_inv_def\<close>)

lemma flake_rate_unit:
  "0 \<le> tl_flake_rate (simulate_schedule random s world trial seed name)
   \<and> tl_flake_rate (simulate_schedule random s world trial seed name) \<le> 1"
proof -
  define t where "t = simulate_schedule random s world trial seed name"
  have "tl_flake_rate t = (if sd_tests s \<noteq> [] then real (tl_failures t) / real (length (sd_tests s)) else 0)"
    by (simp add: t_def simulate_schedule_def Let_def)
  then show ?thesis using trial_totals(6) [of random s world trial seed name] unfolding t_def [symmetric]
    by (simp add: divide_le_eq)
qed

lemma trial_rates:
  assumes valid: "timeline_valid (nat (sd_workers s)) (sd_tests s)"
  shows "0 \<le> tl_worker_utilization (simulate_schedule random s world trial seed name)
      \<and> tl_worker_utilization (simulate_schedule random s world trial seed name) \<le> 1"
    and "0 \<le> tl_average_active_workers (simulate_schedule random s world trial seed name)
      \<and> tl_average_active_workers (simulate_schedule random s world trial seed name) \<le> real (nat (sd_workers s))"
    and "0 \<le> tl_unnecessary_serialization_rate (simulate_schedule random s world trial seed name)
      \<and> tl_unnecessary_serialization_rate (simulate_schedule random s world trial seed name) \<le> 1"
proof -
  define m where "m = makespan_of (sd_tests s)"
  define work where "work = work_of (sd_tests s)"
  note rates = timeline_rates [OF valid, folded m_def work_def]
  have util: "0 \<le> work / (m * real_of_int (sd_workers s)) \<and> work / (m * real_of_int (sd_workers s)) \<le> 1"
      "0 \<le> work / m \<and> work / m \<le> real (nat (sd_workers s))"
      "0 \<le> max 0 (m - work / real_of_int (sd_workers s)) / m \<and> max 0 (m - work / real_of_int (sd_workers s)) / m \<le> 1"
    if "m \<noteq> 0"
    using rates [OF that] serialization_unit [of m "work / real_of_int (sd_workers s)"]
    by (simp_all add: divide_le_eq mult.commute zero_le_divide_iff)
  have "tl_worker_utilization (simulate_schedule random s world trial seed name) = (if m \<noteq> 0 then work / (m * real_of_int (sd_workers s)) else 0)"
      "tl_average_active_workers (simulate_schedule random s world trial seed name) = (if m \<noteq> 0 then work / m else 0)"
    by (simp_all add: simulate_schedule_def Let_def m_def work_def work_of_def)
  moreover have "tl_unnecessary_serialization_rate (simulate_schedule random s world trial seed name)
      = (if m \<noteq> 0 then max 0 (m - work / real_of_int (sd_workers s)) / m else 0)"
    using rates by (auto simp: simulate_schedule_def Let_def m_def work_def work_of_def)
  ultimately show "0 \<le> tl_worker_utilization (simulate_schedule random s world trial seed name)
      \<and> tl_worker_utilization (simulate_schedule random s world trial seed name) \<le> 1"
    and "0 \<le> tl_average_active_workers (simulate_schedule random s world trial seed name)
      \<and> tl_average_active_workers (simulate_schedule random s world trial seed name) \<le> real (nat (sd_workers s))"
    and "0 \<le> tl_unnecessary_serialization_rate (simulate_schedule random s world trial seed name)
      \<and> tl_unnecessary_serialization_rate (simulate_schedule random s world trial seed name) \<le> 1"
    using util by simp_all
qed

text \<open>C34: bounds. A simulated trial of any schedule without overlap on a worker: its conflicting
  overlaps and expected risk exposure are exactly the count and the summed chances of the pairs on different
  workers that overlap in time and have a known conflict probability, whatever is drawn; its failures are
  counted once per test and are at most the conflicting overlaps and at most the tests, so a schedule without
  conflicting overlap never fails; and its flake rate, utilisation and serialisation rate lie in the unit
  interval, its average of active workers between zero and the workers.\<close>

theorem simulated_trial_correct:
  assumes valid: "timeline_valid (nat (sd_workers s)) (sd_tests s)"
    and probabilities: "snd ` set (sw_probabilities world) \<subseteq> {0..1}"
  shows "let t = simulate_schedule random s world trial seed name; ps = conflicts_of (sw_probabilities world) (sd_tests s)
    in tl_conflicting_overlaps t = length ps
      \<and> tl_expected_risk_exposure t = (\<Sum>p\<leftarrow>ps. chance_of (sw_probabilities world) p)
      \<and> 0 \<le> tl_expected_risk_exposure t \<and> tl_expected_risk_exposure t \<le> real (length ps)
      \<and> tl_conflict_failures t = tl_failures t \<and> tl_failures t \<le> min (length ps) (length (sd_tests s))
      \<and> 0 \<le> tl_flake_rate t \<and> tl_flake_rate t \<le> 1
      \<and> 0 \<le> tl_worker_utilization t \<and> tl_worker_utilization t \<le> 1
      \<and> 0 \<le> tl_average_active_workers t \<and> tl_average_active_workers t \<le> real (nat (sd_workers s))
      \<and> 0 \<le> tl_unnecessary_serialization_rate t \<and> tl_unnecessary_serialization_rate t \<le> 1"
proof -
  note t = trial_totals [of random s world trial seed name] and exposure = sum_chance [OF probabilities]
  show ?thesis
    unfolding Let_def
    using t exposure [of "conflicts_of (sw_probabilities world) (sd_tests s)"] flake_rate_unit [of random s world trial seed name]
      trial_rates [OF valid, of random world trial seed name] by simp
qed

definition clash_a :: ScheduledTest where
  "clash_a = ScheduledTest_init ''a'' ''a'' 0 0 1 1 0 []"

definition clash_b :: ScheduledTest where
  "clash_b = ScheduledTest_init ''b'' ''b'' 1 0 1 1 0 []"

definition clash_schedule :: Schedule where
  "clash_schedule = \<lparr>sd_id = ''u'', sd_run_id = ''r'', sd_workers = 2, sd_policy = RP_BALANCED,
     sd_tests = [clash_a, clash_b],
     sd_scheduler_latency_ms = 0, sd_expected_makespan = 1, sd_expected_risk = 0, sd_seed = 42\<rparr>"

definition clash_world :: SyntheticWorld where
  "clash_world = \<lparr>sw_tests = [], sw_graph = TestResourceGraph_init, sw_labels = [],
     sw_probabilities = [((''a'', ''b''), 1 / 2)], sw_stats = []\<rparr>"

theorem simulated_trial_correct_witness:
  "tl_conflicting_overlaps (simulate_schedule (\<lambda>_ _. 0) clash_schedule clash_world 0 42 ''heuristic'') = 1
   \<and> tl_expected_risk_exposure (simulate_schedule (\<lambda>_ _. 0) clash_schedule clash_world 0 42 ''heuristic'') = 1 / 2
   \<and> tl_failures (simulate_schedule (\<lambda>_ _. 0) clash_schedule clash_world 0 42 ''heuristic'') \<le> 1"
proof -
  have items: "sd_tests clash_schedule = [clash_a, clash_b]"
    by (simp add: clash_schedule_def)
  have valid: "timeline_valid (nat (sd_workers clash_schedule)) (sd_tests clash_schedule)"
    by (auto simp: timeline_valid_def clash_schedule_def clash_a_def clash_b_def ScheduledTest_init_def on_worker_def)
  have probabilities: "snd ` set (sw_probabilities clash_world) \<subseteq> {0..1}" by (simp add: clash_world_def)
  have ps: "conflicts_of (sw_probabilities clash_world) (sd_tests clash_schedule)
      = [(clash_a, clash_b)]"
    by (simp add: conflicts_of_def items conflicting_def clash_a_def clash_b_def ScheduledTest_init_def overlap_seconds_def
        conflict_probability_def clash_world_def stable_pair_def dict_get_def)
  have chance: "chance_of (sw_probabilities clash_world) (clash_a, clash_b) = 1 / 2"
    by (simp add: chance_of_def pair_share_def clash_a_def clash_b_def ScheduledTest_init_def overlap_seconds_def
        conflict_probability_def clash_world_def stable_pair_def dict_get_def)
  show ?thesis
    using simulated_trial_correct [OF valid probabilities, of "\<lambda>_ _. 0" 0 42 "''heuristic''"]
    unfolding Let_def ps by (simp add: chance items)
qed

subsection \<open>The run\<close>

definition schedule_ok :: "nat \<Rightarrow> string \<Rightarrow> Schedule \<Rightarrow> bool" where
  "schedule_ok n name s \<longleftrightarrow>
     timeline_valid (nat (sd_workers s)) (sd_tests s) \<and> length (sd_tests s) \<le> n
     \<and> (name = ''serial'' \<longrightarrow> (\<forall>item\<in>set (sd_tests s). sc_worker item = 0))"

definition trial_ok :: "nat \<Rightarrow> string \<Rightarrow> TrialResult \<Rightarrow> bool" where
  "trial_ok n name t \<longleftrightarrow>
     tl_scheduler t = name \<and> tl_tests t \<le> n \<and> tl_conflict_failures t = tl_failures t \<and> tl_failures t \<le> tl_tests t
     \<and> 0 \<le> tl_flake_rate t \<and> tl_flake_rate t \<le> 1 \<and> 0 \<le> tl_worker_utilization t \<and> tl_worker_utilization t \<le> 1
     \<and> (name = ''serial'' \<longrightarrow> tl_failures t = 0 \<and> tl_flake_rate t = 0)"

definition aggregate_ok :: "nat \<Rightarrow> nat \<Rightarrow> string \<Rightarrow> AggregateResult \<Rightarrow> bool" where
  "aggregate_ok k n name a \<longleftrightarrow>
     ar_scheduler a = name \<and> ar_trials a = k \<and> ar_executions a \<le> k * n \<and> ar_conflict_failures a = ar_failures a
     \<and> ar_failures a \<le> ar_executions a \<and> 0 \<le> ar_flake_rate a \<and> ar_flake_rate a \<le> 1
     \<and> 0 \<le> ar_worker_utilization a \<and> ar_worker_utilization a \<le> 1
     \<and> (name = ''serial'' \<longrightarrow> ar_failures a = 0 \<and> ar_flake_rate a = 0)"

lemma one_worker_conflicts: "\<forall>item\<in>set items. sc_worker item = 0 \<Longrightarrow> conflicts_of probabilities items = []"
proof (induction items)
  case (Cons left rest)
  have "filter (\<lambda>(l, r). conflicting probabilities l r) (map (\<lambda>y. (left, y)) rest) = []"
    using Cons.prems by (auto simp: filter_empty_conv conflicting_def)
  then show ?case using Cons by (simp add: conflicts_of_def)
qed (simp add: conflicts_of_def)

lemma simulated_trial_ok:
  assumes "schedule_ok n name s"
  shows "trial_ok n name (simulate_schedule random s world trial seed name)"
proof -
  let ?t = "simulate_schedule random s world trial seed name"
  have v: "timeline_valid (nat (sd_workers s)) (sd_tests s)" "length (sd_tests s) \<le> n"
    using assms by (simp_all add: schedule_ok_def)
  note t = trial_totals [of random s world trial seed name]
  have "tl_failures ?t = 0 \<and> tl_flake_rate ?t = 0" if "name = ''serial''"
  proof -
    have "conflicts_of (sw_probabilities world) (sd_tests s) = []"
      using assms that by (intro one_worker_conflicts) (simp add: schedule_ok_def)
    then have "tl_failures ?t = 0" using t(6) by simp
    moreover have "tl_flake_rate ?t = (if sd_tests s \<noteq> [] then real (tl_failures ?t) / real (length (sd_tests s)) else 0)"
      by (simp add: simulate_schedule_def Let_def)
    ultimately show ?thesis by simp
  qed
  then show ?thesis
    using t(1,2,5,6) v(2) flake_rate_unit [of random s world trial seed name]
      trial_rates(1) [OF v(1), of random world trial seed name] unfolding trial_ok_def by simp
qed

lemma sum_list_le_length: "\<forall>x\<in>set xs. f x \<le> n \<Longrightarrow> sum_list (map f xs) \<le> length xs * n" for n :: nat
  by (induction xs) auto

lemma sum_list_mono_on: "\<forall>x\<in>set xs. f x \<le> g x \<Longrightarrow> sum_list (map f xs) \<le> sum_list (map g xs)" for f :: "'a \<Rightarrow> nat"
  by (induction xs) (auto intro: add_mono)

lemma aggregated_ok:
  assumes ne: "trials \<noteq> []" and ok: "\<forall>t\<in>set trials. trial_ok n name t"
  shows "\<exists>a. aggregate_trials choice trials seed = Inr a \<and> aggregate_ok (length trials) n name a"
proof -
  have returns: "\<exists>ci. bootstrap_interval choice xs seed 0.95 2000 = Inr ci" for xs
    by (simp add: bootstrap_interval_def Let_def)
  obtain f where f: "bootstrap_interval choice (map tl_flake_rate trials) seed 0.95 2000 = Inr f" using returns by blast
  obtain m where m: "bootstrap_interval choice (map tl_makespan_seconds trials) seed 0.95 2000 = Inr m" using returns by blast
  obtain a where a: "aggregate_trials choice trials seed = Inr a" "ar_scheduler a = tl_scheduler (hd trials)"
      "ar_trials a = length trials" "ar_executions a = sum_list (map tl_tests trials)"
      "ar_failures a = sum_list (map tl_failures trials)" "ar_conflict_failures a = sum_list (map tl_conflict_failures trials)"
      "ar_flake_rate a = mean (map tl_flake_rate trials)" "ar_worker_utilization a = mean (map tl_worker_utilization trials)"
    unfolding aggregate_trials_def Let_def f m if_not_P [OF ne] bind_result.simps by simp
  have "sum_list (map tl_tests trials) \<le> length trials * n"
    using ok by (intro sum_list_le_length) (simp add: trial_ok_def)
  moreover have "sum_list (map tl_failures trials) \<le> sum_list (map tl_tests trials)"
    using ok by (intro sum_list_mono_on) (simp add: trial_ok_def)
  moreover have "sum_list (map tl_conflict_failures trials) = sum_list (map tl_failures trials)"
    using ok by (intro arg_cong [where f = sum_list] map_cong) (simp_all add: trial_ok_def)
  moreover have "0 \<le> mean (map tl_flake_rate trials) \<and> mean (map tl_flake_rate trials) \<le> 1"
    using assms by (intro mean_bounds) (auto simp: trial_ok_def)
  moreover have "0 \<le> mean (map tl_worker_utilization trials) \<and> mean (map tl_worker_utilization trials) \<le> 1"
    using assms by (intro mean_bounds) (auto simp: trial_ok_def)
  moreover have "sum_list (map tl_failures trials) = 0 \<and> mean (map tl_flake_rate trials) = 0" if "name = ''serial''"
  proof -
    have "map tl_failures trials = map (\<lambda>_. 0) trials" "map tl_flake_rate trials = map (\<lambda>_. 0) trials"
      using ok that by (auto simp: trial_ok_def)
    then show ?thesis unfolding mean_def by (simp only: sum_list_0 div_0 simp_thms)
  qed
  moreover have "tl_scheduler (hd trials) = name" using assms by (simp add: trial_ok_def)
  ultimately show ?thesis using a by (intro exI [of _ a]) (simp add: aggregate_ok_def)
qed

definition strategy_ok :: "nat \<Rightarrow> string \<times> strategy \<Rightarrow> bool" where
  "strategy_ok n entry \<longleftrightarrow> (\<forall>run. \<exists>s. snd entry run = Inr s \<and> schedule_ok n (fst entry) s)"

lemma run_trials_ok:
  assumes "strategy_ok n entry"
  shows "\<exists>ts. run_trials host world seed k entry = Inr (fst entry, ts) \<and> length ts = nat k \<and> (\<forall>t\<in>set ts. trial_ok n (fst entry) t)"
proof -
  let ?f = "\<lambda>trial. bind_result (snd entry trial) (\<lambda>schedule.
     Inr (simulate_schedule (bh_random host) schedule world trial (seed + int trial * 104729) (fst entry)))"
  have "\<exists>t. ?f trial = Inr t \<and> trial_ok n (fst entry) t" for trial
  proof -
    obtain s where "snd entry trial = Inr s" "schedule_ok n (fst entry) s" using assms unfolding strategy_ok_def by blast
    then show ?thesis using simulated_trial_ok by simp
  qed
  then have "\<forall>trial\<in>set [0..<nat k]. \<exists>t. ?f trial = Inr t \<and> trial_ok n (fst entry) t" by blast
  then obtain ts where ts: "map_result ?f [0..<nat k] = Inr ts" "list_all2 (\<lambda>_. trial_ok n (fst entry)) [0..<nat k] ts"
    using map_result_total [of "[0..<nat k]" ?f "\<lambda>_. trial_ok n (fst entry)"] by blast
  have "length ts = nat k" "\<forall>t\<in>set ts. trial_ok n (fst entry) t"
    using ts(2) by (auto simp: list_all2_conv_all_nth in_set_conv_nth)
  then show ?thesis using ts(1) by (simp add: run_trials_def split_beta)
qed

lemma serial_strategy_ok: "strategy_ok (length (sw_tests world)) (''serial'', serial_strategy host world)"
  unfolding strategy_ok_def
proof
  fix run
  let ?s = "serial_schedule (bh_env host ''serial'' run) (sw_tests world) (map_of (sw_stats world)) (if run = 0 then None else Some (str_nat run))"
  have "timeline_valid 1 (sd_tests ?s)" "length (map item_core (sd_tests ?s)) = length (sw_tests world)"
    using serial_schedule_correct [of "bh_env host ''serial'' run" "sw_tests world" "map_of (sw_stats world)"] by simp_all
  moreover have "sd_workers ?s = 1" by (simp add: serial_schedule_def split_beta)
  moreover have "\<forall>item\<in>set (sd_tests ?s). sc_worker item = 0" using calculation(1) by (auto simp: timeline_valid_def)
  ultimately have "schedule_ok (length (sw_tests world)) ''serial'' ?s" by (simp add: schedule_ok_def)
  then show "\<exists>s. snd (''serial'', serial_strategy host world) run = Inr s
      \<and> schedule_ok (length (sw_tests world)) (fst (''serial'', serial_strategy host world)) s"
    by (simp add: serial_strategy_def)
qed

lemma random_strategy_ok:
  assumes "0 < workers" and "\<And>s. draws_below (bh_below host s)"
  shows "strategy_ok (length (sw_tests world)) (''random'', random_strategy host world workers seed)"
  unfolding strategy_ok_def
proof
  fix run
  obtain s where s: "random_schedule workers (seed + int run) (bh_below host) (bh_env host ''random'' run) (sw_tests world)
        (map_of (sw_stats world)) (Some (str_nat run)) = Inr s"
      "map item_core (sd_tests s) = map (core_of_test (map_of (sw_stats world))) (py_shuffle (bh_below host (seed + int run)) (sw_tests world))"
    using random_schedule_total [OF assms(1)] by blast
  have "length (sd_tests s) = length (sw_tests world)"
    using arg_cong [OF s(2), of length] mset_eq_length [OF mset_py_shuffle [OF assms(2)]] by simp
  moreover have "timeline_valid (nat (sd_workers s)) (sd_tests s)" using random.provides [of s] s(1) by blast
  ultimately have "schedule_ok (length (sw_tests world)) ''random'' s" by (simp add: schedule_ok_def)
  then show "\<exists>s. snd (''random'', random_strategy host world workers seed) run = Inr s
      \<and> schedule_ok (length (sw_tests world)) (fst (''random'', random_strategy host world workers seed)) s"
    using s(1) by (simp add: random_strategy_def)
qed

lemma conflict_strategy_ok:
  assumes "0 < workers" and "name \<noteq> ''serial''"
  shows "strategy_ok (length (sw_tests world)) (name, conflict_strategy host world name' workers policy seed hard_threshold ps)"
  unfolding strategy_ok_def
proof
  fix run
  obtain self where self: "ConflictScheduler_init workers policy (seed + int run) None hard_threshold 4 = Inr self"
    using assms(1) by (auto simp: ConflictScheduler_init_def Let_def)
  let ?run = "static_schedule self (bh_env host name' run) (sw_tests world) (map_of (sw_stats world)) ps (Some (str_nat run))"
  obtain s where s: "?run = Inr s"
    using greedy_lanes_returns [OF ConflictScheduler_init_ok [OF self]] by (fastforce simp: static_schedule_def Let_def)
  have "length (sd_tests s) = length (run_ids (sw_tests world))"
    using mset_eq_length [OF schedule_ids [OF s]] by simp
  also have "\<dots> \<le> length (sw_tests world)"
    by (metis card_length distinct_card distinct_run_ids length_map list.set_map set_run_ids)
  finally have "schedule_ok (length (sw_tests world)) name s"
    using conflict.provides [of s] s assms(2) unfolding schedule_ok_def by blast
  then show "\<exists>s. snd (name, conflict_strategy host world name' workers policy seed hard_threshold ps) run = Inr s
      \<and> schedule_ok (length (sw_tests world)) (fst (name, conflict_strategy host world name' workers policy seed hard_threshold ps)) s"
    using self s by (auto simp: conflict_strategy_def)
qed

definition ml_unavailable :: "'w benchmark_host \<Rightarrow> bool" where
  "ml_unavailable host \<longleftrightarrow> \<not> bh_importable host \<or> bh_sklearn host = None"

lemma all_strategies_unavailable:
  assumes "ml_unavailable host"
  shows "all_strategies host world graph workers seed artifact dataset split ps strategies metrics
    = Inr (strategies, metrics\<lparr>mm_unavailable := True\<rparr>)"
proof -
  obtain err where "tabular_predictions host seed dataset split ps = Inl err" "err \<in> {ImportError, ArtifactError}"
    using assms by (cases "bh_importable host") (simp_all add: ml_unavailable_def tabular_predictions_def TabularBaseline_fit_def)
  then show ?thesis by (simp add: all_strategies_def ml_strategies_def)
qed

lemma heuristic_metrics_return:
  "\<exists>m. metrics_by scorer (map (\<lambda>e. real_of_int (pe_label e)) es) (heuristic_probabilities ps es) = Inr m"
proof -
  have "length (heuristic_probabilities ps es) = length es" by (simp add: heuristic_probabilities_def)
  then show ?thesis
    by (simp add: metrics_by_def classification_metrics_def expected_calibration_error_def Let_def split: prod.splits)
qed

text \<open>Everything before the trials returns, whatever the trials are.\<close>

lemma benchmark_prefix:
  assumes profile: "map_of PROFILE_TESTS profile = Some n" and ml: "ml_unavailable host"
    and draws: "\<And>s. draws_below (bh_below host s)"
  obtains world hp op metrics where "length (sw_tests world) = n" and "mm_unavailable metrics"
    and "mm_tabular metrics = None" and "mm_gnn metrics = None"
    and "\<And>trials. run_replay_benchmark host profile workers seed trials artifact =
      bind_result (trial_count_of trials profile) (\<lambda>k.
      bind_result (map_result (run_trials host world seed k) (base_strategies host world workers seed hp op)) (\<lambda>grouped.
      bind_result (map_result (\<lambda>(name, results). aggregate_trials (bh_choice host) results seed) grouped)
        (report_of host world profile workers seed k metrics)))"
proof -
  obtain w evs where w: "build_synthetic_world (bh_uniform host) profile seed = Inr w" "graph_built evs (sw_graph w)"
      "gr_pair_history (sw_graph w) = []" "sw_tests w = world_tests n"
    using world_built [OF profile, of "bh_uniform host" seed] by metis
  obtain hp g where hp: "predict_graph 0.001 (bh_now host ''heuristic'') (sw_graph w) True = Inr (hp, g)"
      "graph_built evs g" "gr_pair_history g = []"
    using predict_graph_built [OF w(2,3), of "0.001" "bh_now host ''heuristic''" True] by blast
  obtain builder where builder: "DatasetBuilder_init seed (Some 4) = Inr builder" by (simp add: DatasetBuilder_init_def)
  obtain ds g' where ds: "build (bh_drawn host) (bh_created_at host) builder g (sw_labels w) [] None = Inr (ds, g')"
    by (rule build_returns [OF hp(2,3)])
  have ratios: "\<bar>(0.7 :: real) + 0.15 + 0.15 - 1\<bar> \<le> 1 / 10 ^ 9" "0 < (0.7 :: real)" "0 < (0.15 :: real)" "0 < (0.15 :: real)"
    by simp_all
  obtain split where split: "pair_disjoint_split (bh_below host) ds seed (0.7, 0.15, 0.15) = Inr split"
    by (rule pair_disjoint_split_returns [where below = "bh_below host" and seed = seed and dataset = ds, OF draws ratios])
  obtain m where m: "metrics_by (bh_scorer host) (map (\<lambda>e. real_of_int (pe_label e)) (ds_examples ds))
      (heuristic_probabilities hp (ds_examples ds)) = Inr m"
    using heuristic_metrics_return by blast
  have tests: "length (sw_tests w) = n" by (simp add: w(4) world_tests_def)
  define metrics where "metrics = \<lparr>mm_heuristic = m, mm_tabular = None, mm_gnn = None, mm_unavailable = True\<rparr>"
  define op where "op = map (\<lambda>(k, p). oracle_prediction (label_index (sw_labels w)) (sw_probabilities w) (bh_now host ''oracle'' k) p)
    (enumerate 0 hp)"
  have run: "run_replay_benchmark host profile workers seed trials artifact =
      bind_result (trial_count_of trials profile) (\<lambda>k.
      bind_result (map_result (run_trials host w seed k) (base_strategies host w workers seed hp op)) (\<lambda>grouped.
      bind_result (map_result (\<lambda>(name, results). aggregate_trials (bh_choice host) results seed) grouped)
        (report_of host w profile workers seed k metrics)))" for trials
    unfolding run_replay_benchmark_def w(1) bind_result.simps hp(1) prod.case Let_def builder ds split m
      all_strategies_unavailable [OF ml] op_def metrics_def by simp
  show thesis by (rule that [OF tests _ _ _ run]) (simp_all add: metrics_def)
qed

lemma trial_count_known:
  assumes "map_of PROFILE_TESTS profile = Some n"
  obtains k where "trial_count_of trials profile = Inr k" and "k \<noteq> 0" and "0 < n"
proof -
  obtain d where "map_of PROFILE_TRIALS profile = Some d" "0 < d" "0 < n"
    using assms by (auto simp: PROFILE_TESTS_def PROFILE_TRIALS_def split: if_splits)
  then have "trial_count_of trials profile = Inr (case trials of Some a \<Rightarrow> if a \<noteq> 0 then a else int d | None \<Rightarrow> int d)"
      "(case trials of Some a \<Rightarrow> if a \<noteq> 0 then a else int d | None \<Rightarrow> int d) \<noteq> 0"
    by (auto simp: trial_count_of_def dict_index_def split: option.split)
  then show thesis using that \<open>0 < n\<close> by blast
qed

lemma no_trials:
  assumes "k \<le> 0"
  shows "map_result (run_trials host world seed k) entries = Inr (map (\<lambda>e. (fst e, [])) entries)"
  using assms by (intro map_result_Inr) (simp add: run_trials_def split_beta)

lemma random_needs_workers:
  assumes "workers \<le> 0" and "draws_below (bh_below host seed)" and "sw_tests world \<noteq> []" and "0 < k"
  shows "run_trials host world seed k (''random'', random_strategy host world workers seed) = Inl IndexError"
proof -
  obtain t ts where order: "py_shuffle (bh_below host seed) (sw_tests world) = t # ts"
    using mset_py_shuffle [OF assms(2), of "sw_tests world"] assms(3)
    by (cases "py_shuffle (bh_below host seed) (sw_tests world)") auto
  have heap: "map (\<lambda>worker. (0 :: real, worker)) [0..<nat workers] = []" using assms(1) by simp
  have "random_strategy host world workers seed 0 = Inl IndexError"
    unfolding random_strategy_def random_schedule_def heap
    by (simp add: order heappop_def min_by_def)
  moreover have "[0..<nat k] = 0 # [1..<nat k]" using assms(4) by (simp add: upt_conv_Cons)
  ultimately show ?thesis by (simp add: run_trials_def)
qed

abbreviation base_names :: "string list" where
  "base_names \<equiv> [''serial'', ''random'', ''heuristic'', ''conservative-locking'', ''oracle-upper-bound'']"

lemma base_strategies_names: "map fst (base_strategies host world workers seed hp op) = base_names"
  by (simp add: base_strategies_def)

lemma base_strategies_ok:
  assumes "0 < workers" and "\<And>s. draws_below (bh_below host s)"
  shows "\<forall>entry\<in>set (base_strategies host world workers seed hp op). strategy_ok (length (sw_tests world)) entry"
  by (simp add: base_strategies_def serial_strategy_ok random_strategy_ok [OF assms] conflict_strategy_ok [OF assms(1)])

lemma aggregates_ok:
  assumes ok: "\<forall>entry\<in>set entries. strategy_ok n entry" and k: "0 < k"
  obtains grouped aggregates where "map_result (run_trials host world seed k) entries = Inr grouped"
    and "map_result (\<lambda>(name, results). aggregate_trials choice results seed) grouped = Inr aggregates"
    and "list_all2 (aggregate_ok (nat k) n) (map fst entries) aggregates"
proof -
  let ?P = "\<lambda>entry r. fst r = fst entry \<and> length (snd r) = nat k \<and> (\<forall>t\<in>set (snd r). trial_ok n (fst entry) t)"
  have "\<forall>entry\<in>set entries. \<exists>r. run_trials host world seed k entry = Inr r \<and> ?P entry r"
    using ok run_trials_ok by fastforce
  then obtain grouped where g: "map_result (run_trials host world seed k) entries = Inr grouped" "list_all2 ?P entries grouped"
    using map_result_total [of entries "run_trials host world seed k" ?P] by blast
  have "\<exists>a. aggregate_trials choice (snd r) seed = Inr a \<and> aggregate_ok (nat k) n (fst r) a" if "r \<in> set grouped" for r
  proof -
    obtain i where i: "i < length grouped" "r = grouped ! i" using \<open>r \<in> set grouped\<close> by (metis in_set_conv_nth)
    have "length (snd r) = nat k" "\<forall>t\<in>set (snd r). trial_ok n (fst r) t"
      using list_all2_nthD2 [OF g(2) i(1)] i(2) by simp_all
    then show ?thesis using aggregated_ok [of "snd r" n "fst r" choice seed] k by fastforce
  qed
  then have "\<forall>r\<in>set grouped. \<exists>a. (\<lambda>(name, results). aggregate_trials choice results seed) r = Inr a \<and> aggregate_ok (nat k) n (fst r) a"
    by (simp add: split_beta)
  then obtain aggregates where a: "map_result (\<lambda>(name, results). aggregate_trials choice results seed) grouped = Inr aggregates"
      "list_all2 (\<lambda>r. aggregate_ok (nat k) n (fst r)) grouped aggregates"
    using map_result_total [of grouped "\<lambda>(name, results). aggregate_trials choice results seed" "\<lambda>r. aggregate_ok (nat k) n (fst r)"] by blast
  have "map fst grouped = map fst entries" using g(2) by (induction rule: list_all2_induct) auto
  moreover have "list_all2 (aggregate_ok (nat k) n) (map fst grouped) aggregates" using a(2) by (simp add: list_all2_map1)
  ultimately show thesis using that g(1) a(1) by simp
qed

lemma report_returns:
  assumes "list_all2 (aggregate_ok k n) base_names aggregates"
  shows "\<exists>r. report_of host world profile workers seed trials metrics aggregates = Inr r \<and> br_results r = aggregates
    \<and> br_trial_count r = trials \<and> br_model_metrics r = metrics
    \<and> br_total_test_executions r = sum_list (map ar_executions aggregates)"
proof -
  have "map ar_scheduler aggregates = base_names"
    using assms by (auto simp: list_all2_Cons1 aggregate_ok_def)
  then have names: "ar_scheduler ` set aggregates = set base_names" by (metis list.set_map)
  have "\<exists>a. dict_index (dict_of (map (\<lambda>item. (ar_scheduler item, item)) aggregates)) name = Inr a" if "name \<in> set base_names" for name
  proof -
    have "name \<in> fst ` set (dict_of (map (\<lambda>item. (ar_scheduler item, item)) aggregates))"
      using that unfolding set_keys_dict_of names [symmetric] by (simp add: image_image)
    then obtain a where "map_of (dict_of (map (\<lambda>item. (ar_scheduler item, item)) aggregates)) name = Some a"
      by (metis map_of_eq_None_iff not_None_eq)
    then show ?thesis by (simp add: dict_index_def)
  qed
  then obtain x y where "dict_index (dict_of (map (\<lambda>item. (ar_scheduler item, item)) aggregates)) ''random'' = Inr x"
      "dict_index (dict_of (map (\<lambda>item. (ar_scheduler item, item)) aggregates)) ''heuristic'' = Inr y"
    by (meson list.set_intros)
  then show ?thesis by (simp add: report_of_def Let_def)
qed

text \<open>C33: liveness and error. A replay benchmark without the machine-learning libraries, with index draws in
  range, always ends. An unknown profile and a negative number of trials are a \<^verbatim>\<open>ValueError\<close>, no
  workers an \<^verbatim>\<open>IndexError\<close>; otherwise there is a report: it has the five schedulers in order, each with the
  requested trials over at most the profile's tests, with failures counted once per test and rates and
  utilisation in the unit interval; the serial scheduler never fails; the total counts the executions of
  all results; and the models are reported as unavailable.\<close>

theorem replay_benchmark_returns:
  assumes ml: "ml_unavailable host" and draws: "\<And>s. draws_below (bh_below host s)"
  shows "case map_of PROFILE_TESTS profile of
      None \<Rightarrow> run_replay_benchmark host profile workers seed trials artifact = Inl ValueError
    | Some n \<Rightarrow> \<exists>k. trial_count_of trials profile = Inr k
        \<and> (if k < 0 then run_replay_benchmark host profile workers seed trials artifact = Inl ValueError
           else if workers \<le> 0 then run_replay_benchmark host profile workers seed trials artifact = Inl IndexError
           else \<exists>r. run_replay_benchmark host profile workers seed trials artifact = Inr r
             \<and> br_trial_count r = k \<and> list_all2 (aggregate_ok (nat k) n) base_names (br_results r)
             \<and> br_total_test_executions r = sum_list (map ar_executions (br_results r))
             \<and> mm_unavailable (br_model_metrics r) \<and> mm_tabular (br_model_metrics r) = None \<and> mm_gnn (br_model_metrics r) = None)"
proof (cases "map_of PROFILE_TESTS profile")
  case None
  then show ?thesis by (simp add: run_replay_benchmark_def build_synthetic_world_def)
next
  case (Some n)
  obtain k where k: "trial_count_of trials profile = Inr k" "k \<noteq> 0" "0 < n" by (rule trial_count_known [OF Some])
  obtain world hp op metrics where w: "length (sw_tests world) = n"
      and m: "mm_unavailable metrics" "mm_tabular metrics = None" "mm_gnn metrics = None"
      and run: "\<And>trials. run_replay_benchmark host profile workers seed trials artifact =
      bind_result (trial_count_of trials profile) (\<lambda>k.
      bind_result (map_result (run_trials host world seed k) (base_strategies host world workers seed hp op)) (\<lambda>grouped.
      bind_result (map_result (\<lambda>(name, results). aggregate_trials (bh_choice host) results seed) grouped)
        (report_of host world profile workers seed k metrics)))"
    by (rule benchmark_prefix [OF Some ml draws, where workers = workers and seed = seed and artifact = artifact]) (rule that, assumption+)
  have "run_replay_benchmark host profile workers seed trials artifact = Inl ValueError" if "k < 0"
    using that unfolding run k bind_result.simps
    by (simp add: no_trials) (simp add: base_strategies_def aggregate_trials_def)
  moreover have "run_replay_benchmark host profile workers seed trials artifact = Inl IndexError" if "workers \<le> 0" "0 < k"
  proof -
    have "sw_tests world \<noteq> []" using w k(3) by auto
    from random_needs_workers [OF that(1) draws this that(2)]
    have "map_result (run_trials host world seed k) (base_strategies host world workers seed hp op) = Inl IndexError"
      using run_trials_ok [OF serial_strategy_ok [of world host], of host world seed k]
      by (auto simp: base_strategies_def)
    then show ?thesis by (simp add: run k)
  qed
  moreover have "\<exists>r. run_replay_benchmark host profile workers seed trials artifact = Inr r
      \<and> br_trial_count r = k \<and> list_all2 (aggregate_ok (nat k) n) base_names (br_results r)
      \<and> br_total_test_executions r = sum_list (map ar_executions (br_results r))
      \<and> mm_unavailable (br_model_metrics r) \<and> mm_tabular (br_model_metrics r) = None \<and> mm_gnn (br_model_metrics r) = None"
    if pos: "0 < workers" "0 < k"
  proof -
    note entries = base_strategies_ok [where host = host and world = world and seed = seed and hp = hp and op = op, OF pos(1) draws, unfolded w]
    obtain grouped aggregates where g: "map_result (run_trials host world seed k) (base_strategies host world workers seed hp op) = Inr grouped"
        "map_result (\<lambda>(name, results). aggregate_trials (bh_choice host) results seed) grouped = Inr aggregates"
        "list_all2 (aggregate_ok (nat k) n) base_names aggregates"
      using aggregates_ok [where host = host and world = world and seed = seed and choice = "bh_choice host", OF entries pos(2)]
      unfolding base_strategies_names by blast
    then show ?thesis
      unfolding run k bind_result.simps g using report_returns [OF g(3), of host world profile workers seed k metrics] m by auto
  qed
  ultimately show ?thesis using k(1,2) unfolding Some option.case by (intro exI [of _ k]) auto
qed

definition bench_host :: "string benchmark_host" where
  "bench_host = \<lparr>bh_uniform = (\<lambda>_ _. 0.1), bh_random = (\<lambda>_ _. 0), bh_below = (\<lambda>_ _ _. 0), bh_drawn = (\<lambda>_ n k. [0..<k]),
     bh_choice = (\<lambda>_ n k. replicate n [0]), bh_env = (\<lambda>_ _. demo_env), bh_now = (\<lambda>_ _. 0), bh_created_at = ''now'',
     bh_scorer = (None, \<lambda>xs. [0..<length xs]), bh_importable = False, bh_sklearn = None,
     bh_torch = \<lparr>to_installed = False, to_start = (\<lambda>_ _ _ _ _ _. []), to_step = (\<lambda>_ _ w _. (w, 0)), to_forward = (\<lambda>_ _ _ _. []),
       to_save = (\<lambda>w. w), to_load = (\<lambda>_ _ _ _. None)\<rparr>, bh_loads = (\<lambda>_. Inl ValueError)\<rparr>"

theorem replay_benchmark_returns_witness:
  "run_replay_benchmark bench_host ''huge'' 4 42 None None = Inl ValueError
   \<and> run_replay_benchmark bench_host ''quick'' 0 42 None None = Inl IndexError
   \<and> (\<exists>r. run_replay_benchmark bench_host ''quick'' 4 42 None None = Inr r
        \<and> list_all2 (aggregate_ok 3 80) base_names (br_results r))"
proof -
  have ml: "ml_unavailable bench_host" and draws: "draws_below (bh_below bench_host s)" for s
    by (simp_all add: ml_unavailable_def bench_host_def draws_below_def)
  have quick: "map_of PROFILE_TESTS ''quick'' = Some 80" "trial_count_of None ''quick'' = Inr 3"
      and huge: "map_of PROFILE_TESTS ''huge'' = None"
    by (simp_all add: PROFILE_TESTS_def PROFILE_TRIALS_def trial_count_of_def dict_index_def)
  note runs = replay_benchmark_returns [OF ml draws, where artifact = None and trials = None and seed = 42]
  show ?thesis
    using runs [of "''huge''" 4] runs [of "''quick''" 0] runs [of "''quick''" 4] unfolding quick huge option.case by auto
qed

end
