(* ===== verification/Commands.thy ===== *)
theory Commands
  imports Benchmark Storage Recording Config Executor
begin

section \<open>The command line (\<^verbatim>\<open>cli.py\<close>, \<^verbatim>\<open>diagnostics.py\<close>)\<close>

text \<open>
  The commands compose the components: a trace is replayed into the graph artifact, a plan is made from
  the collected tests and the predictions of that artifact, and a run is planned, executed and
  recorded. Options are arguments; the configuration is the result of \<open>load_config\<close>; pytest, the
  text of JSON, the clock, the uuids and the model libraries are arguments. What a command prints is
  not modelled, except the values of the JSON documents it writes.
\<close>

subsection \<open>Outcomes\<close>

text \<open>\<^verbatim>\<open>typer.Exit\<close>, \<^verbatim>\<open>typer.BadParameter\<close>, and any other exception of the library.\<close>

datatype command_error = Exit int | Bad_Parameter | Raised py_error

type_synonym 'a command = "command_error + 'a"

fun bind_command :: "'a command \<Rightarrow> ('a \<Rightarrow> 'b command) \<Rightarrow> 'b command" where
  "bind_command (Inl e) f = Inl e"
| "bind_command (Inr x) f = f x"

definition raising :: "'a result \<Rightarrow> 'a command" where
  "raising r = (case r of Inl e \<Rightarrow> Inl (Raised e) | Inr x \<Rightarrow> Inr x)"

text \<open>\<^verbatim>\<open>main\<close>: an error of the application becomes exit status 2.\<close>

definition main :: "'a command \<Rightarrow> 'a command" where
  "main r = (case r of Inl (Raised e) \<Rightarrow> if is_conflictgraph_error e then Inl (Exit 2) else Inl (Raised e) | _ \<Rightarrow> r)"

definition load_settings :: "Config result \<Rightarrow> Config command" where
  "load_settings loaded =
     (case loaded of Inl e \<Rightarrow> if is_conflictgraph_error e then Inl (Exit 2) else Inl (Raised e) | Inr c \<Rightarrow> Inr c)"

record cli_host =
  ch_loads :: "string \<Rightarrow> pyval result"
  ch_dumps :: "pyval \<Rightarrow> string"
  ch_repr :: "pyval \<Rightarrow> string"
  ch_isoformat :: "int \<Rightarrow> string"
  ch_now :: "nat \<Rightarrow> int"
  ch_env :: sched_env
  ch_pytest :: "string list \<Rightarrow> completed_process option"
  ch_executable :: string
  ch_directory :: string
  ch_run_id :: string
  ch_mtime :: int

subsection \<open>Settings\<close>

text \<open>Where a setting must be a number it is read with \<open>float_of_pyval\<close>; infinite values count as errors.\<close>

text \<open>\<^verbatim>\<open>range(refinement_rounds)\<close> is only reached for at most 64 tests and a positive number of rounds, and
  needs an integer.\<close>

definition rounds_of :: "pyval \<Rightarrow> nat \<Rightarrow> int result" where
  "rounds_of v tests =
     (case v of
        PInt n \<Rightarrow> Inr n
      | PBool b \<Rightarrow> Inr (if b then 1 else 0)
      | PFloat x \<Rightarrow> if 64 < tests \<or> x \<le> 0 then Inr 0 else Inl TypeError
      | _ \<Rightarrow> if 64 < tests then Inr 0 else Inl TypeError)"

definition prefixes_of :: "pyval \<Rightarrow> string list result" where
  "prefixes_of v =
     (case v of
        PList vs \<Rightarrow> map_result (\<lambda>p. case p of PStr s \<Rightarrow> Inr s | _ \<Rightarrow> Inl TypeError) vs
      | PStr s \<Rightarrow> Inr (map (\<lambda>c. [c]) s)
      | _ \<Rightarrow> Inl TypeError)"

definition salt_of :: "pyval \<Rightarrow> bool \<Rightarrow> string result" where
  "salt_of v redact = (case v of PStr s \<Rightarrow> Inr s | _ \<Rightarrow> if redact then Inl TypeError else Inr [])"

definition normalizer :: "Config \<Rightarrow> NormalizationPolicy result" where
  "normalizer settings =
     (let tracing = cf_tracing settings; redact = truthy (tc_redact_paths tracing)
      in bind_result (prefixes_of (tc_exclude_prefixes tracing)) (\<lambda>prefixes.
         bind_result (salt_of (tc_hash_salt tracing) redact) (\<lambda>salt.
           Inr (NormalizationPolicy_init\<lparr>np_exclude_prefixes := prefixes, np_redact_paths := redact, np_hash_salt := salt\<rparr>))))"

definition worker_count :: "int option \<Rightarrow> int \<Rightarrow> int command" where
  "worker_count requested configured =
     (let workers = (case requested of None \<Rightarrow> configured | Some w \<Rightarrow> w)
      in if 1 \<le> workers \<and> workers \<le> 1024 then Inr workers else Inl Bad_Parameter)"

subsection \<open>The predictions of the graph artifact\<close>

text \<open>\<^verbatim>\<open>float(v)\<close> as the constructor of a prediction uses it: it clamps the value to the unit interval, so an
  infinite value counts as its end, and \<^verbatim>\<open>min(1.0, nan)\<close> is 1. Text is not modelled.\<close>

definition probability_of :: "pyval \<Rightarrow> real result" where
  "probability_of v =
     (case v of
        PInf positive \<Rightarrow> Inr (if positive then 1 else 0)
      | PNaN \<Rightarrow> Inr 1
      | _ \<Rightarrow> float_of_pyval v)"

definition resource_names :: "pyval \<Rightarrow> string list result" where
  "resource_names v =
     (case v of
        PList vs \<Rightarrow> map_result (\<lambda>r. case r of PStr s \<Rightarrow> Inr s | _ \<Rightarrow> Inl TypeError) vs
      | _ \<Rightarrow> Inl TypeError)"

definition read_prediction :: "cli_host \<Rightarrow> nat \<times> pyval \<Rightarrow> PairPrediction result" where
  "read_prediction host entry =
     (case entry of (k, PDict item) \<Rightarrow>
        bind_result (resource_names (dict_get item ''shared_resources'' (PList []))) (\<lambda>resources.
        bind_result (dict_index item ''test_a'') (\<lambda>test_a.
        bind_result (dict_index item ''test_b'') (\<lambda>test_b.
        bind_result (bind_result (dict_index item ''probability'') probability_of) (\<lambda>probability.
        bind_result (enum_lookup ConflictCause_value ConflictCause_members
            (PStr (str_of_pyval (ch_repr host) (dict_get item ''cause'' (PStr ''UNKNOWN''))))) (\<lambda>cause.
          Inr (PairPrediction_init (str_of_pyval (ch_repr host) test_a) (str_of_pyval (ch_repr host) test_b) probability cause
                 (str_of_pyval (ch_repr host) (dict_get item ''model_version'' (PStr ''unknown''))) resources
                 (str_of_pyval (ch_repr host) (dict_get item ''explanation'' (PStr []))) (ch_now host k)))))))
      | _ \<Rightarrow> Inl TypeError)"

definition graph_predictions :: "cli_host \<Rightarrow> ArtifactStore \<Rightarrow> PairPrediction list result" where
  "graph_predictions host store =
     bind_result (load (ch_loads host) store ''graphs'' ''latest'') (\<lambda>graph.
       case graph of
         None \<Rightarrow> Inr []
       | Some d \<Rightarrow>
           (case dict_get d ''predictions'' (PList []) of
              PList raw \<Rightarrow>
                (case map_result (read_prediction host) (enumerate 0 raw) of
                   Inl e \<Rightarrow> Inl (if e \<in> {KeyError, TypeError, ValueError} then ArtifactError else e)
                 | Inr predictions \<Rightarrow> Inr predictions)
            | _ \<Rightarrow> Inl ArtifactError))"

definition predictions_for_tests :: "cli_host \<Rightarrow> ArtifactStore \<Rightarrow> TestIdentity list \<Rightarrow> PairPrediction list result" where
  "predictions_for_tests host store tests =
     (let known = ti_id ` set tests
      in bind_result (graph_predictions host store) (\<lambda>predictions.
           Inr (filter (\<lambda>p. pp_test_a p \<in> known \<and> pp_test_b p \<in> known) predictions)))"

subsection \<open>Documents\<close>

text \<open>\<^verbatim>\<open>asdict\<close> and \<^verbatim>\<open>vars\<close>, with the values \<^verbatim>\<open>json_default\<close> gives enumerations and times.\<close>

definition test_dict :: "TestIdentity \<Rightarrow> pyval" where
  "test_dict t = PDict
     [(''id'', PStr (ti_id t)), (''node_id'', PStr (ti_node_id t)), (''repository'', PStr (ti_repository t)),
      (''suite'', PStr (ti_suite t)), (''framework'', PStr (ti_framework t)), (''test_file'', PStr (ti_test_file t)),
      (''test_class'', PStr (ti_test_class t)), (''test_function'', PStr (ti_test_function t)),
      (''parameters'', PStr (ti_parameters t)), (''source_revision'', PStr (ti_source_revision t))]"

definition resource_dict :: "ResourceIdentity \<Rightarrow> pyval" where
  "resource_dict r = PDict
     [(''id'', PStr (ri_id r)), (''type'', PStr (ResourceType_value (ri_type r))), (''identifier'', PStr (ri_identifier r))]"

definition edge_dict :: "string \<times> string \<Rightarrow> AccessAggregate \<Rightarrow> pyval" where
  "edge_dict key e = PDict
     [(''test_id'', PStr (fst key)), (''resource_id'', PStr (snd key)),
      (''counts'', PDict (map (\<lambda>(operation, n). (Operation_value operation, PInt n)) (ag_counts e))),
      (''modes'', PList (map PStr (sorted_list_of_set (AccessMode_value ` ag_modes e)))),
      (''first_ns'', PInt (ag_first_ns e)), (''last_ns'', PInt (ag_last_ns e))]"

definition graph_to_dict :: "TestResourceGraph \<Rightarrow> (string \<times> pyval) list" where
  "graph_to_dict g =
     [(''tests'', PList (map (test_dict \<circ> snd) (gr_tests g))),
      (''resources'', PList (map (resource_dict \<circ> snd) (gr_resources g))),
      (''edges'', PList (map (\<lambda>(key, e). edge_dict key e) (gr_edges g)))]"

definition prediction_dict :: "(int \<Rightarrow> string) \<Rightarrow> PairPrediction \<Rightarrow> pyval" where
  "prediction_dict isoformat p = PDict
     [(''test_a'', PStr (pp_test_a p)), (''test_b'', PStr (pp_test_b p)), (''probability'', PFloat (pp_probability p)),
      (''cause'', PStr (ConflictCause_value (pp_cause p))), (''model_version'', PStr (pp_model_version p)),
      (''shared_resources'', PList (map PStr (pp_shared_resources p))), (''explanation'', PStr (pp_explanation p)),
      (''predicted_at'', PStr (isoformat (pp_predicted_at p)))]"

definition quality_dict :: "TraceQuality \<Rightarrow> pyval" where
  "quality_dict q = PDict
     [(''captured'', PInt (q_captured q)), (''processed'', PInt (q_processed q)), (''dropped'', PInt (q_dropped q)),
      (''unattributed'', PInt (q_unattributed q)), (''parse_failures'', PInt (q_parse_failures q))]"

definition scheduled_dict :: "ScheduledTest \<Rightarrow> pyval" where
  "scheduled_dict t = PDict
     [(''test_id'', PStr (sc_test_id t)), (''node_id'', PStr (sc_node_id t)), (''worker'', PInt (int (sc_worker t))),
      (''estimated_start'', PFloat (sc_start t)), (''estimated_end'', PFloat (sc_end t)),
      (''estimated_duration'', PFloat (sc_duration t)), (''risk_cost'', PFloat (sc_risk_cost t)),
      (''reasons'', PList (map PStr (sc_reasons t)))]"

definition schedule_dict :: "Schedule \<Rightarrow> pyval" where
  "schedule_dict s = PDict
     [(''id'', PStr (sd_id s)), (''run_id'', PStr (sd_run_id s)), (''workers'', PInt (sd_workers s)),
      (''policy'', PStr (RiskPolicy_value (sd_policy s))), (''tests'', PList (map scheduled_dict (sd_tests s))),
      (''scheduler_latency_ms'', PFloat (sd_scheduler_latency_ms s)), (''expected_makespan'', PFloat (sd_expected_makespan s)),
      (''expected_risk'', PFloat (sd_expected_risk s)), (''seed'', PInt (sd_seed s))]"

definition result_dict :: "(int \<Rightarrow> string) \<Rightarrow> ExecutionResult \<Rightarrow> pyval" where
  "result_dict isoformat r = PDict
     [(''execution_id'', PStr (xr_execution_id r)), (''run_id'', PStr (xr_run_id r)), (''test_id'', PStr (xr_test_id r)),
      (''node_id'', PStr (xr_node_id r)), (''worker'', PInt (int (xr_worker r))),
      (''status'', PStr (ExecutionStatus_value (xr_status r))), (''started_at'', PStr (isoformat (xr_started_at r))),
      (''ended_at'', PStr (isoformat (xr_ended_at r))), (''duration_seconds'', PFloat (xr_duration_seconds r)),
      (''exit_code'', PInt (xr_exit_code r)), (''stdout'', PStr (xr_stdout r)), (''stderr'', PStr (xr_stderr r)),
      (''failure_message'', PStr (xr_failure_message r)), (''timed_out'', PBool (xr_timed_out r))]"

subsection \<open>Setting up\<close>

text \<open>\<^verbatim>\<open>init\<close>: the configuration written, from the packaged template.\<close>

definition init_command :: "string option \<Rightarrow> bool \<Rightarrow> string \<Rightarrow> string command" where
  "init_command existing force template = (if existing \<noteq> None \<and> \<not> force then Inl (Exit 2) else Inr template)"

record Diagnostic =
  dg_name :: string
  dg_status :: string
  dg_detail :: string
  dg_remediation :: string

text \<open>What the checks find on the host: the system, which of the probed files exist, and the path of each
  program.\<close>

record diagnostic_host =
  dh_system :: string
  dh_platform :: string
  dh_exists :: "string \<Rightarrow> bool"
  dh_which :: "string \<Rightarrow> string option"

definition check :: "string \<Rightarrow> bool \<Rightarrow> string \<Rightarrow> string \<Rightarrow> string \<Rightarrow> bool \<Rightarrow> Diagnostic" where
  "check name found yes no remediation remedy =
     \<lparr>dg_name = name, dg_status = (if found then ''pass'' else ''warn''), dg_detail = (if found then yes else no),
      dg_remediation = (if remedy \<and> \<not> found then remediation else [])\<rparr>"

definition check_binary :: "diagnostic_host \<Rightarrow> string \<Rightarrow> Diagnostic" where
  "check_binary host binary =
     (let found = (case dh_which host binary of Some path \<Rightarrow> path | None \<Rightarrow> [])
      in check binary (found \<noteq> []) found ''not found'' (''Install '' @ binary @ '' to build all project components.'') True)"

text \<open>\<open>model\<close> is \<^verbatim>\<open>str(Path(config.model.artifact) / "metadata.json")\<close>.\<close>

definition run_diagnostics :: "diagnostic_host \<Rightarrow> string \<Rightarrow> Diagnostic list" where
  "run_diagnostics host model =
     (let linux = (dh_system host = ''Linux'')
      in [check ''operating-system'' linux (dh_platform host) (dh_platform host)
            ''Use a modern Linux host for real eBPF tracing.'' True,
          check ''cgroup-v2'' (dh_exists host ''/sys/fs/cgroup/cgroup.controllers'') ''available'' ''not detected''
            ''Mount cgroup v2 and boot with unified hierarchy.'' linux,
          check ''kernel-btf'' (dh_exists host ''/sys/kernel/btf/vmlinux'') ''available'' ''not detected''
            ''Install kernel BTF data or configure compatible headers.'' linux]
         @ map (check_binary host) [''docker'', ''go'', ''cargo'', ''node'', ''python3'']
         @ [check ''model-artifact'' (dh_exists host model) model ''no trained model; heuristic fallback active''
              ''Run `conflictgraph train` after building a dataset.'' True])"

subsection \<open>Traces\<close>

record trace_overview =
  to_events :: nat
  to_tests :: nat
  to_resources :: nat
  to_quality :: TraceQuality
  to_quality_score :: real
  to_top_resources :: "(string \<times> int) list"

definition count_resource :: "(string, int) dict \<Rightarrow> TraceEvent \<Rightarrow> (string, int) dict" where
  "count_resource resources event =
     AList.update (ev_resource_identifier event) (dict_get resources (ev_resource_identifier event) 0 + 1) resources"

definition trace_summary :: "cli_host \<Rightarrow> Config \<Rightarrow> string list \<Rightarrow> trace_overview command" where
  "trace_summary host settings source =
     raising (bind_result (normalizer settings) (\<lambda>policy.
       bind_result (read_events (ch_loads host) (ch_repr host) policy source) (\<lambda>(events, quality).
         let resources = foldl count_resource [] events
         in Inr \<lparr>to_events = length events, to_tests = card (ev_test_id ` set events), to_resources = length resources,
                 to_quality = quality, to_quality_score = quality_score quality,
                 to_top_resources = take 20 (sort_reverse snd resources)\<rparr>)))"

text \<open>The predictions of the installed model, or the exception that made them unavailable.\<close>

definition model_predictions ::
  "'w benchmark_host \<Rightarrow> Config \<Rightarrow> TestResourceGraph \<Rightarrow> PairPrediction list \<Rightarrow> artifact_files \<Rightarrow> PairPrediction list result" where
  "model_predictions bench settings graph heuristic artifact =
     bind_result (if bh_importable bench then Inr () else Inl ImportError) (\<lambda>_.
     bind_result (DatasetBuilder_init (cf_seed settings) None) (\<lambda>builder.
     bind_result (build (bh_drawn bench) (bh_created_at bench) builder graph [] [] None) (\<lambda>(dataset, graph).
     bind_result (predict_artifact (bh_torch bench) (bh_loads bench) artifact graph dataset) (\<lambda>(probabilities, metadata).
     bind_result (version_of metadata) (\<lambda>version.
       pair_predictions (bh_now bench ''gnn'') dataset probabilities heuristic version)))))"

definition choose_predictions ::
  "'w benchmark_host \<Rightarrow> Config \<Rightarrow> TestResourceGraph \<Rightarrow> PairPrediction list \<Rightarrow> artifact_files option
     \<Rightarrow> (PairPrediction list \<times> string) result" where
  "choose_predictions bench settings graph heuristic artifact =
     (if \<not> has_metadata artifact then Inr (heuristic, ''heuristic'')
      else case model_predictions bench settings graph heuristic (the artifact) of
             Inl e \<Rightarrow> if e \<in> {ArtifactError, ImportError} then Inr (heuristic, ''heuristic'') else Inl e
           | Inr predictions \<Rightarrow> Inr (predictions, ''model''))"

definition replay_document ::
  "(int \<Rightarrow> string) \<Rightarrow> TestResourceGraph \<Rightarrow> PairPrediction list \<Rightarrow> string \<Rightarrow> TraceQuality \<Rightarrow> pyval" where
  "replay_document isoformat graph predictions mode quality = PDict
     (graph_to_dict graph @
      [(''predictions'', PList (map (prediction_dict isoformat) predictions)), (''prediction_mode'', PStr mode),
       (''trace_quality'', quality_dict quality)])"

text \<open>The document the command writes. Predicting may add default statistics to the graph, which the document
  does not show.\<close>

definition trace_replay ::
  "cli_host \<Rightarrow> 'w benchmark_host \<Rightarrow> Config \<Rightarrow> string list \<Rightarrow> artifact_files option \<Rightarrow> (pyval \<times> PairPrediction list) command" where
  "trace_replay host bench settings source artifact =
     raising (bind_result (normalizer settings) (\<lambda>policy.
       bind_result (read_events (ch_loads host) (ch_repr host) policy source) (\<lambda>(events, quality).
       bind_result (float_of_pyval (tc_minimum_quality (cf_tracing settings))) (\<lambda>minimum.
       bind_result (require_quality quality minimum) (\<lambda>_.
       bind_result (from_events events []) (\<lambda>graph.
       bind_result (float_of_pyval (mc_default_no_edge_risk (cf_model settings))) (\<lambda>base.
       bind_result (predict_graph base (ch_now host) graph True) (\<lambda>(heuristic, graph).
       bind_result (choose_predictions bench settings graph heuristic artifact) (\<lambda>(predictions, mode).
         Inr (replay_document (ch_isoformat host) graph predictions mode quality, predictions))))))))))"

subsection \<open>Datasets and models\<close>

definition split_dict :: "DatasetSplit \<Rightarrow> pyval" where
  "split_dict s = PDict
     [(''train'', PList (map PInt (sp_train s))), (''validation'', PList (map PInt (sp_validation s))),
      (''test'', PList (map PInt (sp_test s))), (''strategy'', PStr (sp_strategy s))]"

definition synthetic_dataset ::
  "'w benchmark_host \<Rightarrow> string \<Rightarrow> int \<Rightarrow> (Dataset \<times> DatasetSplit \<times> TestResourceGraph) result" where
  "synthetic_dataset bench profile seed =
     bind_result (build_synthetic_world (bh_uniform bench) profile seed) (\<lambda>world.
     bind_result (DatasetBuilder_init seed (Some 4)) (\<lambda>builder.
     bind_result (build (bh_drawn bench) (bh_created_at bench) builder (sw_graph world) (sw_labels world) [''synthetic-'' @ profile] None) (\<lambda>(dataset, graph).
     bind_result (pair_disjoint_split (bh_below bench) dataset seed (0.7, 0.15, 0.15)) (\<lambda>split. Inr (dataset, split, graph)))))"

definition dataset_build_synthetic ::
  "(pyval \<Rightarrow> string) \<Rightarrow> cli_host \<Rightarrow> 'w benchmark_host \<Rightarrow> string \<Rightarrow> int \<Rightarrow> (dataset_files \<times> string) command" where
  "dataset_build_synthetic dumps_line host bench profile seed =
     raising (bind_result (synthetic_dataset bench profile seed) (\<lambda>(dataset, split, _).
       let (files, dataset) = Dataset_save dumps_line (\<lambda>v. ch_dumps host v @ [CHR 0x0A]) dataset
       in Inr (files, ch_dumps host (split_dict split) @ [CHR 0x0A])))"

definition comparison_dict ::
  "ClassificationMetrics \<times> ClassificationMetrics \<Rightarrow> ClassificationMetrics \<times> ClassificationMetrics \<Rightarrow> pyval" where
  "comparison_dict tabular gnn =
     (let pair = (\<lambda>m. PDict [(''validation'', PDict (metrics_row (fst m))), (''test'', PDict (metrics_row (snd m)))])
      in PDict [(''tabular'', pair tabular), (''gnn'', pair gnn)])"

text \<open>The files of the artifact and the comparison of the two models.\<close>

definition model_train ::
  "cli_host \<Rightarrow> 'w benchmark_host \<Rightarrow> save_host \<Rightarrow> string \<Rightarrow> int \<Rightarrow> int \<Rightarrow> (artifact_files \<times> string) command" where
  "model_train host bench saved profile seed epochs =
     (if \<not> bh_importable bench then Inl (Raised ImportError)
      else raising (bind_result (synthetic_dataset bench profile seed) (\<lambda>(dataset, split, graph).
        bind_result (TabularBaseline_fit (bh_sklearn bench) (bh_scorer bench) (TabularBaseline_init ''gradient_boosting'' seed) dataset split)
          (\<lambda>(_, baseline_metrics).
        bind_result (GNNTrainer_fit (bh_torch bench) (bh_scorer bench) (bh_below bench)
            (GNNTrainer_init (Some (TrainingConfig_init\<lparr>tr_seed := seed, tr_epochs := epochs\<rparr>))) graph dataset split)
          (\<lambda>(trainer, validation, test).
        bind_result (GNNTrainer_save (bh_torch bench) (\<lambda>v. ch_dumps host v @ [CHR 0x0A]) saved trainer dataset validation test) (\<lambda>(files, _).
          Inr (files, ch_dumps host (comparison_dict baseline_metrics (validation, test)) @ [CHR 0x0A])))))))"

subsection \<open>Planning and running\<close>

definition pytest_config :: "cli_host \<Rightarrow> real \<Rightarrow> PytestConfig" where
  "pytest_config host timeout =
     \<lparr>pc_executable = ch_executable host, pc_working_directory = ch_directory host, pc_timeout_seconds = timeout,
      pc_extra_args = [], pc_environment = [], pc_output_limit_bytes = 1000000\<rparr>"

definition collect_tests :: "cli_host \<Rightarrow> string list \<Rightarrow> TestIdentity list command" where
  "collect_tests host targets = raising (collect (ch_pytest host) (pytest_config host 300) targets)"

definition settings_schedule ::
  "cli_host \<Rightarrow> Config \<Rightarrow> TestIdentity list \<Rightarrow> PairPrediction list \<Rightarrow> int \<Rightarrow> RiskPolicy option \<Rightarrow> string option \<Rightarrow> Schedule result" where
  "settings_schedule host settings tests predictions workers policy run_id =
     (let scheduler = cf_scheduler settings
      in bind_result (float_of_pyval (scfg_risk_weight scheduler)) (\<lambda>weight.
         bind_result (float_of_pyval (scfg_hard_threshold scheduler)) (\<lambda>threshold.
         bind_result (rounds_of (scfg_refinement_rounds scheduler) (length tests)) (\<lambda>rounds.
         bind_result (ConflictScheduler_init workers (case policy of Some p \<Rightarrow> p | None \<Rightarrow> cf_risk_policy settings)
             (cf_seed settings) (Some weight) (Some threshold) rounds) (\<lambda>self.
           static_schedule self (ch_env host) tests (map_of (map (\<lambda>t. (ti_id t, TestStats_init)) tests)) predictions run_id)))))"

definition plan_tests ::
  "cli_host \<Rightarrow> ArtifactStore \<Rightarrow> Config \<Rightarrow> real \<Rightarrow> string list \<Rightarrow> int option \<Rightarrow> RiskPolicy option \<Rightarrow> string option
     \<Rightarrow> (Schedule \<times> PairPrediction list) command" where
  "plan_tests host store settings timeout targets workers policy run_id =
     bind_command (raising (collect (ch_pytest host) (pytest_config host timeout) targets)) (\<lambda>tests.
     bind_command (raising (predictions_for_tests host store tests)) (\<lambda>predictions.
     bind_command (worker_count workers (cf_workers settings)) (\<lambda>worker_count.
     bind_command (raising (settings_schedule host settings tests predictions worker_count policy run_id)) (\<lambda>schedule.
       Inr (schedule, predictions)))))"

definition plan ::
  "cli_host \<Rightarrow> ArtifactStore \<Rightarrow> Config \<Rightarrow> string list \<Rightarrow> int option \<Rightarrow> RiskPolicy option \<Rightarrow> Schedule command" where
  "plan host store settings targets workers policy =
     bind_command (plan_tests host store settings 300 targets workers policy None) (\<lambda>(schedule, _). Inr schedule)"

definition passed_count :: "ExecutionResult list \<Rightarrow> nat" where
  "passed_count results = length (filter (\<lambda>r. xr_status r = XS_PASSED) results)"

definition model_version_of :: "PairPrediction list \<Rightarrow> string" where
  "model_version_of predictions =
     (let versions = pp_model_version ` set predictions
      in if card versions = 1 then pp_model_version (hd predictions) else if versions \<noteq> {} then ''mixed'' else ''duration-only'')"

definition run_artifact ::
  "cli_host \<Rightarrow> Config \<Rightarrow> Schedule \<Rightarrow> PairPrediction list \<Rightarrow> ExecutionResult list \<Rightarrow> pyval" where
  "run_artifact host settings schedule predictions results =
     (let passed = passed_count results
      in PDict
       [(''id'', PStr (ch_run_id host)),
        (''status'', PStr (if passed = length results then ''COMPLETED'' else ''FAILED'')),
        (''scheduler_policy'', PStr (RiskPolicy_value (sd_policy schedule))), (''worker_count'', PInt (sd_workers schedule)),
        (''trace_mode'', tc_mode (cf_tracing settings)), (''model_version'', PStr (model_version_of predictions)),
        (''tests'', PInt (int (length results))), (''passed'', PInt (int passed)),
        (''failed'', PInt (int (length results) - int passed)),
        (''test_seconds'', PFloat (\<Sum>r\<leftarrow>results. xr_duration_seconds r)), (''schedule'', schedule_dict schedule),
        (''executions'', PList (map (result_dict (ch_isoformat host)) results)),
        (''predictions'', PList (map (prediction_dict (ch_isoformat host)) predictions))])"

text \<open>\<open>execute\<close> is \<^verbatim>\<open>asyncio.run(ScheduleExecutor(adapter).execute(schedule, fail_fast))\<close>, whose runs are
  those of \<open>exec_step\<close>. The result is the store with the recorded run, and the exit status.\<close>

definition run_tests ::
  "cli_host \<Rightarrow> (Schedule \<Rightarrow> bool \<Rightarrow> ExecutionResult list result) \<Rightarrow> ArtifactStore \<Rightarrow> Config \<Rightarrow> string list \<Rightarrow> int option
     \<Rightarrow> RiskPolicy option \<Rightarrow> real \<Rightarrow> bool \<Rightarrow> (ArtifactStore \<times> int) command" where
  "run_tests host execute store settings targets workers policy timeout fail_fast =
     (if timeout \<le> 0 then Inl Bad_Parameter
      else bind_command (plan_tests host store settings timeout targets workers policy (Some (ch_run_id host))) (\<lambda>(schedule, predictions).
           bind_command (raising (execute schedule fail_fast)) (\<lambda>results.
           bind_command (raising (save (ch_dumps host) (ch_mtime host) store ''runs'' (ch_run_id host)
               (run_artifact host settings schedule predictions results))) (\<lambda>(store, _).
             Inr (store, if passed_count results = length results then 0 else 1)))))"

subsection \<open>The benchmark command\<close>

definition aggregate_dict :: "AggregateResult \<Rightarrow> pyval" where
  "aggregate_dict r =
     (let interval = (\<lambda>i. PList [PFloat (fst i), PFloat (snd i)])
      in PDict
       [(''scheduler'', PStr (ar_scheduler r)), (''trials'', PInt (int (ar_trials r))), (''executions'', PInt (int (ar_executions r))),
        (''failures'', PInt (int (ar_failures r))), (''conflict_failures'', PInt (int (ar_conflict_failures r))),
        (''flake_rate'', PFloat (ar_flake_rate r)), (''flake_rate_ci95'', interval (ar_flake_rate_ci95 r)),
        (''mean_makespan_seconds'', PFloat (ar_mean_makespan_seconds r)), (''makespan_ci95'', interval (ar_makespan_ci95 r)),
        (''worker_utilization'', PFloat (ar_worker_utilization r)), (''average_active_workers'', PFloat (ar_average_active_workers r)),
        (''mean_risk_exposure'', PFloat (ar_mean_risk_exposure r)),
        (''mean_scheduler_overhead_ms'', PFloat (ar_mean_scheduler_overhead_ms r))])"

text \<open>\<open>reason\<close> is the text of the exception that made the models unavailable.\<close>

definition model_metrics_dict :: "string \<Rightarrow> model_metrics \<Rightarrow> pyval" where
  "model_metrics_dict reason m = PDict
     ([(''heuristic'', PDict (metrics_row (mm_heuristic m)))]
      @ (case mm_tabular m of None \<Rightarrow> []
         | Some t \<Rightarrow> [(''tabular'', PDict [(''validation'', PDict (metrics_row (fst t))), (''test'', PDict (metrics_row (snd t)))])])
      @ (case mm_gnn m of None \<Rightarrow> []
         | Some GNN_Unavailable \<Rightarrow> [(''gnn'', PDict [(''available'', PBool False), (''reason'', PStr ''no artifact installed'')])]
         | Some (GNN_Metrics v validation test) \<Rightarrow>
             [(''gnn'', PDict [(''version'', PStr v), (''validation'', validation), (''test'', test)])])
      @ (if mm_unavailable m then [(''ml_schedulers'', PDict [(''available'', PBool False), (''reason'', PStr reason)])] else []))"

definition report_dict :: "string \<Rightarrow> BenchmarkReport \<Rightarrow> pyval" where
  "report_dict reason r = PDict
     [(''version'', PStr (br_version r)), (''created_at'', PStr (br_created_at r)), (''profile'', PStr (br_profile r)),
      (''seed'', PInt (br_seed r)), (''workers'', PInt (br_workers r)), (''trial_count'', PInt (br_trial_count r)),
      (''total_test_executions'', PInt (int (br_total_test_executions r))), (''results'', PList (map aggregate_dict (br_results r))),
      (''model_metrics'', model_metrics_dict reason (br_model_metrics r)), (''impact_summary'', PStr (br_impact_summary r)),
      (''environment'', PDict (br_environment r)), (''replayed'', PBool (br_replayed r))]"

definition report_id :: "string \<Rightarrow> string" where
  "report_id created_at = map (\<lambda>c. if is_alnum c \<or> c \<in> set ''-_'' then c else CHR ''-'') created_at"

text \<open>The two files of the report and the store of the directory that contains them.\<close>

definition benchmark_command ::
  "cli_host \<Rightarrow> 'w benchmark_host \<Rightarrow> string \<Rightarrow> ArtifactStore \<Rightarrow> string \<Rightarrow> int \<Rightarrow> int \<Rightarrow> int option \<Rightarrow> artifact_files option
     \<Rightarrow> ((string \<times> string) list \<times> ArtifactStore) command" where
  "benchmark_command host bench reason store profile workers seed trials model_artifact =
     raising (bind_result (run_replay_benchmark bench profile workers seed trials model_artifact) (\<lambda>report.
       bind_result (save (ch_dumps host) (ch_mtime host) store ''benchmarks'' (report_id (br_created_at report)) (report_dict reason report))
         (\<lambda>(store, _). Inr (write_report (\<lambda>r. ch_dumps host (report_dict reason r) @ [CHR 0x0A]) report, store))))"

end
