(* ===== verification/Commands_Properties.thy ===== *)
theory Commands_Properties
  imports Commands Benchmark_Properties Executor_Properties Model_Properties
begin

section \<open>Properties of the commands\<close>

text \<open>
  What the commands hand to one another through the store: the predictions a replay writes are the
  predictions a plan reads. Text of JSON enters through the
  hypothesis that reading what was written gives the value with its keys sorted.
\<close>

subsection \<open>Predictions through the graph artifact\<close>

abbreviation undated :: "PairPrediction \<Rightarrow> PairPrediction" where
  "undated p \<equiv> p\<lparr>pp_predicted_at := 0\<rparr>"

lemma PairPrediction_init_id:
  "prediction_wf p \<Longrightarrow> PairPrediction_init (pp_test_a p) (pp_test_b p) (pp_probability p) (pp_cause p) (pp_model_version p)
     (pp_shared_resources p) (pp_explanation p) now = p\<lparr>pp_predicted_at := now\<rparr>"
  by (cases p) (auto simp: PairPrediction_init_def prediction_wf_def)

lemma json_sort_dict_lookup:
  assumes "distinct (map fst kvs)"
  obtains d where "json_sort (PDict kvs) = PDict d" and "map_of d = map_option json_sort \<circ> map_of kvs"
proof -
  have "distinct (map fst (map (\<lambda>(k, v). (k, json_sort v)) kvs))" using assms by (simp add: comp_def split_beta)
  then have "map_of (sort_key fst (map (\<lambda>(k, v). (k, json_sort v)) kvs)) = map_of (map (\<lambda>(k, v). (k, json_sort v)) kvs)"
    by (rule map_of_sorted)
  then show thesis using that by (simp add: map_of_map)
qed

lemma resource_names_PStr: "resource_names (PList (map PStr rs)) = Inr rs"
proof -
  have "map_result (\<lambda>r. case r of PStr s \<Rightarrow> Inr s | _ \<Rightarrow> Inl TypeError) (map PStr rs) = Inr rs" by (induction rs) auto
  then show ?thesis by (simp add: resource_names_def)
qed

lemma read_prediction_dict:
  assumes "prediction_wf p"
  shows "read_prediction host (k, json_sort (prediction_dict isoformat p)) = Inr (p\<lparr>pp_predicted_at := ch_now host k\<rparr>)"
proof -
  define kvs where "kvs = [(''test_a'', PStr (pp_test_a p)), (''test_b'', PStr (pp_test_b p)), (''probability'', PFloat (pp_probability p)),
      (''cause'', PStr (ConflictCause_value (pp_cause p))), (''model_version'', PStr (pp_model_version p)),
      (''shared_resources'', PList (map PStr (pp_shared_resources p))), (''explanation'', PStr (pp_explanation p)),
      (''predicted_at'', PStr (isoformat (pp_predicted_at p)))]"
  have kvs: "prediction_dict isoformat p = PDict kvs" by (simp add: prediction_dict_def kvs_def)
  have "distinct (map fst kvs)" by (simp add: kvs_def)
  then obtain d where d: "json_sort (PDict kvs) = PDict d" "map_of d = map_option json_sort \<circ> map_of kvs"
    by (rule json_sort_dict_lookup)
  have look: "map_of d ''test_a'' = Some (PStr (pp_test_a p))" "map_of d ''test_b'' = Some (PStr (pp_test_b p))"
      "map_of d ''probability'' = Some (PFloat (pp_probability p))"
      "map_of d ''cause'' = Some (PStr (ConflictCause_value (pp_cause p)))"
      "map_of d ''model_version'' = Some (PStr (pp_model_version p))"
      "map_of d ''shared_resources'' = Some (PList (map PStr (pp_shared_resources p)))"
      "map_of d ''explanation'' = Some (PStr (pp_explanation p))"
    by (simp_all add: d(2) kvs_def comp_def)
  show ?thesis
    unfolding kvs d(1)
    by (simp add: read_prediction_def dict_get_def dict_index_def look resource_names_PStr probability_of_def float_of_pyval_def
        str_of_pyval_def PairPrediction_init_id [OF assms])
qed

lemma read_predictions:
  "list_all prediction_wf ps \<Longrightarrow>
     \<exists>qs. map_result (read_prediction host) (enumerate n (map (\<lambda>p. json_sort (prediction_dict isoformat p)) ps)) = Inr qs
       \<and> map undated qs = map undated ps"
proof (induction ps arbitrary: n)
  case (Cons p ps)
  then obtain qs where "map_result (read_prediction host) (enumerate (Suc n) (map (\<lambda>p. json_sort (prediction_dict isoformat p)) ps)) = Inr qs"
      "map undated qs = map undated ps" by auto
  then show ?case using Cons.prems read_prediction_dict [of p host n isoformat]
    by (intro exI [of _ "p\<lparr>pp_predicted_at := ch_now host n\<rparr> # qs"]) simp
qed simp

lemma replay_document_predictions:
  obtains d where "json_sort (replay_document isoformat graph ps mode quality) = PDict d"
    and "dict_get d ''predictions'' (PList []) = PList (map (\<lambda>p. json_sort (prediction_dict isoformat p)) ps)"
proof -
  let ?kvs = "graph_to_dict graph @ [(''predictions'', PList (map (prediction_dict isoformat) ps)), (''prediction_mode'', PStr mode),
      (''trace_quality'', quality_dict quality)]"
  have "distinct (map fst ?kvs)" by (simp add: graph_to_dict_def)
  then obtain d where d: "json_sort (PDict ?kvs) = PDict d" "map_of d = map_option json_sort \<circ> map_of ?kvs"
    by (rule json_sort_dict_lookup)
  have "map_of d ''predictions'' = Some (PList (map (\<lambda>p. json_sort (prediction_dict isoformat p)) ps))"
    by (simp add: d(2) graph_to_dict_def comp_def)
  then show thesis using that d(1) by (simp add: replay_document_def dict_get_def)
qed

lemma load_latest:
  assumes "map_of (as_files store) (''graphs'', ''latest.json'') = Some (content, mtime)"
  shows "load loads store ''graphs'' ''latest'' = bind_result (read_document loads content) (\<lambda>d. Inr (Some d))"
proof -
  have "safe_segment ''graphs'' = Inr ''graphs''" "safe_segment ''latest'' = Inr ''latest''" by code_simp+
  then show ?thesis using assms by (simp add: load_def)
qed

subsection \<open>The same risks\<close>

abbreviation entry_of :: "PairPrediction \<Rightarrow> (string \<times> string) \<times> real" where
  "entry_of p \<equiv> (PairPrediction_key p, pp_probability p)"

lemma risk_probability_entries:
  "risk_probability (RiskIndex_init ps) a b =
     (if a = b then 1 else case map_of (rev (map entry_of ps)) (stable_pair a b) of None \<Rightarrow> 0 | Some x \<Rightarrow> x)"
proof -
  have "rev (map entry_of ps) = map (\<lambda>(k, p). (k, pp_probability p)) (rev (map (\<lambda>p. (PairPrediction_key p, p)) ps))"
    by (simp add: rev_map)
  then have "map_of (rev (map entry_of ps)) = map_option pp_probability \<circ> map_of (rev (map (\<lambda>p. (PairPrediction_key p, p)) ps))"
    by (simp add: map_of_map)
  then show ?thesis by (simp add: risk_probability_def RiskIndex_init_def map_of_dict_of split: option.split)
qed

lemma undated_entries: "map undated qs = map undated ps \<Longrightarrow> map entry_of qs = map entry_of ps"
proof -
  assume "map undated qs = map undated ps"
  then have "map (entry_of \<circ> undated) qs = map (entry_of \<circ> undated) ps" by (metis map_map)
  then show ?thesis by (simp add: comp_def PairPrediction_key_def)
qed

lemma map_of_filtered:
  "(\<And>p. p \<in> set ps \<Longrightarrow> PairPrediction_key p = k \<Longrightarrow> P p) \<Longrightarrow> map_of (map entry_of (filter P ps)) k = map_of (map entry_of ps) k"
  by (induction ps) auto

lemma filtered_risk:
  assumes "a \<in> known" and "b \<in> known"
  shows "risk_probability (RiskIndex_init (filter (\<lambda>p. pp_test_a p \<in> known \<and> pp_test_b p \<in> known) ps)) a b
    = risk_probability (RiskIndex_init ps) a b"
proof -
  have "map_of (map entry_of (filter (\<lambda>p. pp_test_a p \<in> known \<and> pp_test_b p \<in> known) (rev ps))) (stable_pair a b)
      = map_of (map entry_of (rev ps)) (stable_pair a b)"
    using assms by (intro map_of_filtered) (auto simp: PairPrediction_key_def stable_pair_def split: if_splits)
  then show ?thesis unfolding risk_probability_entries by (simp add: rev_map rev_filter)
qed

lemma predicted_wf:
  assumes "graph_built evs g" and "gr_pair_history g = []" and "predict_graph base now g incl = Inr (ps, g')"
  shows "list_all prediction_wf ps"
proof -
  have "\<forall>p\<in>set ps. predicted evs g base (PairPrediction_key p) p"
    using predict_graph_built [OF assms(1,2), of base now incl] assms(3) by auto
  then show ?thesis by (auto simp: list_all_iff predicted_def score_wf)
qed

lemma update_values: "\<forall>p\<in>snd ` set d. P p \<Longrightarrow> P v \<Longrightarrow> \<forall>p\<in>snd ` set (AList.update k v d). P p"
  using snd_set_update [of k v d] by blast

lemma merge_predictions_wf:
  "\<forall>p\<in>snd ` set d. prediction_wf p \<Longrightarrow> \<forall>p\<in>snd ` set (merge_predictions version now k d rows). prediction_wf p"
proof (induction version now k d rows rule: merge_predictions.induct)
  case (2 version now k d example probability rows)
  have "prediction_wf (model_prediction d version (now k) example probability)"
    unfolding model_prediction_def Let_def by (rule PairPrediction_init_wf)
  then show ?case unfolding merge_predictions.simps(2) by (intro 2(1) update_values 2(2))
qed simp

lemma model_predictions_wf:
  assumes "model_predictions bench settings g heuristic artifact = Inr ps" and "list_all prediction_wf heuristic"
  shows "list_all prediction_wf ps"
proof -
  obtain now dataset probabilities version where "pair_predictions now dataset probabilities heuristic version = Inr ps"
    using assms(1) by (auto simp: model_predictions_def)
  then obtain k where ps: "ps = map snd (merge_predictions version now k (dict_of (map (\<lambda>p. (PairPrediction_key p, p)) heuristic))
      (zip (ds_examples dataset) probabilities))"
    by (auto simp: pair_predictions_def Let_def split: if_splits)
  have "\<forall>p\<in>snd ` set (dict_of (map (\<lambda>p. (PairPrediction_key p, p)) heuristic)). prediction_wf p"
    using assms(2) keyed_predictions(2) [of heuristic] unfolding list_all_iff by blast
  from merge_predictions_wf [OF this] show ?thesis unfolding ps by (auto simp: list_all_iff)
qed

lemma chosen_predictions_wf:
  assumes "choose_predictions bench settings g heuristic artifact = Inr (ps, mode)" and "list_all prediction_wf heuristic"
  shows "list_all prediction_wf ps"
  using assms model_predictions_wf by (auto simp: choose_predictions_def split: if_splits sum.splits)

text \<open>C10: roundtrip. What \<^verbatim>\<open>trace replay\<close> predicts is what \<^verbatim>\<open>plan\<close> and \<^verbatim>\<open>run\<close> schedule with: when the
  document a replay wrote is the latest graph of the store, reading the predictions back never fails and gives the
  predictions of the replay, in order and except for their time, whichever of the two predictors made them; and for
  any collected tests the filtered predictions give every pair of them exactly the risk of the replay.\<close>

theorem replayed_predictions_reach_plan:
  assumes replay: "trace_replay host bench settings source artifact = Inr (doc, ps)"
    and stored: "map_of (as_files store) (''graphs'', ''latest.json'') = Some (ch_dumps host doc @ [CHR 0x0A], mtime)"
    and json: "ch_loads host (ch_dumps host doc @ [CHR 0x0A]) = Inr (json_sort doc)"
  shows "\<exists>qs rs. graph_predictions host store = Inr qs \<and> map undated qs = map undated ps
    \<and> predictions_for_tests host store tests = Inr rs
    \<and> (\<forall>a b. a \<in> ti_id ` set tests \<and> b \<in> ti_id ` set tests \<longrightarrow>
         risk_probability (RiskIndex_init rs) a b = risk_probability (RiskIndex_init ps) a b)"
proof -
  obtain events graph heuristic graph' base mode quality where
      g: "from_events events [] = Inr graph" and h: "predict_graph base (ch_now host) graph True = Inr (heuristic, graph')"
      and c: "choose_predictions bench settings graph' heuristic artifact = Inr (ps, mode)"
      and doc: "doc = replay_document (ch_isoformat host) graph' ps mode quality"
    using replay by (auto simp: trace_replay_def raising_def split: sum.splits)
  obtain graph0 where "from_events events [] = Inr graph0" "graph_built events graph0" "gr_pair_history graph0 = []"
    using from_events_built [of events "[]"] by blast
  then have built: "graph_built events graph" "gr_pair_history graph = []" using g by simp_all
  have wf: "list_all prediction_wf ps" by (rule chosen_predictions_wf [OF c predicted_wf [OF built h]])
  obtain d where d: "json_sort doc = PDict d"
      "dict_get d ''predictions'' (PList []) = PList (map (\<lambda>p. json_sort (prediction_dict (ch_isoformat host) p)) ps)"
    unfolding doc by (rule replay_document_predictions)
  obtain qs where qs: "map_result (read_prediction host) (enumerate 0 (map (\<lambda>p. json_sort (prediction_dict (ch_isoformat host) p)) ps)) = Inr qs"
      "map undated qs = map undated ps"
    using read_predictions [OF wf, of host 0 "ch_isoformat host"] by blast
  have read: "graph_predictions host store = Inr qs"
    using qs(1) d json by (simp add: graph_predictions_def load_latest [OF stored] read_document_def)
  let ?known = "ti_id ` set tests"
  let ?rs = "filter (\<lambda>p. pp_test_a p \<in> ?known \<and> pp_test_b p \<in> ?known) qs"
  have "risk_probability (RiskIndex_init ?rs) a b = risk_probability (RiskIndex_init ps) a b"
    if "a \<in> ?known" "b \<in> ?known" for a b
    unfolding filtered_risk [OF that] by (simp add: risk_probability_entries undated_entries [OF qs(2)])
  moreover have "predictions_for_tests host store tests = Inr ?rs" by (simp add: predictions_for_tests_def read)
  ultimately show ?thesis using read qs(2) by blast
qed

definition demo_settings :: Config where
  "demo_settings = \<lparr>cf_version = 1, cf_workers = 2, cf_risk_policy = RP_BALANCED, cf_seed = 42, cf_artifact_dir = ''artifacts'',
     cf_database_url = ''url'', cf_api_address = '':8080'', cf_tracing = TracingConfig_init [], cf_scheduler = SchedulerConfig_init [],
     cf_model = ModelConfig_init []\<rparr>"

definition two_writes :: "pyval result \<Rightarrow> string \<Rightarrow> pyval result" where
  "two_writes other s =
     (if s = ''1'' then Inr (TraceEvent_to_dict (demo_event ''a'' OP_WRITE))
      else if s = ''2'' then Inr (TraceEvent_to_dict (demo_event ''b'' OP_WRITE)) else other)"

definition cli_demo :: "(string \<Rightarrow> pyval result) \<Rightarrow> cli_host" where
  "cli_demo loads = \<lparr>ch_loads = loads, ch_dumps = (\<lambda>_. ''{}''), ch_repr = (\<lambda>_. []), ch_isoformat = (\<lambda>_. ''now''), ch_now = (\<lambda>_. 0),
     ch_env = demo_env, ch_pytest = (\<lambda>_. Some \<lparr>cp_returncode = 0, cp_stdout = ''t::a'', cp_stderr = []\<rparr>), ch_executable = ''python'',
     ch_directory = ''.'', ch_run_id = ''r1'', ch_mtime = 7\<rparr>"

abbreviation demo_lines :: "string list" where
  "demo_lines \<equiv> [''1'', ''2'']"

lemma demo_settings_facts:
  "tc_minimum_quality (cf_tracing demo_settings) = PFloat 0.8"
  "float_of_pyval (mc_default_no_edge_risk (cf_model demo_settings)) = Inr 0.001"
  by code_simp+

lemma demo_policy:
  obtains policy where "normalizer demo_settings = Inr policy"
    and "normalize_event policy (demo_event ''a'' OP_WRITE) = Inr (Some (demo_event ''a'' OP_WRITE))"
    and "normalize_event policy (demo_event ''b'' OP_WRITE) = Inr (Some (demo_event ''b'' OP_WRITE))"
proof -
  have "\<exists>policy. normalizer demo_settings = Inr policy
    \<and> normalize_event policy (demo_event ''a'' OP_WRITE) = Inr (Some (demo_event ''a'' OP_WRITE))
    \<and> normalize_event policy (demo_event ''b'' OP_WRITE) = Inr (Some (demo_event ''b'' OP_WRITE))"
    by (intro exI [of _ "projr (normalizer demo_settings)"]) code_simp
  then show thesis using that by blast
qed

lemma demo_read:
  assumes "normalize_event policy (demo_event ''a'' OP_WRITE) = Inr (Some (demo_event ''a'' OP_WRITE))"
    and "normalize_event policy (demo_event ''b'' OP_WRITE) = Inr (Some (demo_event ''b'' OP_WRITE))"
  shows "read_events (two_writes other) repr_of policy demo_lines
    = Inr ([demo_event ''a'' OP_WRITE, demo_event ''b'' OP_WRITE],
        \<lparr>q_captured = 2, q_processed = 2, q_dropped = 0, q_unattributed = 0, q_parse_failures = 0\<rparr>)"
proof -
  have "py_strip ''1'' = ''1''" "py_strip ''2'' = ''2''" by code_simp+
  then have "map (outcome (two_writes other) repr_of policy) demo_lines = map Kept [demo_event ''a'' OP_WRITE, demo_event ''b'' OP_WRITE]"
    using assms by (simp add: outcome_def parse_line_def two_writes_def trace_event_roundtrip)
  moreover have "ev_test_id (demo_event t operation) = t" for t operation by (simp add: demo_event_def)
  ultimately show ?thesis
    by (simp add: read_events_outcomes kept_outcomes outcomes_quality_def TraceQuality_init_def Let_def del: list.map)
qed

lemma demo_replay:
  "\<exists>doc ps. \<forall>other. trace_replay (cli_demo (two_writes other)) bench_host demo_settings demo_lines None = Inr (doc, ps)"
proof -
  let ?evs = "[demo_event ''a'' OP_WRITE, demo_event ''b'' OP_WRITE]"
  let ?q = "\<lparr>q_captured = 2, q_processed = 2, q_dropped = 0, q_unattributed = 0, q_parse_failures = 0\<rparr>"
  obtain policy where policy: "normalizer demo_settings = Inr policy"
      "normalize_event policy (demo_event ''a'' OP_WRITE) = Inr (Some (demo_event ''a'' OP_WRITE))"
      "normalize_event policy (demo_event ''b'' OP_WRITE) = Inr (Some (demo_event ''b'' OP_WRITE))"
    by (rule demo_policy)
  obtain g where g: "from_events ?evs [] = Inr g" "graph_built ?evs g" "gr_pair_history g = []"
    using from_events_built [of ?evs "[]"] by blast
  obtain ps g' where ps: "predict_graph (1 / 1000) (\<lambda>_. 0) g True = Inr (ps, g')"
    using predict_graph_built [OF g(2,3), of "1 / 1000" "\<lambda>_. 0" True] by blast
  have quality: "quality_score ?q = 1" by (simp add: quality_score_def completeness_def attribution_rate_def)
  have "trace_replay (cli_demo (two_writes other)) bench_host demo_settings demo_lines None
      = Inr (replay_document (\<lambda>_. ''now'') g' ps ''heuristic'' ?q, ps)" for other
    unfolding trace_replay_def policy(1) demo_settings_facts
    by (simp add: cli_demo_def demo_read [OF policy(2,3)] float_of_pyval_def require_quality_def quality g(1) ps
        choose_predictions_def has_metadata_def raising_def)
  then show ?thesis by blast
qed

theorem replayed_predictions_reach_plan_witness:
  "\<exists>host doc ps qs rs. trace_replay host bench_host demo_settings demo_lines None = Inr (doc, ps)
    \<and> graph_predictions host \<lparr>as_files = [((''graphs'', ''latest.json''), (''{}'' @ [CHR 0x0A], 0))], as_directories = {}\<rparr> = Inr qs
    \<and> map undated qs = map undated ps
    \<and> predictions_for_tests host \<lparr>as_files = [((''graphs'', ''latest.json''), (''{}'' @ [CHR 0x0A], 0))], as_directories = {}\<rparr> [] = Inr rs"
proof -
  let ?store = "\<lparr>as_files = [((''graphs'', ''latest.json''), (''{}'' @ [CHR 0x0A], 0))], as_directories = {}\<rparr>"
  obtain doc ps where replay: "\<And>other. trace_replay (cli_demo (two_writes other)) bench_host demo_settings demo_lines None = Inr (doc, ps)"
    using demo_replay by blast
  let ?host = "cli_demo (two_writes (Inr (json_sort doc)))"
  have stored: "map_of (as_files ?store) (''graphs'', ''latest.json'') = Some (ch_dumps ?host doc @ [CHR 0x0A], 0)"
    by (simp add: cli_demo_def)
  have json: "ch_loads ?host (ch_dumps ?host doc @ [CHR 0x0A]) = Inr (json_sort doc)"
    by (simp add: cli_demo_def two_writes_def)
  show ?thesis using replayed_predictions_reach_plan [OF replay stored json, of "[]"] replay by blast
qed

end
