(* ===== verification/Commands_Run.thy ===== *)
theory Commands_Run
  imports Commands_Properties Scheduler_Properties
begin

section \<open>What \<^verbatim>\<open>conflictgraph run\<close> does\<close>

text \<open>
  Collection, predictions, scheduler, executor and artifact store composed: the lemmas on a pool whose
  workers all returned, the schedule the command makes, and the property of the command.
\<close>

subsection \<open>An executor nobody cancels from outside\<close>

text \<open>\<^verbatim>\<open>run\<close> does not call \<^verbatim>\<open>cancel\<close>, so an execution is a sequence of steps of the workers.\<close>

definition executes :: "(Schedule \<Rightarrow> bool \<Rightarrow> ExecutionResult list result) \<Rightarrow> bool" where
  "executes execute \<longleftrightarrow> (\<forall>schedule fail_fast results. execute schedule fail_fast = Inr results \<longrightarrow>
     (\<exists>st st'. execute_start schedule False = Inr st \<and> (exec_step fail_fast False)\<^sup>*\<^sup>* st st'
        \<and> list_all (\<lambda>s. s = Returned) (xe_workers st') \<and> results = execute_results st'))"

lemma exec_steps_run: "(exec_step fail_fast listening)\<^sup>*\<^sup>* st st' \<Longrightarrow> \<exists>n. exec_run fail_fast listening st n st'"
  by (induction rule: rtranclp_induct) (blast intro: exec_run.stop exec_run.again)+

definition failed_some :: "bool \<Rightarrow> executor_state \<Rightarrow> bool" where
  "failed_some fail_fast st \<longleftrightarrow> (xe_cancelled st \<longrightarrow> fail_fast \<and> (\<exists>r\<in>set (xe_results st). xr_status r \<noteq> XS_PASSED))"

lemma exec_step_failed: "exec_step fail_fast listening st st' \<Longrightarrow> failed_some fail_fast st \<Longrightarrow> failed_some fail_fast st'"
  by (induction rule: exec_step.induct)
    (auto simp: failed_some_def worker_head_def worker_finish_def Let_def split: list.splits option.splits)

lemma exec_steps_failed:
  "(exec_step fail_fast listening)\<^sup>*\<^sup>* st st' \<Longrightarrow> failed_some fail_fast st \<Longrightarrow> failed_some fail_fast st'"
  by (induction rule: rtranclp_induct) (auto intro: exec_step_failed)

lemma sum_mset_mono: "(\<And>w. w < n \<Longrightarrow> F w \<subseteq># G w) \<Longrightarrow> (\<Sum>w<n. F w) \<subseteq># (\<Sum>w<n. G w)" for n :: nat
  by (induction n) (auto intro: subset_mset.add_mono)

lemma results_part:
  assumes inv: "pool_inv ts st" and ts: "\<forall>t\<in>set ts. sc_worker t < length (xe_workers st)"
  shows "mset (map xr_test_id (execute_results st)) \<subseteq># mset (map sc_test_id ts)"
proof -
  let ?n = "length (xe_workers st)"
  have rs: "\<forall>r\<in>set (xe_results st). xr_worker r < ?n" using pool_invD(3) [OF inv] by blast
  have part: "image_mset xr_test_id (mset (filter (\<lambda>r. xr_worker r = w) (xe_results st))) \<subseteq># image_mset sc_test_id (mset (lane w ts))"
    if w: "w < ?n" for w
  proof -
    obtain finished rest where "lane w ts = finished @ rest" "list_all2 result_of finished (results_by w st)"
      using pool_invD(2) [OF inv w] unfolding worker_inv_def worker_ok_def by blast
    then have "map xr_test_id (filter (\<lambda>r. xr_worker r = w) (xe_results st)) = map sc_test_id finished"
      using result_of_ids [of finished "results_by w st"] by (simp add: results_by_def)
    then have "image_mset xr_test_id (mset (filter (\<lambda>r. xr_worker r = w) (xe_results st))) = image_mset sc_test_id (mset finished)"
      unfolding mset_map [symmetric] by (rule arg_cong)
    then show ?thesis unfolding \<open>lane w ts = finished @ rest\<close> by (simp del: mset_filter)
  qed
  have "image_mset xr_test_id (mset (xe_results st)) = (\<Sum>w<?n. image_mset xr_test_id (mset (filter (\<lambda>r. xr_worker r = w) (xe_results st))))"
    by (subst mset_lanes [OF rs]) (simp add: image_size_sum(1))
  also have "\<dots> \<subseteq># (\<Sum>w<?n. image_mset sc_test_id (mset (lane w ts)))" by (rule sum_mset_mono) (rule part)
  also have "\<dots> = image_mset sc_test_id (mset ts)"
    using arg_cong [OF mset_lanes [OF ts], of "image_mset sc_test_id"] by (simp add: image_size_sum(1) lane_def)
  finally show ?thesis by (simp add: execute_results_def)
qed

lemma mset_subset_distinct:
  assumes "mset xs \<subseteq># mset ys" "distinct ys"
  shows "distinct xs" "set xs \<subseteq> set ys"
proof -
  show sub: "set xs \<subseteq> set ys" using set_mset_mono [OF assms(1)] by simp
  have "count (mset xs) a \<le> 1" for a
    using mset_subset_eq_count [OF assms(1), of a] assms(2) unfolding distinct_count_atmost_1 by (metis count_mset_0_iff le_trans order.refl zero_le)
  then have "count (mset xs) a = (if a \<in> set xs then 1 else 0)" for a
    by (cases "a \<in> set xs") (simp_all add: le_antisym Suc_leI)
  then show "distinct xs" by (simp add: distinct_count_atmost_1)
qed

text \<open>Everything was executed unless a fail-fast run stopped at a failure.\<close>

lemma executed:
  assumes "executes execute" "execute schedule fail_fast = Inr results"
  shows "mset (map xr_test_id results) \<subseteq># mset (map sc_test_id (sd_tests schedule))"
    "\<not> fail_fast \<or> passed_count results = length results \<Longrightarrow>
       mset (map xr_test_id results) = mset (map sc_test_id (sd_tests schedule))"
proof -
  obtain st st' where st: "execute_start schedule False = Inr st" "(exec_step fail_fast False)\<^sup>*\<^sup>* st st'"
      "list_all (\<lambda>s. s = Returned) (xe_workers st')" "results = execute_results st'"
    using assms unfolding executes_def by blast
  obtain n where run: "exec_run fail_fast False st n st'" using exec_steps_run [OF st(2)] by blast
  note start = execute_start_inv [OF st(1)]
  have inv: "pool_inv (execution_order schedule) st'" using exec_run_inv [OF run] start by blast
  have ts: "\<forall>t\<in>set (execution_order schedule). sc_worker t < length (xe_workers st')"
    using start exec_run_workers [OF run] by (simp add: execution_order_def)
  have order: "mset (map sc_test_id (execution_order schedule)) = mset (map sc_test_id (sd_tests schedule))"
    by (simp add: execution_order_def)
  show "mset (map xr_test_id results) \<subseteq># mset (map sc_test_id (sd_tests schedule))"
    using results_part [OF inv ts] st(4) order by simp
  have failed: "failed_some fail_fast st'"
    by (rule exec_steps_failed [OF st(2)]) (use start in \<open>simp add: failed_some_def\<close>)
  assume all: "\<not> fail_fast \<or> passed_count results = length results"
  have "xr_status r = XS_PASSED" if "passed_count results = length results" "r \<in> set (xe_results st')" for r
  proof -
    have "r \<in> set results" using that(2) st(4) by (simp add: execute_results_def)
    then show ?thesis using that(1) length_filter_less [of r results "\<lambda>r. xr_status r = XS_PASSED"] by (auto simp: passed_count_def)
  qed
  then have "\<not> xe_cancelled st'" using failed all by (auto simp: failed_some_def)
  then show "mset (map xr_test_id results) = mset (map sc_test_id (sd_tests schedule))"
    using executor_complete(1) [OF inv st(3) _ ts] st(4) order by simp
qed

subsection \<open>The plan\<close>

lemma planned:
  assumes "plan_tests host store settings timeout targets workers policy run_id = Inr (schedule, predictions)"
  obtains tests where "collect (ch_pytest host) (pytest_config host timeout) targets = Inr tests"
    and "predictions_for_tests host store tests = Inr predictions"
    and "1 \<le> sd_workers schedule" and "sd_workers schedule \<le> 1024"
    and "sd_workers schedule = (case workers of None \<Rightarrow> cf_workers settings | Some w \<Rightarrow> w)"
    and "mset (map sc_test_id (sd_tests schedule)) = mset (run_ids tests)"
    and "scheduled_by_conflict schedule"
proof -
  obtain tests w where t: "collect (ch_pytest host) (pytest_config host timeout) targets = Inr tests"
      "predictions_for_tests host store tests = Inr predictions" and w: "worker_count workers (cf_workers settings) = Inr w"
      and s: "settings_schedule host settings tests predictions w policy run_id = Inr schedule"
    using assms by (auto simp: plan_tests_def raising_def split: sum.splits elim!: bind_command.elims)
  obtain p weight threshold rounds self stats where i: "ConflictScheduler_init w p (cf_seed settings) weight threshold rounds = Inr self"
      and run: "static_schedule self (ch_env host) tests stats predictions run_id = Inr schedule"
    using s by (auto simp: settings_schedule_def Let_def)
  have "cs_workers self = w" using i by (auto simp: ConflictScheduler_init_def Let_def split: if_splits)
  moreover have "sd_workers schedule = cs_workers self" by (rule static_scheduleE [OF run])
  moreover have "scheduled_by_conflict schedule" using run by blast
  ultimately show thesis using that [OF t] schedule_ids [OF run] w by (auto simp: worker_count_def Let_def split: if_splits)
qed

subsection \<open>The recorded run\<close>

lemma run_artifact_fields:
  obtains d where "json_sort (run_artifact host settings schedule predictions results) = PDict d"
    and "map_of d ''status'' = Some (PStr (if passed_count results = length results then ''COMPLETED'' else ''FAILED''))"
    and "map_of d ''tests'' = Some (PInt (int (length results)))"
    and "map_of d ''passed'' = Some (PInt (int (passed_count results)))"
    and "map_of d ''executions'' = Some (json_sort (PList (map (result_dict (ch_isoformat host)) results)))"
proof -
  obtain kvs where kvs: "run_artifact host settings schedule predictions results = PDict kvs" "distinct (map fst kvs)"
      "map_of kvs ''status'' = Some (PStr (if passed_count results = length results then ''COMPLETED'' else ''FAILED''))"
      "map_of kvs ''tests'' = Some (PInt (int (length results)))" "map_of kvs ''passed'' = Some (PInt (int (passed_count results)))"
      "map_of kvs ''executions'' = Some (PList (map (result_dict (ch_isoformat host)) results))"
    by (simp add: run_artifact_def Let_def del: json_sort.simps)
  obtain d where "json_sort (PDict kvs) = PDict d" "map_of d = map_option json_sort \<circ> map_of kvs"
    by (rule json_sort_dict_lookup [OF kvs(2)])
  then show thesis using that [of d] kvs by simp
qed

lemma all_passed_iff: "passed_count results = length results \<longleftrightarrow> (\<forall>r\<in>set results. xr_status r = XS_PASSED)"
proof
  assume n: "passed_count results = length results"
  show "\<forall>r\<in>set results. xr_status r = XS_PASSED"
  proof
    fix r assume "r \<in> set results"
    then show "xr_status r = XS_PASSED" using n length_filter_less [of r results "\<lambda>r. xr_status r = XS_PASSED"]
      by (auto simp: passed_count_def)
  qed
qed (simp add: passed_count_def)

lemma saved_run:
  assumes save: "save dumps now store ''runs'' name v = Inr (store', path)"
  shows "safe_key (''runs'', name)"
    "map_of (as_files store') (c, n) = (if (c, n) = (''runs'', name @ ''.json'') then Some (dumps v @ [CHR 0x0A], now)
       else if (c, n) = (''runs'', name @ ''.tmp'') then None else map_of (as_files store) (c, n))"
proof -
  show safe: "safe_key (''runs'', name)" using save unsafe_rejected [of "''runs''" name] by fastforce
  have "store' = store_put dumps now store (''runs'', name) v" using save save_files(1) [OF safe] by simp
  then show "map_of (as_files store') (c, n) = (if (c, n) = (''runs'', name @ ''.json'') then Some (dumps v @ [CHR 0x0A], now)
      else if (c, n) = (''runs'', name @ ''.tmp'') then None else map_of (as_files store) (c, n))"
    using save_files(2) [OF safe] by simp
qed

lemma saved_run_loads:
  assumes "save dumps now store ''runs'' name v = Inr (store', path)" "loads (dumps v @ [CHR 0x0A]) = Inr (PDict d)"
  shows "load loads store' ''runs'' name = Inr (Some d)"
proof -
  have "map_of (as_files store') (''runs'', name @ ''.json'') = Some (dumps v @ [CHR 0x0A], now)"
    using saved_run(2) [OF assms(1)] by simp
  then show ?thesis using saved_run(1) [OF assms(1)] assms(2)
    by (simp add: load_store_file store_file_def json_file_def read_document_def)
qed

lemma run_artifact_reloads:
  assumes "save (ch_dumps host) now store ''runs'' name (run_artifact host settings schedule predictions results) = Inr (store', path)"
    and "loads (ch_dumps host (run_artifact host settings schedule predictions results) @ [CHR 0x0A])
      = Inr (json_sort (run_artifact host settings schedule predictions results))"
  shows "\<exists>d. load loads store' ''runs'' name = Inr (Some d)
    \<and> map_of d ''status'' = Some (PStr (if passed_count results = length results then ''COMPLETED'' else ''FAILED''))
    \<and> map_of d ''tests'' = Some (PInt (int (length results))) \<and> map_of d ''passed'' = Some (PInt (int (passed_count results)))
    \<and> map_of d ''executions'' = Some (json_sort (PList (map (result_dict (ch_isoformat host)) results)))"
  by (rule run_artifact_fields [of host settings schedule predictions results])
    (intro exI conjI saved_run_loads [OF assms(1)], simp only: assms(2))

subsection \<open>Properties\<close>

text \<open>C9: composition of collection, predictions, scheduler, executor and store. Whenever \<^verbatim>\<open>conflictgraph run\<close>
  returns, its executor having run the workers to their end: every executed test was collected and is executed once; all
  collected tests were executed unless a fail-fast run exits with status 1; the status is 0 exactly when every result
  passed; and the store differs from the one before only by the run's document, which, read back, says
  COMPLETED exactly for status 0, counts the results and lists them all.\<close>

theorem run_executes_and_records:
  assumes run: "run_tests host execute store settings targets workers policy timeout fail_fast = Inr (store', status)"
    and executor: "executes execute"
  shows "\<exists>tests predictions schedule results. collect (ch_pytest host) (pytest_config host timeout) targets = Inr tests
    \<and> predictions_for_tests host store tests = Inr predictions
    \<and> distinct (map xr_test_id results) \<and> xr_test_id ` set results \<subseteq> ti_id ` set tests
    \<and> (\<not> fail_fast \<or> status = 0 \<longrightarrow> xr_test_id ` set results = ti_id ` set tests)
    \<and> status = (if \<forall>r\<in>set results. xr_status r = XS_PASSED then 0 else 1)
    \<and> (\<forall>c n. map_of (as_files store') (c, n) =
         (if (c, n) = (''runs'', ch_run_id host @ ''.json'')
          then Some (ch_dumps host (run_artifact host settings schedule predictions results) @ [CHR 0x0A], ch_mtime host)
          else if (c, n) = (''runs'', ch_run_id host @ ''.tmp'') then None else map_of (as_files store) (c, n)))
    \<and> (ch_loads host (ch_dumps host (run_artifact host settings schedule predictions results) @ [CHR 0x0A])
           = Inr (json_sort (run_artifact host settings schedule predictions results)) \<longrightarrow>
         (\<exists>d. load (ch_loads host) store' ''runs'' (ch_run_id host) = Inr (Some d)
            \<and> map_of d ''status'' = Some (PStr (if status = 0 then ''COMPLETED'' else ''FAILED''))
            \<and> map_of d ''tests'' = Some (PInt (int (length results)))
            \<and> map_of d ''passed'' = Some (PInt (int (passed_count results)))
            \<and> map_of d ''executions'' = Some (json_sort (PList (map (result_dict (ch_isoformat host)) results)))))"
proof -
  obtain schedule predictions results path where
      plan: "plan_tests host store settings timeout targets workers policy (Some (ch_run_id host)) = Inr (schedule, predictions)"
      and results: "execute schedule fail_fast = Inr results"
      and save: "save (ch_dumps host) (ch_mtime host) store ''runs'' (ch_run_id host)
        (run_artifact host settings schedule predictions results) = Inr (store', path)"
      and status: "status = (if passed_count results = length results then 0 else 1)"
    using run by (auto simp: run_tests_def raising_def split: sum.splits if_splits elim!: bind_command.elims)
  obtain tests where tests: "collect (ch_pytest host) (pytest_config host timeout) targets = Inr tests"
      "predictions_for_tests host store tests = Inr predictions" "mset (map sc_test_id (sd_tests schedule)) = mset (run_ids tests)"
    by (rule planned [OF plan]) blast
  note part = executed [OF executor results, unfolded tests(3)]
  have ids: "distinct (map xr_test_id results)" "xr_test_id ` set results \<subseteq> ti_id ` set tests"
    using mset_subset_distinct [OF part(1) distinct_run_ids] unfolding set_run_ids set_map by blast+
  have all: "xr_test_id ` set results = ti_id ` set tests" if "\<not> fail_fast \<or> status = 0"
  proof -
    have "mset (map xr_test_id results) = mset (run_ids tests)" using part(2) that status by (auto split: if_splits)
    from mset_eq_setD [OF this] show ?thesis unfolding set_run_ids set_map .
  qed
  have outcome: "status = 0 \<longleftrightarrow> passed_count results = length results" using status by simp
  show ?thesis
    by (intro exI [of _ tests] exI [of _ predictions] exI [of _ schedule] exI [of _ results] conjI tests(1,2) ids impI all allI saved_run(2) [OF save])
      (simp_all only: outcome run_artifact_reloads [OF save], simp add: status all_passed_iff)
qed

subsection \<open>A run of one test\<close>

definition one_test_executor :: "Schedule \<Rightarrow> bool \<Rightarrow> ExecutionResult list result" where
  "one_test_executor schedule fail_fast =
     (if sd_workers schedule = 1 \<and> length (sd_tests schedule) = 1 \<and> sc_worker (hd (sd_tests schedule)) = 0
      then Inr [finished_result \<lparr>rh_execution_id = ''e'', rh_started_at = 0, rh_ended_at = 1, rh_duration = 1\<rparr> (sd_run_id schedule)
                  (hd (sd_tests schedule)) XS_PASSED 0 [] [] [] False]
      else Inl ExecutionError)"

lemma one_test_steps:
  assumes "result_of t r" "xr_status r = XS_PASSED"
  shows "(exec_step fail_fast False)\<^sup>*\<^sup>*
    \<lparr>xe_queues = [[Some t, None]], xe_workers = [Idle], xe_results = [], xe_notified = [], xe_cancelled = False\<rparr>
    \<lparr>xe_queues = [[]], xe_workers = [Returned], xe_results = [r], xe_notified = [], xe_cancelled = False\<rparr>"
proof -
  let ?st = "\<lambda>queue w rs. \<lparr>xe_queues = [queue], xe_workers = [w], xe_results = rs, xe_notified = [], xe_cancelled = False\<rparr>"
  have "exec_step fail_fast False (?st [Some t, None] Idle []) (?st [None] (Waiting t) [])"
    using exec_step.head [of 0 "?st [Some t, None] Idle []"] by (simp add: worker_head_def)
  moreover have "exec_step fail_fast False (?st [None] (Waiting t) []) (?st [None] (Executing t) [])"
    using exec_step.launch [of 0 "?st [None] (Waiting t) []" t] by simp
  moreover have "exec_step fail_fast False (?st [None] (Executing t) []) (?st [None] Idle [r])"
    using exec_step.finish [of 0 "?st [None] (Executing t) []" t r fail_fast False] assms by (simp add: worker_finish_def)
  moreover have "exec_step fail_fast False (?st [None] Idle [r]) (?st [] Returned [r])"
    using exec_step.head [of 0 "?st [None] Idle [r]"] by (simp add: worker_head_def)
  ultimately show ?thesis by (meson converse_rtranclp_into_rtranclp rtranclp.rtrancl_refl)
qed

lemma one_test_executes: "executes one_test_executor"
  unfolding executes_def
proof (intro allI impI)
  fix schedule fail_fast results
  assume "one_test_executor schedule fail_fast = Inr results"
  then obtain t r where t: "sd_tests schedule = [t]" "sd_workers schedule = 1" "sc_worker t = 0"
      and r: "results = [r]" "result_of t r" "xr_status r = XS_PASSED"
    by (auto simp: one_test_executor_def finished_result_def result_of_def length_Suc_conv split: if_splits)
  have "execute_start schedule False = Inr \<lparr>xe_queues = [[Some t, None]], xe_workers = [Idle], xe_results = [], xe_notified = [], xe_cancelled = False\<rparr>"
    by (simp add: execute_start_def execution_order_def t)
  with one_test_steps [OF r(2,3), of fail_fast] r(1)
  show "\<exists>st st'. execute_start schedule False = Inr st \<and> (exec_step fail_fast False)\<^sup>*\<^sup>* st st'
      \<and> list_all (\<lambda>s. s = Returned) (xe_workers st') \<and> results = execute_results st'"
    by (intro exI conjI) (assumption | simp add: execute_results_def)+
qed

lemma settings_schedule_returns:
  assumes "1 \<le> workers" "float_of_pyval (scfg_risk_weight (cf_scheduler settings)) = Inr weight"
    and "float_of_pyval (scfg_hard_threshold (cf_scheduler settings)) = Inr threshold"
    and "rounds_of (scfg_refinement_rounds (cf_scheduler settings)) (length tests) = Inr rounds"
  shows "\<exists>schedule. settings_schedule host settings tests predictions workers policy run_id = Inr schedule"
proof -
  obtain self where i: "ConflictScheduler_init workers (case policy of Some p \<Rightarrow> p | None \<Rightarrow> cf_risk_policy settings)
      (cf_seed settings) (Some weight) (Some threshold) rounds = Inr self"
    using assms(1) by (auto simp: ConflictScheduler_init_def Let_def)
  obtain lanes where "greedy_lanes self (ch_env host) tests (map_of (map (\<lambda>t. (ti_id t, TestStats_init)) tests)) (RiskIndex_init predictions) = Inr lanes"
    using greedy_lanes_returns [OF ConflictScheduler_init_ok [OF i]] by blast
  then show ?thesis by (simp add: settings_schedule_def Let_def assms(2-4) i static_schedule_def)
qed

abbreviation "demo_cli \<equiv> cli_demo (\<lambda>_. Inl ValueError)"

lemma demo_collect: "collect (ch_pytest demo_cli) (pytest_config demo_cli 5) [] = Inr [from_pytest_nodeid ''t::a'' ''local'' ''unknown'']"
proof -
  have "splitlines ''t::a'' = [''t::a'']" "py_strip ''t::a'' = ''t::a''" "node_line ''t::a''"
      "\<not> startswith ''t::a'' ''=''" "\<not> startswith ''t::a'' ''<''"
    by code_simp+
  then show ?thesis by (simp add: collect_def cli_demo_def collect_line_def List.map_filter_simps)
qed

lemma demo_no_predictions: "predictions_for_tests demo_cli ArtifactStore_init tests = Inr []"
proof -
  have "load (ch_loads demo_cli) ArtifactStore_init ''graphs'' ''latest'' = Inr None" by code_simp
  then show ?thesis by (simp add: predictions_for_tests_def graph_predictions_def)
qed

lemma demo_plan_returns:
  "\<exists>schedule. plan_tests demo_cli ArtifactStore_init demo_settings 5 [] (Some 1) None (Some ''r1'') = Inr (schedule, [])"
proof -
  have numbers: "float_of_pyval (scfg_risk_weight (cf_scheduler demo_settings)) = Inr (projr (float_of_pyval (scfg_risk_weight (cf_scheduler demo_settings))))"
      "float_of_pyval (scfg_hard_threshold (cf_scheduler demo_settings)) = Inr (projr (float_of_pyval (scfg_hard_threshold (cf_scheduler demo_settings))))"
      "rounds_of (scfg_refinement_rounds (cf_scheduler demo_settings)) (Suc 0) = Inr (projr (rounds_of (scfg_refinement_rounds (cf_scheduler demo_settings)) (Suc 0)))"
    by code_simp+
  obtain schedule where "settings_schedule demo_cli demo_settings [from_pytest_nodeid ''t::a'' ''local'' ''unknown''] [] 1 None (Some ''r1'') = Inr schedule"
    using settings_schedule_returns [of 1 demo_settings _ _ "[from_pytest_nodeid ''t::a'' ''local'' ''unknown'']"] numbers by fastforce
  then show ?thesis
    by (simp add: plan_tests_def demo_collect demo_no_predictions raising_def worker_count_def)
qed

theorem run_executes_and_records_witness:
  "\<exists>store'. run_tests demo_cli one_test_executor ArtifactStore_init demo_settings [] (Some 1) None 5 False = Inr (store', 0)
    \<and> map_of (as_files store') (''runs'', ''r1.json'') \<noteq> None"
proof -
  obtain schedule where plan: "plan_tests demo_cli ArtifactStore_init demo_settings 5 [] (Some 1) None (Some ''r1'') = Inr (schedule, [])"
    using demo_plan_returns by blast
  obtain tests where tests: "collect (ch_pytest demo_cli) (pytest_config demo_cli 5) [] = Inr tests"
      and ids: "mset (map sc_test_id (sd_tests schedule)) = mset (run_ids tests)"
      and s: "sd_workers schedule = (case Some 1 of None \<Rightarrow> cf_workers demo_settings | Some w \<Rightarrow> w)" "scheduled_by_conflict schedule"
    by (rule planned [OF plan]) blast
  have "run_ids tests = [ti_id (hd tests)]" using tests unfolding demo_collect by (auto simp: tests_by_id_def dict_of_def dict_keys_def)
  then have one: "length (sd_tests schedule) = 1" using arg_cong [OF ids, of size] by simp
  have workers: "sd_workers schedule = 1" using s(1) by simp
  obtain t where t: "sd_tests schedule = [t]" using one by (auto simp: length_Suc_conv)
  then have "sc_worker t = 0" using conflict.item_shape [OF s(2), of t] workers by simp
  then obtain r where r: "one_test_executor schedule False = Inr [r]" "xr_status r = XS_PASSED"
    by (simp add: one_test_executor_def workers t finished_result_def)
  have "safe_key (''runs'', ''r1'')" by code_simp
  from save_files(1) [OF this] obtain store' where "run_tests demo_cli one_test_executor ArtifactStore_init demo_settings [] (Some 1) None 5 False = Inr (store', 0)"
    using plan r by (auto simp: run_tests_def raising_def passed_count_def cli_demo_def)
  from this run_executes_and_records [OF this one_test_executes] show ?thesis by (auto simp: cli_demo_def)
qed

end
