(* ===== verification/Database.thy ===== *)
theory Database
  imports Storage Types
begin

section \<open>The PostgreSQL store (\<^verbatim>\<open>PostgresStore\<close> of \<^verbatim>\<open>storage.py\<close>)\<close>

text \<open>
  The five tables of \<^verbatim>\<open>src/controlplane/migrations/001_initial.sql\<close> that the store writes, as
  dictionaries from primary keys to rows, and one definition per SQL statement of \<^verbatim>\<open>storage.py\<close> with the
  column types and constraints of the migration. A statement that violates one raises, which is \<open>None\<close>
  here; \<^verbatim>\<open>with pool.connection()\<close> commits or rolls back, so a method that raises leaves
  the database as it was. How the server reads a uuid, how it orders text (its collation), and whether
  it can be reached are arguments. Columns that no statement here writes or reads (the statistics of
  \<^verbatim>\<open>tests\<close>, \<^verbatim>\<open>metadata\<close>, the serial id of a prediction) are left out. Rows that
  \<^verbatim>\<open>ORDER BY\<close> does not separate stay in the order of the table.
\<close>

subsection \<open>Tables\<close>

record test_row =
  tw_identity :: TestIdentity
  tw_created_at :: int
  tw_updated_at :: int

record run_row =
  rw_status :: string
  rw_scheduler_policy :: string
  rw_worker_count :: int
  rw_seed :: int
  rw_source_revision :: string
  rw_trace_mode :: string
  rw_trace_quality :: "real option"
  rw_started_at :: int
  rw_ended_at :: "int option"
  rw_error :: string

record schedule_row =
  hw_run_id :: string
  hw_policy :: string
  hw_worker_count :: int
  hw_expected_makespan :: real
  hw_expected_risk :: real
  hw_latency_ms :: real
  hw_seed :: int
  hw_plan :: Schedule

record execution_row =
  ew_run_id :: string
  ew_test_id :: string
  ew_worker_id :: nat
  ew_status :: ExecutionStatus
  ew_started_at :: int
  ew_ended_at :: int
  ew_duration_seconds :: real
  ew_exit_code :: int
  ew_stdout :: string
  ew_stderr :: string
  ew_failure_message :: string
  ew_timed_out :: bool

text \<open>The predictions have a unique constraint on the run and the two tests.\<close>

record prediction_row =
  pw_probability :: real
  pw_cause :: ConflictCause
  pw_model_version :: string
  pw_shared_resources :: "string list"
  pw_explanation :: string
  pw_predicted_at :: int

record database =
  db_tests :: "(string, test_row) dict"
  db_runs :: "(string, run_row) dict"
  db_schedules :: "(string, schedule_row) dict"
  db_executions :: "(string, execution_row) dict"
  db_predictions :: "(string \<times> string \<times> string, prediction_row) dict"

definition database_empty :: database where
  "database_empty = \<lparr>db_tests = [], db_runs = [], db_schedules = [], db_executions = [], db_predictions = []\<rparr>"

record server =
  sv_up :: bool
  sv_uuid :: "string \<Rightarrow> string option"
  sv_less :: "string \<Rightarrow> string \<Rightarrow> bool"

text \<open>\<^verbatim>\<open>PostgresStore(...)\<close> and \<^verbatim>\<open>open\<close>: the text of the \<^verbatim>\<open>StorageError\<close>, or the open store. \<open>failure\<close>
  is the text of what opening the pool raised.\<close>

definition open_store :: "bool \<Rightarrow> string option \<Rightarrow> server \<Rightarrow> string + server" where
  "open_store installed failure server =
     (if \<not> installed then Inl ''PostgreSQL support requires `pip install conflictgraph[api]`''
      else case failure of Some exc \<Rightarrow> Inl (''PostgreSQL connection failed: '' @ exc) | None \<Rightarrow> Inr server)"

subsection \<open>Column types\<close>

text \<open>A text value cannot contain NUL, and neither can a string within \<^verbatim>\<open>jsonb\<close>.\<close>

definition text_ok :: "string \<Rightarrow> bool" where
  "text_ok s \<longleftrightarrow> CHR 0x00 \<notin> set s"

definition integer_ok :: "int \<Rightarrow> bool" where
  "integer_ok n \<longleftrightarrow> - (2 ^ 31) \<le> n \<and> n < 2 ^ 31"

definition bigint_ok :: "int \<Rightarrow> bool" where
  "bigint_ok n \<longleftrightarrow> - (2 ^ 63) \<le> n \<and> n < 2 ^ 63"

definition plan_ok :: "Schedule \<Rightarrow> bool" where
  "plan_ok s \<longleftrightarrow> text_ok (sd_id s) \<and> text_ok (sd_run_id s)
     \<and> (\<forall>t\<in>set (sd_tests s). text_ok (sc_test_id t) \<and> text_ok (sc_node_id t) \<and> list_all text_ok (sc_reasons t))"

subsection \<open>Statements\<close>

text \<open>Each statement on the database, \<open>None\<close> when the server raises.\<close>

definition test_values_ok :: "TestIdentity \<Rightarrow> bool" where
  "test_values_ok t \<longleftrightarrow> list_all text_ok [ti_id t, ti_node_id t, ti_repository t, ti_suite t, ti_framework t, ti_test_file t,
     ti_test_class t, ti_test_function t, ti_parameters t, ti_source_revision t]"

definition insert_test :: "int \<Rightarrow> TestIdentity \<Rightarrow> database \<Rightarrow> database option" where
  "insert_test now t db =
     (if \<not> test_values_ok t then None
      else let row = (case map_of (db_tests db) (ti_id t) of
                        None \<Rightarrow> \<lparr>tw_identity = t, tw_created_at = now, tw_updated_at = now\<rparr>
                      | Some old \<Rightarrow> old\<lparr>tw_identity := (tw_identity old)\<lparr>ti_node_id := ti_node_id t, ti_source_revision := ti_source_revision t\<rparr>,
                                       tw_updated_at := now\<rparr>)
           in Some (db\<lparr>db_tests := AList.update (ti_id t) row (db_tests db)\<rparr>))"

definition new_run_row :: "int \<Rightarrow> string \<Rightarrow> int \<Rightarrow> int \<Rightarrow> string \<Rightarrow> string \<Rightarrow> run_row" where
  "new_run_row now scheduler workers seed revision trace_mode =
     \<lparr>rw_status = ''RUNNING'', rw_scheduler_policy = scheduler, rw_worker_count = workers, rw_seed = seed,
      rw_source_revision = revision, rw_trace_mode = trace_mode, rw_trace_quality = None, rw_started_at = now,
      rw_ended_at = None, rw_error = []\<rparr>"

definition insert_run ::
  "server \<Rightarrow> int \<Rightarrow> string \<Rightarrow> string \<Rightarrow> int \<Rightarrow> int \<Rightarrow> string \<Rightarrow> string \<Rightarrow> database \<Rightarrow> database option" where
  "insert_run server now run_id scheduler workers seed revision trace_mode db =
     (case sv_uuid server run_id of
        None \<Rightarrow> None
      | Some k \<Rightarrow>
          if \<not> list_all text_ok [scheduler, revision, trace_mode] \<or> \<not> integer_ok workers \<or> \<not> bigint_ok seed
             \<or> \<not> 0 < workers \<or> map_of (db_runs db) k \<noteq> None then None
          else Some (db\<lparr>db_runs := AList.update k (new_run_row now scheduler workers seed revision trace_mode) (db_runs db)\<rparr>))"

definition schedule_row_of :: "string \<Rightarrow> Schedule \<Rightarrow> schedule_row" where
  "schedule_row_of run s =
     \<lparr>hw_run_id = run, hw_policy = RiskPolicy_value (sd_policy s), hw_worker_count = sd_workers s,
      hw_expected_makespan = sd_expected_makespan s, hw_expected_risk = sd_expected_risk s,
      hw_latency_ms = sd_scheduler_latency_ms s, hw_seed = sd_seed s, hw_plan = s\<rparr>"

definition insert_schedule :: "server \<Rightarrow> Schedule \<Rightarrow> database \<Rightarrow> database option" where
  "insert_schedule server s db =
     (case (sv_uuid server (sd_id s), sv_uuid server (sd_run_id s)) of
        (Some k, Some run) \<Rightarrow>
          if \<not> integer_ok (sd_workers s) \<or> \<not> bigint_ok (sd_seed s) \<or> \<not> plan_ok s
             \<or> map_of (db_schedules db) k \<noteq> None \<or> run \<in> (hw_run_id \<circ> snd) ` set (db_schedules db)
             \<or> map_of (db_runs db) run = None then None
          else Some (db\<lparr>db_schedules := AList.update k (schedule_row_of run s) (db_schedules db)\<rparr>)
      | _ \<Rightarrow> None)"

text \<open>\<^verbatim>\<open>ON CONFLICT(id) DO NOTHING\<close>: a known execution is kept; the foreign keys are only checked for a new row.\<close>

definition execution_row_of :: "string \<Rightarrow> ExecutionResult \<Rightarrow> execution_row" where
  "execution_row_of run r =
     \<lparr>ew_run_id = run, ew_test_id = xr_test_id r, ew_worker_id = xr_worker r, ew_status = xr_status r,
      ew_started_at = xr_started_at r, ew_ended_at = xr_ended_at r, ew_duration_seconds = xr_duration_seconds r,
      ew_exit_code = xr_exit_code r, ew_stdout = xr_stdout r, ew_stderr = xr_stderr r,
      ew_failure_message = xr_failure_message r, ew_timed_out = xr_timed_out r\<rparr>"

definition execution_values_ok :: "ExecutionResult \<Rightarrow> bool" where
  "execution_values_ok r \<longleftrightarrow> list_all text_ok [xr_test_id r, xr_stdout r, xr_stderr r, xr_failure_message r]
     \<and> integer_ok (int (xr_worker r)) \<and> integer_ok (xr_exit_code r) \<and> 0 \<le> xr_duration_seconds r"

definition insert_execution :: "server \<Rightarrow> ExecutionResult \<Rightarrow> database \<Rightarrow> database option" where
  "insert_execution server r db =
     (case (sv_uuid server (xr_execution_id r), sv_uuid server (xr_run_id r)) of
        (Some k, Some run) \<Rightarrow>
          if \<not> execution_values_ok r then None
          else if map_of (db_executions db) k \<noteq> None then Some db
          else if map_of (db_runs db) run = None \<or> map_of (db_tests db) (xr_test_id r) = None then None
          else Some (db\<lparr>db_executions := AList.update k (execution_row_of run r) (db_executions db)\<rparr>)
      | _ \<Rightarrow> None)"

text \<open>\<^verbatim>\<open>ON CONFLICT DO UPDATE\<close>: a known prediction gets the new probability, cause, version and explanation; its
  resources and its time stay.\<close>

definition prediction_values_ok :: "server \<Rightarrow> PairPrediction \<Rightarrow> bool" where
  "prediction_values_ok server p \<longleftrightarrow>
     list_all text_ok ([pp_test_a p, pp_test_b p, pp_model_version p, pp_explanation p] @ pp_shared_resources p)
     \<and> 0 \<le> pp_probability p \<and> pp_probability p \<le> 1 \<and> sv_less server (pp_test_a p) (pp_test_b p)"

definition prediction_row_of :: "PairPrediction \<Rightarrow> prediction_row" where
  "prediction_row_of p =
     \<lparr>pw_probability = pp_probability p, pw_cause = pp_cause p, pw_model_version = pp_model_version p,
      pw_shared_resources = pp_shared_resources p, pw_explanation = pp_explanation p, pw_predicted_at = pp_predicted_at p\<rparr>"

definition updated_prediction :: "prediction_row \<Rightarrow> PairPrediction \<Rightarrow> prediction_row" where
  "updated_prediction old p =
     old\<lparr>pw_probability := pp_probability p, pw_cause := pp_cause p, pw_model_version := pp_model_version p,
         pw_explanation := pp_explanation p\<rparr>"

definition insert_prediction :: "server \<Rightarrow> string \<Rightarrow> PairPrediction \<Rightarrow> database \<Rightarrow> database option" where
  "insert_prediction server run_id p db =
     (case sv_uuid server run_id of
        None \<Rightarrow> None
      | Some run \<Rightarrow>
          let k = (run, pp_test_a p, pp_test_b p)
          in if \<not> prediction_values_ok server p then None
             else case map_of (db_predictions db) k of
                    Some old \<Rightarrow> Some (db\<lparr>db_predictions := AList.update k (updated_prediction old p) (db_predictions db)\<rparr>)
                  | None \<Rightarrow>
                      if map_of (db_runs db) run = None \<or> map_of (db_tests db) (pp_test_a p) = None
                         \<or> map_of (db_tests db) (pp_test_b p) = None then None
                      else Some (db\<lparr>db_predictions := AList.update k (prediction_row_of p) (db_predictions db)\<rparr>))"

definition ended_run :: "int \<Rightarrow> string \<Rightarrow> real option \<Rightarrow> string \<Rightarrow> run_row \<Rightarrow> run_row" where
  "ended_run now status trace_quality error row =
     row\<lparr>rw_status := status, rw_ended_at := Some now, rw_trace_quality := trace_quality, rw_error := error\<rparr>"

definition update_run :: "server \<Rightarrow> int \<Rightarrow> string \<Rightarrow> string \<Rightarrow> real option \<Rightarrow> string \<Rightarrow> database \<Rightarrow> database option" where
  "update_run server now run_id status trace_quality error db =
     (case sv_uuid server run_id of
        None \<Rightarrow> None
      | Some k \<Rightarrow>
          if \<not> text_ok error then None
          else case map_of (db_runs db) k of
                 None \<Rightarrow> Some db
               | Some row \<Rightarrow>
                   Some (db\<lparr>db_runs := AList.update k (ended_run now status trace_quality error row) (db_runs db)\<rparr>))"

text \<open>\<^verbatim>\<open>cursor.executemany\<close>.\<close>

fun execute_many :: "('a \<Rightarrow> database \<Rightarrow> database option) \<Rightarrow> 'a list \<Rightarrow> database \<Rightarrow> database option" where
  "execute_many statement [] db = Some db"
| "execute_many statement (x # xs) db =
     (case statement x db of None \<Rightarrow> None | Some db \<Rightarrow> execute_many statement xs db)"

subsection \<open>Methods that write\<close>

text \<open>A transaction on a connection of the pool; \<open>False\<close> says that an exception of psycopg left the method.\<close>

definition transact :: "server \<Rightarrow> (database \<Rightarrow> database option) \<Rightarrow> database \<Rightarrow> database \<times> bool" where
  "transact server statements db =
     (if sv_up server then (case statements db of None \<Rightarrow> (db, False) | Some db' \<Rightarrow> (db', True)) else (db, False))"

definition upsert_tests :: "server \<Rightarrow> int \<Rightarrow> TestIdentity list \<Rightarrow> database \<Rightarrow> database \<times> bool" where
  "upsert_tests server now tests = transact server (execute_many (insert_test now) tests)"

definition create_run ::
  "server \<Rightarrow> int \<Rightarrow> string \<Rightarrow> string \<Rightarrow> int \<Rightarrow> int \<Rightarrow> string \<Rightarrow> string \<Rightarrow> database \<Rightarrow> database \<times> bool" where
  "create_run server now run_id scheduler workers seed revision trace_mode =
     transact server (insert_run server now run_id scheduler workers seed revision trace_mode)"

definition save_schedule :: "server \<Rightarrow> Schedule \<Rightarrow> database \<Rightarrow> database \<times> bool" where
  "save_schedule server schedule = transact server (insert_schedule server schedule)"

definition save_result :: "server \<Rightarrow> ExecutionResult \<Rightarrow> database \<Rightarrow> database \<times> bool" where
  "save_result server result = transact server (insert_execution server result)"

definition save_predictions :: "server \<Rightarrow> string \<Rightarrow> PairPrediction list \<Rightarrow> database \<Rightarrow> database \<times> bool" where
  "save_predictions server run_id predictions = transact server (execute_many (insert_prediction server run_id) predictions)"

definition finalize_run :: "server \<Rightarrow> int \<Rightarrow> string \<Rightarrow> real option \<Rightarrow> string \<Rightarrow> database \<Rightarrow> database \<times> bool" where
  "finalize_run server now run_id trace_quality error =
     transact server (update_run server now run_id (if error \<noteq> [] then ''FAILED'' else ''COMPLETED'') trace_quality error)"

subsection \<open>Methods that read\<close>

record run_summary =
  su_id :: string
  su_run :: run_row
  su_tests :: nat
  su_passed :: nat
  su_failed :: nat
  su_test_seconds :: real

text \<open>The join of a run with its executions, grouped by run.\<close>

definition summary_of :: "database \<Rightarrow> string \<times> run_row \<Rightarrow> run_summary" where
  "summary_of db = (\<lambda>(run, row).
     let executions = filter (\<lambda>e. ew_run_id e = run) (map snd (db_executions db))
     in \<lparr>su_id = run, su_run = row, su_tests = length executions,
         su_passed = length (filter (\<lambda>e. ew_status e = XS_PASSED) executions),
         su_failed = length (filter (\<lambda>e. ew_status e \<noteq> XS_PASSED) executions),
         su_test_seconds = (\<Sum>e\<leftarrow>executions. ew_duration_seconds e)\<rparr>)"

definition recent_runs :: "server \<Rightarrow> database \<Rightarrow> int \<Rightarrow> run_summary list result" where
  "recent_runs server db limit =
     (if \<not> sv_up server then Inl StorageError
      else Inr (map (summary_of db) (take (nat (max 1 (min limit 500))) (sort_key (\<lambda>(_, row). - rw_started_at row) (db_runs db)))))"

record run_view =
  rv_id :: string
  rv_run :: run_row
  rv_executions :: "(string \<times> execution_row) list"
  rv_predictions :: "((string \<times> string \<times> string) \<times> prediction_row) list"

definition run_detail :: "server \<Rightarrow> database \<Rightarrow> string \<Rightarrow> run_view option result" where
  "run_detail server db run_id =
     (if \<not> sv_up server then Inl StorageError
      else case sv_uuid server run_id of
             None \<Rightarrow> Inl StorageError
           | Some k \<Rightarrow>
               (case map_of (db_runs db) k of
                  None \<Rightarrow> Inr None
                | Some row \<Rightarrow>
                    Inr (Some \<lparr>rv_id = k, rv_run = row,
                      rv_executions = sort_key (\<lambda>(_, e). ew_started_at e) (filter (\<lambda>(_, e). ew_run_id e = k) (db_executions db)),
                      rv_predictions = take 5000 (sort_key (\<lambda>(_, p). - pw_probability p)
                        (filter (\<lambda>((run, _, _), _). run = k) (db_predictions db)))\<rparr>)))"

end
