(* ===== verification/Api.thy ===== *)
theory Api
  imports Commands Database
begin

section \<open>The HTTP API (\<^verbatim>\<open>api.py\<close>)\<close>

text \<open>
  The handlers of \<^verbatim>\<open>create_app\<close> as functions from their query to a value or an exception, over the
  artifact store, the PostgreSQL store when it could be opened, and the files of the reports and models.
  FastAPI is used as documented: a query outside the declared bounds answers 422, an
  \<^verbatim>\<open>HTTPException\<close> its status, the registered handler turns \<^verbatim>\<open>StorageError\<close> into 503, any other
  exception leaves the application as 500. Reading a file gives its text; encoding of the answers is
  not modelled.
\<close>

subsection \<open>Outcomes\<close>

datatype api_error = HTTP_Exception nat | Escaped py_error

type_synonym 'a handled = "api_error + 'a"

datatype 'a answer = Answer 'a | Status nat

definition storage_exception :: "'a handled \<Rightarrow> 'a answer" where
  "storage_exception h =
     (case h of
        Inr v \<Rightarrow> Answer v
      | Inl (HTTP_Exception status) \<Rightarrow> Status status
      | Inl (Escaped e) \<Rightarrow> if e = StorageError then Status 503 else Status 500)"

definition handled :: "'a result \<Rightarrow> 'a handled" where
  "handled r = (case r of Inl e \<Rightarrow> Inl (Escaped e) | Inr v \<Rightarrow> Inr v)"

fun bind_handled :: "'a handled \<Rightarrow> ('a \<Rightarrow> 'b handled) \<Rightarrow> 'b handled" where
  "bind_handled (Inl e) f = Inl e"
| "bind_handled (Inr x) f = f x"

text \<open>\<^verbatim>\<open>Query(default, ge=low, le=high)\<close>.\<close>

definition query :: "'v :: linorder \<Rightarrow> 'v \<Rightarrow> 'v \<Rightarrow> 'v handled" where
  "query low high v = (if low \<le> v \<and> v \<le> high then Inr v else Inl (HTTP_Exception 422))"

subsection \<open>The application\<close>

text \<open>What \<^verbatim>\<open>lifespan\<close> found: the result of \<open>open_store\<close>.\<close>

record app =
  ap_postgres :: "server option"
  ap_database_status :: string
  ap_tracing_mode :: pyval

definition lifespan :: "string + server \<Rightarrow> pyval \<Rightarrow> app" where
  "lifespan opened mode =
     (case opened of
        Inr server \<Rightarrow> \<lparr>ap_postgres = Some server, ap_database_status = ''connected'', ap_tracing_mode = mode\<rparr>
      | Inl reason \<Rightarrow> \<lparr>ap_postgres = None, ap_database_status = ''unavailable: '' @ reason, ap_tracing_mode = mode\<rparr>)"

definition health :: "app \<Rightarrow> bool \<Rightarrow> (string \<times> pyval) list" where
  "health app trained =
     [(''status'', PStr (if ap_database_status app = ''connected'' then ''ok'' else ''degraded'')), (''version'', PStr ''0.1.0''),
      (''database'', PStr (ap_database_status app)), (''tracing_mode'', ap_tracing_mode app),
      (''model'', PStr (if trained then ''trained'' else ''heuristic-fallback''))]"

subsection \<open>Runs\<close>

text \<open>Rows of the database, or documents of the artifact store.\<close>

datatype 'a served = From_Database 'a | From_Files "(string \<times> pyval) list"

definition runs ::
  "(string \<Rightarrow> pyval result) \<Rightarrow> app \<Rightarrow> database \<Rightarrow> ArtifactStore \<Rightarrow> int \<Rightarrow> run_summary served list handled" where
  "runs loads app db store limit =
     bind_handled (query 1 500 limit) (\<lambda>limit.
       case ap_postgres app of
         Some server \<Rightarrow> handled (bind_result (recent_runs server db limit) (\<lambda>rows. Inr (map From_Database rows)))
       | None \<Rightarrow> handled (bind_result (list_documents loads store ''runs'' limit) (\<lambda>ds. Inr (map From_Files ds))))"

definition run_endpoint ::
  "(string \<Rightarrow> pyval result) \<Rightarrow> app \<Rightarrow> database \<Rightarrow> ArtifactStore \<Rightarrow> string \<Rightarrow> run_view served handled" where
  "run_endpoint loads app db store run_id =
     bind_handled
       (case ap_postgres app of
          Some server \<Rightarrow> handled (bind_result (run_detail server db run_id) (\<lambda>v. Inr (map_option From_Database v)))
        | None \<Rightarrow> handled (bind_result (load loads store ''runs'' run_id) (\<lambda>d. Inr (map_option From_Files d))))
       (\<lambda>value. case value of None \<Rightarrow> Inl (HTTP_Exception 404) | Some v \<Rightarrow> Inr v)"

subsection \<open>Benchmarks and models\<close>

text \<open>A JSON object read from a file: text that is not JSON and JSON that is not an object answer 503.\<close>

definition read_object :: "(string \<Rightarrow> pyval result) \<Rightarrow> string \<Rightarrow> (string \<times> pyval) list handled" where
  "read_object loads content =
     (case loads content of
        Inl e \<Rightarrow> if e = ValueError then Inl (HTTP_Exception 503) else Inl (Escaped e)
      | Inr (PDict d) \<Rightarrow> Inr d
      | Inr _ \<Rightarrow> Inl (HTTP_Exception 503))"

text \<open>\<^verbatim>\<open>==\<close> on the scalars of JSON; a number equals a number of the same value.\<close>

definition number_of :: "pyval \<Rightarrow> real option" where
  "number_of v =
     (case v of PBool b \<Rightarrow> Some (if b then 1 else 0) | PInt n \<Rightarrow> Some (real_of_int n) | PFloat x \<Rightarrow> Some x | _ \<Rightarrow> None)"

definition scalar_equal :: "pyval \<Rightarrow> pyval \<Rightarrow> bool" where
  "scalar_equal a b =
     (case (number_of a, number_of b) of
        (Some x, Some y) \<Rightarrow> x = y
      | (None, None) \<Rightarrow> a \<noteq> PNaN \<and> a = b
      | _ \<Rightarrow> False)"

definition same_report :: "(string \<times> pyval) list \<Rightarrow> (string \<times> pyval) list \<Rightarrow> bool" where
  "same_report current item = scalar_equal (dict_get item ''created_at'' PNone) (dict_get current ''created_at'' PNone)"

text \<open>\<open>report\<close> is the text of \<^verbatim>\<open>benchmark/benchmark.json\<close>, if there is that file.\<close>

definition benchmarks ::
  "(string \<Rightarrow> pyval result) \<Rightarrow> ArtifactStore \<Rightarrow> string option \<Rightarrow> int \<Rightarrow> (string \<times> pyval) list list handled" where
  "benchmarks loads store report limit =
     bind_handled (query 1 100 limit) (\<lambda>limit.
     bind_handled (handled (list_documents loads store ''benchmarks'' limit)) (\<lambda>reports.
     bind_handled
       (case report of
          None \<Rightarrow> Inr reports
        | Some content \<Rightarrow> bind_handled (read_object loads content) (\<lambda>current.
            Inr (if list_ex (same_report current) reports then reports else current # reports)))
       (\<lambda>reports. Inr (take (nat limit) reports))))"

definition models :: "(string \<Rightarrow> pyval result) \<Rightarrow> string option \<Rightarrow> (string \<times> pyval) list list handled" where
  "models loads metadata =
     (case metadata of None \<Rightarrow> Inr [] | Some content \<Rightarrow> bind_handled (read_object loads content) (\<lambda>v. Inr [v]))"

subsection \<open>The graph\<close>

definition is_number :: "pyval \<Rightarrow> bool" where
  "is_number v = (case v of PBool _ \<Rightarrow> True | PInt _ \<Rightarrow> True | PFloat _ \<Rightarrow> True | PInf _ \<Rightarrow> True | PNaN \<Rightarrow> True | _ \<Rightarrow> False)"

definition at_least :: "pyval \<Rightarrow> real \<Rightarrow> bool" where
  "at_least v m = (case v of PInf positive \<Rightarrow> positive | _ \<Rightarrow> (case number_of v of Some x \<Rightarrow> m \<le> x | None \<Rightarrow> False))"

definition entries_of :: "pyval \<Rightarrow> (string \<times> pyval) list" where
  "entries_of v = (case v of PDict d \<Rightarrow> d | _ \<Rightarrow> [])"

definition is_dict :: "pyval \<Rightarrow> bool" where
  "is_dict v = (case v of PDict _ \<Rightarrow> True | _ \<Rightarrow> False)"

definition item_probability :: "pyval \<Rightarrow> pyval" where
  "item_probability item = dict_get (entries_of item) ''probability'' (PInt 0)"

definition empty_graph :: "(string \<times> pyval) list" where
  "empty_graph = [(''tests'', PList []), (''resources'', PList []), (''edges'', PList []), (''predictions'', PList []), (''empty'', PBool True)]"

definition graph_endpoint ::
  "(string \<Rightarrow> pyval result) \<Rightarrow> ArtifactStore \<Rightarrow> real \<Rightarrow> int \<Rightarrow> (string \<times> pyval) list handled" where
  "graph_endpoint loads store min_risk limit =
     bind_handled (query 0 1 min_risk) (\<lambda>min_risk.
     bind_handled (query 1 10000 limit) (\<lambda>limit.
     bind_handled (handled (load loads store ''graphs'' ''latest'')) (\<lambda>value.
       case value of
         None \<Rightarrow> Inr empty_graph
       | Some d \<Rightarrow>
           if d = [] then Inr empty_graph
           else case dict_get d ''predictions'' (PList []) of
                  PList raw \<Rightarrow>
                    if \<not> list_all is_dict raw then Inl (HTTP_Exception 503)
                    else if list_ex (\<lambda>item. \<not> is_number (item_probability item)) raw then Inl (HTTP_Exception 503)
                    else Inr (AList.update ''predictions''
                      (PList (take (nat limit) (filter (\<lambda>item. at_least (item_probability item) min_risk) raw))) d)
                | _ \<Rightarrow> Inl (HTTP_Exception 503))))"

subsection \<open>Request metrics\<close>

record api_metrics =
  am_requests :: "(string \<times> string \<times> nat, nat) dict"
  am_latency :: "(string \<times> string, nat) dict"

definition route_of :: "string \<Rightarrow> string" where
  "route_of path = (if startswith path ''/api/v1/runs/'' then ''/api/v1/runs/{id}'' else path)"

text \<open>The \<^verbatim>\<open>finally\<close> of the middleware; \<open>None\<close> for an exception that leaves the application.\<close>

definition metrics_middleware :: "string \<Rightarrow> string \<Rightarrow> nat option \<Rightarrow> api_metrics \<Rightarrow> api_metrics" where
  "metrics_middleware method path response m =
     (let route = route_of path; status = (case response of Some s \<Rightarrow> s | None \<Rightarrow> 500)
      in \<lparr>am_requests = AList.update (method, route, status) (dict_get (am_requests m) (method, route, status) 0 + 1) (am_requests m),
          am_latency = AList.update (method, route) (dict_get (am_latency m) (method, route) 0 + 1) (am_latency m)\<rparr>)"

end
