(* ===== verification/Database_Properties.thy ===== *)
theory Database_Properties
  imports Database
begin

section \<open>Properties of the PostgreSQL store\<close>

text \<open>
  The consistency of the tables under any sequence of calls, with the server reachable or not at each of
  them, and what a reader sees of a saved result after any later calls.
\<close>

subsection \<open>Calls\<close>

datatype db_request =
    Upsert_Tests "TestIdentity list"
  | Create_Run string string int int string string
  | Save_Schedule Schedule
  | Save_Result ExecutionResult
  | Save_Predictions string "PairPrediction list"
  | Finalize_Run string "real option" string

fun perform :: "server \<Rightarrow> int \<Rightarrow> db_request \<Rightarrow> database \<Rightarrow> database \<times> bool" where
  "perform server now (Upsert_Tests tests) = upsert_tests server now tests"
| "perform server now (Create_Run run scheduler workers seed revision mode) =
     create_run server now run scheduler workers seed revision mode"
| "perform server now (Save_Schedule schedule) = save_schedule server schedule"
| "perform server now (Save_Result r) = save_result server r"
| "perform server now (Save_Predictions run ps) = save_predictions server run ps"
| "perform server now (Finalize_Run run quality error) = finalize_run server now run quality error"

text \<open>A history gives for each call whether the server can be reached, its time, and the call.\<close>

definition perform_all :: "server \<Rightarrow> (bool \<times> int \<times> db_request) list \<Rightarrow> database \<Rightarrow> database" where
  "perform_all server history db = foldl (\<lambda>db (up, now, r). fst (perform (server\<lparr>sv_up := up\<rparr>) now r db)) db history"

text \<open>A property that every statement keeps is kept by every call and every history.\<close>

lemma execute_many_keeps:
  assumes "\<And>x db db'. P db \<Longrightarrow> statement x db = Some db' \<Longrightarrow> P db'"
  shows "P db \<Longrightarrow> execute_many statement xs db = Some db' \<Longrightarrow> P db'"
  by (induction xs arbitrary: db) (auto split: option.splits intro: assms)

lemma transact_keeps:
  assumes "\<And>db'. statements db = Some db' \<Longrightarrow> P db'"
  shows "P db \<Longrightarrow> P (fst (transact server statements db))"
  using assms by (auto simp: transact_def split: option.splits)

lemma sv_up_simps [simp]:
  "insert_run (server\<lparr>sv_up := up\<rparr>) = insert_run server" "insert_schedule (server\<lparr>sv_up := up\<rparr>) = insert_schedule server"
  "insert_execution (server\<lparr>sv_up := up\<rparr>) = insert_execution server"
  "insert_prediction (server\<lparr>sv_up := up\<rparr>) = insert_prediction server" "update_run (server\<lparr>sv_up := up\<rparr>) = update_run server"
  by (simp_all add: fun_eq_iff insert_run_def insert_schedule_def insert_execution_def insert_prediction_def update_run_def
      prediction_values_ok_def Let_def cong: option.case_cong if_cong)

text \<open>The statements of the store.\<close>

inductive statement :: "server \<Rightarrow> database \<Rightarrow> database \<Rightarrow> bool" for server where
  test: "insert_test now t db = Some db' \<Longrightarrow> statement server db db'"
| run: "insert_run server now k scheduler workers seed revision mode db = Some db' \<Longrightarrow> statement server db db'"
| schedule: "insert_schedule server s db = Some db' \<Longrightarrow> statement server db db'"
| execution: "insert_execution server r db = Some db' \<Longrightarrow> statement server db db'"
| prediction: "insert_prediction server k p db = Some db' \<Longrightarrow> statement server db db'"
| ended: "update_run server now k (if error \<noteq> [] then ''FAILED'' else ''COMPLETED'') quality error db = Some db' \<Longrightarrow>
    statement server db db'"

lemma perform_keeps:
  assumes "\<And>db db'. P db \<Longrightarrow> statement server db db' \<Longrightarrow> P db'" and "P db"
  shows "P (fst (perform (server\<lparr>sv_up := up\<rparr>) now r db))"
proof (cases r)
  case (Upsert_Tests tests)
  have "P db'" if "execute_many (insert_test now) tests db = Some db'" for db'
    by (rule execute_many_keeps [where P = P, OF _ assms(2) that]) (blast intro: assms(1) statement.test)
  then show ?thesis unfolding Upsert_Tests perform.simps upsert_tests_def by (rule transact_keeps [where P = P, OF _ assms(2)])
next
  case (Save_Predictions run ps)
  have "P db'" if "execute_many (insert_prediction server run) ps db = Some db'" for db'
    by (rule execute_many_keeps [where P = P, OF _ assms(2) that]) (blast intro: assms(1) statement.prediction)
  then show ?thesis unfolding Save_Predictions perform.simps save_predictions_def sv_up_simps by (rule transact_keeps [where P = P, OF _ assms(2)])
next
  case (Create_Run run scheduler workers seed revision mode)
  show ?thesis unfolding Create_Run perform.simps create_run_def sv_up_simps
    by (rule transact_keeps [where P = P, OF _ assms(2)]) (blast intro: assms statement.run)
next
  case (Save_Schedule schedule)
  show ?thesis unfolding Save_Schedule perform.simps save_schedule_def sv_up_simps
    by (rule transact_keeps [where P = P, OF _ assms(2)]) (blast intro: assms statement.schedule)
next
  case (Save_Result result)
  show ?thesis unfolding Save_Result perform.simps save_result_def sv_up_simps
    by (rule transact_keeps [where P = P, OF _ assms(2)]) (blast intro: assms statement.execution)
next
  case (Finalize_Run run quality error)
  show ?thesis unfolding Finalize_Run perform.simps finalize_run_def sv_up_simps
    by (rule transact_keeps [where P = P, OF _ assms(2)]) (blast intro: assms statement.ended)
qed

lemma perform_all_keeps:
  assumes "\<And>db db'. P db \<Longrightarrow> statement server db db' \<Longrightarrow> P db'"
  shows "P db \<Longrightarrow> P (perform_all server history db)"
  unfolding perform_all_def
  by (induction history arbitrary: db) (auto intro: perform_keeps [where P = P] assms)

subsection \<open>Consistency\<close>

text \<open>A run is RUNNING until it has ended, and FAILED exactly if an error was recorded.\<close>

definition run_row_ok :: "run_row \<Rightarrow> bool" where
  "run_row_ok row \<longleftrightarrow> 0 < rw_worker_count row \<and> rw_status row \<in> {''RUNNING'', ''COMPLETED'', ''FAILED''}
     \<and> (rw_status row = ''RUNNING'' \<longleftrightarrow> rw_ended_at row = None) \<and> (rw_status row = ''FAILED'' \<longleftrightarrow> rw_error row \<noteq> [])"

definition every :: "('k \<Rightarrow> 'v \<Rightarrow> bool) \<Rightarrow> ('k, 'v) dict \<Rightarrow> bool" where
  "every P d \<longleftrightarrow> (\<forall>k v. map_of d k = Some v \<longrightarrow> P k v)"

lemma every_update: "every P d \<Longrightarrow> P k v \<Longrightarrow> every P (AList.update k v d)"
  by (simp add: every_def)

lemma every_mono: "every P d \<Longrightarrow> (\<And>k v. P k v \<Longrightarrow> Q k v) \<Longrightarrow> every Q d"
  unfolding every_def by blast

lemma everyD: "every P d \<Longrightarrow> map_of d k = Some v \<Longrightarrow> P k v"
  unfolding every_def by blast

definition keys_distinct :: "database \<Rightarrow> bool" where
  "keys_distinct db \<longleftrightarrow> dict_wf (db_tests db) \<and> dict_wf (db_runs db) \<and> dict_wf (db_schedules db)
     \<and> dict_wf (db_executions db) \<and> dict_wf (db_predictions db)"

definition known :: "('k, 'v) dict \<Rightarrow> 'k set" where
  "known d = dom (map_of d)"

lemma known_update [simp]: "known (AList.update k v d) = insert k (known d)"
  by (auto simp: known_def)

lemma in_known: "k \<in> known d \<longleftrightarrow> map_of d k \<noteq> None"
  by (auto simp: known_def)

lemma known_iff: "map_of d k = None \<longleftrightarrow> k \<notin> known d"
  by (auto simp: known_def)

definition execution_row_ok :: "string set \<Rightarrow> string set \<Rightarrow> execution_row \<Rightarrow> bool" where
  "execution_row_ok runs tests e \<longleftrightarrow> ew_run_id e \<in> runs \<and> ew_test_id e \<in> tests \<and> 0 \<le> ew_duration_seconds e"

definition prediction_row_ok :: "server \<Rightarrow> string set \<Rightarrow> string set \<Rightarrow> string \<times> string \<times> string \<Rightarrow> prediction_row \<Rightarrow> bool" where
  "prediction_row_ok server runs tests k p \<longleftrightarrow> (case k of (run, a, b) \<Rightarrow>
     run \<in> runs \<and> a \<in> tests \<and> b \<in> tests \<and> sv_less server a b \<and> 0 \<le> pw_probability p \<and> pw_probability p \<le> 1)"

definition schedules_ok :: "string set \<Rightarrow> (string, schedule_row) dict \<Rightarrow> bool" where
  "schedules_ok runs d \<longleftrightarrow> (\<forall>s\<in>snd ` set d. hw_run_id s \<in> runs) \<and> distinct (map (hw_run_id \<circ> snd) d)"

definition db_ok :: "server \<Rightarrow> database \<Rightarrow> bool" where
  "db_ok server db \<longleftrightarrow> keys_distinct db
     \<and> every (\<lambda>_. run_row_ok) (db_runs db)
     \<and> every (\<lambda>_. execution_row_ok (known (db_runs db)) (known (db_tests db))) (db_executions db)
     \<and> every (prediction_row_ok server (known (db_runs db)) (known (db_tests db))) (db_predictions db)
     \<and> schedules_ok (known (db_runs db)) (db_schedules db)"

lemma execution_row_ok_mono:
  "execution_row_ok runs tests e \<Longrightarrow> runs \<subseteq> runs' \<Longrightarrow> tests \<subseteq> tests' \<Longrightarrow> execution_row_ok runs' tests' e"
  by (auto simp: execution_row_ok_def)

lemma prediction_row_ok_mono:
  "prediction_row_ok server runs tests k e \<Longrightarrow> runs \<subseteq> runs' \<Longrightarrow> tests \<subseteq> tests' \<Longrightarrow> prediction_row_ok server runs' tests' k e"
  by (auto simp: prediction_row_ok_def)

text \<open>Updating one table.\<close>

lemma db_ok_tests:
  assumes "db_ok server db"
  shows "db_ok server (db\<lparr>db_tests := AList.update k row (db_tests db)\<rparr>)"
proof -
  have "every (\<lambda>_. execution_row_ok (known (db_runs db)) (insert k (known (db_tests db)))) (db_executions db)"
    using assms unfolding db_ok_def by (elim conjE every_mono execution_row_ok_mono) blast+
  moreover have "every (prediction_row_ok server (known (db_runs db)) (insert k (known (db_tests db)))) (db_predictions db)"
    using assms unfolding db_ok_def by (elim conjE every_mono prediction_row_ok_mono) blast+
  ultimately show ?thesis using assms by (simp add: db_ok_def keys_distinct_def)
qed

lemma db_ok_runs:
  assumes "db_ok server db" "run_row_ok row"
  shows "db_ok server (db\<lparr>db_runs := AList.update k row (db_runs db)\<rparr>)"
proof -
  have "every (\<lambda>_. execution_row_ok (insert k (known (db_runs db))) (known (db_tests db))) (db_executions db)"
    using assms(1) unfolding db_ok_def by (elim conjE every_mono execution_row_ok_mono) blast+
  moreover have "every (prediction_row_ok server (insert k (known (db_runs db))) (known (db_tests db))) (db_predictions db)"
    using assms(1) unfolding db_ok_def by (elim conjE every_mono prediction_row_ok_mono) blast+
  moreover have "schedules_ok (insert k (known (db_runs db))) (db_schedules db)"
    using assms(1) by (auto simp: db_ok_def schedules_ok_def)
  ultimately show ?thesis using assms by (simp add: db_ok_def keys_distinct_def every_update)
qed

lemma db_ok_executions:
  "db_ok server db \<Longrightarrow> execution_row_ok (known (db_runs db)) (known (db_tests db)) row \<Longrightarrow>
   db_ok server (db\<lparr>db_executions := AList.update k row (db_executions db)\<rparr>)"
  by (simp add: db_ok_def keys_distinct_def every_update)

lemma db_ok_predictions:
  "db_ok server db \<Longrightarrow> prediction_row_ok server (known (db_runs db)) (known (db_tests db)) k row \<Longrightarrow>
   db_ok server (db\<lparr>db_predictions := AList.update k row (db_predictions db)\<rparr>)"
  by (simp add: db_ok_def keys_distinct_def every_update)

lemma update_fresh: "k \<notin> known d \<Longrightarrow> AList.update k v d = d @ [(k, v)]"
  by (induction d) (auto simp: known_def)

lemma db_ok_schedules:
  assumes "db_ok server db" "k \<notin> known (db_schedules db)" "hw_run_id row \<in> known (db_runs db)"
    "hw_run_id row \<notin> (hw_run_id \<circ> snd) ` set (db_schedules db)"
  shows "db_ok server (db\<lparr>db_schedules := AList.update k row (db_schedules db)\<rparr>)"
proof -
  have "schedules_ok (known (db_runs db)) (AList.update k row (db_schedules db))"
    using assms unfolding db_ok_def schedules_ok_def update_fresh [OF assms(2)] by auto
  then show ?thesis using assms(1) by (simp add: db_ok_def keys_distinct_def)
qed

lemma if_None_eq: "(if c then None else x) = Some y \<longleftrightarrow> \<not> c \<and> x = Some y"
  by simp

lemma case_None_eq: "(case m of None \<Rightarrow> None | Some x \<Rightarrow> f x) = Some y \<longleftrightarrow> (\<exists>x. m = Some x \<and> f x = Some y)"
  by (cases m) simp_all

lemmas statement_simps = if_None_eq case_None_eq prod.case known_iff Let_def de_Morgan_disj not_not option.inject

lemma insert_test_cases:
  assumes "insert_test now t db = Some db'"
  obtains row where "db' = db\<lparr>db_tests := AList.update (ti_id t) row (db_tests db)\<rparr>"
  using assms by (auto simp: insert_test_def Let_def split: if_splits)

lemma insert_run_cases:
  assumes "insert_run server now run scheduler workers seed revision mode db = Some db'"
  obtains k where "sv_uuid server run = Some k" and "0 < workers" and "k \<notin> known (db_runs db)"
    and "db' = db\<lparr>db_runs := AList.update k (new_run_row now scheduler workers seed revision mode) (db_runs db)\<rparr>"
  using assms unfolding insert_run_def statement_simps by blast

lemma insert_schedule_cases:
  assumes "insert_schedule server s db = Some db'"
  obtains k run where "k \<notin> known (db_schedules db)" and "run \<in> known (db_runs db)"
    and "run \<notin> (hw_run_id \<circ> snd) ` set (db_schedules db)"
    and "db' = db\<lparr>db_schedules := AList.update k (schedule_row_of run s) (db_schedules db)\<rparr>"
proof (cases "sv_uuid server (sd_id s)"; cases "sv_uuid server (sd_run_id s)")
  fix k run assume "sv_uuid server (sd_id s) = Some k" "sv_uuid server (sd_run_id s) = Some run"
  then show thesis using assms that [of k run] by (simp add: insert_schedule_def known_iff split: if_splits)
qed (use assms in \<open>simp_all add: insert_schedule_def\<close>)

lemma insert_execution_cases:
  assumes "insert_execution server r db = Some db'"
  obtains k run where "sv_uuid server (xr_execution_id r) = Some k" and "k \<in> known (db_executions db)" and "db' = db"
    | k run where "sv_uuid server (xr_execution_id r) = Some k" and "sv_uuid server (xr_run_id r) = Some run"
      and "execution_values_ok r" and "k \<notin> known (db_executions db)" and "run \<in> known (db_runs db)"
      and "xr_test_id r \<in> known (db_tests db)"
      and "db' = db\<lparr>db_executions := AList.update k (execution_row_of run r) (db_executions db)\<rparr>"
proof (cases "sv_uuid server (xr_execution_id r)"; cases "sv_uuid server (xr_run_id r)")
  fix k run assume "sv_uuid server (xr_execution_id r) = Some k" "sv_uuid server (xr_run_id r) = Some run"
  then show thesis using assms that(1) [of k] that(2) [of k run]
    by (simp add: insert_execution_def known_iff split: if_splits)
qed (use assms in \<open>simp_all add: insert_execution_def\<close>)

lemma insert_prediction_cases:
  assumes "insert_prediction server k p db = Some db'"
  obtains run old where "prediction_values_ok server p" and "map_of (db_predictions db) (run, pp_test_a p, pp_test_b p) = Some old"
      and "db' = db\<lparr>db_predictions := AList.update (run, pp_test_a p, pp_test_b p) (updated_prediction old p) (db_predictions db)\<rparr>"
    | run where "prediction_values_ok server p" and "run \<in> known (db_runs db)" and "pp_test_a p \<in> known (db_tests db)"
      and "pp_test_b p \<in> known (db_tests db)"
      and "db' = db\<lparr>db_predictions := AList.update (run, pp_test_a p, pp_test_b p) (prediction_row_of p) (db_predictions db)\<rparr>"
proof (cases "sv_uuid server k")
  case (Some run)
  show thesis
  proof (cases "map_of (db_predictions db) (run, pp_test_a p, pp_test_b p)")
    case None
    then show thesis using assms that(2) [of run] unfolding in_known
      by (simp add: insert_prediction_def Some Let_def split: if_splits)
  next
    case (Some old)
    then show thesis using assms that(1) [of run old] \<open>sv_uuid server k = Some run\<close>
      by (simp add: insert_prediction_def Let_def split: if_splits)
  qed
qed (use assms in \<open>simp add: insert_prediction_def\<close>)

lemma update_run_cases:
  assumes "update_run server now k status quality error db = Some db'"
  obtains "db' = db"
    | u row where "map_of (db_runs db) u = Some row"
      and "db' = db\<lparr>db_runs := AList.update u (ended_run now status quality error row) (db_runs db)\<rparr>"
proof (cases "sv_uuid server k")
  case (Some u)
  show thesis
  proof (cases "map_of (db_runs db) u")
    case None
    then show thesis using assms that(1) Some by (simp add: update_run_def split: if_splits)
  next
    case (Some row)
    then show thesis using assms that(2) [of u row] \<open>sv_uuid server k = Some u\<close> by (simp add: update_run_def split: if_splits)
  qed
qed (use assms in \<open>simp add: update_run_def\<close>)

lemma db_okD:
  assumes "db_ok server db"
  shows "every (\<lambda>_. run_row_ok) (db_runs db)"
    "every (\<lambda>_. execution_row_ok (known (db_runs db)) (known (db_tests db))) (db_executions db)"
    "every (prediction_row_ok server (known (db_runs db)) (known (db_tests db))) (db_predictions db)"
    "schedules_ok (known (db_runs db)) (db_schedules db)" "keys_distinct db"
  using assms by (simp_all add: db_ok_def)

lemma statement_ok:
  assumes ok: "db_ok server db" and "statement server db db'"
  shows "db_ok server db'"
  using assms(2)
proof cases
  case test
  then show ?thesis by (rule insert_test_cases) (simp add: db_ok_tests [OF ok])
next
  case run
  then show ?thesis by (rule insert_run_cases) (simp add: db_ok_runs [OF ok] run_row_ok_def new_run_row_def)
next
  case schedule
  then show ?thesis by (rule insert_schedule_cases) (simp add: db_ok_schedules [OF ok] schedule_row_of_def)
next
  case (execution r)
  then show ?thesis
    by (rule insert_execution_cases)
      (simp_all add: ok db_ok_executions [OF ok] execution_row_ok_def execution_row_of_def execution_values_ok_def)
next
  case (prediction k p)
  then show ?thesis
  proof (cases rule: insert_prediction_cases)
    case (1 run old)
    have "prediction_row_ok server (known (db_runs db)) (known (db_tests db)) (run, pp_test_a p, pp_test_b p) (updated_prediction old p)"
      using everyD [OF db_okD(3) [OF ok] 1(2)] 1(1) by (simp add: prediction_row_ok_def updated_prediction_def prediction_values_ok_def)
    then show ?thesis unfolding 1(3) by (rule db_ok_predictions [OF ok])
  next
    case (2 run)
    then show ?thesis by (simp add: db_ok_predictions [OF ok] prediction_row_ok_def prediction_row_of_def prediction_values_ok_def)
  qed
next
  case (ended now k error quality)
  then show ?thesis
  proof (cases rule: update_run_cases)
    case (2 u row)
    have "0 < rw_worker_count row" using everyD [OF db_okD(1) [OF ok] 2(1)] by (simp add: run_row_ok_def)
    then show ?thesis unfolding 2(2) by (intro db_ok_runs [OF ok]) (simp add: run_row_ok_def ended_run_def)
  qed (simp add: ok)
qed

lemma database_empty_ok: "db_ok server database_empty"
  by (simp add: db_ok_def database_empty_def keys_distinct_def every_def schedules_ok_def)

lemma history_ok: "db_ok server (perform_all server history database_empty)"
  by (rule perform_all_keeps [where P = "db_ok server"]) (auto intro: statement_ok database_empty_ok)

subsection \<open>What stays\<close>

text \<open>Rows of executions are never changed or removed; runs and tests are never removed.\<close>

definition keeps_execution :: "string \<Rightarrow> execution_row \<Rightarrow> database \<Rightarrow> bool" where
  "keeps_execution k e db \<longleftrightarrow> map_of (db_executions db) k = Some e"

lemma statement_keeps_execution:
  assumes "statement server db db'" "keeps_execution k e db"
  shows "keeps_execution k e db'"
  using assms(1)
proof cases
  case test
  then show ?thesis by (rule insert_test_cases) (use assms(2) in \<open>simp add: keeps_execution_def\<close>)
next
  case run
  then show ?thesis by (rule insert_run_cases) (use assms(2) in \<open>simp add: keeps_execution_def\<close>)
next
  case schedule
  then show ?thesis by (rule insert_schedule_cases) (use assms(2) in \<open>simp add: keeps_execution_def\<close>)
next
  case execution
  then show ?thesis by (rule insert_execution_cases) (use assms(2) in \<open>auto simp: keeps_execution_def in_known\<close>)
next
  case prediction
  then show ?thesis by (rule insert_prediction_cases) (use assms(2) in \<open>simp_all add: keeps_execution_def\<close>)
next
  case ended
  then show ?thesis by (rule update_run_cases) (use assms(2) in \<open>simp_all add: keeps_execution_def\<close>)
qed

lemma history_keeps_execution: "keeps_execution k e db \<Longrightarrow> keeps_execution k e (perform_all server history db)"
  by (rule perform_all_keeps [where P = "keeps_execution k e"]) (auto intro: statement_keeps_execution)

lemma perform_all_append: "perform_all server (history @ later) db = perform_all server later (perform_all server history db)"
  by (simp add: perform_all_def)

lemma perform_all_Cons:
  "perform_all server ((up, now, r) # later) db = perform_all server later (fst (perform (server\<lparr>sv_up := up\<rparr>) now r db))"
  by (simp add: perform_all_def)

lemma filter_key: "dict_wf d \<Longrightarrow> map_of d k = Some v \<Longrightarrow> filter (\<lambda>(k', _). k' = k) d = [(k, v)]"
proof (induction d)
  case (Cons x d)
  have "filter (\<lambda>(k', _). k' = k) d = []" if "k \<notin> fst ` set d" using that by (force simp: filter_empty_conv)
  then show ?case using Cons by (cases x) auto
qed simp

lemma saved_execution:
  assumes "save_result server r db = (db', True)" "sv_uuid server (xr_execution_id r) = Some k"
  shows "\<exists>e. map_of (db_executions db') k = Some e \<and> (map_of (db_executions db) k = None \<longrightarrow>
    (\<exists>run. sv_uuid server (xr_run_id r) = Some run \<and> e = execution_row_of run r))"
proof -
  have "insert_execution server r db = Some db'" using assms(1) by (auto simp: save_result_def transact_def split: if_splits option.splits)
  then show ?thesis by (rule insert_execution_cases) (use assms(2) in \<open>auto simp: in_known\<close>)
qed

lemma saved_again:
  assumes "save_result server r db = (db', True)" "sv_uuid server (xr_execution_id r) = Some k" "map_of (db_executions later) k \<noteq> None"
  shows "save_result (server\<lparr>sv_up := True\<rparr>) r later = (later, True)"
proof -
  have "insert_execution server r db = Some db'" using assms(1) by (auto simp: save_result_def transact_def split: if_splits option.splits)
  then have "execution_values_ok r" "\<exists>run. sv_uuid server (xr_run_id r) = Some run"
    by (auto simp: insert_execution_def split: option.splits if_splits)
  then have "insert_execution server r later = Some later" using assms(2,3) by (auto simp: insert_execution_def)
  then show ?thesis by (simp add: save_result_def transact_def)
qed

subsection \<open>Properties\<close>

text \<open>C36: invariant. After any calls of the store, with any values and with the server reachable or not at each of them,
  the tables are consistent: keys are unique, every execution, prediction and schedule belongs to a known run and
  known tests, a run has one schedule, a run is RUNNING exactly while it has not ended and FAILED exactly
  if it has an error, probabilities lie in the unit interval and durations are not negative. A call that
  raises changes nothing.\<close>

theorem database_stays_consistent:
  "db_ok server (perform_all server history database_empty)
   \<and> (snd (perform server now r db) \<or> fst (perform server now r db) = db)"
proof
  have "snd (transact server statements db) \<or> fst (transact server statements db) = db" for statements
    by (simp add: transact_def split: option.splits)
  then show "snd (perform server now r db) \<or> fst (perform server now r db) = db"
    by (cases r) (simp_all add: upsert_tests_def create_run_def save_schedule_def save_result_def save_predictions_def finalize_run_def)
qed (rule history_ok)

text \<open>C37: durability and idempotence. A result that was saved under a new id is, after any later calls, listed exactly once and
  unchanged in the detail of its run, among that run's executions in the order of their start; saving it again changes
  nothing; and the counts shown for the run agree with the listed executions.\<close>

theorem saved_result_is_durable:
  assumes before: "db = perform_all server history database_empty" and save: "save_result server r db = (db', True)"
    and k: "sv_uuid server (xr_execution_id r) = Some k" and fresh: "map_of (db_executions db) k = None"
  shows "\<exists>run v. sv_uuid server (xr_run_id r) = Some run
    \<and> run_detail (server\<lparr>sv_up := True\<rparr>) (perform_all server later db') (xr_run_id r) = Inr (Some v)
    \<and> filter (\<lambda>(k', _). k' = k) (rv_executions v) = [(k, execution_row_of run r)]
    \<and> sorted (map (\<lambda>(_, e). ew_started_at e) (rv_executions v))
    \<and> save_result (server\<lparr>sv_up := True\<rparr>) r (perform_all server later db') = (perform_all server later db', True)
    \<and> su_tests (summary_of (perform_all server later db') (run, rv_run v)) = length (rv_executions v)
    \<and> su_passed (summary_of (perform_all server later db') (run, rv_run v))
      + su_failed (summary_of (perform_all server later db') (run, rv_run v)) = length (rv_executions v)"
proof -
  let ?db = "perform_all server later db'"
  obtain run where run: "sv_uuid server (xr_run_id r) = Some run" and new: "map_of (db_executions db') k = Some (execution_row_of run r)"
    using saved_execution [OF save k] fresh by auto
  have row: "map_of (db_executions ?db) k = Some (execution_row_of run r)"
    using history_keeps_execution [of k _ db' server later] new by (simp add: keeps_execution_def)
  have "?db = perform_all server (history @ (sv_up server, 0, Save_Result r) # later) database_empty"
    using save by (simp add: perform_all_append perform_all_Cons before)
  then have ok: "db_ok server ?db" using history_ok by simp
  have "run \<in> known (db_runs ?db)"
    using everyD [OF db_okD(2) [OF ok] row] by (simp add: execution_row_ok_def execution_row_of_def)
  then obtain rrow where rrow: "map_of (db_runs ?db) run = Some rrow" by (auto simp: known_def)
  have wf: "dict_wf (db_executions ?db)" using db_okD(5) [OF ok] by (simp add: keys_distinct_def)
  let ?v = "\<lparr>rv_id = run, rv_run = rrow,
    rv_executions = sort_key (\<lambda>(_, e). ew_started_at e) (filter (\<lambda>(_, e). ew_run_id e = run) (db_executions ?db)),
    rv_predictions = take 5000 (sort_key (\<lambda>(_, p). - pw_probability p) (filter (\<lambda>((u, _, _), _). u = run) (db_predictions ?db)))\<rparr>"
  have v: "run_detail (server\<lparr>sv_up := True\<rparr>) ?db (xr_run_id r) = Inr (Some ?v)" by (simp add: run_detail_def run rrow)
  have once: "filter (\<lambda>(k', _). k' = k) (rv_executions ?v) = [(k, execution_row_of run r)]"
  proof -
    have "filter (\<lambda>(k', _). k' = k) (filter (\<lambda>(_, e). ew_run_id e = run) (db_executions ?db))
        = filter (\<lambda>(_, e). ew_run_id e = run) (filter (\<lambda>(k', _). k' = k) (db_executions ?db))"
      by (simp add: split_beta conj_commute)
    then show ?thesis by (simp add: filter_sort filter_key [OF wf row] execution_row_of_def)
  qed
  have sorted: "sorted (map (\<lambda>(_, e). ew_started_at e) (rv_executions ?v))"
    by simp
  have counts: "su_tests (summary_of ?db (run, rrow)) = length (rv_executions ?v)"
      "su_passed (summary_of ?db (run, rrow)) + su_failed (summary_of ?db (run, rrow)) = length (rv_executions ?v)"
    by (simp_all add: summary_of_def Let_def sum_length_filter_compl filter_map comp_def case_prod_beta' del: filter_filter)
  show ?thesis
    using run v once sorted saved_again [OF save k, of ?db] row counts
    by (intro exI [of _ run] exI [of _ ?v] conjI) simp_all
qed

subsection \<open>A run of one test\<close>

definition demo_server :: server where
  "demo_server = \<lparr>sv_up = True, sv_uuid = (\<lambda>s. if s = ''nobody'' then None else Some s), sv_less = (<)\<rparr>"

definition demo_saved :: ExecutionResult where
  "demo_saved = \<lparr>xr_execution_id = ''e'', xr_run_id = ''r'', xr_test_id = ''t'', xr_node_id = ''n'', xr_worker = 0,
     xr_status = XS_PASSED, xr_started_at = 0, xr_ended_at = 1, xr_duration_seconds = 1, xr_exit_code = 0, xr_stdout = [],
     xr_stderr = [], xr_failure_message = [], xr_timed_out = False\<rparr>"

definition demo_history :: "(bool \<times> int \<times> db_request) list" where
  "demo_history = [(True, 0, Upsert_Tests [TestIdentity_init ''t'' ''n'']), (False, 0, Create_Run ''x'' ''p'' 1 0 ''v'' ''m''),
     (True, 1, Create_Run ''r'' ''BALANCED'' 2 42 ''unknown'' ''disabled'')]"

lemma demo_saves:
  "save_result demo_server demo_saved (perform_all demo_server demo_history database_empty)
     = (fst (save_result demo_server demo_saved (perform_all demo_server demo_history database_empty)), True)"
  "map_of (db_executions (perform_all demo_server demo_history database_empty)) ''e'' = None"
  by code_simp+

theorem saved_result_is_durable_witness:
  "\<exists>v. run_detail (demo_server\<lparr>sv_up := True\<rparr>) (perform_all demo_server [(True, 9, Finalize_Run ''r'' None [])]
       (fst (save_result demo_server demo_saved (perform_all demo_server demo_history database_empty)))) ''r'' = Inr (Some v)
    \<and> filter (\<lambda>(k', _). k' = ''e'') (rv_executions v) = [(''e'', execution_row_of ''r'' demo_saved)]"
  using saved_result_is_durable [OF refl demo_saves(1) _ demo_saves(2), of "[(True, 9, Finalize_Run ''r'' None [])]"]
  by (auto simp: demo_server_def demo_saved_def)

subsection \<open>Corner cases\<close>

text \<open>A test that prints a NUL character: its result cannot be saved.\<close>

lemma result_with_nul_is_lost:
  "CHR 0x00 \<in> set (xr_stdout r) \<Longrightarrow> save_result server r db = (db, False)"
  by (auto simp: save_result_def transact_def insert_execution_def execution_values_ok_def text_ok_def split: option.splits)

text \<open>Predicting a pair of a run again: the new explanation next to the old resources.\<close>

lemma repeated_prediction_keeps_resources:
  assumes "map_of (db_predictions db) (run, pp_test_a p, pp_test_b p) = Some old" "sv_uuid server run_id = Some run"
    and "save_predictions server run_id [p] db = (db', True)"
  shows "map_of (db_predictions db') (run, pp_test_a p, pp_test_b p)
    = Some (old\<lparr>pw_probability := pp_probability p, pw_cause := pp_cause p, pw_model_version := pp_model_version p,
        pw_explanation := pp_explanation p\<rparr>)"
proof -
  have "insert_prediction server run_id p db = Some db'"
    using assms(3) by (simp add: save_predictions_def transact_def split: if_splits option.splits)
  then show ?thesis using assms(1,2) by (auto simp: insert_prediction_def Let_def updated_prediction_def split: if_splits)
qed

text \<open>Asking for a run by text that is not a uuid is an error of the storage, not an unknown run.\<close>

lemma malformed_run_id: "sv_uuid server run_id = None \<Longrightarrow> run_detail server db run_id = Inl StorageError"
  by (simp add: run_detail_def)

end
