(* ===== verification/Api_Properties.thy ===== *)
theory Api_Properties
  imports Api Commands_Run Database_Properties
begin

section \<open>Properties of the HTTP API\<close>

text \<open>
  What the handlers answer: the contract both stores of runs give the API, as a locale with an
  interpretation for each store; the graph a replay wrote, filtered; the counters of the middleware.
\<close>

subsection \<open>The stores of runs\<close>

text \<open>A store of runs, in the states that are \<open>ready\<close>, raises nothing but \<open>StorageError\<close> and never lists more than it is
  asked for.\<close>

locale run_reader =
  fixes ready :: "'s \<Rightarrow> bool" and recent :: "'s \<Rightarrow> int \<Rightarrow> 'r list result" and detail :: "'s \<Rightarrow> string \<Rightarrow> 'v option result"
  assumes recent_raises: "ready s \<Longrightarrow> recent s limit = Inl e \<Longrightarrow> e = StorageError"
    and detail_raises: "ready s \<Longrightarrow> detail s k = Inl e \<Longrightarrow> e = StorageError"
    and recent_bounded: "ready s \<Longrightarrow> 1 \<le> limit \<Longrightarrow> limit \<le> 500 \<Longrightarrow> recent s limit = Inr rows \<Longrightarrow> length rows \<le> nat limit"
begin

lemma listing_answer:
  assumes "ready s" "1 \<le> limit" "limit \<le> 500"
  shows "case storage_exception (handled (bind_result (recent s limit) (\<lambda>rows. Inr (map f rows)))) of
      Answer rows \<Rightarrow> length rows \<le> nat limit | Status status \<Rightarrow> status = 503"
  using recent_raises [OF assms(1)] recent_bounded [OF assms]
  by (cases "recent s limit") (auto simp: handled_def storage_exception_def)

lemma detail_answer:
  assumes "ready s"
  shows "storage_exception (bind_handled (handled (bind_result (detail s k) (\<lambda>v. Inr (map_option f v))))
      (\<lambda>value. case value of None \<Rightarrow> Inl (HTTP_Exception 404) | Some v \<Rightarrow> Inr v))
    = (case detail s k of Inl _ \<Rightarrow> Status 503 | Inr None \<Rightarrow> Status 404 | Inr (Some v) \<Rightarrow> Answer (f v))"
  using detail_raises [OF assms] by (auto simp: handled_def storage_exception_def split: sum.split option.split)

end

text \<open>JSON text raises only \<^verbatim>\<open>JSONDecodeError\<close>.\<close>

definition json_reader :: "(string \<Rightarrow> pyval result) \<Rightarrow> bool" where
  "json_reader loads \<longleftrightarrow> (\<forall>content e. loads content = Inl e \<longrightarrow> e = ValueError)"

lemma read_document_raises: "json_reader loads \<Longrightarrow> read_document loads content = Inl e \<Longrightarrow> e = StorageError"
  by (auto simp: json_reader_def read_document_def split: sum.splits pyval.splits)

lemma safe_segment_raises: "safe_segment v = Inl e \<Longrightarrow> e = StorageError"
  by (auto simp: safe_segment_def Let_def split: if_splits)

lemma map_result_raises: "map_result f xs = Inl e \<Longrightarrow> \<exists>x\<in>set xs. f x = Inl e"
  by (induction xs) (auto simp: bind_result_eq_Inl)

lemma load_raises: "json_reader loads \<Longrightarrow> load loads store category k = Inl e \<Longrightarrow> e = StorageError"
  by (auto simp: load_def bind_result_eq_Inl dest: safe_segment_raises read_document_raises split: option.splits)

lemma read_documents_raise:
  assumes "json_reader loads" "map_result (\<lambda>(_, content, _). read_document loads content) paths = Inl e"
  shows "e = StorageError"
  using map_result_raises [OF assms(2)] read_document_raises [OF assms(1)] by fastforce

lemma list_documents_raises:
  assumes "json_reader loads" "list_documents loads store category limit = Inl e"
  shows "e = StorageError"
  using assms(2) unfolding list_documents_def bind_result_eq_Inl Let_def
  by (auto dest: safe_segment_raises read_documents_raise [OF assms(1)] split: if_splits)

lemma list_documents_bounded:
  assumes "1 \<le> limit" "list_documents loads store category limit = Inr docs"
  shows "length docs \<le> nat limit"
proof -
  have "length docs \<le> nat (min limit 500)"
    using assms unfolding list_documents_def Let_def by (auto dest!: map_result_InrD list_all2_lengthD split: if_splits)
  then show ?thesis by linarith
qed

interpretation database_runs: run_reader "\<lambda>_. True" "\<lambda>(server, db). recent_runs server db" "\<lambda>(server, db). run_detail server db"
proof
  fix s :: "server \<times> database" and limit :: int and rows
  assume "1 \<le> limit" "limit \<le> 500" "(case s of (server, db) \<Rightarrow> recent_runs server db) limit = Inr rows"
  then show "length rows \<le> nat limit" by (auto simp: recent_runs_def split: prod.splits if_splits)
qed (auto simp: recent_runs_def run_detail_def split: prod.splits if_splits option.splits)

interpretation file_runs: run_reader "\<lambda>(loads, store). json_reader loads"
  "\<lambda>(loads, store). list_documents loads store ''runs''" "\<lambda>(loads, store). load loads store ''runs''"
proof
  fix s :: "(string \<Rightarrow> pyval result) \<times> ArtifactStore" and limit :: int and rows
  assume "1 \<le> limit" "(case s of (loads, store) \<Rightarrow> list_documents loads store ''runs'') limit = Inr rows"
  then show "length rows \<le> nat limit" by (auto intro: list_documents_bounded split: prod.splits)
qed (auto intro: list_documents_raises load_raises split: prod.splits)

subsection \<open>The served graph\<close>

lemma replayed_item:
  "is_dict (json_sort (prediction_dict isoformat p))"
  "item_probability (json_sort (prediction_dict isoformat p)) = PFloat (pp_probability p)"
proof -
  obtain kvs where kvs: "prediction_dict isoformat p = PDict kvs" "distinct (map fst kvs)"
      "map_of kvs ''probability'' = Some (PFloat (pp_probability p))"
    by (simp add: prediction_dict_def del: json_sort.simps)
  obtain d where "json_sort (PDict kvs) = PDict d" "map_of d = map_option json_sort \<circ> map_of kvs"
    by (rule json_sort_dict_lookup [OF kvs(2)])
  then show "is_dict (json_sort (prediction_dict isoformat p))"
      "item_probability (json_sort (prediction_dict isoformat p)) = PFloat (pp_probability p)"
    using kvs by (simp_all add: is_dict_def item_probability_def entries_of_def dict_get_def)
qed

lemma served_items:
  fixes ps :: "PairPrediction list" and isoformat :: "int \<Rightarrow> string"
  defines "raw \<equiv> map (\<lambda>p. json_sort (prediction_dict isoformat p)) ps"
  shows "list_all is_dict raw" "\<not> list_ex (\<lambda>item. \<not> is_number (item_probability item)) raw"
    "filter (\<lambda>item. at_least (item_probability item) m) raw
      = map (\<lambda>p. json_sort (prediction_dict isoformat p)) (filter (\<lambda>p. m \<le> pp_probability p) ps)"
  by (simp_all add: raw_def list_all_iff list_ex_iff replayed_item is_number_def filter_map comp_def at_least_def number_of_def)

lemma graph_endpoint_serves:
  assumes "load loads store ''graphs'' ''latest'' = Inr (Some d)"
    and "dict_get d ''predictions'' (PList []) = PList (map (\<lambda>p. json_sort (prediction_dict isoformat p)) ps)" and "d \<noteq> []"
    and "0 \<le> m" "m \<le> 1" "1 \<le> limit" "limit \<le> 10000"
  shows "graph_endpoint loads store m limit = Inr (AList.update ''predictions''
    (PList (map (\<lambda>p. json_sort (prediction_dict isoformat p)) (take (nat limit) (filter (\<lambda>p. m \<le> pp_probability p) ps)))) d)"
  using assms by (simp add: graph_endpoint_def query_def handled_def served_items take_map)

subsection \<open>Counting requests\<close>

definition metrics_empty :: api_metrics where
  "metrics_empty = \<lparr>am_requests = [], am_latency = []\<rparr>"

definition serve_all :: "(string \<times> string \<times> nat option) list \<Rightarrow> api_metrics" where
  "serve_all requests = foldl (\<lambda>m (method, path, response). metrics_middleware method path response m) metrics_empty requests"

definition counted :: "string \<times> string \<times> nat option \<Rightarrow> string \<times> string \<times> nat" where
  "counted = (\<lambda>(method, path, response). (method, route_of path, case response of Some status \<Rightarrow> status | None \<Rightarrow> 500))"

text \<open>Each counter is the number of its requests, those that raised counted as 500.\<close>

lemma requests_counted:
  "dict_get (am_requests (serve_all requests)) key 0 = length (filter (\<lambda>r. counted r = key) requests)"
proof (induction requests rule: rev_induct)
  case (snoc r requests)
  then show ?case
    by (cases r) (auto simp: serve_all_def metrics_middleware_def counted_def Let_def dict_get_def)
qed (simp add: serve_all_def metrics_empty_def dict_get_def)

subsection \<open>Properties\<close>

text \<open>C38: roundtrip across components. The graph a replay wrote is served by \<^verbatim>\<open>GET /api/v1/graph\<close>: for every
  valid threshold and limit the answer is the document of the replay, its predictions being, in order, the first ones
  that reach the threshold, whichever predictor made them.\<close>

theorem replayed_graph_is_served:
  assumes replay: "trace_replay host bench settings source artifact = Inr (doc, ps)"
    and stored: "map_of (as_files store) (''graphs'', ''latest.json'') = Some (ch_dumps host doc @ [CHR 0x0A], mtime)"
    and json: "ch_loads host (ch_dumps host doc @ [CHR 0x0A]) = Inr (json_sort doc)"
    and bounds: "0 \<le> min_risk" "min_risk \<le> 1" "1 \<le> limit" "limit \<le> 10000"
  shows "\<exists>d d'. json_sort doc = PDict d \<and> graph_endpoint (ch_loads host) store min_risk limit = Inr d'
    \<and> map_of d' = (map_of d)(''predictions'' \<mapsto> PList (map (\<lambda>p. json_sort (prediction_dict (ch_isoformat host) p))
        (take (nat limit) (filter (\<lambda>p. min_risk \<le> pp_probability p) ps))))"
proof -
  obtain graph mode quality where doc: "doc = replay_document (ch_isoformat host) graph ps mode quality"
    using replay by (auto simp: trace_replay_def raising_def split: sum.splits)
  obtain d where d: "json_sort doc = PDict d"
      "dict_get d ''predictions'' (PList []) = PList (map (\<lambda>p. json_sort (prediction_dict (ch_isoformat host) p)) ps)"
    unfolding doc by (rule replay_document_predictions)
  have "d \<noteq> []" using d(1) by (auto simp: doc replay_document_def graph_to_dict_def dest: arg_cong [of _ "PDict []" "\<lambda>v. length (entries_of v)"]
        simp add: entries_of_def)
  moreover have "load (ch_loads host) store ''graphs'' ''latest'' = Inr (Some d)"
    using json d(1) by (simp add: load_latest [OF stored] read_document_def)
  ultimately show ?thesis using graph_endpoint_serves [OF _ d(2) _ bounds] d(1) by (intro exI conjI) (assumption | simp)+
qed

theorem replayed_graph_is_served_witness:
  "\<exists>host doc ps d'. trace_replay host bench_host demo_settings demo_lines None = Inr (doc, ps)
    \<and> graph_endpoint (ch_loads host) \<lparr>as_files = [((''graphs'', ''latest.json''), (''{}'' @ [CHR 0x0A], 0))], as_directories = {}\<rparr> (1 / 4) 2000 = Inr d'
    \<and> map_of d' ''predictions'' \<noteq> None"
proof -
  let ?store = "\<lparr>as_files = [((''graphs'', ''latest.json''), (''{}'' @ [CHR 0x0A], 0))], as_directories = {}\<rparr>"
  obtain doc ps where replay: "\<And>other. trace_replay (cli_demo (two_writes other)) bench_host demo_settings demo_lines None = Inr (doc, ps)"
    using demo_replay by blast
  let ?host = "cli_demo (two_writes (Inr (json_sort doc)))"
  have stored: "map_of (as_files ?store) (''graphs'', ''latest.json'') = Some (ch_dumps ?host doc @ [CHR 0x0A], 0)"
    by (simp add: cli_demo_def)
  have json: "ch_loads ?host (ch_dumps ?host doc @ [CHR 0x0A]) = Inr (json_sort doc)"
    by (simp add: cli_demo_def two_writes_def)
  obtain d' where "graph_endpoint (ch_loads ?host) ?store (1 / 4) 2000 = Inr d'" "map_of d' ''predictions'' \<noteq> None"
    using replayed_graph_is_served [OF replay stored json, of "1 / 4" 2000] by auto
  then show ?thesis using replay by blast
qed



text \<open>The report of \<^verbatim>\<open>benchmark/benchmark.json\<close> is always among the listed ones, and first when the store does not have it.\<close>

lemma current_report_listed:
  assumes "benchmarks loads store (Some content) limit = Inr answer" and "read_object loads content = Inr current"
    and stamp: "scalar_equal (dict_get current ''created_at'' PNone) (dict_get current ''created_at'' PNone)"
  shows "\<exists>item\<in>set answer. same_report current item"
proof -
  obtain reports where limit: "1 \<le> limit" and reports: "list_documents loads store ''benchmarks'' limit = Inr reports"
      and answer: "answer = take (nat limit) (if list_ex (same_report current) reports then reports else current # reports)"
    using assms(1,2) by (auto simp: benchmarks_def query_def handled_def split: if_splits sum.splits)
  show ?thesis
  proof (cases "list_ex (same_report current) reports")
    case True
    then show ?thesis using list_documents_bounded [OF limit reports] answer by (simp add: list_ex_iff)
  next
    case False
    then have "current \<in> set answer" using limit answer by (cases "nat limit") auto
    then show ?thesis using stamp by (auto simp: same_report_def)
  qed
qed

end
