(* ===== verification/Network.thy ===== *)
theory Network
  imports Model_Properties
begin

section \<open>The network (\<^verbatim>\<open>HybridConflictGNN\<close> of \<^verbatim>\<open>model.py\<close>)\<close>

text \<open>
  The forward pass of the network on matrices of exact reals, row by row. \<^verbatim>\<open>nn.Linear\<close> and the pointwise
  functions are written out; \<^verbatim>\<open>SAGEConv\<close> is PyTorch Geometric's and an argument, as is what dropout does
  to the \<open>k\<close>-th matrix it is given, which is nothing outside training. The pairs are rows of the tests, as
  \<^verbatim>\<open>_batch\<close> looks them up.
\<close>

subsection \<open>Layers\<close>

record linear =
  ln_weight :: "real list list"
  ln_bias :: "real list"

definition dot :: "real list \<Rightarrow> real list \<Rightarrow> real" where
  "dot xs ys = sum_list (map2 (*) xs ys)"

definition apply_linear :: "linear \<Rightarrow> real list \<Rightarrow> real list" where
  "apply_linear l x = map2 (\<lambda>row b. dot row x + b) (ln_weight l) (ln_bias l)"

definition relu :: "real \<Rightarrow> real" where
  "relu x = max 0 x"

record 'c network =
  nw_test_projection :: linear
  nw_resource_projection :: linear
  nw_convolutions :: "'c list"
  nw_pair_input :: linear
  nw_pair_hidden :: linear
  nw_pair_output :: linear
  nw_explicit_head :: linear

type_synonym dropout = "nat \<Rightarrow> real list list \<Rightarrow> real list list"

text \<open>The convolution of a layer, over all nodes and the edge index.\<close>

type_synonym 'c convolution = "'c \<Rightarrow> real list list \<Rightarrow> nat list \<times> nat list \<Rightarrow> real list list"

subsection \<open>The forward pass\<close>

fun convolve_all :: "dropout \<Rightarrow> 'c convolution \<Rightarrow> nat list \<times> nat list \<Rightarrow> nat \<Rightarrow> 'c list \<Rightarrow> real list list \<Rightarrow> real list list" where
  "convolve_all dropout convolve edge_index k [] features = features"
| "convolve_all dropout convolve edge_index k (c # cs) features =
     (let residual = features;
          features = dropout k (map (map relu) (convolve c features edge_index))
      in convolve_all dropout convolve edge_index (k + 1) cs (map2 (map2 (+)) features residual))"

definition encode :: "dropout \<Rightarrow> 'c convolution \<Rightarrow> 'c network \<Rightarrow> GraphTensors \<Rightarrow> real list list" where
  "encode dropout convolve nw tensors =
     (let features = map (apply_linear (nw_test_projection nw)) (gt_test_x tensors)
            @ map (apply_linear (nw_resource_projection nw)) (gt_resource_x tensors)
      in take (length (gt_test_x tensors)) (convolve_all dropout convolve (gt_edge_index tensors) 0 (nw_convolutions nw) features))"

definition combined_row :: "real list list \<Rightarrow> nat \<times> nat \<Rightarrow> real list \<Rightarrow> real list" where
  "combined_row embeddings pair explicit =
     (let left = embeddings ! fst pair; right = embeddings ! snd pair
      in left @ right @ map2 (\<lambda>x y. \<bar>x - y\<bar>) left right @ map2 (*) left right @ explicit)"

definition pair_head :: "dropout \<Rightarrow> 'c network \<Rightarrow> real list list \<Rightarrow> real list list" where
  "pair_head dropout nw rows =
     (let k = length (nw_convolutions nw);
          rows = dropout k (map (\<lambda>row. map relu (apply_linear (nw_pair_input nw) row)) rows);
          rows = dropout (k + 1) (map (\<lambda>row. map relu (apply_linear (nw_pair_hidden nw) row)) rows)
      in map (apply_linear (nw_pair_output nw)) rows)"

definition explicit_logit :: "'c network \<Rightarrow> real list \<Rightarrow> real" where
  "explicit_logit nw row = hd (apply_linear (nw_explicit_head nw) row)"

definition forward ::
  "dropout \<Rightarrow> 'c convolution \<Rightarrow> 'c network \<Rightarrow> GraphTensors \<Rightarrow> (nat \<times> nat) list \<Rightarrow> real list list \<Rightarrow> real list" where
  "forward dropout convolve nw tensors pairs explicit =
     (let embeddings = encode dropout convolve nw tensors;
          combined = map2 (combined_row embeddings) pairs explicit;
          graph_logits = map hd (pair_head dropout nw combined)
      in map2 (\<lambda>row g. explicit_logit nw row + 0.1 * tanh g) explicit graph_logits)"

text \<open>After \<^verbatim>\<open>eval()\<close>.\<close>

definition forward_eval :: "'c convolution \<Rightarrow> 'c network \<Rightarrow> GraphTensors \<Rightarrow> (nat \<times> nat) list \<Rightarrow> real list list \<Rightarrow> real list" where
  "forward_eval = forward (\<lambda>_ rows. rows)"

subsection \<open>The graph part of a logit\<close>

lemma tenth_tanh: "\<bar>0.1 * tanh (g :: real)\<bar> < 1 / 10"
  using tanh_real_lt_1 [of g] tanh_real_gt_neg1 [of g] by (simp add: abs_less_iff)

lemma sigmoid_less: "x < y \<Longrightarrow> sigmoid x < sigmoid y"
  by (simp add: sigmoid_def frac_less2 add_pos_pos)

text \<open>How far a probability may be from the one of the explicit features alone.\<close>

definition near_explicit :: "'c network \<Rightarrow> real list \<Rightarrow> real \<Rightarrow> bool" where
  "near_explicit nw row p \<longleftrightarrow> sigmoid (explicit_logit nw row - 1 / 10) < p \<and> p < sigmoid (explicit_logit nw row + 1 / 10)"

lemma forward_near:
  assumes "length pairs = length explicit"
  shows "list_all2 (near_explicit nw) explicit (map sigmoid (forward_eval convolve nw tensors pairs explicit))"
proof -
  let ?gs = "map hd (pair_head (\<lambda>_ rows. rows) nw (map2 (combined_row (encode (\<lambda>_ rows. rows) convolve nw tensors)) pairs explicit))"
  have "length ?gs = length explicit" using assms by (simp add: pair_head_def Let_def)
  moreover have "near_explicit nw row (sigmoid (explicit_logit nw row + 0.1 * tanh g))" for row g
    using tenth_tanh [of g] by (simp add: near_explicit_def sigmoid_less abs_less_iff)
  ultimately show ?thesis
    by (simp add: forward_eval_def forward_def Let_def list_all2_conv_all_nth)
qed

lemma half_sigmoid: "sigmoid 0 = 1 / 2"
  by (simp add: sigmoid_def)

lemma sigmoid_le: "x \<le> y \<Longrightarrow> sigmoid x \<le> sigmoid y"
  using sigmoid_less [of x y] by (cases "x = y") auto

lemma near_decides:
  assumes "near_explicit nw row p" "1 / 10 \<le> \<bar>explicit_logit nw row\<bar>"
  shows "1 / 2 \<le> p \<longleftrightarrow> 0 \<le> explicit_logit nw row"
proof (cases "0 \<le> explicit_logit nw row")
  case True
  then have "sigmoid 0 \<le> sigmoid (explicit_logit nw row - 1 / 10)" using assms(2) by (intro sigmoid_le) simp
  then show ?thesis using assms(1) True by (simp add: near_explicit_def half_sigmoid)
next
  case False
  then have "sigmoid (explicit_logit nw row + 1 / 10) \<le> sigmoid 0" using assms(2) by (intro sigmoid_le) simp
  then show ?thesis using assms(1) False by (simp add: near_explicit_def half_sigmoid)
qed

subsection \<open>Predictions\<close>

definition normalized :: "real list \<Rightarrow> real list \<Rightarrow> PairExample \<Rightarrow> real list" where
  "normalized mean_row scale example = map2 (/) (map2 (-) (pe_features example) mean_row) scale"

definition explicit_decides ::
  "'c network \<Rightarrow> Dataset \<Rightarrow> real list \<Rightarrow> real list \<Rightarrow> int \<Rightarrow> real \<Rightarrow> bool" where
  "explicit_decides nw dataset mean_row scale i p \<longleftrightarrow>
     (case py_index (ds_examples dataset) i of
        Inl _ \<Rightarrow> False
      | Inr example \<Rightarrow> near_explicit nw (normalized mean_row scale example) p)"

lemma explicit_decidesE:
  assumes "explicit_decides nw dataset mean_row scale i p"
  obtains example where "py_index (ds_examples dataset) i = Inr example" and "near_explicit nw (normalized mean_row scale example) p"
  using assms by (auto simp: explicit_decides_def split: sum.splits)

lemma batch_near:
  assumes "predict_batch (forward_eval convolve nw) dataset mean_row scale tensors indices = Inr ps"
  shows "list_all2 (explicit_decides nw dataset mean_row scale) indices ps"
proof -
  obtain examples pairs explicit where examples: "map_result (py_index (ds_examples dataset)) indices = Inr examples"
      and pairs: "map_result (pair_index (gt_test_index tensors)) examples = Inr pairs"
      and explicit: "normalize_rows mean_row scale (map pe_features examples) = Inr explicit"
      and ps: "ps = map sigmoid (forward_eval convolve nw tensors pairs explicit)"
    using assms by (auto simp: predict_batch_def gnn_batch_def matrix_of_def split: if_splits)
  have rows: "explicit = map (normalized mean_row scale) examples"
    using explicit by (auto simp: normalize_rows_def normalized_def split: if_splits)
  have len: "length pairs = length explicit" using list_all2_lengthD [OF map_result_InrD [OF pairs]] rows by simp
  have "list_all2 (near_explicit nw) (map (normalized mean_row scale) examples) ps"
    using forward_near [OF len, of nw convolve tensors] unfolding ps rows by simp
  then have near: "list_all2 (\<lambda>e p. near_explicit nw (normalized mean_row scale e) p) examples ps" by (simp add: list.rel_map)
  have "list_all2 (\<lambda>i e. py_index (ds_examples dataset) i = Inr e) indices examples" by (rule map_result_InrD [OF examples])
  from list_all2_trans [OF _ this near] show ?thesis by (simp add: explicit_decides_def)
qed

lemma list_all2_concat_batches: "list_all2 (list_all2 R) xss yss \<Longrightarrow> list_all2 R (concat xss) (concat yss)"
  by (induction rule: list_all2_induct) (auto intro: list_all2_appendI)

text \<open>C40: bounds. Graph evidence can only improve on the explicit features: for every convolution and all weights, each
  probability of \<^verbatim>\<open>_predict_indices\<close> lies strictly between those of the explicit logit a tenth lower and a tenth
  higher, one for each index in order, so where the explicit logit is at least a tenth from zero it alone decides.\<close>

theorem graph_part_is_bounded:
  assumes predicted: "predict_indices (forward_eval convolve nw) k dataset mean_row scale tensors indices = Inr ps" and "0 < k"
  shows "list_all2 (\<lambda>i p. \<exists>example logit. py_index (ds_examples dataset) i = Inr example
      \<and> logit = explicit_logit nw (normalized mean_row scale example)
      \<and> sigmoid (logit - 1 / 10) < p \<and> p < sigmoid (logit + 1 / 10)
      \<and> (1 / 10 \<le> \<bar>logit\<bar> \<longrightarrow> (1 / 2 \<le> p \<longleftrightarrow> 0 \<le> logit))) indices ps"
proof -
  obtain bs out where bs: "batches_of k indices = Inr bs" and ps: "ps = concat out"
      and out: "map_result (predict_batch (forward_eval convolve nw) dataset mean_row scale tensors) bs = Inr out"
    using predicted by (auto simp: predict_indices_def)
  have "concat bs = indices" using batches_of_correct [OF \<open>0 < k\<close>, of indices] bs by auto
  moreover have "list_all2 (list_all2 (explicit_decides nw dataset mean_row scale)) bs out"
    using map_result_InrD [OF out] by (rule list_all2_mono) (rule batch_near)
  ultimately have "list_all2 (explicit_decides nw dataset mean_row scale) indices ps"
    using list_all2_concat_batches ps by blast
  then show ?thesis
    by (rule list_all2_mono) (elim explicit_decidesE, use near_decides in \<open>auto simp: near_explicit_def\<close>)
qed

definition demo_network :: "unit network" where
  "demo_network = \<lparr>nw_test_projection = \<lparr>ln_weight = [], ln_bias = []\<rparr>, nw_resource_projection = \<lparr>ln_weight = [], ln_bias = []\<rparr>,
     nw_convolutions = [()], nw_pair_input = \<lparr>ln_weight = [], ln_bias = []\<rparr>, nw_pair_hidden = \<lparr>ln_weight = [], ln_bias = []\<rparr>,
     nw_pair_output = \<lparr>ln_weight = [[]], ln_bias = [1]\<rparr>, nw_explicit_head = \<lparr>ln_weight = [[]], ln_bias = [2]\<rparr>\<rparr>"

definition demo_tensors :: GraphTensors where
  "demo_tensors = \<lparr>gt_test_x = [[], [], []], gt_resource_x = [], gt_edge_index = ([], []),
     gt_test_index = enumerate_index (test_names model_events [])\<rparr>"

theorem graph_part_is_bounded_witness:
  "\<exists>p. predict_indices (forward_eval (\<lambda>_ rows _. rows) demo_network) 4 model_dataset [] [] demo_tensors [0] = Inr [p]
    \<and> 1 / 2 \<le> p \<and> p < sigmoid (21 / 10)"
proof -
  have "trainable (gt_test_index demo_tensors) model_dataset" using demo_training_ready by (simp add: training_ready_def demo_tensors_def)
  moreover have "in_range model_dataset [0]" by (simp add: in_range_def model_dataset_def demo_dataset_def)
  ultimately obtain b where b: "gnn_batch model_dataset [] [] (gt_test_index demo_tensors) [0] = Inr b"
    using gnn_batch_total [of "gt_test_index demo_tensors" model_dataset "[0]" "[]" "[]"] by (auto simp: model_dataset_def)
  have "batches_of 4 [0 :: int] = Inr [[0]]" by (simp add: batches_of_def)
  then obtain ps where ps: "predict_indices (forward_eval (\<lambda>_ rows _. rows) demo_network) 4 model_dataset [] [] demo_tensors [0] = Inr ps"
    using b by (simp add: predict_indices_def predict_batch_def)
  have explicit: "explicit_logit demo_network row = 2" for row
    by (simp add: explicit_logit_def apply_linear_def demo_network_def dot_def)
  show ?thesis
    using graph_part_is_bounded [OF ps] ps by (auto simp: explicit list_all2_Cons1)
qed

end
