(* ===== verification/Training.thy ===== *)
theory Training
  imports Commands_Properties
begin

section \<open>From traced events to a trained model\<close>

text \<open>
  The components of training composed: the graph built from events or by the synthetic world, the
  dataset \<^verbatim>\<open>DatasetBuilder.build\<close> (dataset.py) makes of it, the split, \<^verbatim>\<open>GNNTrainer.fit\<close> (model.py)
  and the command \<^verbatim>\<open>model train\<close> (cli.py). The dataset built from a graph always satisfies what
  training needs of it, when its labels name tests of the graph.
\<close>

subsection \<open>Graphs the tensors can be made of\<close>

text \<open>The statistics have logarithms and every edge starts at a test of the graph.\<close>

definition graph_ready :: "TestResourceGraph \<Rightarrow> bool" where
  "graph_ready g \<longleftrightarrow> all_loggable g \<and> fst ` fst ` set (gr_edges g) \<subseteq> fst ` set (gr_tests g)"

lemma all_loggable_iff: "all_loggable g \<longleftrightarrow> (\<forall>t s. map_of (gr_test_stats g) t = Some s \<longrightarrow> stats_loggable s)"
  by (auto simp: all_loggable_def stats_for_def stats_loggable_def TestStats_init_def split: option.split)

lemma all_loggable_cong: "gr_test_stats g = gr_test_stats h \<Longrightarrow> all_loggable g \<longleftrightarrow> all_loggable h"
  by (simp add: all_loggable_iff)

lemma all_loggable_update:
  "all_loggable g \<Longrightarrow> stats_loggable s \<Longrightarrow> all_loggable (g\<lparr>gr_test_stats := AList.update t s (gr_test_stats g)\<rparr>)"
  by (simp add: all_loggable_iff update_conv')

lemma graph_ready_init [simp]: "graph_ready TestResourceGraph_init"
  by (simp add: graph_ready_def all_loggable_iff TestResourceGraph_init_def)

lemma graph_ready_stats_for: "graph_ready g \<Longrightarrow> graph_ready (snd (stats_for g t))"
  by (simp add: graph_ready_def all_loggable_stats_for)

lemma graph_ready_add_test:
  assumes "graph_ready g" "case s of None \<Rightarrow> True | Some s \<Rightarrow> stats_loggable s"
  shows "graph_ready (add_test g test s)"
proof -
  have "all_loggable (add_test g test s)"
    using assms by (auto simp: graph_ready_def add_test_def Let_def all_loggable_iff update_conv' split: option.splits if_splits)
  moreover have "gr_edges (add_test g test s) = gr_edges g" "fst ` set (gr_tests (add_test g test s)) = insert (ti_id test) (fst ` set (gr_tests g))"
    by (auto simp: add_test_def Let_def dom_update split: option.splits)
  ultimately show ?thesis using assms(1) subset_insertI2 unfolding graph_ready_def by metis
qed

lemma graph_ready_add_event:
  assumes "graph_ready g"
  shows "graph_ready (add_event g e)"
proof -
  have "fst ` fst ` set (gr_edges (add_event g e)) = insert (ev_test_id e) (fst ` fst ` set (gr_edges g))"
    by (simp add: add_event_def Let_def dom_update)
  moreover have "fst ` set (gr_tests (add_event g e)) = insert (ev_test_id e) (fst ` set (gr_tests g))"
    by (auto simp: add_event_def Let_def dom_update dict_keys_def)
  moreover have "all_loggable (add_event g e) = all_loggable g"
    by (rule all_loggable_cong) (simp add: add_event_def Let_def)
  ultimately show ?thesis using assms unfolding graph_ready_def by (metis insert_mono)
qed

lemma graph_ready_refresh_one:
  assumes "graph_ready g" "refresh_one g t rids = Inr g'"
  shows "graph_ready g'"
proof -
  have s: "stats_loggable (fst (stats_for g t))" using assms(1) by (simp add: graph_ready_def all_loggable_def)
  obtain w where g': "g' = (snd (stats_for g t))\<lparr>gr_test_stats := AList.update t
      ((fst (stats_for g t))\<lparr>st_resource_count := int (card rids), st_write_ratio := w\<rparr>) (gr_test_stats (snd (stats_for g t)))\<rparr>"
    using assms(2) by (auto simp: refresh_one_def Let_def case_prod_unfold bind_result_eq_Inr)
  have "stats_loggable ((fst (stats_for g t))\<lparr>st_resource_count := int (card rids), st_write_ratio := w\<rparr>)"
    using s by (simp add: stats_loggable_def)
  then have "all_loggable g'"
    using graph_ready_stats_for [OF assms(1), of t] unfolding g' graph_ready_def by (intro all_loggable_update) simp_all
  then show ?thesis using assms(1) by (simp add: graph_ready_def g')
qed

lemma graph_ready_refresh: "graph_ready g \<Longrightarrow> refresh_stats g = Inr g' \<Longrightarrow> graph_ready g'"
proof -
  have "graph_ready g \<Longrightarrow> refresh_all g items = Inr g' \<Longrightarrow> graph_ready g'" for items
    by (induction g items rule: refresh_all.induct) (auto simp: bind_result_eq_Inr dest: graph_ready_refresh_one)
  then show "graph_ready g \<Longrightarrow> refresh_stats g = Inr g' \<Longrightarrow> graph_ready g'" by (simp add: refresh_stats_def)
qed

lemma graph_ready_from_events: "from_events evs tests = Inr g \<Longrightarrow> graph_ready g"
proof -
  have "graph_ready (foldl (\<lambda>g t. add_test g t None) TestResourceGraph_init tests)"
    by (rule foldl_invariant [where J = graph_ready]) (auto intro: graph_ready_add_test)
  then have "graph_ready (foldl add_event (foldl (\<lambda>g t. add_test g t None) TestResourceGraph_init tests) evs)"
    by (rule foldl_invariant [where J = graph_ready, rotated]) (auto intro: graph_ready_add_event)
  then show "from_events evs tests = Inr g \<Longrightarrow> graph_ready g" unfolding from_events_def by (rule graph_ready_refresh)
qed

text \<open>The tests of the events are tests of such a graph.\<close>

lemma ready_tests:
  assumes "graph_built evs g" "graph_ready g"
  shows "ev_test_id ` set evs \<subseteq> fst ` set (gr_tests g)"
proof
  fix t assume "t \<in> ev_test_id ` set evs"
  then obtain e where e: "e \<in> set evs" "t = ev_test_id e" by blast
  then have "(t, event_rid e) \<in> fst ` set (gr_edges g)"
    unfolding built_edge_keys [OF assms(1)] by (auto simp: touches_def filter_empty_conv)
  then have "t \<in> fst ` fst ` set (gr_edges g)" by force
  then show "t \<in> fst ` set (gr_tests g)" using assms(2) by (auto simp: graph_ready_def)
qed

subsection \<open>The synthetic world is ready\<close>

lemma graph_ready_world_tests:
  "graph_ready g \<Longrightarrow> (\<And>k. 0 \<le> uniform k) \<Longrightarrow> graph_ready (fst (add_world_tests uniform k tests (g, stats)))"
proof (induction tests arbitrary: k g stats)
  case (Cons test tests)
  have "- 1 < uniform k" using Cons.prems(2) [of k] by simp
  then have "stats_loggable (TestStats_init\<lparr>st_duration_ema := uniform k, st_duration_median := uniform k\<rparr>)"
    by (simp add: stats_loggable_def TestStats_init_def)
  then show ?case using Cons by (simp add: Let_def graph_ready_add_test)
qed simp

lemma graph_ready_families: "graph_ready (ws_graph st) \<Longrightarrow> graph_ready (ws_graph (foldl (add_family tests) st families))"
proof -
  have "graph_ready (ws_graph (family_pair tests f x i))" if "graph_ready (ws_graph x)" for f x i
    using that by (simp add: family_pair_def Let_def graph_ready_add_event)
  then have "graph_ready (ws_graph (add_family tests x f))" if "graph_ready (ws_graph x)" for f x
    unfolding add_family_def using that by (intro foldl_invariant [where J = "\<lambda>x. graph_ready (ws_graph x)"])
  then show "graph_ready (ws_graph st) \<Longrightarrow> graph_ready (ws_graph (foldl (add_family tests) st families))"
    by (intro foldl_invariant [where J = "\<lambda>x. graph_ready (ws_graph x)"])
qed

lemma graph_ready_controls: "graph_ready g \<Longrightarrow> graph_ready (add_controls n s i tests g)"
  by (induction n s i tests g rule: add_controls.induct) (auto intro: graph_ready_add_event)

lemma graph_ready_world:
  assumes "build_synthetic_world uniform profile seed = Inr w" "\<And>k. 0 \<le> uniform seed k"
  shows "graph_ready (sw_graph w)"
proof -
  obtain n where n: "map_of PROFILE_TESTS profile = Some n"
    using assms(1) by (auto simp: build_synthetic_world_def split: option.splits)
  let ?g0 = "add_world_tests (uniform seed) 0 (world_tests n) (TestResourceGraph_init, [])"
  have "graph_ready (fst ?g0)" by (rule graph_ready_world_tests [OF graph_ready_init assms(2)])
  then have "graph_ready (add_controls n s 0 (world_tests n) (ws_graph (foldl (add_family (world_tests n))
      \<lparr>ws_graph = fst ?g0, ws_labels = [], ws_probabilities = [], ws_cursor = 0, ws_sequence = 0\<rparr> FAMILIES)))" for s
    by (intro graph_ready_controls graph_ready_families) simp
  then show ?thesis using assms(1) n graph_ready_refresh
    by (fastforce simp: build_synthetic_world_def Let_def case_prod_unfold)
qed

text \<open>The labels of the world name tests its events touch.\<close>

lemma planted_tests: "planted evs l \<Longrightarrow> {cl_test_a l, cl_test_b l} \<subseteq> ev_test_id ` set evs"
  by (force simp: planted_def mutates_def)

subsection \<open>Built datasets can be trained on\<close>

lemma build_examples_ready:
  assumes "graph_built evs g" "graph_ready g" "build_examples idx g pairs = Inr (es, g')"
  shows "graph_built evs g' \<and> graph_ready g' \<and> gr_tests g' = gr_tests g
    \<and> map example_pair es = pairs \<and> list_all (\<lambda>e. length (pe_features e) = length FEATURE_NAMES \<and> (pe_label e = 0 \<or> pe_label e = 1)) es"
  using assms
proof (induction pairs arbitrary: g es g')
  case (Cons pair pairs)
  let ?ab = "stable_pair (fst pair) (snd pair)"
  let ?g = "snd (stats_for (snd (stats_for g (fst ?ab))) (snd ?ab))"
  obtain f where f: "pair_features g (fst pair) (snd pair) = Inr (f, ?g)"
    using pair_features_built [OF Cons.prems(1)] by blast
  obtain es' where es: "es = example_of (map_of idx pair) pair f # es'" "build_examples idx ?g pairs = Inr (es', g')"
    using Cons.prems(3) f by auto
  have "length (features_vector f) = length FEATURE_NAMES" by (simp add: features_vector_def FEATURE_NAMES_def)
  then have "length (pe_features (hd es)) = length FEATURE_NAMES" "pe_label (hd es) = 0 \<or> pe_label (hd es) = 1" "example_pair (hd es) = pair"
    by (simp_all add: es(1) example_of_def split: option.split)
  moreover note Cons.IH [OF stats_for_built [OF stats_for_built [OF Cons.prems(1)]] graph_ready_stats_for [OF graph_ready_stats_for [OF Cons.prems(2)]] es(2)]
  ultimately show ?case by (simp add: es(1))
qed simp

text \<open>The tests of a candidate pair are tests of events or of labels.\<close>

definition known_labels :: "TestResourceGraph \<Rightarrow> ConflictLabel list \<Rightarrow> bool" where
  "known_labels g labels \<longleftrightarrow> list_all (\<lambda>l. cl_test_a l \<in> fst ` set (gr_tests g) \<and> cl_test_b l \<in> fst ` set (gr_tests g)) labels"

lemma label_keys_known:
  assumes "known_labels g labels" "(a, b) \<in> fst ` set (label_index labels)"
  shows "a \<in> fst ` set (gr_tests g) \<and> b \<in> fst ` set (gr_tests g)"
proof -
  have "fst ` set (label_index labels) = ConflictLabel_key ` set labels"
    by (simp add: label_index_def set_keys_dict_of image_image)
  then obtain l where "l \<in> set labels" "(a, b) = stable_pair (cl_test_a l) (cl_test_b l)"
    using assms(2) by (auto simp: ConflictLabel_key_def)
  then show ?thesis using assms(1) by (auto simp: known_labels_def list_all_iff stable_pair_def split: if_splits)
qed

lemma built_dataset_trainable:
  assumes g: "graph_built evs g" "gr_pair_history g = []" "graph_ready g" and draws: "draws_distinct (drawn (db_seed self))"
    and labels: "known_labels g labels"
  obtains ds g' where "build drawn now self g labels runs quality = Inr (ds, g')"
    and "graph_built evs g'" and "graph_ready g'" and "gr_tests g' = gr_tests g"
    and "\<forall>idx :: (string, nat) dict. fst ` set idx = fst ` set (gr_tests g) \<longrightarrow> trainable idx ds"
proof -
  let ?known = "fst ` set (gr_tests g)"
  let ?idx = "label_index labels"
  obtain ds g' where ds: "build drawn now self g labels runs quality = Inr (ds, g')"
    using build_returns [OF g(1,2)] by blast
  then obtain ps es where ps: "candidate_pairs g True = Inr ps"
      "build_examples ?idx g (sorted_list_of_set (set ps \<union> fst ` set ?idx)) = Inr (es, g')"
      "dm_feature_names (ds_metadata ds) = FEATURE_NAMES"
      "set (ds_examples ds) = set (filter (\<lambda>e. pe_label e = 1) es) \<union> set (sample_negatives (drawn (db_seed self)) (db_negative_ratio self)
         (length (filter (\<lambda>e. pe_label e = 1) es)) (filter (\<lambda>e. pe_label e \<noteq> 1) es))"
    by (auto simp: build_def build_candidates_def Let_def)
  note ready = build_examples_ready [OF g(1,3) ps(2)]
  have pairs: "map example_pair es = sorted_list_of_set (set ps \<union> fst ` set ?idx)" using ready by simp
  have "distinct (map example_pair es)" unfolding pairs by simp
  then have "distinct (map example_pair (filter (\<lambda>e. pe_label e \<noteq> 1) es))" by (simp add: distinct_map_filter)
  from sample_negatives_sub(1) [OF draws this] have sub: "set (ds_examples ds) \<subseteq> set es" unfolding ps(4) by auto
  have "tests_of r evs \<subseteq> ?known" for r
    using ready_tests [OF g(1,3)] by (auto simp only: tests_of_def)
  then have "set ps \<subseteq> ?known \<times> ?known"
    using candidate_pairs_built [OF g(1), of True] ps(1) g(2) by auto
  moreover have "fst ` set ?idx \<subseteq> ?known \<times> ?known" using label_keys_known [OF labels] by fast
  moreover have "example_pair ` set es = set ps \<union> fst ` set ?idx" using arg_cong [OF pairs, of set] by simp
  ultimately have "example_pair ` set es \<subseteq> ?known \<times> ?known" by simp
  then have tests: "pe_test_a e \<in> ?known \<and> pe_test_b e \<in> ?known" if "e \<in> set es" for e
    using imageI [OF that, of example_pair] by blast
  have "trainable idx ds" if "fst ` set idx = ?known" for idx :: "(string, nat) dict"
    using ready tests that ps(3) sub by (auto simp: trainable_def list_all_iff)
  then show thesis using that [OF ds] ready by blast
qed

text \<open>Training on a built dataset and any split within it returns.\<close>

lemma built_dataset_trains:
  assumes g: "graph_built evs g" "gr_pair_history g = []" "graph_ready g" "evs \<noteq> []"
    and draws: "draws_distinct (drawn (db_seed builder))" and labels: "known_labels g labels"
    and torch: "to_installed torch" "\<forall>w. one_per_pair (to_forward torch w)" "scorer_ok scorer" "draws_below (below (tr_seed (gn_config self)))"
    and config: "0 < tr_epochs (gn_config self)" "0 < tr_batch_size (gn_config self)"
  obtains ds g' tensors g'' where "build drawn now builder g labels runs quality = Inr (ds, g')"
    and "graph_tensors True g' = Inr (tensors, g'')"
    and "\<And>split. split_in_range ds split \<Longrightarrow> \<exists>self' v t. GNNTrainer_fit torch scorer below self g' ds split = Inr (self', v, t)
           \<and> best_checkpoint torch scorer self self' tensors ds split"
proof -
  obtain ds g' where ds: "build drawn now builder g labels runs quality = Inr (ds, g')" "graph_built evs g'" "graph_ready g'"
      "gr_tests g' = gr_tests g" "\<forall>idx :: (string, nat) dict. fst ` set idx = fst ` set (gr_tests g) \<longrightarrow> trainable idx ds"
    by (rule built_dataset_trainable [where self = builder and drawn = drawn and now = now and runs = runs and quality = quality,
        OF g(1,2,3) draws labels]) (rule that)
  have "all_loggable g'" using ds(3) by (simp add: graph_ready_def)
  from graph_tensors_ready [OF ds(2) this ready_tests [OF ds(2,3)]] obtain tensors g'' where T:
      "graph_tensors True g' = Inr (tensors, g'')" "gt_test_index tensors = enumerate_index (sorted_list_of_set (fst ` set (gr_tests g')))"
      "length (gt_resource_x tensors) = length (Graph_Tensors.resource_names evs)"
    by auto
  have "gt_resource_x tensors \<noteq> []" using T(3) g(4) by (auto simp: Graph_Tensors.resource_names_def)
  moreover have "trainable (gt_test_index tensors) ds" using ds(5) by (simp add: T(2) ds(4))
  ultimately have "\<exists>self' v t. GNNTrainer_fit torch scorer below self g' ds split = Inr (self', v, t)
      \<and> best_checkpoint torch scorer self self' tensors ds split" if "split_in_range ds split" for split
    using training_on_tensors [OF T(1), of torch scorer below self ds split] that torch config unfolding training_ready_def by metis
  then show thesis using that ds(1) T(1) by blast
qed

subsection \<open>The command\<close>

lemma partition_in_range:
  "mset (sp_train split @ sp_validation split @ sp_test split) = mset (map int [0..<length (ds_examples dataset)]) \<Longrightarrow> split_in_range dataset split"
proof -
  assume "mset (sp_train split @ sp_validation split @ sp_test split) = mset (map int [0..<length (ds_examples dataset)])"
  from mset_eq_setD [OF this] have "set (sp_train split) \<union> set (sp_validation split) \<union> set (sp_test split) = int ` {..<length (ds_examples dataset)}"
    by (simp add: Un_assoc lessThan_atLeast0)
  moreover have "in_range dataset xs \<longleftrightarrow> set xs \<subseteq> int ` {..<length (ds_examples dataset)}" for xs
    using zero_le_imp_eq_int by (fastforce simp: in_range_def list_all_iff)
  ultimately show "split_in_range dataset split" unfolding split_in_range_def by blast
qed

text \<open>A host that can train: the libraries are installed, a network gives one number per pair, average
  precision is not negative, the draws below a number are below it, the sampled positions are distinct and the
  durations drawn between 0.035 and 0.16 are not negative.\<close>

definition training_host :: "'w benchmark_host \<Rightarrow> bool" where
  "training_host bench \<longleftrightarrow> bh_importable bench \<and> to_installed (bh_torch bench)
     \<and> (\<forall>w. one_per_pair (to_forward (bh_torch bench) w)) \<and> scorer_ok (bh_scorer bench)
     \<and> (\<forall>seed. draws_below (bh_below bench seed) \<and> draws_distinct (bh_drawn bench seed) \<and> (\<forall>k. 0 \<le> bh_uniform bench seed k))"

definition command_trainer :: "int \<Rightarrow> int \<Rightarrow> 'w GNNTrainer" where
  "command_trainer seed epochs = GNNTrainer_init (Some (TrainingConfig_init\<lparr>tr_seed := seed, tr_epochs := epochs\<rparr>))"

lemma synthetic_dataset_trains:
  assumes host: "training_host bench" and profile: "map_of PROFILE_TESTS profile = Some n" and epochs: "0 < epochs"
  obtains dataset split graph tensors graph' trainer v t where "synthetic_dataset bench profile seed = Inr (dataset, split, graph)"
    and "mset (sp_train split @ sp_validation split @ sp_test split) = mset (map int [0..<length (ds_examples dataset)])"
    and "graph_tensors True graph = Inr (tensors, graph')"
    and "GNNTrainer_fit (bh_torch bench) (bh_scorer bench) (bh_below bench) (command_trainer seed epochs) graph dataset split = Inr (trainer, v, t)"
    and "best_checkpoint (bh_torch bench) (bh_scorer bench) (command_trainer seed epochs) trainer tensors dataset split"
proof -
  note h = host [unfolded training_host_def]
  obtain w evs where w: "build_synthetic_world (bh_uniform bench) profile seed = Inr w" "graph_built evs (sw_graph w)"
      "gr_pair_history (sw_graph w) = []" "length (sw_labels w) = 58" "list_all (planted evs) (sw_labels w)"
    using world_built [OF profile, of "bh_uniform bench" seed] by metis
  have ready: "graph_ready (sw_graph w)" using graph_ready_world [OF w(1)] h by blast
  have "sw_labels w \<noteq> []" using w(4) by auto
  then have "evs \<noteq> []" using w(5) planted_tests [of evs "hd (sw_labels w)"] by (cases "sw_labels w") auto
  have "known_labels (sw_graph w) (sw_labels w)"
    using w(5) planted_tests ready_tests [OF w(2) ready] unfolding known_labels_def list_all_iff by blast
  note labels = this
  define builder where "builder = \<lparr>db_seed = seed, db_negative_ratio = Some (4 :: real)\<rparr>"
  let ?self = "command_trainer seed epochs :: 'a GNNTrainer"
  have self: "0 < tr_epochs (gn_config ?self)" "0 < tr_batch_size (gn_config ?self)"
    using epochs by (simp_all add: command_trainer_def GNNTrainer_init_def TrainingConfig_init_def)
  obtain ds g' tensors g'' where ds:
      "build (bh_drawn bench) (bh_created_at bench) builder (sw_graph w) (sw_labels w) [''synthetic-'' @ profile] None = Inr (ds, g')"
      "graph_tensors True g' = Inr (tensors, g'')"
      "\<forall>split. split_in_range ds split \<longrightarrow> (\<exists>self' v t.
          GNNTrainer_fit (bh_torch bench) (bh_scorer bench) (bh_below bench) ?self g' ds split = Inr (self', v, t)
           \<and> best_checkpoint (bh_torch bench) (bh_scorer bench) ?self self' tensors ds split)"
    by (rule built_dataset_trains [OF w(2,3) ready \<open>evs \<noteq> []\<close> _ labels _ _ _ _ self, of "bh_drawn bench" builder "bh_torch bench"
        "bh_scorer bench" "bh_below bench" "bh_created_at bench" "[''synthetic-'' @ profile]" None]) (use h in blast)+
  obtain split where split: "pair_disjoint_split (bh_below bench) ds seed (0.7, 0.15, 0.15) = Inr split"
      "mset (sp_train split @ sp_validation split @ sp_test split) = mset (map int [0..<length (ds_examples ds)])"
    by (rule pair_disjoint_split_returns [of "bh_below bench" seed "0.7" "0.15" "0.15" ds]) (use h in auto)
  have "synthetic_dataset bench profile seed = Inr (ds, split, g')"
    using w(1) ds(1) split(1) by (simp add: synthetic_dataset_def DatasetBuilder_init_def builder_def)
  then show thesis using that split(2) ds(2) ds(3) partition_in_range [OF split(2)] by blast
qed

text \<open>C26: the command \<^verbatim>\<open>model train\<close>, composed of all the components it calls. With an unknown profile it
  raises \<^verbatim>\<open>ValueError\<close>. With a known one and at least one epoch, on a host that can train, the synthetic
  world is built, its labels name tests of its graph, the dataset of that world satisfies what training
  needs, its split partitions it, and the trainer returns with its best checkpoint. The command then ends in the
  error of the tabular baseline if that has one, and otherwise writes the artifact of that trainer and
  the comparison of the two models.\<close>

theorem model_train_returns_best:
  assumes "training_host bench" "0 < epochs"
  shows "case map_of PROFILE_TESTS profile of
     None \<Rightarrow> model_train host bench saved profile seed epochs = Inl (Raised ValueError)
   | Some n \<Rightarrow> \<exists>dataset split graph tensors graph' trainer v t.
       synthetic_dataset bench profile seed = Inr (dataset, split, graph)
       \<and> mset (sp_train split @ sp_validation split @ sp_test split) = mset (map int [0..<length (ds_examples dataset)])
       \<and> graph_tensors True graph = Inr (tensors, graph')
       \<and> GNNTrainer_fit (bh_torch bench) (bh_scorer bench) (bh_below bench) (command_trainer seed epochs) graph dataset split = Inr (trainer, v, t)
       \<and> best_checkpoint (bh_torch bench) (bh_scorer bench) (command_trainer seed epochs) trainer tensors dataset split
       \<and> (case TabularBaseline_fit (bh_sklearn bench) (bh_scorer bench) (TabularBaseline_init ''gradient_boosting'' seed) dataset split of
            Inl e \<Rightarrow> model_train host bench saved profile seed epochs = Inl (Raised e)
          | Inr (_, tabular) \<Rightarrow> \<exists>files row.
              GNNTrainer_save (bh_torch bench) (\<lambda>v. ch_dumps host v @ [CHR 0x0A]) saved trainer dataset v t = Inr (files, row)
              \<and> model_train host bench saved profile seed epochs = Inr (files, ch_dumps host (comparison_dict tabular (v, t)) @ [CHR 0x0A]))"
proof (cases "map_of PROFILE_TESTS profile")
  case None
  then show ?thesis using assms(1)
    by (simp add: model_train_def synthetic_dataset_def build_synthetic_world_def training_host_def raising_def)
next
  case (Some n)
  obtain dataset split graph tensors graph' trainer v t where d: "synthetic_dataset bench profile seed = Inr (dataset, split, graph)"
      "mset (sp_train split @ sp_validation split @ sp_test split) = mset (map int [0..<length (ds_examples dataset)])"
      "graph_tensors True graph = Inr (tensors, graph')"
      "GNNTrainer_fit (bh_torch bench) (bh_scorer bench) (bh_below bench) (command_trainer seed epochs) graph dataset split = Inr (trainer, v, t)"
      "best_checkpoint (bh_torch bench) (bh_scorer bench) (command_trainer seed epochs) trainer tensors dataset split"
    by (rule synthetic_dataset_trains [OF assms(1) Some assms(2)])
  obtain w where w: "gn_model trainer = Some w" using d(5) by (auto simp: best_checkpoint_def)
  have host: "bh_importable bench" "to_installed (bh_torch bench)" using assms(1) by (simp_all add: training_host_def)
  obtain files row where saved: "GNNTrainer_save (bh_torch bench) (\<lambda>v. ch_dumps host v @ [CHR 0x0A]) saved trainer dataset v t = Inr (files, row)"
    using w host by (simp add: GNNTrainer_save_def Let_def)
  have "case TabularBaseline_fit (bh_sklearn bench) (bh_scorer bench) (TabularBaseline_init ''gradient_boosting'' seed) dataset split of
      Inl e \<Rightarrow> model_train host bench saved profile seed epochs = Inl (Raised e)
    | Inr (_, tabular) \<Rightarrow> model_train host bench saved profile seed epochs = Inr (files, ch_dumps host (comparison_dict tabular (v, t)) @ [CHR 0x0A])"
    using d(4) by (auto simp: model_train_def host d(1) saved raising_def command_trainer_def split: sum.split)
  then show ?thesis unfolding Some option.case using d saved by (fastforce split: sum.splits)
qed

text \<open>A host whose network answers 0 for every pair and whose draws are the first ones, without scikit-learn.\<close>

definition training_bench :: "unit benchmark_host" where
  "training_bench = \<lparr>bh_uniform = (\<lambda>_ _. 0.1), bh_random = (\<lambda>_ _. 0), bh_below = (\<lambda>_ _ _. 0), bh_drawn = (\<lambda>_ n k. [0..<k]),
     bh_choice = (\<lambda>_ _ _. []), bh_env = bh_env bench_host, bh_now = (\<lambda>_ _. 0), bh_created_at = ''now'', bh_scorer = (None, \<lambda>_. [0]),
     bh_importable = True, bh_sklearn = None, bh_torch = constant_torch, bh_loads = (\<lambda>_. Inl ValueError)\<rparr>"

theorem model_train_returns_best_witness:
  "\<exists>dataset split graph trainer v t w. synthetic_dataset training_bench ''quick'' 42 = Inr (dataset, split, graph)
     \<and> GNNTrainer_fit constant_torch (None, \<lambda>_. [0]) (\<lambda>_ _ _. 0) (command_trainer 42 3) graph dataset split = Inr (trainer, v, t)
     \<and> gn_model trainer = Some w \<and> length (gn_history trainer) \<le> 3"
proof -
  have sel: "bh_torch training_bench = constant_torch" "bh_scorer training_bench = (None, \<lambda>_. [0])" "bh_below training_bench = (\<lambda>_ _ _. 0)"
    by (simp_all add: training_bench_def)
  have host: "training_host training_bench"
    by (auto simp: training_host_def training_bench_def constant_torch_def one_per_pair_def scorer_ok_def draws_below_def draws_distinct_def)
  have quick: "map_of PROFILE_TESTS ''quick'' = Some 80" by (simp add: PROFILE_TESTS_def)
  obtain dataset split graph tensors trainer v t where d:
      "synthetic_dataset training_bench ''quick'' 42 = Inr (dataset, split, graph)"
      "GNNTrainer_fit constant_torch (None, \<lambda>_. [0]) (\<lambda>_ _ _. 0) (command_trainer 42 3) graph dataset split = Inr (trainer, v, t)"
      "best_checkpoint constant_torch (None, \<lambda>_. [0]) (command_trainer 42 3) trainer tensors dataset split"
    using model_train_returns_best [OF host, of 3, OF zero_less_numeral, where profile = "''quick''" and seed = 42 and host = undefined and saved = undefined]
    unfolding quick option.case sel by (elim exE conjE) blast
  then show ?thesis
    by (auto simp: best_checkpoint_def command_trainer_def GNNTrainer_init_def TrainingConfig_init_def)
qed

end
