(* ===== verification/Spec2Isabelle.thy ===== *)
theory Spec2Isabelle
  imports Graph_Properties Normalize_Properties Recording Attribution Executor_Properties Config
    Dataset_Properties Metrics Storage Model_Properties Benchmark_Properties Commands_Run
    Api_Properties Network Training
begin

text \<open>
  Verification of the Python implementation of ConflictGraph (\<^verbatim>\<open>src/python/conflictgraph\<close>), which
  predicts from resource traces which tests of a suite interfere and schedules the suite on parallel workers so that
  such tests do not run at the same time.

  \<^bold>\<open>The program and its parts.\<close> Trace events (\<^verbatim>\<open>types.py\<close>) are normalised
  (\<^verbatim>\<open>normalize.py\<close>), attributed to executions and recorded (\<^verbatim>\<open>tracing.py\<close>). A replay
  of a recorded trace builds the test-resource graph, whose candidate pairs the heuristic scores (\<^verbatim>\<open>graph.py\<close>)
  or a trained model predicts (\<^verbatim>\<open>dataset.py\<close>, \<^verbatim>\<open>model.py\<close>,
  \<^verbatim>\<open>metrics.py\<close>). The predictions become the risk index of the scheduler (\<^verbatim>\<open>scheduler.py\<close>),
  whose schedule the executor runs (\<^verbatim>\<open>executor.py\<close>). The commands (\<^verbatim>\<open>cli.py\<close>,
  \<^verbatim>\<open>diagnostics.py\<close>) compose these over a configuration (\<^verbatim>\<open>config.py\<close>) and keep documents
  in a store of files or a PostgreSQL database (\<^verbatim>\<open>storage.py\<close>), which the HTTP API (\<^verbatim>\<open>api.py\<close>)
  serves; \<^verbatim>\<open>benchmark.py\<close> compares the schedulers in a synthetic world.

  \<^bold>\<open>Theories.\<close>
  \<^item> \<^verbatim>\<open>Prelude\<close>, \<^verbatim>\<open>PyString\<close>, \<^verbatim>\<open>Hashing\<close>, \<^verbatim>\<open>Ipaddress\<close>: what
    the sources use of Python: exceptions (\<^verbatim>\<open>errors.py\<close>), dictionaries, sorting, strings, SHA-256 on 32-bit
    words, the addresses of \<^verbatim>\<open>ipaddress\<close>.
  \<^item> \<^verbatim>\<open>Types\<close>: the enumerations and dataclasses of \<^verbatim>\<open>types.py\<close> with their methods.
  \<^item> \<^verbatim>\<open>Normalize\<close>, \<^verbatim>\<open>Normalize_Properties\<close>: \<^verbatim>\<open>ResourceNormalizer\<close>; paths reach a
    canonical form and keep it; the locale \<open>normalizer\<close> is what tracing relies on.
  \<^item> \<^verbatim>\<open>Attribution\<close> (\<^verbatim>\<open>AttributionRegistry\<close>), \<^verbatim>\<open>Event_Sink\<close> (the queue, its
    submitting side and the writer thread as a labelled step relation), \<^verbatim>\<open>Replay\<close> (reading a trace, the
    quality gate, Redis telemetry), \<^verbatim>\<open>Recording\<close> (the sink's file read back): \<^verbatim>\<open>tracing.py\<close>.
  \<^item> \<^verbatim>\<open>Graph\<close>, \<^verbatim>\<open>Graph_Build\<close>, \<^verbatim>\<open>Graph_Pairs\<close>,
    \<^verbatim>\<open>Heuristic\<close>, \<^verbatim>\<open>Graph_Properties\<close>: \<^verbatim>\<open>graph.py\<close>. \<open>graph_built\<close> relates a graph
    to the log of its events and is the abstraction under which every result is stated on the log.
  \<^item> \<^verbatim>\<open>Scheduler\<close> (the definitions), \<^verbatim>\<open>Scheduler_Risk\<close> (the risk of a placement),
    \<^verbatim>\<open>Scheduler_Valid\<close> (timelines; the locale \<open>timeline_provider\<close>), \<^verbatim>\<open>Scheduler_Greedy\<close>,
    \<^verbatim>\<open>Scheduler_Refine\<close>, \<^verbatim>\<open>Static_Schedule\<close>, \<^verbatim>\<open>Scheduler_Properties\<close>,
    \<^verbatim>\<open>Baselines\<close>: \<^verbatim>\<open>scheduler.py\<close>, the greedy loop, the refinement, the schedule as a
    whole, and the random and serial schedulers.
  \<^item> \<^verbatim>\<open>Executor\<close>, \<^verbatim>\<open>Executor_Properties\<close>: \<^verbatim>\<open>executor.py\<close>, with the coroutines of
    the workers as the step relation \<open>exec_step\<close> and its invariant \<open>pool_inv\<close>.
  \<^item> \<^verbatim>\<open>Config\<close>: \<^verbatim>\<open>config.py\<close>. \<^verbatim>\<open>Storage\<close>: \<^verbatim>\<open>ArtifactStore\<close>
    as a refinement of a map from names to documents (the locale \<open>document_store\<close>). \<^verbatim>\<open>Database\<close>,
    \<^verbatim>\<open>Database_Properties\<close>: \<^verbatim>\<open>PostgresStore\<close> on the tables of the migration.
  \<^item> \<^verbatim>\<open>Dataset\<close>, \<^verbatim>\<open>Dataset_Properties\<close>: \<^verbatim>\<open>dataset.py\<close>.
    \<^verbatim>\<open>Metrics\<close>: \<^verbatim>\<open>metrics.py\<close>. \<^verbatim>\<open>Calibration\<close>,
    \<^verbatim>\<open>Graph_Tensors\<close>, \<^verbatim>\<open>Network\<close>, \<^verbatim>\<open>Model\<close>, \<^verbatim>\<open>Model_Properties\<close>:
    \<^verbatim>\<open>model.py\<close>. \<^verbatim>\<open>Benchmark\<close>, \<^verbatim>\<open>Benchmark_Properties\<close>: \<^verbatim>\<open>benchmark.py\<close>.
  \<^item> \<^verbatim>\<open>Commands\<close>, \<^verbatim>\<open>Commands_Properties\<close>, \<^verbatim>\<open>Commands_Run\<close>: \<^verbatim>\<open>cli.py\<close>
    and \<^verbatim>\<open>diagnostics.py\<close>. \<^verbatim>\<open>Api\<close>, \<^verbatim>\<open>Api_Properties\<close>: \<^verbatim>\<open>api.py\<close>;
    the locale \<open>run_reader\<close> is the contract of both stores with the API. \<^verbatim>\<open>Training\<close>: the command
    \<^verbatim>\<open>model train\<close> as the composition of the world, the dataset, its split, the tensors and the trainer.
  Definitions carry the names of the code where Isabelle allows it; a constructor is \<open>Class_init\<close>, a method with a common
  name \<open>Class_method\<close>, and the fields of a record have a short prefix.

  \<^bold>\<open>What is shown.\<close> For the scheduler: every test is scheduled once, no worker overlaps itself, it
  always returns, the scan for the risk of a placement equals its specification, the hard threshold is respected, and
  without predicted conflicts the makespan is within \<open>2 - 1/W\<close> of any assignment. For the graph and the heuristic: edges,
  candidates and features are functions of the log. For tracing: the sink refines its log under every interleaving, recorded
  traces replay unchanged, attribution finds the nearest ancestor. For the executor: under every interleaving each test of
  the schedule runs at most once and in order, all of them if nothing cancels, within a bounded number of steps and without
  deadlock. For data and models: splits partition without leaking groups, saved datasets and models read back, training
  keeps its best checkpoint, calibration keeps decisions, the graph part of the network moves a logit by at most a tenth. For
  the stores: consistency, durability, round trips. Across components: accesses in a trace become risk of the scheduler, a
  replay's predictions reach the plan and the API, a dataset built from a graph with labels of its tests can always be
  trained on, so the command that trains returns, and a run executes and records exactly what it collected.

  \<^bold>\<open>Conventions.\<close> Floats are exact reals, so rounding is abstracted from; infinite and undefined
  floats occur where JSON or YAML can bring them in (\<open>pyval\<close>). Strings are over code points below 256. A dictionary is an
  association list in insertion order; an exception is the left of a sum, a \<^verbatim>\<open>raise\<close> its value. Random draws,
  clocks, uuids, files, child processes, the text of JSON and YAML and third-party libraries (scikit-learn, PyTorch,
  pytest, FastAPI, psycopg) are arguments; what is assumed of them is a hypothesis of the property, and a witness
  instantiates it. Threads and coroutines are labelled step relations whose runs are all interleavings. Loops are
  structural recursion or have a termination proof; no fuel is used.

  \<^bold>\<open>Not modelled.\<close> What commands print and the log messages; \<^verbatim>\<open>serve\<close> and
  \<^verbatim>\<open>version\<close>; the Parquet copy of a dataset; routing, validation and encoding by FastAPI beyond their documented
  outcome, and the text of \<^verbatim>\<open>/metrics\<close>; the optimiser and the convolution of the network
  (PyTorch); the parts of the repository in other languages (the Go control plane, the Rust and eBPF tracer, the dashboard)
  and its deployment files.
\<close>

section \<open>Properties across components\<close>

text \<open>C8: end to end. From a trace to the scheduler's risk index: the graph of any log is built, the
  heuristic predicts every candidate pair with a valid probability, and the risk the scheduler then
  sees for two tests is at least 0.995 if both bind the same endpoint, 0.82 if both mutate a
  resource, 0.65 if one reads what the other mutates, and zero if neither mutates a resource the
  other touches.\<close>

theorem accesses_become_risk:
  assumes base: "0 \<le> base" "base \<le> 1"
  shows "\<exists>g ps g'. from_events evs tests = Inr g \<and> predict_graph base now g False = Inr (ps, g')
    \<and> list_all prediction_wf ps
    \<and> (\<forall>a b r. a \<noteq> b \<and> performs evs a r OP_BIND \<and> performs evs b r OP_BIND
         \<longrightarrow> 0.995 \<le> risk_probability (RiskIndex_init ps) a b)
    \<and> (\<forall>a b r. a \<noteq> b \<and> mutates evs a r \<and> mutates evs b r
         \<longrightarrow> 0.82 \<le> risk_probability (RiskIndex_init ps) a b)
    \<and> (\<forall>a b r. a \<noteq> b \<and> mutates evs a r \<and> performs evs b r OP_READ
         \<longrightarrow> 0.65 \<le> risk_probability (RiskIndex_init ps) a b)
    \<and> (\<forall>a b. a \<noteq> b \<and> (\<forall>r. (mutates evs a r \<longrightarrow> touches b r evs = []) \<and> (mutates evs b r \<longrightarrow> touches a r evs = []))
         \<longrightarrow> risk_probability (RiskIndex_init ps) a b = 0)"
proof -
  obtain g where g: "from_events evs tests = Inr g" "graph_built evs g" "gr_pair_history g = []"
    using from_events_built by blast
  obtain ps g' where ps: "predict_graph base now g False = Inr (ps, g')" "distinct (map PairPrediction_key ps)"
      "set (map PairPrediction_key ps) =
        {(a, b). a < b \<and> (\<exists>r. a \<in> tests_of r evs \<and> b \<in> tests_of r evs \<and> wanted evs False r (a, b))}"
      "\<forall>p\<in>set ps. predicted evs g base (PairPrediction_key p) p"
    using predict_graph_built [OF g(2,3)] by blast
  have wf: "list_all prediction_wf ps" using ps(4) by (auto simp: list_all_iff predicted_def score_wf)
  note weigh = risk_ge_weight [OF base g(3) ps(2-4)]
  have binds: "0.995 \<le> risk_probability (RiskIndex_init ps) a b"
    if "a \<noteq> b" "performs evs a r OP_BIND" "performs evs b r OP_BIND" for a b r
  proof (rule weigh [OF that(1) performs_resources [OF that(2)] performs_resources [OF that(3)]])
    show "mutates evs a r \<or> mutates evs b r" using that(2) by (auto intro: performs_mutates simp: is_mutating_def)
  qed (rule bind_signal [OF _ _ performs_resources [OF that(2)] performs_resources [OF that(3)] that(2,3)])
  have writes: "0.82 \<le> risk_probability (RiskIndex_init ps) a b"
    if "a \<noteq> b" "mutates evs a r" "mutates evs b r" for a b r
    by (rule weigh [OF that(1) mutates_resources [OF that(2)] mutates_resources [OF that(3)] disjI1 [OF that(2)]])
      (rule write_signal [OF _ _ mutates_resources [OF that(2)] mutates_resources [OF that(3)] that(2,3)])
  have reads: "0.65 \<le> risk_probability (RiskIndex_init ps) a b"
    if "a \<noteq> b" "mutates evs a r" "performs evs b r OP_READ" for a b r
    by (rule weigh [OF that(1) mutates_resources [OF that(2)] performs_resources [OF that(3)] disjI1 [OF that(2)]])
      (rule read_signal [OF _ _ mutates_resources [OF that(2)] performs_resources [OF that(3)] that(2,3)])
  have none: "risk_probability (RiskIndex_init ps) a b = 0"
    if "a \<noteq> b" "\<forall>r. (mutates evs a r \<longrightarrow> touches b r evs = []) \<and> (mutates evs b r \<longrightarrow> touches a r evs = [])" for a b
    using that by (intro risk_lookup_none, unfold ps(3))
      (auto simp: stable_pair_def tests_of_iff wanted_def touches_Nil_iff)
  show ?thesis
    by (intro exI [of _ g] exI [of _ ps] exI [of _ g'] conjI allI impI g(1) ps(1) wf; elim conjE)
      (erule (2) binds | erule (2) writes | erule (2) reads | erule (1) none)+
qed

theorem accesses_become_risk_witness:
  "\<exists>g ps g'. from_events [demo_event ''a'' OP_BIND, demo_event ''b'' OP_BIND] [] = Inr g
     \<and> predict_graph 0.001 (\<lambda>_. 0) g False = Inr (ps, g')
     \<and> 0.995 \<le> risk_probability (RiskIndex_init ps) ''a'' ''b''"
proof -
  let ?evs = "[demo_event ''a'' OP_BIND, demo_event ''b'' OP_BIND]"
  let ?r = "event_rid (demo_event ''a'' OP_BIND)"
  have "performs ?evs ''a'' ?r OP_BIND" "performs ?evs ''b'' ?r OP_BIND"
    by (simp_all add: performs_def demo_event_def)
  note performed = this
  have "0 \<le> (0.001 :: real)" "(0.001 :: real) \<le> 1" by simp_all
  from accesses_become_risk [OF this, of ?evs "[]" "\<lambda>_. 0"] obtain g ps g' where
    "from_events ?evs [] = Inr g" "predict_graph 0.001 (\<lambda>_. 0) g False = Inr (ps, g')"
    and risk: "\<forall>a b r. a \<noteq> b \<and> performs ?evs a r OP_BIND \<and> performs ?evs b r OP_BIND
      \<longrightarrow> 0.995 \<le> risk_probability (RiskIndex_init ps) a b" by (elim exE conjE)
  moreover have "0.995 \<le> risk_probability (RiskIndex_init ps) ''a'' ''b''"
    by (rule risk [rule_format, of _ _ ?r]) (use performed in simp)
  ultimately show ?thesis by (intro exI conjI)
qed

text \<open>A database flush conflicts with no key. The event of \<^verbatim>\<open>flush_database\<close> names the key
  \<^verbatim>\<open>*\<close>, an identity of its own: in the graph of a flush by one test and a write of a key by another
  test there is no candidate pair, although the flush is an exclusive access that deletes that key.\<close>

lemma flush_conflicts_with_no_key:
  assumes db: "0 \<le> database" and key: "rstrip_by is_space key \<noteq> []"
    and ids: "resource_id RT_REDIS_KEY (''REDIS:'' @ str_nat (nat database) @ '':*'')
      \<noteq> resource_id RT_REDIS_KEY (''REDIS:'' @ str_nat (nat database) @ '':'' @ rstrip_by is_space key)"
  shows "\<exists>fl wr g.
      normalize_event policy (emitted_event h c RT_REDIS_KEY (redis_name \<lparr>rt_client = c, rt_database = database\<rparr> ''*'')
        OP_DELETE AM_EXCLUSIVE (Some [(''scope'', PStr ''database'')])) = Inr (Some fl)
    \<and> normalize_event policy (emitted_event h' c' RT_REDIS_KEY (redis_name \<lparr>rt_client = c', rt_database = database\<rparr> key)
        OP_WRITE AM_WRITE None) = Inr (Some wr)
    \<and> is_mutating (ev_operation fl) (ev_access_mode fl) \<and> is_mutating (ev_operation wr) (ev_access_mode wr)
    \<and> from_events [fl, wr] tests = Inr g \<and> candidate_pairs g False = Inr []"
proof -
  let ?db = "str_nat (nat database)"
  let ?fl = "emitted_event h c RT_REDIS_KEY (''REDIS:'' @ ?db @ '':*'') OP_DELETE AM_EXCLUSIVE (Some [(''scope'', PStr ''database'')])"
  let ?wr = "emitted_event h' c' RT_REDIS_KEY (''REDIS:'' @ ?db @ '':'' @ rstrip_by is_space key) OP_WRITE AM_WRITE None"
  have star: "rstrip_by is_space ''*'' = ''*''" by code_simp
  have fl: "normalize_event policy (emitted_event h c RT_REDIS_KEY (redis_name \<lparr>rt_client = c, rt_database = database\<rparr> ''*'')
      OP_DELETE AM_EXCLUSIVE (Some [(''scope'', PStr ''database'')])) = Inr (Some ?fl)"
    using normalize_redis_name [of "\<lparr>rt_client = c, rt_database = database\<rparr>" "''*''"] db star
    by (simp add: normalize_event_def normalize_identifier_def emitted_event_def)
  have wr: "normalize_event policy (emitted_event h' c' RT_REDIS_KEY (redis_name \<lparr>rt_client = c', rt_database = database\<rparr> key)
      OP_WRITE AM_WRITE None) = Inr (Some ?wr)"
    using normalize_redis_name [of "\<lparr>rt_client = c', rt_database = database\<rparr>" key] db key
    by (simp add: normalize_event_def normalize_identifier_def emitted_event_def)
  obtain g where g: "from_events [?fl, ?wr] tests = Inr g" "graph_built [?fl, ?wr] g" "gr_pair_history g = []"
    using from_events_built by blast
  obtain pairs where pairs: "candidate_pairs g False = Inr pairs"
      "set pairs = {(a, b). a < b \<and> (\<exists>r. a \<in> tests_of r [?fl, ?wr] \<and> b \<in> tests_of r [?fl, ?wr] \<and> wanted [?fl, ?wr] False r (a, b))}"
    using candidate_pairs_built [OF g(2), of False] g(3) by auto
  have "event_rid ?fl \<noteq> event_rid ?wr" using ids by (simp add: emitted_event_def)
  then have "a = b" if "a \<in> tests_of r [?fl, ?wr]" "b \<in> tests_of r [?fl, ?wr]" for a b r
    using that by (auto simp: tests_of_def)
  then have "set pairs = {}" unfolding pairs(2) by fast
  then have "pairs = []" by simp
  then show ?thesis
    using fl wr g(1) pairs(1) by (intro exI [of _ ?fl] exI [of _ ?wr] exI [of _ g]) (simp add: emitted_event_def is_mutating_def)
qed

end
